(* ===== verification/Prelude.thy ===== *)
theory Prelude
  imports Main "HOL-Library.Code_Target_Numeral" "HOL-Library.Word" "HOL-Library.Char_ord" "HOL-Library.Sublist"
    "HOL-Library.Signed_Division"
begin

text \<open>
  Shared vocabulary of the development. A Go string is a byte sequence, modelled as
  \<open>string\<close> (a list of 8-bit characters), so that \<open>length\<close> is Go's \<open>len\<close>.
  A Go function with result \<open>error\<close> is modelled as an \<open>option\<close>: \<open>None\<close> is the
  nil error. A Go function with results \<open>(T, error)\<close> is modelled as a sum, with
  \<open>Inl\<close> for the error. The theory holds the combinators for chains of guarded early
  returns and for \<open>for i, x := range xs\<close> loops, the lemmas that turn them into
  statements about all elements, and the \<open>registry\<close> interface: the seen-before tables
  that several loops of the program use to refuse duplicates.
\<close>

type_synonym bytes = string
type_synonym u64 = "64 word"

named_theorems code_defs \<open>definitions that a closed evaluation unfolds\<close>

section \<open>Guarded early returns\<close>

text \<open>\<open>if b { return e }\<close>, and a sequence of such statements.\<close>

definition fail_when :: "bool \<Rightarrow> 'e \<Rightarrow> 'e option" where
  "fail_when b e = (if b then Some e else None)"

fun first_err :: "'e option list \<Rightarrow> 'e option" where
  "first_err [] = None"
| "first_err (c # cs) = (case c of Some e \<Rightarrow> Some e | None \<Rightarrow> first_err cs)"

lemma fail_when_None [simp]: "fail_when b e = None \<longleftrightarrow> \<not> b"
  by (simp add: fail_when_def)

lemma fail_when_Some [simp]: "fail_when b e = Some x \<longleftrightarrow> b \<and> x = e"
  by (auto simp: fail_when_def)

lemma fail_when_cases [simp]: "fail_when True e = Some e" "fail_when False e = None"
  by (simp_all add: fail_when_def)

lemma first_err_None [simp]: "first_err (c # cs) = None \<longleftrightarrow> c = None \<and> first_err cs = None"
  by (simp split: option.split)

lemma first_err_simps [simp]:
  "first_err (None # cs) = first_err cs" "first_err (Some e # cs) = Some e"
  by simp_all

lemma first_err_Some:
  "first_err (c # cs) = Some e \<longleftrightarrow> c = Some e \<or> (c = None \<and> first_err cs = Some e)"
  by (auto split: option.split)

lemma first_err_in: "first_err cs = Some e \<Longrightarrow> Some e \<in> set cs"
  by (induction cs) (auto split: option.splits)

declare first_err.simps(2) [simp del]

section \<open>Loops with early return\<close>

text \<open>A range loop whose body may return an error and keeps no state.\<close>

fun for_range :: "(nat \<Rightarrow> 'a \<Rightarrow> 'e option) \<Rightarrow> nat \<Rightarrow> 'a list \<Rightarrow> 'e option" where
  "for_range f i [] = None"
| "for_range f i (x # xs) =
     (case f i x of Some e \<Rightarrow> Some e | None \<Rightarrow> for_range f (Suc i) xs)"

lemma for_range_None_nth:
  "for_range f i xs = None \<longleftrightarrow> (\<forall>k < length xs. f (i + k) (xs ! k) = None)"
proof (induction xs arbitrary: i)
  case (Cons x xs)
  have "(\<forall>k < length (x # xs). f (i + k) ((x # xs) ! k) = None) \<longleftrightarrow>
      f i x = None \<and> (\<forall>k < length xs. f (Suc i + k) (xs ! k) = None)"
    by (auto simp: less_Suc_eq_0_disj)
  then show ?case using Cons.IH [of "Suc i"] by (simp split: option.split)
qed simp

lemma for_range_None:
  assumes "\<And>i x. f i x = None \<longleftrightarrow> P x"
  shows "for_range f i xs = None \<longleftrightarrow> list_all P xs"
proof (induction xs arbitrary: i)
  case (Cons x xs)
  then show ?case using assms [of i x] by (cases "f i x") simp_all
qed simp

lemma for_range_Some:
  "for_range f i xs = Some e \<Longrightarrow> \<exists>k < length xs. f (i + k) (xs ! k) = Some e \<and>
     (\<forall>j < k. f (i + j) (xs ! j) = None)"
proof (induction xs arbitrary: i)
  case (Cons x xs)
  show ?case
  proof (cases "f i x")
    case None
    with Cons.prems have "for_range f (Suc i) xs = Some e" by simp
    from Cons.IH [OF this] obtain k where k: "k < length xs" "f (Suc i + k) (xs ! k) = Some e"
      "\<forall>j < k. f (Suc i + j) (xs ! j) = None" by blast
    then show ?thesis using None
      by (intro exI [of _ "Suc k"]) (auto simp: less_Suc_eq_0_disj)
  next
    case (Some a)
    with Cons.prems show ?thesis by (intro exI [of _ 0]) simp
  qed
qed simp

text \<open>A range loop that threads a state.\<close>

fun for_state :: "('s \<Rightarrow> nat \<Rightarrow> 'a \<Rightarrow> 'e + 's) \<Rightarrow> nat \<Rightarrow> 's \<Rightarrow> 'a list \<Rightarrow> 'e + 's" where
  "for_state f i s [] = Inr s"
| "for_state f i s (x # xs) =
     (case f s i x of Inl e \<Rightarrow> Inl e | Inr s' \<Rightarrow> for_state f (Suc i) s' xs)"

lemma for_state_Inr_Cons:
  "for_state f i s (x # xs) = Inr t \<longleftrightarrow>
     (\<exists>s'. f s i x = Inr s' \<and> for_state f (Suc i) s' xs = Inr t)"
  by (auto split: sum.split)

lemma for_state_invariant:
  assumes "for_state f i s xs = Inr t" and "I s"
    and "\<And>s i x s'. x \<in> set xs \<Longrightarrow> I s \<Longrightarrow> f s i x = Inr s' \<Longrightarrow> I s'"
  shows "I t"
  using assms
proof (induction xs arbitrary: i s)
  case (Cons x xs)
  from Cons.prems(1) obtain s' where s': "f s i x = Inr s'" and t: "for_state f (Suc i) s' xs = Inr t"
    unfolding for_state_Inr_Cons by blast
  show ?case
  proof (rule Cons.IH [OF t])
    show "I s'" using Cons.prems(2,3) s' by (metis list.set_intros(1))
  qed (use Cons.prems(3) in \<open>meson list.set_intros(2)\<close>)
qed simp

text \<open>Steps of a sequence of statements over a state and an error.\<close>

definition bind_r :: "'e + 'a \<Rightarrow> ('a \<Rightarrow> 'e + 'b) \<Rightarrow> 'e + 'b" where
  "bind_r m f = (case m of Inl e \<Rightarrow> Inl e | Inr x \<Rightarrow> f x)"

lemma bind_r_simps [simp]: "bind_r (Inl e) f = Inl e" "bind_r (Inr x) f = f x"
  by (simp_all add: bind_r_def)

lemma bind_r_Inr: "bind_r m f = Inr y \<longleftrightarrow> (\<exists>x. m = Inr x \<and> f x = Inr y)"
  by (cases m) simp_all

lemma bind_r_Inl: "bind_r m f = Inl e \<longleftrightarrow> m = Inl e \<or> (\<exists>x. m = Inr x \<and> f x = Inl e)"
  by (cases m) simp_all

text \<open>\<open>if err := check; err != nil { return err }\<close> in a function with a state result.\<close>

definition check_then :: "'e option \<Rightarrow> ('e + 'a) \<Rightarrow> 'e + 'a" where
  "check_then c m = (case c of Some e \<Rightarrow> Inl e | None \<Rightarrow> m)"

lemma check_then_simps [simp]: "check_then None m = m" "check_then (Some e) m = Inl e"
  by (simp_all add: check_then_def)

lemma check_then_Inr: "check_then c m = Inr x \<longleftrightarrow> c = None \<and> m = Inr x"
  by (cases c) simp_all

lemma check_then_Inl: "check_then c m = Inl e \<longleftrightarrow> c = Some e \<or> (c = None \<and> m = Inl e)"
  by (cases c) auto

definition err_of :: "'e + 'a \<Rightarrow> 'e option" where
  "err_of r = (case r of Inl e \<Rightarrow> Some e | Inr _ \<Rightarrow> None)"

lemma err_of_simps [simp]: "err_of (Inl e) = Some e" "err_of (Inr x) = None"
  by (simp_all add: err_of_def)

lemma err_of_None: "err_of r = None \<longleftrightarrow> (\<exists>x. r = Inr x)"
  by (cases r) simp_all

lemma err_of_Some: "err_of r = Some e \<longleftrightarrow> r = Inl e"
  by (cases r) simp_all

section \<open>The registry interface\<close>

text \<open>
  A registry remembers who holds a key. The clients are loops that, for each element
  with a key, refuse a key that is already held and otherwise claim it.
\<close>

locale registry =
  fixes held :: "'s \<Rightarrow> 'k \<Rightarrow> 'p option"
    and claim :: "'k \<Rightarrow> 'p \<Rightarrow> 's \<Rightarrow> 's"
  assumes held_claim: "held (claim k p s) = (held s)(k \<mapsto> p)"
begin

lemma dom_claim [simp]: "dom (held (claim k p s)) = insert k (dom (held s))"
  by (simp add: held_claim)

text \<open>
  What one loop body does: it checks the element, refuses a held key and claims a
  fresh one. The loop passes exactly when every element passes its check and the keys
  are fresh and pairwise distinct.
\<close>

lemma claiming_loop:
  assumes body: "\<And>s i x s'. f s i x = Inr s' \<longleftrightarrow> ok x \<and>
    (case key x of None \<Rightarrow> s' = s
     | Some k \<Rightarrow> held s k = None \<and> s' = claim k (pos i x) s)"
  shows "(\<exists>t. for_state f i s xs = Inr t) \<longleftrightarrow>
     list_all ok xs \<and> distinct (List.map_filter key xs) \<and>
     set (List.map_filter key xs) \<inter> dom (held s) = {}"
proof (induction xs arbitrary: i s)
  case (Cons x xs)
  show ?case
  proof (cases "key x")
    case None
    then have "(\<exists>t. for_state f i s (x # xs) = Inr t) \<longleftrightarrow>
        ok x \<and> (\<exists>t. for_state f (Suc i) s xs = Inr t)"
      unfolding for_state_Inr_Cons body by auto
    then show ?thesis using Cons.IH [of "Suc i" s] None by simp
  next
    case (Some k)
    then have "(\<exists>t. for_state f i s (x # xs) = Inr t) \<longleftrightarrow>
        ok x \<and> held s k = None \<and> (\<exists>t. for_state f (Suc i) (claim k (pos i x) s) xs = Inr t)"
      unfolding for_state_Inr_Cons body by auto
    moreover have "(set ks \<inter> dom (held (claim k (pos i x) s)) = {} \<and> held s k = None) \<longleftrightarrow>
        k \<notin> set ks \<and> set (k # ks) \<inter> dom (held s) = {}" for ks
      by auto
    ultimately show ?thesis using Cons.IH [of "Suc i" "claim k (pos i x) s"] Some by auto
  qed
qed simp

lemma claiming_loop_dom:
  assumes body: "\<And>s i x s'. f s i x = Inr s' \<longleftrightarrow> ok x \<and>
    (case key x of None \<Rightarrow> s' = s
     | Some k \<Rightarrow> held s k = None \<and> s' = claim k (pos i x) s)"
    and "for_state f i s xs = Inr t"
  shows "dom (held t) = dom (held s) \<union> set (List.map_filter key xs)"
  using assms(2)
proof (induction xs arbitrary: i s)
  case (Cons x xs)
  then obtain s' where s': "f s i x = Inr s'" "for_state f (Suc i) s' xs = Inr t"
    unfolding for_state_Inr_Cons by blast
  have "dom (held s') = dom (held s) \<union> set (List.map_filter key [x])"
    using s'(1) by (auto simp: body split: option.splits)
  then show ?case using Cons.IH [OF s'(2)] by (auto split: option.splits)
qed simp

end

text \<open>A Go map from keys to owners, and a Go map used as a set.\<close>

definition map_claim :: "'k \<Rightarrow> 'p \<Rightarrow> ('k \<rightharpoonup> 'p) \<Rightarrow> ('k \<rightharpoonup> 'p)" where
  "map_claim k p m = m(k \<mapsto> p)"

definition seen_held :: "'k list \<Rightarrow> 'k \<Rightarrow> unit option" where
  "seen_held s k = (if k \<in> set s then Some () else None)"

definition seen_claim :: "'k \<Rightarrow> unit \<Rightarrow> 'k list \<Rightarrow> 'k list" where
  "seen_claim k p s = k # s"

interpretation owners: registry "\<lambda>m. m" map_claim
  by unfold_locales (simp add: map_claim_def)

interpretation seen: registry seen_held seen_claim
  by unfold_locales (auto simp: seen_held_def seen_claim_def)

lemma dom_seen_held [simp]: "dom (seen_held s) = set s"
  by (auto simp: seen_held_def dom_def)

end
