(* ===== verification/Go_Strings.thy ===== *)
theory Go_Strings
  imports Prelude
begin

text \<open>
  What the program uses of Go's \<open>strconv\<close>, \<open>encoding/hex\<close> and \<open>unicode/utf8\<close>:
  decimal formatting and parsing of 64-bit integers, hexadecimal in both directions,
  and UTF-8 validity with the byte ranges of the standard library's decoder. The
  lemmas are the round trips and the characterisations of canonical text that the
  validators of the program rest on.
\<close>

definition byte :: "char \<Rightarrow> nat" where
  "byte c = of_char c"

definition chr :: "nat \<Rightarrow> char" where
  "chr n = char_of n"

lemma byte_less [simp]: "byte c < 256"
  by (simp add: byte_def)

lemma byte_chr: "n < 256 \<Longrightarrow> byte (chr n) = n"
  by (simp add: byte_def chr_def)

lemma chr_byte [simp]: "chr (byte c) = c"
  by (simp add: byte_def chr_def)

lemma chr_48: "chr 48 = CHR ''0''"
  by code_simp

lemma byte_eq_iff: "byte c = byte d \<longleftrightarrow> c = d"
  by (metis chr_byte)

section \<open>Decimal numbers\<close>

definition digit :: "nat \<Rightarrow> char" where
  "digit d = chr (48 + d)"

definition is_digit :: "char \<Rightarrow> bool" where
  "is_digit c \<longleftrightarrow> 48 \<le> byte c \<and> byte c \<le> 57"

definition digit_val :: "char \<Rightarrow> nat" where
  "digit_val c = byte c - 48"

text \<open>\<open>strconv.FormatUint(n, 10)\<close>, \<open>strconv.Itoa\<close> and \<open>strconv.FormatInt\<close>.\<close>

fun format_uint :: "nat \<Rightarrow> string" where
  "format_uint n =
     (if n < 10 then [digit n] else format_uint (n div 10) @ [digit (n mod 10)])"

declare format_uint.simps [simp del]

definition format_int :: "int \<Rightarrow> string" where
  "format_int i = (if i < 0 then CHR ''-'' # format_uint (nat (- i)) else format_uint (nat i))"

definition digits_val :: "string \<Rightarrow> nat" where
  "digits_val s = foldl (\<lambda>n c. 10 * n + digit_val c) 0 s"

text \<open>\<open>strconv.ParseUint(s, 10, 64)\<close>; \<open>None\<close> is a syntax or range error.\<close>

definition parse_uint64 :: "string \<Rightarrow> nat option" where
  "parse_uint64 s =
     (if s \<noteq> [] \<and> list_all is_digit s
      then (let n = digits_val s in if n < 2 ^ 64 then Some n else None)
      else None)"

lemma is_digit_digit [simp]: "d < 10 \<Longrightarrow> is_digit (digit d)"
  by (simp add: is_digit_def digit_def byte_chr)

lemma digit_val_digit [simp]: "d < 10 \<Longrightarrow> digit_val (digit d) = d"
  by (simp add: digit_val_def digit_def byte_chr)

lemma digit_digit_val: "is_digit c \<Longrightarrow> digit (digit_val c) = c"
  by (simp add: is_digit_def digit_def digit_val_def)

lemma digit_val_less: "is_digit c \<Longrightarrow> digit_val c < 10"
  unfolding is_digit_def digit_val_def by linarith

lemma digit_0: "digit 0 = CHR ''0''"
  by (simp add: digit_def chr_48)

lemma format_uint_nonempty [simp]: "format_uint n \<noteq> []"
  by (subst format_uint.simps) simp

lemma format_uint_digits [simp]: "list_all is_digit (format_uint n)"
proof (induction n rule: format_uint.induct)
  case (1 n)
  then show ?case by (subst format_uint.simps) simp
qed

lemma digits_val_append: "digits_val (s @ [c]) = 10 * digits_val s + digit_val c"
  by (simp add: digits_val_def)

lemma digits_val_format [simp]: "digits_val (format_uint n) = n"
proof (induction n rule: format_uint.induct)
  case (1 n)
  show ?case
  proof (cases "n < 10")
    case True
    then show ?thesis by (subst format_uint.simps) (simp add: digits_val_def)
  next
    case False
    with 1 show ?thesis by (subst format_uint.simps) (simp add: digits_val_append)
  qed
qed

lemma format_uint_inj: "format_uint m = format_uint n \<longleftrightarrow> m = n"
  by (metis digits_val_format)

lemma parse_format_uint: "n < 2 ^ 64 \<Longrightarrow> parse_uint64 (format_uint n) = Some n"
  by (simp add: parse_uint64_def)

lemma parse_uint64_less: "parse_uint64 s = Some n \<Longrightarrow> n < 2 ^ 64"
  by (auto simp: parse_uint64_def Let_def split: if_splits)

text \<open>Canonical decimals: digits without a leading zero, but for zero itself.\<close>

definition canonical_decimal :: "string \<Rightarrow> bool" where
  "canonical_decimal s \<longleftrightarrow> s \<noteq> [] \<and> list_all is_digit s \<and> (length s > 1 \<longrightarrow> hd s \<noteq> CHR ''0'')"

lemma digits_val_pos:
  "s \<noteq> [] \<Longrightarrow> list_all is_digit s \<Longrightarrow> hd s \<noteq> CHR ''0'' \<Longrightarrow> 0 < digits_val s"
proof (induction s rule: rev_induct)
  case (snoc c s)
  show ?case
  proof (cases "s = []")
    case True
    with snoc.prems have "is_digit c" "c \<noteq> digit 0"
      by (simp_all add: digit_0)
    then have "0 < digit_val c" using digit_digit_val [of c] by (cases "digit_val c = 0") auto
    with True show ?thesis by (simp add: digits_val_def)
  next
    case False
    with snoc show ?thesis by (simp add: digits_val_append)
  qed
qed simp

lemma format_digits_val: "canonical_decimal s \<Longrightarrow> format_uint (digits_val s) = s"
proof (induction s rule: rev_induct)
  case (snoc c s)
  then have c: "is_digit c" by (simp add: canonical_decimal_def)
  show ?case
  proof (cases "s = []")
    case True
    with c show ?thesis
      by (subst format_uint.simps) (simp add: digits_val_def digit_val_less digit_digit_val)
  next
    case False
    with snoc.prems have s: "canonical_decimal s" and pos: "0 < digits_val s"
      using digits_val_pos [of s] by (auto simp: canonical_decimal_def hd_append)
    with c False snoc.IH show ?thesis
      by (subst format_uint.simps) (simp add: digits_val_append digit_val_less digit_digit_val)
  qed
qed (simp add: canonical_decimal_def)

lemma hd_format_uint: "0 < n \<Longrightarrow> hd (format_uint n) \<noteq> CHR ''0''"
proof (induction n rule: format_uint.induct)
  case (1 n)
  show ?case
  proof (cases "n < 10")
    case True
    with 1 have "digit n \<noteq> digit 0" by (metis digit_val_digit less_numeral_extra(3) zero_less_numeral)
    with True show ?thesis
      by (subst format_uint.simps) (simp add: digit_0)
  next
    case False
    with 1 show ?thesis by (subst format_uint.simps) (simp add: hd_append)
  qed
qed

lemma canonical_format: "canonical_decimal (format_uint n)"
proof (cases "n = 0")
  case True
  then show ?thesis by (subst format_uint.simps) (simp add: canonical_decimal_def)
next
  case False
  then show ?thesis by (simp add: canonical_decimal_def hd_format_uint)
qed

lemma canonical_decimal_iff: "canonical_decimal s \<longleftrightarrow> (\<exists>n. s = format_uint n)"
  by (metis canonical_format format_digits_val)

lemma format_uint_eq_zero: "format_uint n = ''0'' \<longleftrightarrow> n = 0"
proof -
  have "format_uint 0 = ''0''" by (subst format_uint.simps) (simp add: digit_0)
  then show ?thesis by (metis format_uint_inj)
qed

section \<open>Hexadecimal\<close>

definition hex_digit :: "nat \<Rightarrow> char" where
  "hex_digit n = (if n < 10 then chr (48 + n) else chr (87 + n))"

definition hex_val :: "char \<Rightarrow> nat option" where
  "hex_val c = (let b = byte c in
     if 48 \<le> b \<and> b \<le> 57 then Some (b - 48)
     else if 97 \<le> b \<and> b \<le> 102 then Some (b - 87)
     else if 65 \<le> b \<and> b \<le> 70 then Some (b - 55)
     else None)"

definition is_lower_hex :: "char \<Rightarrow> bool" where
  "is_lower_hex c \<longleftrightarrow> (48 \<le> byte c \<and> byte c \<le> 57) \<or> (97 \<le> byte c \<and> byte c \<le> 102)"

text \<open>\<open>hex.EncodeToString\<close> and \<open>hex.DecodeString\<close>; \<open>None\<close> is an error.\<close>

fun hex_encode :: "bytes \<Rightarrow> string" where
  "hex_encode [] = []"
| "hex_encode (c # s) = hex_digit (byte c div 16) # hex_digit (byte c mod 16) # hex_encode s"

fun hex_decode :: "string \<Rightarrow> bytes option" where
  "hex_decode [] = Some []"
| "hex_decode [_] = None"
| "hex_decode (a # b # s) =
     (case (hex_val a, hex_val b, hex_decode s) of
        (Some x, Some y, Some t) \<Rightarrow> Some (chr (16 * x + y) # t)
      | _ \<Rightarrow> None)"

lemma hex_val_less: "hex_val c = Some x \<Longrightarrow> x < 16"
  by (auto simp: hex_val_def Let_def split: if_splits)

lemma hex_val_digit: "n < 16 \<Longrightarrow> hex_val (hex_digit n) = Some n"
  by (auto simp: hex_val_def hex_digit_def byte_chr Let_def)

lemma is_lower_hex_digit: "n < 16 \<Longrightarrow> is_lower_hex (hex_digit n)"
  by (auto simp: is_lower_hex_def hex_digit_def byte_chr)

lemma hex_digit_val: "is_lower_hex c \<Longrightarrow> \<exists>x. hex_val c = Some x \<and> hex_digit x = c"
  unfolding is_lower_hex_def
proof (elim disjE)
  assume c: "48 \<le> byte c \<and> byte c \<le> 57"
  then show ?thesis
    by (intro exI [of _ "byte c - 48"]) (auto simp: hex_val_def hex_digit_def Let_def)
next
  assume c: "97 \<le> byte c \<and> byte c \<le> 102"
  then show ?thesis
    by (intro exI [of _ "byte c - 87"]) (auto simp: hex_val_def hex_digit_def Let_def)
qed

lemma hex_digit_inj: "m < 16 \<Longrightarrow> n < 16 \<Longrightarrow> hex_digit m = hex_digit n \<longleftrightarrow> m = n"
  by (metis hex_val_digit option.inject)

lemma length_hex_encode [simp]: "length (hex_encode s) = 2 * length s"
  by (induction s) simp_all

lemma hex_encode_lower: "list_all is_lower_hex (hex_encode s)"
proof (induction s)
  case (Cons c s)
  have "byte c div 16 < 16" using byte_less [of c] by linarith
  with Cons show ?case by (simp add: is_lower_hex_digit)
qed simp

lemma byte_split: "chr (16 * (byte c div 16) + byte c mod 16) = c"
  by simp

lemma hex_decode_encode [simp]: "hex_decode (hex_encode s) = Some s"
proof (induction s)
  case (Cons c s)
  have "byte c div 16 < 16" using byte_less [of c] by linarith
  with Cons show ?case by (simp add: hex_val_digit)
qed simp

lemma hex_encode_inj: "hex_encode s = hex_encode t \<longleftrightarrow> s = t"
  by (metis hex_decode_encode option.inject)

lemma hex_decode_lower:
  "even (length s) \<Longrightarrow> list_all is_lower_hex s \<Longrightarrow> \<exists>d. hex_decode s = Some d \<and> hex_encode d = s"
proof (induction s rule: hex_decode.induct)
  case (3 a b s)
  then obtain d where d: "hex_decode s = Some d" "hex_encode d = s" by auto
  from 3 obtain x y where xy: "hex_val a = Some x" "hex_digit x = a" "hex_val b = Some y" "hex_digit y = b"
    using hex_digit_val [of a] hex_digit_val [of b] by auto
  moreover have "x < 16" "y < 16" using xy hex_val_less by blast+
  ultimately show ?case using d by (simp add: byte_chr)
qed simp_all

text \<open>Decoding and re-encoding gives the text back exactly for lowercase text.\<close>

lemma hex_canonical_iff:
  "(\<exists>d. hex_decode s = Some d \<and> hex_encode d = s) \<longleftrightarrow> even (length s) \<and> list_all is_lower_hex s"
  using hex_decode_lower hex_encode_lower length_hex_encode by (metis dvd_triv_left)

definition to_lower :: "string \<Rightarrow> string" where
  "to_lower s = map (\<lambda>c. if 65 \<le> byte c \<and> byte c \<le> 90 then chr (byte c + 32) else c) s"

lemma to_lower_fix: "to_lower s = s \<longleftrightarrow> list_all (\<lambda>c. \<not> (65 \<le> byte c \<and> byte c \<le> 90)) s"
proof (induction s)
  case (Cons c s)
  have "chr (byte c + 32) \<noteq> c" if "65 \<le> byte c \<and> byte c \<le> 90"
  proof
    assume "chr (byte c + 32) = c"
    then have "byte (chr (byte c + 32)) = byte c" by simp
    moreover have "byte c + 32 < 256" using that by linarith
    ultimately show False by (simp add: byte_chr)
  qed
  with Cons show ?case by (auto simp: to_lower_def)
qed (simp add: to_lower_def)

lemma hex_decode_chars:
  "(\<exists>d. hex_decode s = Some d) \<longleftrightarrow> even (length s) \<and> list_all (\<lambda>c. hex_val c \<noteq> None) s"
  by (induction s rule: hex_decode.induct) (auto split: option.splits)

end
