(* ===== verification/Go_Time.thy ===== *)
theory Go_Time
  imports Go_Strings
begin

text \<open>
  What the program uses of Go's \<open>time\<close>: an instant is a 64-bit count of seconds since
  the Unix epoch (two's complement) and the nanoseconds within the second; \<open>UnixNano\<close>
  multiplies and adds in 64 bits and wraps; \<open>time.Unix(0, n)\<close> normalises. A duration is
  a 64-bit count of nanoseconds. Monotonic readings play no part: \<open>Equal\<close> compares the
  wall clock when one side has none, and \<open>time.Unix\<close> gives none.
\<close>

record go_time =
  t_sec :: "64 word"
  t_nsec :: nat

type_synonym duration = "64 word"

definition wf_time :: "go_time \<Rightarrow> bool" where
  "wf_time t \<longleftrightarrow> t_nsec t < 1000000000"

definition unix_nano :: "go_time \<Rightarrow> 64 word" where
  "unix_nano t = t_sec t * 1000000000 + of_nat (t_nsec t)"

definition unix_time :: "64 word \<Rightarrow> go_time" where
  "unix_time n = \<lparr>t_sec = word_of_int (sint n div 1000000000),
                  t_nsec = nat (sint n mod 1000000000)\<rparr>"

definition time_equal :: "go_time \<Rightarrow> go_time \<Rightarrow> bool" where
  "time_equal a b \<longleftrightarrow> t_sec a = t_sec b \<and> t_nsec a = t_nsec b"

text \<open>The instant in nanoseconds, without the 64-bit limit.\<close>

definition nanos :: "go_time \<Rightarrow> int" where
  "nanos t = sint (t_sec t) * 1000000000 + int (t_nsec t)"

lemma sint_range: "- (2 ^ 63) \<le> sint (w :: 64 word)" "sint (w :: 64 word) < 2 ^ 63"
  using sint_range_size [of w] by (simp_all add: word_size)

lemma sint_of_int: "- (2 ^ 63) \<le> i \<Longrightarrow> i < 2 ^ 63 \<Longrightarrow> sint (word_of_int i :: 64 word) = i"
  by (simp add: sint_sbintrunc' signed_take_bit_int_eq_self)

lemma unix_nano_int: "unix_nano t = word_of_int (nanos t)"
  by (simp add: unix_nano_def nanos_def)

lemma unix_nano_exact:
  assumes "wf_time t" "- (2 ^ 63) \<le> nanos t" "nanos t < 2 ^ 63"
  shows "sint (unix_nano t) = nanos t" "unix_time (unix_nano t) = t"
proof -
  show s: "sint (unix_nano t) = nanos t"
    unfolding unix_nano_int using assms(2,3) by (rule sint_of_int)
  have r: "0 \<le> int (t_nsec t)" "int (t_nsec t) < 1000000000"
    using assms(1) by (simp_all add: wf_time_def)
  then have "nanos t div 1000000000 = sint (t_sec t)" "nanos t mod 1000000000 = int (t_nsec t)"
    by (simp_all add: nanos_def)
  then show "unix_time (unix_nano t) = t"
    by (simp add: unix_time_def s)
qed

lemma unix_time_nanos: "nanos (unix_time n) = sint n"
proof -
  have "- (2 ^ 63) \<le> sint n div 1000000000" "sint n div 1000000000 < 2 ^ 63"
    using sint_range [of n] by linarith+
  then show ?thesis by (simp add: nanos_def unix_time_def sint_of_int)
qed

end
