(* ===== verification/Write_Types.thy ===== *)
theory Write_Types
  imports Go_Time
begin

text \<open>
  The types of the \<open>write\<close> package (\<open>write/types.go\<close>, \<open>write/errors.go\<close>): objects,
  deadlines, records, the mutations, the request, the capability vocabulary and the
  validation error. A private tag of Go type \<open>uint8\<close> is a datatype of its declared
  constants and one constructor for every other value, so that the default branches of
  the code exist in the model.
\<close>

section \<open>Validation errors\<close>

datatype write_code =
    CodeDestinationConflict | CodeDuplicateTarget | CodeEmptyRequest | CodeIncompatibleFields
  | CodeInvalidDuration | CodeInvalidFactID | CodeInvalidObject | CodeInvalidTime
  | CodeInvalidUTF8 | CodeMissingField | CodeNumberOutOfRange | CodeUnsupportedValue
  | CodeVocabularyRequired | CodeVocabularyUnnecessary

fun write_code_string :: "write_code \<Rightarrow> string" where
  "write_code_string CodeDestinationConflict = ''destination_conflict''"
| "write_code_string CodeDuplicateTarget = ''duplicate_target''"
| "write_code_string CodeEmptyRequest = ''empty_request''"
| "write_code_string CodeIncompatibleFields = ''incompatible_fields''"
| "write_code_string CodeInvalidDuration = ''invalid_duration''"
| "write_code_string CodeInvalidFactID = ''invalid_fact_id''"
| "write_code_string CodeInvalidObject = ''invalid_object''"
| "write_code_string CodeInvalidTime = ''invalid_time''"
| "write_code_string CodeInvalidUTF8 = ''invalid_utf8''"
| "write_code_string CodeMissingField = ''missing_field''"
| "write_code_string CodeNumberOutOfRange = ''number_out_of_range''"
| "write_code_string CodeUnsupportedValue = ''unsupported_value''"
| "write_code_string CodeVocabularyRequired = ''vocabulary_required''"
| "write_code_string CodeVocabularyUnnecessary = ''vocabulary_unnecessary''"

record write_error =
  w_code :: write_code
  w_path :: string
  w_detail :: string

definition invalid :: "write_code \<Rightarrow> string \<Rightarrow> string \<Rightarrow> write_error" where
  "invalid code path detail = \<lparr>w_code = code, w_path = path, w_detail = detail\<rparr>"

definition write_error_text :: "write_error \<Rightarrow> string" where
  "write_error_text e =
     ''write: validation failed path='' @ w_path e @ '' code='' @ write_code_string (w_code e)
     @ '': '' @ w_detail e"

lemma invalid_sel [simp]:
  "w_code (invalid c p d) = c" "w_path (invalid c p d) = p" "w_detail (invalid c p d) = d"
  by (simp_all add: invalid_def)

section \<open>Record and vocabulary modes\<close>

type_synonym record_mode = string
type_synonym vocabulary_mode = string

definition Append :: record_mode where "Append = ''''"
definition Ensure :: record_mode where "Ensure = ''ensure''"
definition Replace :: record_mode where "Replace = ''replace''"

definition CapabilityName :: "record_mode \<Rightarrow> string" where
  "CapabilityName mode = (if mode = Append then ''append'' else mode)"

definition CreateUnknown :: vocabulary_mode where "CreateUnknown = ''create''"
definition RejectUnknown :: vocabulary_mode where "RejectUnknown = ''reject''"

section \<open>Objects\<close>

definition MaxJSSafeInteger :: u64 where "MaxJSSafeInteger = push_bit 53 1 - 1"

datatype object_tag = objectUnset | objectEntity | objectNumber | objectOther

record w_object =
  obj_tag :: object_tag
  obj_label :: string
  obj_number :: u64

definition Entity :: "string \<Rightarrow> w_object" where
  "Entity label = \<lparr>obj_tag = objectEntity, obj_label = label, obj_number = 0\<rparr>"

definition Number :: "u64 \<Rightarrow> w_object" where
  "Number value = \<lparr>obj_tag = objectNumber, obj_label = '''', obj_number = value\<rparr>"

definition ObjectEntityLabel :: string where "ObjectEntityLabel = ''entity_label''"
definition ObjectU64 :: string where "ObjectU64 = ''u64''"

definition object_Kind :: "w_object \<Rightarrow> string" where
  "object_Kind o' = (case obj_tag o' of
     objectEntity \<Rightarrow> ObjectEntityLabel | objectNumber \<Rightarrow> ObjectU64 | _ \<Rightarrow> '''')"

definition object_EntityLabel :: "w_object \<Rightarrow> string \<times> bool" where
  "object_EntityLabel o' = (obj_label o', obj_tag o' = objectEntity)"

definition object_Uint64 :: "w_object \<Rightarrow> u64 \<times> bool" where
  "object_Uint64 o' = (obj_number o', obj_tag o' = objectNumber)"

section \<open>Deadlines and transaction times\<close>

datatype deadline_tag = deadlineUnset | deadlineAfter | deadlineAt | deadlineOther

definition zero_time :: go_time where
  "zero_time = \<lparr>t_sec = word_of_int (- 62135596800), t_nsec = 0\<rparr>"

record deadline =
  dl_tag :: deadline_tag
  dl_duration :: duration
  dl_at :: go_time

definition no_deadline :: deadline where
  "no_deadline = \<lparr>dl_tag = deadlineUnset, dl_duration = 0, dl_at = zero_time\<rparr>"

definition After :: "duration \<Rightarrow> deadline" where
  "After d = \<lparr>dl_tag = deadlineAfter, dl_duration = d, dl_at = zero_time\<rparr>"

definition At :: "go_time \<Rightarrow> deadline" where
  "At t = \<lparr>dl_tag = deadlineAt, dl_duration = 0, dl_at = t\<rparr>"

datatype tx_tag = transactionTimeUnset | transactionTimeAt | transactionTimeNanoseconds | transactionTimeOther

record tx_time =
  tx_tag :: tx_tag
  tx_at :: go_time
  tx_nanoseconds :: "64 word"

definition no_tx_time :: tx_time where
  "no_tx_time = \<lparr>tx_tag = transactionTimeUnset, tx_at = zero_time, tx_nanoseconds = 0\<rparr>"

definition AtTransactionTime :: "go_time \<Rightarrow> tx_time" where
  "AtTransactionTime t = \<lparr>tx_tag = transactionTimeAt, tx_at = t, tx_nanoseconds = 0\<rparr>"

definition TransactionNanoseconds :: "64 word \<Rightarrow> tx_time" where
  "TransactionNanoseconds n =
     \<lparr>tx_tag = transactionTimeNanoseconds, tx_at = zero_time, tx_nanoseconds = n\<rparr>"

section \<open>Records, mutations, requests\<close>

record w_record =
  r_Subject :: string
  r_Predicate :: string
  r_Object :: w_object
  r_Tense :: string
  r_RawText :: string
  r_Mode :: record_mode
  r_Expiration :: deadline

datatype retraction_tag = retractionUnset | retractionFact | retractionExact | retractionSlot | retractionOther

record retraction =
  rt_tag :: retraction_tag
  rt_factID :: string
  rt_subject :: string
  rt_predicate :: string
  rt_object :: w_object

definition zero_object :: w_object where
  "zero_object = \<lparr>obj_tag = objectUnset, obj_label = '''', obj_number = 0\<rparr>"

definition RetractFact :: "string \<Rightarrow> retraction" where
  "RetractFact factID = \<lparr>rt_tag = retractionFact, rt_factID = factID, rt_subject = '''',
     rt_predicate = '''', rt_object = zero_object\<rparr>"

definition RetractExact :: "string \<Rightarrow> string \<Rightarrow> w_object \<Rightarrow> retraction" where
  "RetractExact s p o' = \<lparr>rt_tag = retractionExact, rt_factID = '''', rt_subject = s,
     rt_predicate = p, rt_object = o'\<rparr>"

definition RetractSlot :: "string \<Rightarrow> string \<Rightarrow> retraction" where
  "RetractSlot s p = \<lparr>rt_tag = retractionSlot, rt_factID = '''', rt_subject = s,
     rt_predicate = p, rt_object = zero_object\<rparr>"

record correction =
  co_factID :: string
  co_replacement :: w_record

definition Correct :: "string \<Rightarrow> w_record \<Rightarrow> correction" where
  "Correct factID replacement = \<lparr>co_factID = factID, co_replacement = replacement\<rparr>"

record expiration =
  ex_factID :: string
  ex_deadline :: deadline

definition ExpireAfter :: "string \<Rightarrow> duration \<Rightarrow> expiration" where
  "ExpireAfter factID d = \<lparr>ex_factID = factID, ex_deadline = After d\<rparr>"

definition ExpireAt :: "string \<Rightarrow> go_time \<Rightarrow> expiration" where
  "ExpireAt factID t = \<lparr>ex_factID = factID, ex_deadline = At t\<rparr>"

record persistence =
  pe_factID :: string

definition Persist :: "string \<Rightarrow> persistence" where
  "Persist factID = \<lparr>pe_factID = factID\<rparr>"

record w_request =
  Records :: "w_record list"
  Retractions :: "retraction list"
  Corrections :: "correction list"
  Expirations :: "expiration list"
  Persistences :: "persistence list"
  Vocabulary :: vocabulary_mode
  TransactionTime :: tx_time

section \<open>The advertised vocabulary\<close>

definition OperationCorrect :: string where "OperationCorrect = ''correct''"
definition OperationExpire :: string where "OperationExpire = ''expire''"
definition OperationPersist :: string where "OperationPersist = ''persist''"
definition OperationRecord :: string where "OperationRecord = ''record''"
definition OperationRetract :: string where "OperationRetract = ''retract''"
definition ExpirationAbsolute :: string where "ExpirationAbsolute = ''expires_at_ns''"
definition ExpirationRelative :: string where "ExpirationRelative = ''ttl_ms''"
definition SelectorFact :: string where "SelectorFact = ''fact''"
definition SelectorSlot :: string where "SelectorSlot = ''slot''"
definition SelectorWhere :: string where "SelectorWhere = ''where''"

record features =
  f_Operations :: "string list"
  f_ObjectKinds :: "string list"
  f_ExpirationForms :: "string list"
  f_VocabularyModes :: "string list"
  f_RecordModes :: "string list"
  f_RetractionSelectors :: "string list"

lemmas mode_defs [code_defs] = Append_def Ensure_def Replace_def CreateUnknown_def RejectUnknown_def
lemmas vocabulary_defs [code_defs] =
  OperationCorrect_def OperationExpire_def OperationPersist_def OperationRecord_def
  OperationRetract_def ExpirationAbsolute_def ExpirationRelative_def SelectorFact_def
  SelectorSlot_def SelectorWhere_def ObjectEntityLabel_def ObjectU64_def
lemmas constructor_defs [code_defs] =
  Entity_def Number_def After_def At_def no_deadline_def zero_time_def AtTransactionTime_def
  TransactionNanoseconds_def no_tx_time_def zero_object_def RetractFact_def RetractExact_def
  RetractSlot_def Correct_def ExpireAfter_def ExpireAt_def Persist_def

lemma modes_distinct [simp]:
  "Append \<noteq> Ensure" "Append \<noteq> Replace" "Ensure \<noteq> Replace"
  "Ensure \<noteq> Append" "Replace \<noteq> Append" "Replace \<noteq> Ensure"
  by (simp_all add: mode_defs)

end
