(* ===== verification/Write_Ownership.thy ===== *)
theory Write_Ownership
  imports Write_Types
begin

text \<open>
  Destination ownership of one write request (\<open>validateOwnership\<close> of
  \<open>write/validate.go\<close>). Ensured records and exact retractions claim an exact triple,
  replaced records and slot retractions claim a whole slot; the table of owners is a map
  from slots to the owner of the slot and the owners of its exact objects. The interface
  \<open>claim_ledger\<close> states what a table of owners promises: a claim is accepted exactly when
  it conflicts with nothing held. The loops are verified against the interface, which is
  then interpreted on the program's own table.
\<close>

section \<open>The program's table of owners\<close>

definition pathIndex :: "string \<Rightarrow> nat \<Rightarrow> string" where
  "pathIndex name index = name @ ''['' @ format_uint index @ '']''"

type_synonym slot_key = "string \<times> string"

record ownership =
  slotOwner :: string
  exactOwner :: "(w_object \<times> string) list"

type_synonym owned = "slot_key \<Rightarrow> ownership option"

definition new_ownership :: ownership where
  "new_ownership = \<lparr>slotOwner = '''', exactOwner = []\<rparr>"

text \<open>Reading a Go map: the zero value where the key is absent.\<close>

definition owner_get :: "(w_object \<times> string) list \<Rightarrow> w_object \<Rightarrow> string" where
  "owner_get m k = (case map_of m k of None \<Rightarrow> '''' | Some p \<Rightarrow> p)"

definition owned_entry :: "owned \<Rightarrow> slot_key \<Rightarrow> ownership" where
  "owned_entry owned slot = (case owned slot of None \<Rightarrow> new_ownership | Some e \<Rightarrow> e)"

definition claimSlot :: "owned \<Rightarrow> slot_key \<Rightarrow> string \<Rightarrow> write_error + owned" where
  "claimSlot owned slot path =
     (let entry = owned_entry owned slot in
      if slotOwner entry \<noteq> ''''
      then Inl (invalid CodeDuplicateTarget path
             (''slot is already targeted by '' @ slotOwner entry))
      else if length (exactOwner entry) \<noteq> 0
      then Inl (invalid CodeDestinationConflict path ''slot overlaps an exact-triple mutation'')
      else Inr (owned(slot \<mapsto> entry\<lparr>slotOwner := path\<rparr>)))"

definition claimExact :: "owned \<Rightarrow> slot_key \<Rightarrow> w_object \<Rightarrow> string \<Rightarrow> write_error + owned" where
  "claimExact owned slot object path =
     (let entry = owned_entry owned slot; previous = owner_get (exactOwner entry) object in
      if slotOwner entry \<noteq> ''''
      then Inl (invalid CodeDestinationConflict path
             (''exact triple overlaps slot mutation '' @ slotOwner entry))
      else if previous \<noteq> ''''
      then Inl (invalid CodeDuplicateTarget path
             (''exact triple is already targeted by '' @ previous))
      else Inr (owned(slot \<mapsto> entry\<lparr>exactOwner := (object, path) # exactOwner entry\<rparr>)))"

definition own_record :: "owned \<Rightarrow> nat \<Rightarrow> w_record \<Rightarrow> write_error + owned" where
  "own_record owned i r =
     (let slot = (r_Subject r, r_Predicate r) in
      if r_Mode r = Ensure then claimExact owned slot (r_Object r) (pathIndex ''record'' i)
      else if r_Mode r = Replace then claimSlot owned slot (pathIndex ''record'' i)
      else Inr owned)"

definition own_retraction :: "owned \<Rightarrow> nat \<Rightarrow> retraction \<Rightarrow> write_error + owned" where
  "own_retraction owned i t =
     (let slot = (rt_subject t, rt_predicate t) in
      case rt_tag t of
        retractionExact \<Rightarrow> claimExact owned slot (rt_object t) (pathIndex ''retract'' i)
      | retractionSlot \<Rightarrow> claimSlot owned slot (pathIndex ''retract'' i)
      | _ \<Rightarrow> Inr owned)"

definition checkDestination :: "owned \<Rightarrow> w_record \<Rightarrow> string \<Rightarrow> write_error option" where
  "checkDestination owned r path =
     (case owned (r_Subject r, r_Predicate r) of
        None \<Rightarrow> None
      | Some entry \<Rightarrow>
          (let owner = owner_get (exactOwner entry) (r_Object r) in
           if slotOwner entry \<noteq> ''''
           then Some (invalid CodeDestinationConflict path
                  (''destination overlaps slot mutation '' @ slotOwner entry))
           else fail_when (owner \<noteq> '''')
                  (invalid CodeDestinationConflict path
                     (''destination overlaps exact-triple mutation '' @ owner))))"

definition validateOwnership :: "w_request \<Rightarrow> write_error option" where
  "validateOwnership request = err_of
     (bind_r (for_state own_record 0 Map.empty (Records request)) (\<lambda>owned.
      bind_r (for_state own_retraction 0 owned (Retractions request)) (\<lambda>owned.
      check_then (for_range (\<lambda>i r. if r_Mode r = Append
                    then checkDestination owned r (pathIndex ''record'' i) else None)
                  0 (Records request))
      (check_then (for_range (\<lambda>i c. checkDestination owned (co_replacement c)
                    (pathIndex ''correct'' i @ ''.with'')) 0 (Corrections request))
       (Inr ())))))"

section \<open>The interface: claims and conflicts\<close>

datatype own_claim = ClaimSlot slot_key | ClaimExact slot_key w_object

fun conflict :: "own_claim \<Rightarrow> own_claim \<Rightarrow> bool" where
  "conflict (ClaimSlot s) (ClaimSlot t) \<longleftrightarrow> s = t"
| "conflict (ClaimSlot s) (ClaimExact t q) \<longleftrightarrow> s = t"
| "conflict (ClaimExact s q) (ClaimSlot t) \<longleftrightarrow> s = t"
| "conflict (ClaimExact s q) (ClaimExact t u) \<longleftrightarrow> s = t \<and> q = u"

locale claim_ledger =
  fixes claim :: "'l \<Rightarrow> 'c \<Rightarrow> string \<Rightarrow> 'e + 'l"
    and held :: "'l \<Rightarrow> 'c set"
    and invar :: "'l \<Rightarrow> bool"
    and clash :: "'c \<Rightarrow> 'c \<Rightarrow> bool"
  assumes claim_accepts: "invar l \<Longrightarrow> p \<noteq> [] \<Longrightarrow>
      (\<exists>l'. claim l c p = Inr l') \<longleftrightarrow> (\<forall>d \<in> held l. \<not> clash d c)"
    and claim_holds: "invar l \<Longrightarrow> p \<noteq> [] \<Longrightarrow> claim l c p = Inr l' \<Longrightarrow>
      invar l' \<and> held l' = insert c (held l)"
begin

text \<open>A loop in which some elements make a claim.\<close>

lemma ledger_loop_state:
  assumes body: "\<And>l i x. f l i x = (case key x of None \<Rightarrow> Inr l | Some c \<Rightarrow> claim l c (pos i))"
    and "\<And>i. pos i \<noteq> []" and "invar l" and "for_state f i l xs = Inr l'"
  shows "invar l' \<and> held l' = held l \<union> set (List.map_filter key xs)"
  using assms(3,4)
proof (induction xs arbitrary: i l)
  case (Cons x xs)
  then obtain m where m: "f l i x = Inr m" "for_state f (Suc i) m xs = Inr l'"
    unfolding for_state_Inr_Cons by blast
  have "invar m \<and> held m = held l \<union> set (List.map_filter key [x])"
    using m(1) claim_holds [OF Cons.prems(1) assms(2)] Cons.prems(1)
    by (auto simp: body split: option.splits)
  with Cons.IH [OF _ m(2)] show ?case by (auto split: option.splits)
qed simp

lemma ledger_loop:
  assumes body: "\<And>l i x. f l i x = (case key x of None \<Rightarrow> Inr l | Some c \<Rightarrow> claim l c (pos i))"
    and pos: "\<And>i. pos i \<noteq> []" and "invar l"
  shows "(\<exists>l'. for_state f i l xs = Inr l') \<longleftrightarrow>
     sorted_wrt (\<lambda>c d. \<not> clash c d) (List.map_filter key xs) \<and>
     (\<forall>d \<in> held l. \<forall>c \<in> set (List.map_filter key xs). \<not> clash d c)"
  using assms(3)
proof (induction xs arbitrary: i l)
  case (Cons x xs)
  show ?case
  proof (cases "key x")
    case None
    then show ?thesis using Cons.IH [OF Cons.prems, of "Suc i"] by (simp add: body)
  next
    case (Some c)
    show ?thesis
    proof (cases "claim l c (pos i)")
      case (Inl e)
      then show ?thesis using Some claim_accepts [OF Cons.prems pos, of c i] by (auto simp: body)
    next
      case (Inr m)
      with claim_holds [OF Cons.prems pos Inr] have m: "invar m" "held m = insert c (held l)" by auto
      from Inr have "\<forall>d \<in> held l. \<not> clash d c" using claim_accepts [OF Cons.prems pos, of c i] by blast
      then show ?thesis using Cons.IH [OF m(1), of "Suc i"] Some Inr m(2) by (auto simp: body)
    qed
  qed
qed simp

end

section \<open>The program's table keeps the contract\<close>

definition ledger_claim :: "owned \<Rightarrow> own_claim \<Rightarrow> string \<Rightarrow> write_error + owned" where
  "ledger_claim owned c path = (case c of
     ClaimSlot s \<Rightarrow> claimSlot owned s path | ClaimExact s q \<Rightarrow> claimExact owned s q path)"

fun holds :: "owned \<Rightarrow> own_claim \<Rightarrow> bool" where
  "holds owned (ClaimSlot s) \<longleftrightarrow> slotOwner (owned_entry owned s) \<noteq> ''''"
| "holds owned (ClaimExact s q) \<longleftrightarrow> owner_get (exactOwner (owned_entry owned s)) q \<noteq> ''''"

definition named_owners :: "owned \<Rightarrow> bool" where
  "named_owners owned \<longleftrightarrow> (\<forall>s. list_all (\<lambda>e. snd e \<noteq> '''') (exactOwner (owned_entry owned s)))"

lemma owned_entry_upd [simp]:
  "owned_entry (owned(s \<mapsto> e)) t = (if t = s then e else owned_entry owned t)"
  by (simp add: owned_entry_def)

lemma owner_get_Cons [simp]: "owner_get ((k, p) # m) q = (if q = k then p else owner_get m q)"
  by (simp add: owner_get_def)

lemma exact_empty:
  "named_owners owned \<Longrightarrow>
   exactOwner (owned_entry owned s) = [] \<longleftrightarrow> (\<forall>q. \<not> holds owned (ClaimExact s q))"
proof (cases "exactOwner (owned_entry owned s)")
  case (Cons a m)
  assume "named_owners owned"
  then have "list_all (\<lambda>e. snd e \<noteq> '''') (exactOwner (owned_entry owned s))"
    unfolding named_owners_def ..
  with Cons have "snd a \<noteq> ''''" by simp
  moreover have "owner_get (exactOwner (owned_entry owned s)) (fst a) = snd a"
    using Cons by (cases a) simp
  ultimately show ?thesis using Cons by (metis holds.simps(2) list.distinct(1))
qed (simp add: owner_get_def)

lemma claim_accepts_program:
  assumes "named_owners owned"
  shows "(\<exists>l. ledger_claim owned c p = Inr l) \<longleftrightarrow> (\<forall>d. holds owned d \<longrightarrow> \<not> conflict d c)"
proof (cases c)
  case (ClaimSlot s)
  have "(\<forall>d. holds owned d \<longrightarrow> \<not> conflict d c) \<longleftrightarrow>
      \<not> holds owned (ClaimSlot s) \<and> (\<forall>q. \<not> holds owned (ClaimExact s q))"
    unfolding ClaimSlot by (metis conflict.simps(1,3) own_claim.exhaust)
  with ClaimSlot exact_empty [OF assms, of s] show ?thesis
    by (auto simp: ledger_claim_def claimSlot_def Let_def)
next
  case (ClaimExact s q)
  have "(\<forall>d. holds owned d \<longrightarrow> \<not> conflict d c) \<longleftrightarrow>
      \<not> holds owned (ClaimSlot s) \<and> \<not> holds owned (ClaimExact s q)"
    unfolding ClaimExact by (metis conflict.simps(2,4) own_claim.exhaust)
  with ClaimExact show ?thesis
    by (auto simp: ledger_claim_def claimExact_def Let_def)
qed

lemma claim_holds_program:
  assumes "named_owners owned" "p \<noteq> ''''" "ledger_claim owned c p = Inr l"
  shows "named_owners l \<and> Collect (holds l) = insert c (Collect (holds owned))"
proof
  show "named_owners l" using assms
    by (auto simp: named_owners_def ledger_claim_def claimSlot_def claimExact_def Let_def
        simp del: split_paired_All split: own_claim.splits if_splits)
  have "holds l d \<longleftrightarrow> d = c \<or> holds owned d" for d
    using assms(2,3) by (cases d; cases c)
      (auto simp: ledger_claim_def claimSlot_def claimExact_def Let_def split: if_splits)
  then show "Collect (holds l) = insert c (Collect (holds owned))" by auto
qed

interpretation ledger: claim_ledger ledger_claim "\<lambda>l. Collect (holds l)" named_owners conflict
  using claim_accepts_program claim_holds_program by unfold_locales auto

section \<open>What ownership means\<close>

definition record_claim :: "w_record \<Rightarrow> own_claim option" where
  "record_claim r =
     (if r_Mode r = Ensure then Some (ClaimExact (r_Subject r, r_Predicate r) (r_Object r))
      else if r_Mode r = Replace then Some (ClaimSlot (r_Subject r, r_Predicate r)) else None)"

definition retraction_claim :: "retraction \<Rightarrow> own_claim option" where
  "retraction_claim t = (case rt_tag t of
     retractionExact \<Rightarrow> Some (ClaimExact (rt_subject t, rt_predicate t) (rt_object t))
   | retractionSlot \<Rightarrow> Some (ClaimSlot (rt_subject t, rt_predicate t)) | _ \<Rightarrow> None)"

definition request_claims :: "w_request \<Rightarrow> own_claim list" where
  "request_claims q = List.map_filter record_claim (Records q) @
     List.map_filter retraction_claim (Retractions q)"

definition destination :: "w_record \<Rightarrow> own_claim" where
  "destination r = ClaimExact (r_Subject r, r_Predicate r) (r_Object r)"

definition destinations :: "w_request \<Rightarrow> own_claim list" where
  "destinations q = map destination (filter (\<lambda>r. r_Mode r = Append) (Records q)) @
     map (\<lambda>c. destination (co_replacement c)) (Corrections q)"

text \<open>
  No two mutations of the request claim overlapping destinations, and nothing appended
  or corrected lands on a claimed one.
\<close>

definition ownership_ok :: "w_request \<Rightarrow> bool" where
  "ownership_ok q \<longleftrightarrow>
     sorted_wrt (\<lambda>c d. \<not> conflict c d) (request_claims q) \<and>
     (\<forall>d \<in> set (destinations q). \<forall>c \<in> set (request_claims q). \<not> conflict c d)"

lemma own_record_claim:
  "own_record l i r = (case record_claim r of None \<Rightarrow> Inr l
     | Some c \<Rightarrow> ledger_claim l c (pathIndex ''record'' i))"
  by (simp add: own_record_def record_claim_def ledger_claim_def Let_def)

lemma own_retraction_claim:
  "own_retraction l i t = (case retraction_claim t of None \<Rightarrow> Inr l
     | Some c \<Rightarrow> ledger_claim l c (pathIndex ''retract'' i))"
  by (simp add: own_retraction_def retraction_claim_def ledger_claim_def Let_def
      split: retraction_tag.split)

lemma pathIndex_nonempty [simp]: "pathIndex name i \<noteq> []"
  by (simp add: pathIndex_def)

lemma checkDestination_None:
  "checkDestination owned r p = None \<longleftrightarrow> (\<forall>c. holds owned c \<longrightarrow> \<not> conflict c (destination r))"
proof -
  let ?s = "(r_Subject r, r_Predicate r)"
  have "(\<forall>c. holds owned c \<longrightarrow> \<not> conflict c (destination r)) \<longleftrightarrow>
      \<not> holds owned (ClaimSlot ?s) \<and> \<not> holds owned (ClaimExact ?s (r_Object r))"
    unfolding destination_def by (metis conflict.simps(2,4) own_claim.exhaust)
  then show ?thesis
    by (simp add: checkDestination_def Let_def owned_entry_def new_ownership_def owner_get_def
        split: option.split)
qed

lemma no_claims [simp]: "Collect (holds Map.empty) = {}" "named_owners Map.empty"
proof -
  have "\<not> holds Map.empty c" for c
    by (cases c) (simp_all add: owned_entry_def new_ownership_def owner_get_def)
  then show "Collect (holds Map.empty) = {}" by simp
  show "named_owners Map.empty" by (simp add: named_owners_def owned_entry_def new_ownership_def)
qed

text \<open>The ownership check accepts exactly the requests without overlapping claims.\<close>

lemmas record_loop = ledger.ledger_loop [where f = own_record and key = record_claim
      and pos = "pathIndex ''record''", OF own_record_claim pathIndex_nonempty]
  and retraction_loop = ledger.ledger_loop [where f = own_retraction and key = retraction_claim
      and pos = "pathIndex ''retract''", OF own_retraction_claim pathIndex_nonempty]
  and record_loop_state = ledger.ledger_loop_state [where f = own_record and key = record_claim
      and pos = "pathIndex ''record''", OF own_record_claim pathIndex_nonempty]
  and retraction_loop_state = ledger.ledger_loop_state [where f = own_retraction and key = retraction_claim
      and pos = "pathIndex ''retract''", OF own_retraction_claim pathIndex_nonempty]

text \<open>The two claiming loops: they pass on conflict-free claims and end holding them all.\<close>

lemma claiming_loops:
  "(\<exists>l. for_state own_record 0 Map.empty (Records q) = Inr l \<and>
        for_state own_retraction 0 l (Retractions q) = Inr m) \<Longrightarrow>
   (\<forall>c. holds m c \<longleftrightarrow> c \<in> set (request_claims q)) \<and>
   sorted_wrt (\<lambda>c d. \<not> conflict c d) (request_claims q)"
proof -
  let ?rc = "List.map_filter record_claim (Records q)"
  let ?tc = "List.map_filter retraction_claim (Retractions q)"
  assume "\<exists>l. for_state own_record 0 Map.empty (Records q) = Inr l \<and>
        for_state own_retraction 0 l (Retractions q) = Inr m"
  then obtain l where l: "for_state own_record 0 Map.empty (Records q) = Inr l"
    and m: "for_state own_retraction 0 l (Retractions q) = Inr m" by blast
  from record_loop_state [OF _ l] have hl: "named_owners l" "Collect (holds l) = set ?rc" by simp_all
  from retraction_loop_state [OF hl(1) m] have hm: "Collect (holds m) = set ?rc \<union> set ?tc"
    by (simp add: hl(2))
  from record_loop [where l = Map.empty and i = 0 and xs = "Records q"] l have "sorted_wrt (\<lambda>c d. \<not> conflict c d) ?rc" by simp
  moreover from retraction_loop [OF hl(1), where i = 0 and xs = "Retractions q"] m
  have "sorted_wrt (\<lambda>c d. \<not> conflict c d) ?tc \<and> (\<forall>d\<in>set ?rc. \<forall>c\<in>set ?tc. \<not> conflict d c)"
    by (simp add: hl(2))
  moreover from hm have "holds m c \<longleftrightarrow> c \<in> set ?rc \<union> set ?tc" for c by blast
  ultimately show ?thesis by (simp add: request_claims_def sorted_wrt_append)
qed

lemma claiming_loops_pass:
  assumes "sorted_wrt (\<lambda>c d. \<not> conflict c d) (request_claims q)"
  shows "\<exists>l m. for_state own_record 0 Map.empty (Records q) = Inr l \<and>
        for_state own_retraction 0 l (Retractions q) = Inr m"
proof -
  let ?rc = "List.map_filter record_claim (Records q)"
  let ?tc = "List.map_filter retraction_claim (Retractions q)"
  from assms have o: "sorted_wrt (\<lambda>c d. \<not> conflict c d) ?rc" "sorted_wrt (\<lambda>c d. \<not> conflict c d) ?tc"
    "\<forall>d\<in>set ?rc. \<forall>c\<in>set ?tc. \<not> conflict d c"
    by (simp_all add: request_claims_def sorted_wrt_append)
  from o(1) record_loop [where l = Map.empty and i = 0 and xs = "Records q"] obtain l where
    l: "for_state own_record 0 Map.empty (Records q) = Inr l" by auto
  from record_loop_state [OF _ l] have hl: "named_owners l" "Collect (holds l) = set ?rc" by simp_all
  from o(2,3) retraction_loop [OF hl(1), where i = 0 and xs = "Retractions q"] l show ?thesis
    by (auto simp: hl(2))
qed

lemma destination_loops:
  assumes "\<forall>c. holds m c \<longleftrightarrow> c \<in> set cs"
  shows "for_range (\<lambda>i r. if r_Mode r = Append
      then checkDestination m r (pathIndex ''record'' i) else None) 0 (Records q) = None \<and>
    for_range (\<lambda>i c. checkDestination m (co_replacement c) (pathIndex ''correct'' i @ ''.with''))
      0 (Corrections q) = None \<longleftrightarrow>
    (\<forall>d \<in> set (destinations q). \<forall>c \<in> set cs. \<not> conflict c d)"
proof -
  have "for_range (\<lambda>i r. if r_Mode r = Append
      then checkDestination m r (pathIndex ''record'' i) else None) 0 (Records q) = None \<longleftrightarrow>
      list_all (\<lambda>r. r_Mode r = Append \<longrightarrow> (\<forall>c\<in>set cs. \<not> conflict c (destination r))) (Records q)"
    by (rule for_range_None) (use assms in \<open>auto simp: checkDestination_None\<close>)
  moreover have "for_range (\<lambda>i c. checkDestination m (co_replacement c) (pathIndex ''correct'' i @ ''.with''))
      0 (Corrections q) = None \<longleftrightarrow>
      list_all (\<lambda>c. \<forall>d\<in>set cs. \<not> conflict d (destination (co_replacement c))) (Corrections q)"
    by (rule for_range_None) (use assms in \<open>auto simp: checkDestination_None\<close>)
  ultimately show ?thesis by (auto simp: destinations_def list_all_iff)
qed

lemma validateOwnership_iff: "validateOwnership q = None \<longleftrightarrow> ownership_ok q"
proof -
  have unfold: "validateOwnership q = None \<longleftrightarrow>
      (\<exists>l m. for_state own_record 0 Map.empty (Records q) = Inr l \<and>
        for_state own_retraction 0 l (Retractions q) = Inr m \<and>
        for_range (\<lambda>i r. if r_Mode r = Append
          then checkDestination m r (pathIndex ''record'' i) else None) 0 (Records q) = None \<and>
        for_range (\<lambda>i c. checkDestination m (co_replacement c) (pathIndex ''correct'' i @ ''.with''))
          0 (Corrections q) = None)"
    by (auto simp: validateOwnership_def err_of_None bind_r_Inr check_then_Inr)
  show ?thesis
  proof
    assume "validateOwnership q = None"
    then obtain l m where lm: "for_state own_record 0 Map.empty (Records q) = Inr l"
        "for_state own_retraction 0 l (Retractions q) = Inr m"
      and d: "for_range (\<lambda>i r. if r_Mode r = Append
          then checkDestination m r (pathIndex ''record'' i) else None) 0 (Records q) = None"
        "for_range (\<lambda>i c. checkDestination m (co_replacement c) (pathIndex ''correct'' i @ ''.with''))
          0 (Corrections q) = None"
      unfolding unfold by blast
    from lm have c: "\<forall>c. holds m c \<longleftrightarrow> c \<in> set (request_claims q)"
      "sorted_wrt (\<lambda>c d. \<not> conflict c d) (request_claims q)"
      using claiming_loops [of q m] by blast+
    from d c(2) show "ownership_ok q"
      unfolding ownership_ok_def using destination_loops [OF c(1)] by blast
  next
    assume ok: "ownership_ok q"
    then obtain l m where lm: "for_state own_record 0 Map.empty (Records q) = Inr l"
        "for_state own_retraction 0 l (Retractions q) = Inr m"
      using claiming_loops_pass unfolding ownership_ok_def by blast
    then have "\<forall>c. holds m c \<longleftrightarrow> c \<in> set (request_claims q)" using claiming_loops [of q m] by blast
    with ok lm show "validateOwnership q = None"
      using destination_loops [of m "request_claims q" q] unfolding unfold ownership_ok_def by blast
  qed
qed

end
