(* ===== verification/Go_Utf8.thy ===== *)
theory Go_Utf8
  imports Go_Strings
begin

text \<open>
  The part of \<open>unicode/utf8\<close> the program uses: the length of the first rune of a byte
  sequence with the accepted ranges of the standard decoder (no overlong forms, no
  surrogates, nothing above U+10FFFF), \<open>utf8.ValidString\<close> and \<open>utf8.EncodeRune\<close>.
\<close>

definition cont :: "char \<Rightarrow> bool" where
  "cont c \<longleftrightarrow> 0x80 \<le> byte c \<and> byte c \<le> 0xBF"

text \<open>The range of the second byte, which depends on the first.\<close>

definition second_ok :: "char \<Rightarrow> char \<Rightarrow> bool" where
  "second_ok a b \<longleftrightarrow>
     (if byte a = 0xE0 then 0xA0 \<le> byte b \<and> byte b \<le> 0xBF
      else if byte a = 0xED then 0x80 \<le> byte b \<and> byte b \<le> 0x9F
      else if byte a = 0xF0 then 0x90 \<le> byte b \<and> byte b \<le> 0xBF
      else if byte a = 0xF4 then 0x80 \<le> byte b \<and> byte b \<le> 0x8F
      else cont b)"

definition rune_width :: "char \<Rightarrow> nat" where
  "rune_width a =
     (if byte a < 0x80 then 1
      else if byte a < 0xC2 then 0
      else if byte a < 0xE0 then 2
      else if byte a < 0xF0 then 3
      else if byte a < 0xF5 then 4 else 0)"

text \<open>
  The width of the rune at the head of a sequence; \<open>None\<close> where the decoder returns
  \<open>RuneError\<close> (with size 1 on a nonempty sequence).
\<close>

definition rune_len :: "bytes \<Rightarrow> nat option" where
  "rune_len s = (case s of [] \<Rightarrow> None
   | a # r \<Rightarrow>
       (let n = rune_width a in
        if n = 0 then None
        else if n = 1 then Some 1
        else (case r of [] \<Rightarrow> None
              | b # t \<Rightarrow>
                  if second_ok a b \<and> n - 2 \<le> length t \<and> list_all cont (take (n - 2) t)
                  then Some n else None)))"

fun valid_utf8 :: "bytes \<Rightarrow> bool" where
  "valid_utf8 [] = True"
| "valid_utf8 (a # s) =
     (case rune_len (a # s) of None \<Rightarrow> False | Some n \<Rightarrow> valid_utf8 (drop (n - 1) s))"

text \<open>\<open>utf8.EncodeRune\<close>: a surrogate or an out-of-range rune becomes U+FFFD.\<close>

definition encode_rune :: "nat \<Rightarrow> bytes" where
  "encode_rune r =
     (if r < 0x80 then [chr r]
      else if r < 0x800 then [chr (0xC0 + r div 64), chr (0x80 + r mod 64)]
      else if (0xD800 \<le> r \<and> r \<le> 0xDFFF) \<or> 0x10FFFF < r
        then [chr 0xEF, chr 0xBF, chr 0xBD]
      else if r < 0x10000
        then [chr (0xE0 + r div 4096), chr (0x80 + r div 64 mod 64), chr (0x80 + r mod 64)]
      else [chr (0xF0 + r div 262144), chr (0x80 + r div 4096 mod 64),
            chr (0x80 + r div 64 mod 64), chr (0x80 + r mod 64)])"

section \<open>Widths\<close>

lemma rune_width_cases: "rune_width a = 0 \<or> rune_width a = 1 \<or> rune_width a = 2 \<or>
    rune_width a = 3 \<or> rune_width a = 4"
  by (simp add: rune_width_def)

lemma rune_len_ascii: "byte a < 128 \<Longrightarrow> rune_len (a # s) = Some 1"
  by (simp add: rune_len_def rune_width_def)

lemma rune_len_bounds:
  assumes "rune_len s = Some n"
  shows "0 < n \<and> n \<le> 4 \<and> n \<le> length s"
proof (cases s)
  case Nil
  with assms show ?thesis by (simp add: rune_len_def)
next
  case (Cons a r)
  with assms rune_width_cases [of a] show ?thesis
    by (auto simp: rune_len_def Let_def split: if_splits list.splits)
qed

lemma rune_len_multi: "rune_len (a # s) = Some n \<Longrightarrow> 128 \<le> byte a \<Longrightarrow> 2 \<le> n"
  using rune_width_cases [of a]
  by (auto simp: rune_len_def Let_def rune_width_def split: if_splits list.splits)

text \<open>The width depends on the bytes of the rune only.\<close>

lemma rune_len_take_append:
  assumes "rune_len s = Some n"
  shows "rune_len (take n s @ t) = Some n"
proof -
  from assms obtain a r where s: "s = a # r" by (cases s) (auto simp: rune_len_def)
  show ?thesis
  proof (cases "n = 1")
    case True
    with assms s have "rune_width a = 1"
      by (auto simp: rune_len_def Let_def split: if_splits list.splits)
    with True s show ?thesis by (simp add: rune_len_def)
  next
    case False
    with assms s have w: "rune_width a = n" "n \<noteq> 0" "n \<noteq> 1"
      by (auto simp: rune_len_def Let_def split: if_splits list.splits)
    with assms s obtain b q where r: "r = b # q" and ok: "second_ok a b" "n - 2 \<le> length q"
        "list_all cont (take (n - 2) q)"
      by (auto simp: rune_len_def Let_def split: if_splits list.splits)
    from w have "take n s = a # b # take (n - 2) q"
      by (simp add: s r take_Cons' numeral_2_eq_2)
    then show ?thesis using w ok by (simp add: rune_len_def min_def)
  qed
qed

lemma rune_len_append: "rune_len s = Some n \<Longrightarrow> rune_len (s @ t) = Some n"
  using rune_len_take_append [of s n "drop n s @ t"] by (simp add: append.assoc [symmetric] del: append.assoc)

section \<open>Validity\<close>

lemma valid_utf8_Cons:
  "valid_utf8 (a # s) \<longleftrightarrow> (\<exists>n. rune_len (a # s) = Some n \<and> valid_utf8 (drop n (a # s)))"
proof (cases "rune_len (a # s)")
  case (Some n)
  then have "0 < n" using rune_len_bounds by blast
  with Some show ?thesis by (simp add: drop_Cons' del: One_nat_def)
qed simp

lemma valid_utf8_append: "valid_utf8 s \<Longrightarrow> valid_utf8 (s @ t) \<longleftrightarrow> valid_utf8 t"
proof (induction s rule: valid_utf8.induct)
  case (2 a s)
  then obtain n where n: "rune_len (a # s) = Some n" "valid_utf8 (drop (n - 1) s)"
    by (auto split: option.splits)
  from rune_len_bounds [OF n(1)] have b: "0 < n" "n - 1 \<le> length s" by auto
  have "valid_utf8 ((a # s) @ t) \<longleftrightarrow> valid_utf8 (drop (n - 1) (s @ t))"
    using rune_len_append [OF n(1), of t] by simp
  also have "drop (n - 1) (s @ t) = drop (n - 1) s @ t" using b by simp
  finally show ?case using 2(1) [OF n] by simp
qed simp

lemma valid_utf8_ascii: "list_all (\<lambda>c. byte c < 128) s \<Longrightarrow> valid_utf8 s"
  by (induction s) (simp_all add: rune_len_ascii)

lemma valid_utf8_append_ascii:
  "list_all (\<lambda>c. byte c < 128) s \<Longrightarrow> valid_utf8 (s @ t) \<longleftrightarrow> valid_utf8 t"
  by (simp add: valid_utf8_append valid_utf8_ascii)

lemma digits_ascii: "list_all is_digit s \<Longrightarrow> list_all (\<lambda>c. byte c < 128) s"
  by (auto simp: list_all_iff is_digit_def)

lemma valid_utf8_format_uint [simp]: "valid_utf8 (format_uint n)"
  by (intro valid_utf8_ascii digits_ascii format_uint_digits)

end
