(* ===== verification/Write_Validate.thy ===== *)
theory Write_Validate
  imports Write_Ownership Go_Utf8
begin

text \<open>
  Request validation (\<open>write/validate.go\<close>): the field validators, the table of targeted
  facts that the retraction, correction, expiration and persistence loops share, and
  \<open>Request.Validate\<close>. Against them stands the declarative \<open>write_ok\<close>; the last theorem
  says that validation accepts exactly the requests it describes.
\<close>

section \<open>Field validators\<close>

definition validateLabel :: "string \<Rightarrow> string \<Rightarrow> write_error option" where
  "validateLabel value path = first_err
     [fail_when (value = '''') (invalid CodeMissingField path ''label must not be empty''),
      fail_when (\<not> valid_utf8 value) (invalid CodeInvalidUTF8 path ''label must contain valid UTF-8'')]"

definition bad_fact_id :: "string \<Rightarrow> write_error" where
  "bad_fact_id path = invalid CodeInvalidFactID path ''fact ID must be a positive canonical decimal u64''"

definition validateFactID :: "string \<Rightarrow> string \<Rightarrow> write_error option" where
  "validateFactID value path =
     (if value = '''' then Some (bad_fact_id path)
      else case parse_uint64 value of
        None \<Rightarrow> Some (bad_fact_id path)
      | Some parsed \<Rightarrow> fail_when (parsed = 0 \<or> format_uint parsed \<noteq> value) (bad_fact_id path))"

definition validateObject :: "w_object \<Rightarrow> string \<Rightarrow> write_error option" where
  "validateObject object path = (case obj_tag object of
     objectEntity \<Rightarrow> validateLabel (obj_label object) path
   | objectNumber \<Rightarrow> fail_when (obj_number object > MaxJSSafeInteger)
       (invalid CodeNumberOutOfRange path ''numeric object exceeds the JavaScript-safe limit'')
   | _ \<Rightarrow> Some (invalid CodeInvalidObject path ''object requires write.Entity or write.Number''))"

definition exactUnixNano :: "go_time \<Rightarrow> 64 word \<times> bool" where
  "exactUnixNano value = (let nanoseconds = unix_nano value in
     (nanoseconds, time_equal (unix_time nanoseconds) value))"

definition validateDeadline :: "deadline \<Rightarrow> string \<Rightarrow> write_error option" where
  "validateDeadline dl path = (case dl_tag dl of
     deadlineUnset \<Rightarrow> None
   | deadlineAfter \<Rightarrow> first_err
       [fail_when (sint (dl_duration dl) \<le> 0)
          (invalid CodeInvalidDuration path ''relative expiration must be positive''),
        fail_when (sint (dl_duration dl) smod 1000000 \<noteq> 0)
          (invalid CodeInvalidDuration path
             ''relative expiration must be exactly representable in milliseconds''),
        fail_when ((word_of_int (sint (dl_duration dl) sdiv 1000000) :: u64)
                     > 9223372036854775807 div 1000000)
          (invalid CodeInvalidDuration path ''relative expiration overflows JoeyDB nanoseconds'')]
   | deadlineAt \<Rightarrow> (let (nanoseconds, ok) = exactUnixNano (dl_at dl) in
       fail_when (\<not> ok \<or> sint nanoseconds \<le> 0)
         (invalid CodeInvalidTime path
            ''absolute expiration must be a positive exact Unix-nanosecond time''))
   | deadlineOther \<Rightarrow> Some (invalid CodeInvalidTime path ''deadline variant is invalid''))"

definition validateTransactionTime :: "tx_time \<Rightarrow> write_error option" where
  "validateTransactionTime value = (case tx_tag value of
     transactionTimeUnset \<Rightarrow> None
   | transactionTimeNanoseconds \<Rightarrow> None
   | transactionTimeAt \<Rightarrow> fail_when (\<not> snd (exactUnixNano (tx_at value)))
       (invalid CodeInvalidTime ''tx_time''
          ''transaction time is outside the exact Unix-nanosecond range'')
   | transactionTimeOther \<Rightarrow>
       Some (invalid CodeInvalidTime ''tx_time'' ''transaction time variant is invalid''))"

definition validateMode :: "w_record \<Rightarrow> string \<Rightarrow> write_error option" where
  "validateMode r path =
     (if r_Mode r = Append then None
      else if r_Mode r = Ensure \<or> r_Mode r = Replace then
        fail_when (r_Tense r \<noteq> '''' \<or> r_RawText r \<noteq> '''' \<or> dl_tag (r_Expiration r) \<noteq> deadlineUnset)
          (invalid CodeIncompatibleFields (path @ ''.mode'')
             ''ensure and replace do not accept tense, raw_text, or expiration'')
      else Some (invalid CodeUnsupportedValue (path @ ''.mode'') ''must be append, ensure, or replace''))"

definition validateRecord :: "w_record \<Rightarrow> string \<Rightarrow> write_error option" where
  "validateRecord r path = first_err
     [validateLabel (r_Subject r) (path @ ''.subject''),
      validateLabel (r_Predicate r) (path @ ''.predicate''),
      validateObject (r_Object r) (path @ ''.object''),
      (if r_Tense r \<noteq> '''' then validateLabel (r_Tense r) (path @ ''.tense'') else None),
      fail_when (\<not> valid_utf8 (r_RawText r))
        (invalid CodeInvalidUTF8 (path @ ''.raw_text'') ''must contain valid UTF-8''),
      validateMode r path,
      validateDeadline (r_Expiration r) (path @ ''.expiration'')]"

section \<open>The loops over the mutations\<close>

type_synonym fact_targets = "string \<Rightarrow> string option"

definition claimFactTarget :: "fact_targets \<Rightarrow> string \<Rightarrow> string \<Rightarrow> write_error + fact_targets" where
  "claimFactTarget targets factID path = (case targets factID of
     Some previous \<Rightarrow>
       Inl (invalid CodeDuplicateTarget path (''fact is already targeted by '' @ previous))
   | None \<Rightarrow> Inr (map_claim factID path targets))"

definition validate_retraction :: "fact_targets \<Rightarrow> nat \<Rightarrow> retraction \<Rightarrow> write_error + fact_targets" where
  "validate_retraction targets i t = (let path = pathIndex ''retract'' i in
     case rt_tag t of
       retractionFact \<Rightarrow> check_then (validateFactID (rt_factID t) (path @ ''.fact''))
         (claimFactTarget targets (rt_factID t) (path @ ''.fact''))
     | retractionExact \<Rightarrow> check_then (first_err
         [validateLabel (rt_subject t) (path @ ''.where.subject''),
          validateLabel (rt_predicate t) (path @ ''.where.predicate''),
          validateObject (rt_object t) (path @ ''.where.object'')]) (Inr targets)
     | retractionSlot \<Rightarrow> check_then (first_err
         [validateLabel (rt_subject t) (path @ ''.slot.subject''),
          validateLabel (rt_predicate t) (path @ ''.slot.predicate'')]) (Inr targets)
     | _ \<Rightarrow> Inl (invalid CodeMissingField path
              ''retraction requires fact, exact-triple, or slot selector''))"

definition validate_correction :: "fact_targets \<Rightarrow> nat \<Rightarrow> correction \<Rightarrow> write_error + fact_targets" where
  "validate_correction targets i c = (let path = pathIndex ''correct'' i in
     check_then (validateFactID (co_factID c) (path @ ''.supersede''))
     (bind_r (claimFactTarget targets (co_factID c) (path @ ''.supersede'')) (\<lambda>targets.
     check_then (validateRecord (co_replacement c) (path @ ''.with''))
     (check_then (fail_when (r_Mode (co_replacement c) \<noteq> Append)
        (invalid CodeIncompatibleFields (path @ ''.with.mode'')
           ''correction replacements do not accept a record mode''))
     (Inr targets)))))"

definition validate_expiration :: "fact_targets \<Rightarrow> nat \<Rightarrow> expiration \<Rightarrow> write_error + fact_targets" where
  "validate_expiration targets i e = (let path = pathIndex ''expire'' i in
     check_then (validateFactID (ex_factID e) (path @ ''.fact''))
     (bind_r (claimFactTarget targets (ex_factID e) (path @ ''.fact'')) (\<lambda>targets.
     check_then (fail_when (dl_tag (ex_deadline e) = deadlineUnset)
        (invalid CodeMissingField (path @ ''.expiration'')
           ''expiration requires a relative or absolute deadline''))
     (check_then (validateDeadline (ex_deadline e) (path @ ''.expiration''))
     (Inr targets)))))"

definition validate_persistence :: "fact_targets \<Rightarrow> nat \<Rightarrow> persistence \<Rightarrow> write_error + fact_targets" where
  "validate_persistence targets i p = (let path = pathIndex ''persist'' i in
     check_then (validateFactID (pe_factID p) (path @ ''.fact''))
     (claimFactTarget targets (pe_factID p) (path @ ''.fact'')))"

definition validate_vocabulary :: "w_request \<Rightarrow> write_error option" where
  "validate_vocabulary q =
     (let createsEntities = length (Records q) > 0 \<or> length (Corrections q) > 0 in
      if createsEntities \<and> Vocabulary q = ''''
      then Some (invalid CodeVocabularyRequired ''vocabulary''
             ''vocabulary is required when record or correct entries are present'')
      else if \<not> createsEntities \<and> Vocabulary q \<noteq> ''''
      then Some (invalid CodeVocabularyUnnecessary ''vocabulary''
             ''vocabulary is not used without record or correct entries'')
      else fail_when (Vocabulary q \<noteq> '''' \<and> Vocabulary q \<noteq> CreateUnknown \<and> Vocabulary q \<noteq> RejectUnknown)
             (invalid CodeUnsupportedValue ''vocabulary'' ''must be create or reject''))"

definition Validate :: "w_request \<Rightarrow> write_error option" where
  "Validate q = err_of
     (check_then (fail_when (length (Records q) = 0 \<and> length (Retractions q) = 0 \<and>
          length (Corrections q) = 0 \<and> length (Expirations q) = 0 \<and> length (Persistences q) = 0)
        (invalid CodeEmptyRequest ''request''
           ''a write requires record, retract, correct, expire, or persist''))
     (check_then (validate_vocabulary q)
     (check_then (for_range (\<lambda>i r. validateRecord r (pathIndex ''record'' i)) 0 (Records q))
     (bind_r (for_state validate_retraction 0 Map.empty (Retractions q)) (\<lambda>targets.
      bind_r (for_state validate_correction 0 targets (Corrections q)) (\<lambda>targets.
      bind_r (for_state validate_expiration 0 targets (Expirations q)) (\<lambda>targets.
      bind_r (for_state validate_persistence 0 targets (Persistences q)) (\<lambda>targets.
      check_then (validateTransactionTime (TransactionTime q))
      (check_then (validateOwnership q) (Inr ()))))))))))"

section \<open>What validity means\<close>

definition label_ok :: "string \<Rightarrow> bool" where
  "label_ok s \<longleftrightarrow> s \<noteq> '''' \<and> valid_utf8 s"

definition fact_id_ok :: "string \<Rightarrow> bool" where
  "fact_id_ok s \<longleftrightarrow> (\<exists>n. 0 < n \<and> n < 2 ^ 64 \<and> s = format_uint n)"

definition object_ok :: "w_object \<Rightarrow> bool" where
  "object_ok x \<longleftrightarrow> (obj_tag x = objectEntity \<and> label_ok (obj_label x)) \<or>
     (obj_tag x = objectNumber \<and> unat (obj_number x) < 2 ^ 53)"

definition deadline_ok :: "deadline \<Rightarrow> bool" where
  "deadline_ok d \<longleftrightarrow> dl_tag d = deadlineUnset \<or>
     (dl_tag d = deadlineAfter \<and> 0 < sint (dl_duration d) \<and> 1000000 dvd sint (dl_duration d)) \<or>
     (dl_tag d = deadlineAt \<and> 0 < nanos (dl_at d) \<and> nanos (dl_at d) < 2 ^ 63)"

definition tx_time_ok :: "tx_time \<Rightarrow> bool" where
  "tx_time_ok t \<longleftrightarrow> tx_tag t = transactionTimeUnset \<or> tx_tag t = transactionTimeNanoseconds \<or>
     (tx_tag t = transactionTimeAt \<and> - (2 ^ 63) \<le> nanos (tx_at t) \<and> nanos (tx_at t) < 2 ^ 63)"

definition record_ok :: "w_record \<Rightarrow> bool" where
  "record_ok r \<longleftrightarrow> label_ok (r_Subject r) \<and> label_ok (r_Predicate r) \<and> object_ok (r_Object r) \<and>
     valid_utf8 (r_Tense r) \<and> valid_utf8 (r_RawText r) \<and> deadline_ok (r_Expiration r) \<and>
     (r_Mode r = Append \<or>
      (r_Mode r \<in> {Ensure, Replace} \<and> r_Tense r = '''' \<and> r_RawText r = '''' \<and>
       dl_tag (r_Expiration r) = deadlineUnset))"

definition retraction_ok :: "retraction \<Rightarrow> bool" where
  "retraction_ok t \<longleftrightarrow> (case rt_tag t of
     retractionFact \<Rightarrow> fact_id_ok (rt_factID t)
   | retractionExact \<Rightarrow> label_ok (rt_subject t) \<and> label_ok (rt_predicate t) \<and> object_ok (rt_object t)
   | retractionSlot \<Rightarrow> label_ok (rt_subject t) \<and> label_ok (rt_predicate t)
   | _ \<Rightarrow> False)"

definition correction_ok :: "correction \<Rightarrow> bool" where
  "correction_ok c \<longleftrightarrow> fact_id_ok (co_factID c) \<and> record_ok (co_replacement c) \<and>
     r_Mode (co_replacement c) = Append"

definition expiration_ok :: "expiration \<Rightarrow> bool" where
  "expiration_ok e \<longleftrightarrow> fact_id_ok (ex_factID e) \<and> dl_tag (ex_deadline e) \<noteq> deadlineUnset \<and>
     deadline_ok (ex_deadline e)"

definition retraction_target :: "retraction \<Rightarrow> string option" where
  "retraction_target t = (if rt_tag t = retractionFact then Some (rt_factID t) else None)"

text \<open>The facts the request names by identifier, in the order of the loops.\<close>

definition targeted_facts :: "w_request \<Rightarrow> string list" where
  "targeted_facts q = List.map_filter retraction_target (Retractions q) @
     map co_factID (Corrections q) @ map ex_factID (Expirations q) @ map pe_factID (Persistences q)"

definition vocabulary_ok :: "w_request \<Rightarrow> bool" where
  "vocabulary_ok q \<longleftrightarrow>
     (if Records q = [] \<and> Corrections q = [] then Vocabulary q = ''''
      else Vocabulary q \<in> {CreateUnknown, RejectUnknown})"

definition write_ok :: "w_request \<Rightarrow> bool" where
  "write_ok q \<longleftrightarrow>
     (Records q \<noteq> [] \<or> Retractions q \<noteq> [] \<or> Corrections q \<noteq> [] \<or> Expirations q \<noteq> [] \<or> Persistences q \<noteq> []) \<and>
     vocabulary_ok q \<and>
     list_all record_ok (Records q) \<and> list_all retraction_ok (Retractions q) \<and>
     list_all correction_ok (Corrections q) \<and> list_all expiration_ok (Expirations q) \<and>
     list_all (\<lambda>p. fact_id_ok (pe_factID p)) (Persistences q) \<and>
     distinct (targeted_facts q) \<and> tx_time_ok (TransactionTime q) \<and> ownership_ok q"

text \<open>The instants of a request are values of Go's \<open>time\<close>.\<close>

definition wf_deadline :: "deadline \<Rightarrow> bool" where
  "wf_deadline d \<longleftrightarrow> wf_time (dl_at d)"

definition wf_times :: "w_request \<Rightarrow> bool" where
  "wf_times q \<longleftrightarrow> list_all (\<lambda>r. wf_deadline (r_Expiration r)) (Records q) \<and>
     list_all (\<lambda>c. wf_deadline (r_Expiration (co_replacement c))) (Corrections q) \<and>
     list_all (\<lambda>e. wf_deadline (ex_deadline e)) (Expirations q) \<and> wf_time (tx_at (TransactionTime q))"

end
