(* ===== verification/Write_Validate_Laws.thy ===== *)
theory Write_Validate_Laws
  imports Write_Validate
begin

text \<open>
  Validation against its meaning: each field validator accepts exactly the values its
  predicate describes, the four loops that share the table of targeted facts pass exactly
  when the targets are pairwise distinct (through the \<open>registry\<close> interface), and
  \<open>Validate\<close> accepts exactly the requests of \<open>write_ok\<close>.
\<close>

section \<open>Fields\<close>

lemma validateLabel_None [simp]: "validateLabel s p = None \<longleftrightarrow> label_ok s"
  by (simp add: validateLabel_def label_ok_def)

lemma validateFactID_None [simp]: "validateFactID s p = None \<longleftrightarrow> fact_id_ok s"
proof
  assume "validateFactID s p = None"
  then obtain n where "parse_uint64 s = Some n" "n \<noteq> 0" "format_uint n = s"
    by (auto simp: validateFactID_def split: if_splits option.splits)
  then show "fact_id_ok s" unfolding fact_id_ok_def using parse_uint64_less by blast
next
  assume "fact_id_ok s"
  then show "validateFactID s p = None"
    by (auto simp: fact_id_ok_def validateFactID_def parse_format_uint)
qed

lemma MaxJSSafeInteger_unat: "unat MaxJSSafeInteger = 2 ^ 53 - 1"
  by (simp add: MaxJSSafeInteger_def)

lemma validateObject_None [simp]: "validateObject x p = None \<longleftrightarrow> object_ok x"
  by (auto simp: validateObject_def object_ok_def word_less_nat_alt MaxJSSafeInteger_unat
      split: object_tag.split)

lemma exactUnixNano_fst: "fst (exactUnixNano t) = unix_nano t"
  by (simp add: exactUnixNano_def Let_def)

lemma exactUnixNano_snd:
  assumes "wf_time t"
  shows "snd (exactUnixNano t) \<longleftrightarrow> - (2 ^ 63) \<le> nanos t \<and> nanos t < 2 ^ 63"
proof
  assume "snd (exactUnixNano t)"
  then have "unix_time (unix_nano t) = t"
    by (simp add: exactUnixNano_def Let_def time_equal_def)
  then have "nanos t = sint (unix_nano t)" by (metis unix_time_nanos)
  then show "- (2 ^ 63) \<le> nanos t \<and> nanos t < 2 ^ 63"
    using sint_range [of "unix_nano t"] by simp
next
  assume "- (2 ^ 63) \<le> nanos t \<and> nanos t < 2 ^ 63"
  with unix_nano_exact(2) [OF assms] show "snd (exactUnixNano t)"
    by (simp add: exactUnixNano_def Let_def time_equal_def)
qed

text \<open>
  A positive duration of whole milliseconds never exceeds the limit of the third check:
  the milliseconds of a 64-bit count of nanoseconds are at most the bound.
\<close>

lemma milliseconds_bound:
  fixes d :: duration
  assumes "0 < sint d"
  shows "\<not> (word_of_int (sint d sdiv 1000000) :: u64) > 9223372036854775807 div 1000000"
proof -
  have m: "sint d sdiv 1000000 = sint d div 1000000"
    using assms by (simp add: signed_divide_int_def)
  have "sint d < 9223372036854775808" using sint_range(2) [of d] by simp
  then have "sint d div 1000000 \<le> 9223372036854" "0 \<le> sint d div 1000000"
    using assms by simp_all
  then have "uint (word_of_int (sint d div 1000000) :: u64) \<le> 9223372036854"
    by (simp add: uint_word_of_int mod_pos_pos_trivial)
  then show ?thesis by (simp add: m word_less_def)
qed

lemma validateDeadline_After:
  "validateDeadline d p = None \<longleftrightarrow> 0 < sint (dl_duration d) \<and> 1000000 dvd sint (dl_duration d)"
  if "dl_tag d = deadlineAfter"
proof -
  have "sint (dl_duration d) smod 1000000 = 0 \<longleftrightarrow> 1000000 dvd sint (dl_duration d)"
    if "0 < sint (dl_duration d)"
    using that by (simp add: signed_modulo_int_def signed_divide_int_def dvd_eq_mod_eq_0
        minus_div_mult_eq_mod)
  with milliseconds_bound [of "dl_duration d"] that show ?thesis
    by (auto simp: validateDeadline_def not_le)
qed

lemma validateDeadline_path: "validateDeadline d p = None \<longleftrightarrow> validateDeadline d q = None"
  by (simp add: validateDeadline_def case_prod_beta split: deadline_tag.split)

lemma validateDeadline_None:
  assumes "wf_deadline d"
  shows "validateDeadline d p = None \<longleftrightarrow> deadline_ok d"
proof (cases "dl_tag d")
  case deadlineAfter
  then show ?thesis by (simp add: validateDeadline_After deadline_ok_def)
next
  case deadlineAt
  have wf: "wf_time (dl_at d)" using assms by (simp add: wf_deadline_def)
  have "snd (exactUnixNano (dl_at d)) \<and> 0 < sint (unix_nano (dl_at d)) \<longleftrightarrow>
      0 < nanos (dl_at d) \<and> nanos (dl_at d) < 2 ^ 63"
    unfolding exactUnixNano_snd [OF wf] using unix_nano_exact(1) [OF wf] by auto
  with deadlineAt show ?thesis
    by (auto simp: validateDeadline_def deadline_ok_def case_prod_beta exactUnixNano_fst not_le)
qed (simp_all add: validateDeadline_def deadline_ok_def)

lemma validateTransactionTime_None:
  assumes "wf_time (tx_at t)"
  shows "validateTransactionTime t = None \<longleftrightarrow> tx_time_ok t"
  using exactUnixNano_snd [OF assms]
  by (auto simp: validateTransactionTime_def tx_time_ok_def split: tx_tag.split)

section \<open>Records\<close>

lemma validateRecord_parts:
  "validateRecord r p = None \<longleftrightarrow> label_ok (r_Subject r) \<and> label_ok (r_Predicate r) \<and>
     object_ok (r_Object r) \<and> valid_utf8 (r_Tense r) \<and> valid_utf8 (r_RawText r) \<and>
     validateDeadline (r_Expiration r) '''' = None \<and>
     (r_Mode r = Append \<or>
      (r_Mode r \<in> {Ensure, Replace} \<and> r_Tense r = '''' \<and> r_RawText r = '''' \<and>
       dl_tag (r_Expiration r) = deadlineUnset))"
proof -
  have t: "(if r_Tense r \<noteq> '''' then validateLabel (r_Tense r) q else None) = None \<longleftrightarrow>
      valid_utf8 (r_Tense r)" for q
    by (auto simp: label_ok_def)
  have m: "validateMode r p = None \<longleftrightarrow> r_Mode r = Append \<or>
      (r_Mode r \<in> {Ensure, Replace} \<and> r_Tense r = '''' \<and> r_RawText r = '''' \<and>
       dl_tag (r_Expiration r) = deadlineUnset)"
    by (auto simp: validateMode_def)
  show ?thesis
    unfolding validateRecord_def first_err_None t m
    using validateDeadline_path [of "r_Expiration r" "p @ ''.expiration''" "''''"] by auto
qed

lemma validateRecord_None:
  "wf_deadline (r_Expiration r) \<Longrightarrow> validateRecord r p = None \<longleftrightarrow> record_ok r"
  unfolding validateRecord_parts record_ok_def by (auto simp: validateDeadline_None)

section \<open>The loops that share the targets\<close>

lemma claimFactTarget_Inr:
  "claimFactTarget m k p = Inr m' \<longleftrightarrow> m k = None \<and> m' = map_claim k p m"
  by (auto simp: claimFactTarget_def split: option.split)

lemma retraction_body:
  "validate_retraction m i t = Inr m' \<longleftrightarrow> retraction_ok t \<and>
     (case retraction_target t of None \<Rightarrow> m' = m
      | Some k \<Rightarrow> m k = None \<and> m' = map_claim k (pathIndex ''retract'' i @ ''.fact'') m)"
  by (auto simp: validate_retraction_def retraction_ok_def retraction_target_def Let_def
      check_then_Inr claimFactTarget_Inr split: retraction_tag.split)

definition correction_valid :: "correction \<Rightarrow> bool" where
  "correction_valid c \<longleftrightarrow> fact_id_ok (co_factID c) \<and> validateRecord (co_replacement c) '''' = None \<and>
     r_Mode (co_replacement c) = Append"

lemma correction_body:
  "validate_correction m i c = Inr m' \<longleftrightarrow> correction_valid c \<and>
     (case Some (co_factID c) of None \<Rightarrow> m' = m
      | Some k \<Rightarrow> m k = None \<and> m' = map_claim k (pathIndex ''correct'' i @ ''.supersede'') m)"
  by (auto simp: validate_correction_def correction_valid_def Let_def check_then_Inr bind_r_Inr
      claimFactTarget_Inr validateRecord_parts)

definition expiration_valid :: "expiration \<Rightarrow> bool" where
  "expiration_valid e \<longleftrightarrow> fact_id_ok (ex_factID e) \<and> dl_tag (ex_deadline e) \<noteq> deadlineUnset \<and>
     validateDeadline (ex_deadline e) '''' = None"

lemma expiration_body:
  "validate_expiration m i e = Inr m' \<longleftrightarrow> expiration_valid e \<and>
     (case Some (ex_factID e) of None \<Rightarrow> m' = m
      | Some k \<Rightarrow> m k = None \<and> m' = map_claim k (pathIndex ''expire'' i @ ''.fact'') m)"
  using validateDeadline_path [of "ex_deadline e" "pathIndex ''expire'' i @ ''.expiration''" "''''"]
  by (auto simp: validate_expiration_def expiration_valid_def Let_def check_then_Inr bind_r_Inr
      claimFactTarget_Inr)

lemma persistence_body:
  "validate_persistence m i p = Inr m' \<longleftrightarrow> fact_id_ok (pe_factID p) \<and>
     (case Some (pe_factID p) of None \<Rightarrow> m' = m
      | Some k \<Rightarrow> m k = None \<and> m' = map_claim k (pathIndex ''persist'' i @ ''.fact'') m)"
  by (auto simp: validate_persistence_def Let_def check_then_Inr claimFactTarget_Inr)

text \<open>The registry's loop law at the four bodies.\<close>

lemmas target_loop =
  owners.claiming_loop [where f = validate_retraction and key = retraction_target
    and pos = "\<lambda>i _. pathIndex ''retract'' i @ ''.fact''", OF retraction_body]
  owners.claiming_loop [where f = validate_correction and key = "\<lambda>c. Some (co_factID c)"
    and pos = "\<lambda>i _. pathIndex ''correct'' i @ ''.supersede''", OF correction_body]
  owners.claiming_loop [where f = validate_expiration and key = "\<lambda>e. Some (ex_factID e)"
    and pos = "\<lambda>i _. pathIndex ''expire'' i @ ''.fact''", OF expiration_body]
  owners.claiming_loop [where f = validate_persistence and key = "\<lambda>p. Some (pe_factID p)"
    and pos = "\<lambda>i _. pathIndex ''persist'' i @ ''.fact''", OF persistence_body]

lemmas target_loop_dom =
  owners.claiming_loop_dom [where f = validate_retraction and key = retraction_target
    and pos = "\<lambda>i _. pathIndex ''retract'' i @ ''.fact''", OF retraction_body]
  owners.claiming_loop_dom [where f = validate_correction and key = "\<lambda>c. Some (co_factID c)"
    and pos = "\<lambda>i _. pathIndex ''correct'' i @ ''.supersede''", OF correction_body]
  owners.claiming_loop_dom [where f = validate_expiration and key = "\<lambda>e. Some (ex_factID e)"
    and pos = "\<lambda>i _. pathIndex ''expire'' i @ ''.fact''", OF expiration_body]

lemma map_filter_Some [simp]: "List.map_filter (\<lambda>x. Some (f x)) xs = map f xs"
  by (induction xs) simp_all

definition target_loops_pass :: "w_request \<Rightarrow> bool" where
  "target_loops_pass q \<longleftrightarrow> (\<exists>a b c d.
     for_state validate_retraction 0 Map.empty (Retractions q) = Inr a \<and>
     for_state validate_correction 0 a (Corrections q) = Inr b \<and>
     for_state validate_expiration 0 b (Expirations q) = Inr c \<and>
     for_state validate_persistence 0 c (Persistences q) = Inr d)"

text \<open>A loop passes on a state when its elements are well formed and their targets distinct and not
  claimed yet; the next loop starts with these targets claimed.\<close>

lemma loop_then:
  assumes pass: "(\<exists>b. f a = Inr b) \<longleftrightarrow> ok \<and> distinct ks \<and> set ks \<inter> dom a = {}"
    and dom: "\<And>b. f a = Inr b \<Longrightarrow> dom b = dom a \<union> set ks"
    and rest: "\<And>b. f a = Inr b \<Longrightarrow> P b \<longleftrightarrow> ok' \<and> distinct ls \<and> set ls \<inter> dom b = {}"
  shows "(\<exists>b. f a = Inr b \<and> P b) \<longleftrightarrow> (ok \<and> ok') \<and> distinct (ks @ ls) \<and> set (ks @ ls) \<inter> dom a = {}"
proof
  assume "\<exists>b. f a = Inr b \<and> P b"
  with pass dom rest show "(ok \<and> ok') \<and> distinct (ks @ ls) \<and> set (ks @ ls) \<inter> dom a = {}" by fastforce
next
  assume r: "(ok \<and> ok') \<and> distinct (ks @ ls) \<and> set (ks @ ls) \<inter> dom a = {}"
  with pass obtain b where b: "f a = Inr b" by auto
  with r dom [OF b] rest [OF b] show "\<exists>b. f a = Inr b \<and> P b" by auto
qed

lemma target_loops_iff:
  "target_loops_pass q \<longleftrightarrow>
     list_all retraction_ok (Retractions q) \<and> list_all correction_valid (Corrections q) \<and>
     list_all expiration_valid (Expirations q) \<and>
     list_all (\<lambda>p. fact_id_ok (pe_factID p)) (Persistences q) \<and> distinct (targeted_facts q)"
proof -
  let ?c = "\<lambda>c. \<exists>d. for_state validate_persistence 0 c (Persistences q) = Inr d"
  let ?b = "\<lambda>b. \<exists>c. for_state validate_expiration 0 b (Expirations q) = Inr c \<and> ?c c"
  let ?a = "\<lambda>a. \<exists>b. for_state validate_correction 0 a (Corrections q) = Inr b \<and> ?b b"
  note b = loop_then [where f = "\<lambda>b. for_state validate_expiration 0 b (Expirations q)",
      OF target_loop(3) target_loop_dom(3) target_loop(4) [where xs = "Persistences q"]]
  note a = loop_then [where f = "\<lambda>a. for_state validate_correction 0 a (Corrections q)",
      OF target_loop(2) target_loop_dom(2) b]
  note r = loop_then [where f = "\<lambda>a. for_state validate_retraction 0 a (Retractions q)" and a = Map.empty,
      OF target_loop(1) target_loop_dom(1) a]
  have "target_loops_pass q \<longleftrightarrow> (\<exists>a. for_state validate_retraction 0 Map.empty (Retractions q) = Inr a \<and> ?a a)"
    unfolding target_loops_pass_def by blast
  then show ?thesis using r by (simp add: targeted_facts_def)
qed

end
