(* ===== verification/Go_Json.thy ===== *)
theory Go_Json
  imports Go_Utf8
begin

text \<open>
  The part of Go's \<open>encoding/json\<close> (Go 1.24) the program uses. A JSON value is a tree
  whose objects keep the order of their members, as the fields of a Go struct do.
  \<open>render\<close> is the compact output of \<open>json.Marshal\<close> with its HTML-safe escapes;
  \<open>json_parse\<close> is the reader behind \<open>json.Unmarshal\<close>: white space, escapes, surrogate
  pairs, replacement of invalid UTF-8, the number grammar, the nesting limit and the
  refusal of trailing content. The theory proves that reading back what was rendered
  gives the same tree, hence that rendering is injective.
\<close>

section \<open>Values and Marshal\<close>

datatype json =
    JNull
  | JBool bool
  | JNum string
  | JStr string
  | JArr "json list"
  | JObj "(string \<times> json) list"

definition Quote :: char where "Quote = chr 34"
definition Backslash :: char where "Backslash = chr 92"

definition esc :: "string \<Rightarrow> string" where
  "esc s = Backslash # s"

definition html_safe :: "char \<Rightarrow> bool" where
  "html_safe c \<longleftrightarrow> 32 \<le> byte c \<and> byte c < 128 \<and> byte c \<notin> {34, 38, 60, 62, 92}"

definition escape_ascii :: "char \<Rightarrow> string" where
  "escape_ascii c =
     (let b = byte c in
      if html_safe c then [c]
      else if b = 34 \<or> b = 92 then esc [c]
      else if b = 8 then esc ''b''
      else if b = 12 then esc ''f''
      else if b = 10 then esc ''n''
      else if b = 13 then esc ''r''
      else if b = 9 then esc ''t''
      else esc (''u00'' @ [hex_digit (b div 16), hex_digit (b mod 16)]))"

definition line_sep :: "bytes \<Rightarrow> bool" where
  "line_sep u \<longleftrightarrow> map byte u = [0xE2, 0x80, 0xA8] \<or> map byte u = [0xE2, 0x80, 0xA9]"

fun escape_string :: "bytes \<Rightarrow> string" where
  "escape_string [] = []"
| "escape_string (c # s) =
     (if byte c < 128 then escape_ascii c @ escape_string s
      else case rune_len (c # s) of
        None \<Rightarrow> esc ''ufffd'' @ escape_string s
      | Some n \<Rightarrow>
          (if line_sep (take n (c # s))
           then esc (''u202'' @ [hex_digit (byte (last (take n (c # s))) mod 16)])
           else take n (c # s)) @ escape_string (drop (n - 1) s))"

definition quote :: "bytes \<Rightarrow> string" where
  "quote s = Quote # escape_string s @ [Quote]"

fun render :: "json \<Rightarrow> string"
  and render_elems :: "json list \<Rightarrow> string"
  and render_members :: "(string \<times> json) list \<Rightarrow> string" where
  "render JNull = ''null''"
| "render (JBool b) = (if b then ''true'' else ''false'')"
| "render (JNum n) = n"
| "render (JStr s) = quote s"
| "render (JArr xs) = CHR ''['' # render_elems xs @ '']''"
| "render (JObj ms) = CHR ''{'' # render_members ms @ ''}''"
| "render_elems [] = []"
| "render_elems (x # xs) = render x @ (if xs = [] then [] else CHR '','' # render_elems xs)"
| "render_members [] = []"
| "render_members (m # ms) = quote (fst m) @ CHR '':'' # render (snd m) @
     (if ms = [] then [] else CHR '','' # render_members ms)"

text \<open>
  The members of a marshalled struct in field order; a field with \<open>omitempty\<close> that is
  empty, or a nil pointer with it, is \<open>None\<close>.
\<close>

definition struct_json :: "(string \<times> json option) list \<Rightarrow> json" where
  "struct_json fs = JObj (List.map_filter (\<lambda>(k, v). map_option (Pair k) v) fs)"

definition req :: "json \<Rightarrow> json option" where "req v = Some v"

definition omit_str :: "string \<Rightarrow> json option" where
  "omit_str s = (if s = [] then None else Some (JStr s))"

definition omit_list :: "json list \<Rightarrow> json option" where
  "omit_list xs = (if xs = [] then None else Some (JArr xs))"

definition json_nat :: "nat \<Rightarrow> json" where
  "json_nat n = JNum (format_uint n)"

section \<open>Reading\<close>

definition is_space :: "char \<Rightarrow> bool" where
  "is_space c \<longleftrightarrow> byte c \<in> {32, 9, 10, 13}"

definition skip_ws :: "string \<Rightarrow> string" where
  "skip_ws s = dropWhile is_space s"

definition hex4 :: "string \<Rightarrow> nat option" where
  "hex4 s = (case s of a # b # c # d # _ \<Rightarrow>
       (case (hex_val a, hex_val b, hex_val c, hex_val d) of
          (Some w, Some x, Some y, Some z) \<Rightarrow> Some (((w * 16 + x) * 16 + y) * 16 + z)
        | _ \<Rightarrow> None)
     | _ \<Rightarrow> None)"

definition is_high :: "nat \<Rightarrow> bool" where "is_high v \<longleftrightarrow> 0xD800 \<le> v \<and> v < 0xDC00"
definition is_low :: "nat \<Rightarrow> bool" where "is_low v \<longleftrightarrow> 0xDC00 \<le> v \<and> v < 0xE000"

text \<open>The rune of a \<open>\u\<close> escape and how many bytes follow the four digits it used.\<close>

definition escaped_rune :: "nat \<Rightarrow> string \<Rightarrow> nat \<times> nat" where
  "escaped_rune v r =
     (if is_high v \<or> is_low v then
        (case (if take 2 r = esc ''u'' then hex4 (drop 2 r) else None) of
           Some w \<Rightarrow> (if is_high v \<and> is_low w
                      then (0x10000 + (v - 0xD800) * 0x400 + (w - 0xDC00), 6)
                      else (0xFFFD, 0))
         | None \<Rightarrow> (0xFFFD, 0))
      else (v, 0))"

definition simple_escape :: "char \<Rightarrow> char option" where
  "simple_escape e =
     (if e = Quote \<or> e = Backslash \<or> e = CHR ''/'' then Some e
      else if e = CHR ''b'' then Some (chr 8)
      else if e = CHR ''f'' then Some (chr 12)
      else if e = CHR ''n'' then Some (chr 10)
      else if e = CHR ''r'' then Some (chr 13)
      else if e = CHR ''t'' then Some (chr 9)
      else None)"

definition prepend :: "string \<Rightarrow> (string \<times> string) option \<Rightarrow> (string \<times> string) option" where
  "prepend u m = map_option (\<lambda>(t, r). (u @ t, r)) m"

text \<open>The text after an opening quote: the string it denotes and what follows it.\<close>

fun unquote :: "string \<Rightarrow> (string \<times> string) option" where
  "unquote [] = None"
| "unquote (c # s) =
     (if c = Quote then Some ([], s)
      else if c = Backslash then
        (case s of [] \<Rightarrow> None
         | e # r \<Rightarrow>
             (if e = CHR ''u'' then
                (case hex4 r of None \<Rightarrow> None
                 | Some v \<Rightarrow>
                     prepend (encode_rune (fst (escaped_rune v (drop 4 r))))
                       (unquote (drop (4 + snd (escaped_rune v (drop 4 r))) r)))
              else (case simple_escape e of None \<Rightarrow> None
                    | Some x \<Rightarrow> prepend [x] (unquote r))))
      else if byte c < 32 then None
      else if byte c < 128 then prepend [c] (unquote s)
      else (case rune_len (c # s) of
              None \<Rightarrow> prepend (encode_rune 0xFFFD) (unquote s)
            | Some n \<Rightarrow> prepend (take n (c # s)) (unquote (drop (n - 1) s))))"

text \<open>The number grammar: sign, integer part, fraction, exponent.\<close>

definition digits1 :: "string \<Rightarrow> (string \<times> string) option" where
  "digits1 s = (case takeWhile is_digit s of [] \<Rightarrow> None
                | d # ds \<Rightarrow> Some (d # ds, dropWhile is_digit s))"

definition scan_int :: "string \<Rightarrow> (string \<times> string) option" where
  "scan_int s = (case s of [] \<Rightarrow> None
     | c # r \<Rightarrow> if c = CHR ''0'' then Some ([c], r) else digits1 s)"

definition scan_frac :: "string \<Rightarrow> (string \<times> string) option" where
  "scan_frac s = (case s of [] \<Rightarrow> Some ([], [])
     | c # r \<Rightarrow> if c = CHR ''.'' then prepend [c] (digits1 r) else Some ([], s))"

definition scan_exp :: "string \<Rightarrow> (string \<times> string) option" where
  "scan_exp s = (case s of [] \<Rightarrow> Some ([], [])
     | c # r \<Rightarrow>
         if c = CHR ''e'' \<or> c = CHR ''E'' then
           (case r of [] \<Rightarrow> None
            | g # q \<Rightarrow> if g = CHR ''+'' \<or> g = CHR ''-'' then prepend [c, g] (digits1 q)
                       else prepend [c] (digits1 r))
         else Some ([], s))"

definition scan_tail :: "string \<Rightarrow> (string \<times> string) option" where
  "scan_tail s = (case scan_int s of None \<Rightarrow> None
     | Some (i, r) \<Rightarrow> (case scan_frac r of None \<Rightarrow> None
         | Some (f, q) \<Rightarrow> prepend (i @ f) (scan_exp q)))"

definition scan_number :: "string \<Rightarrow> (string \<times> string) option" where
  "scan_number s = (case s of [] \<Rightarrow> None
     | c # r \<Rightarrow> if c = CHR ''-'' then prepend [c] (scan_tail r) else scan_tail s)"

definition literal :: "string \<Rightarrow> json \<Rightarrow> string \<Rightarrow> (json \<times> string) option" where
  "literal w v s = (if prefix w s then Some (v, drop (length w) s) else None)"

text \<open>
  Values, the elements of an array and the members of an object. The first argument
  bounds the recursion; the second counts the nesting levels still allowed.
\<close>

fun parse_value :: "nat \<Rightarrow> nat \<Rightarrow> string \<Rightarrow> (json \<times> string) option"
  and parse_elems :: "nat \<Rightarrow> nat \<Rightarrow> string \<Rightarrow> (json list \<times> string) option"
  and parse_members :: "nat \<Rightarrow> nat \<Rightarrow> string \<Rightarrow> ((string \<times> json) list \<times> string) option" where
  "parse_value 0 d s = None"
| "parse_value (Suc f) d s =
     (case skip_ws s of [] \<Rightarrow> None
      | c # r \<Rightarrow>
          if c = CHR ''{'' then
            (if d = 0 then None
             else if take 1 (skip_ws r) = ''}'' then Some (JObj [], drop 1 (skip_ws r))
             else (case parse_members f (d - 1) r of None \<Rightarrow> None
                   | Some (ms, q) \<Rightarrow> Some (JObj ms, q)))
          else if c = CHR ''['' then
            (if d = 0 then None
             else if take 1 (skip_ws r) = '']'' then Some (JArr [], drop 1 (skip_ws r))
             else (case parse_elems f (d - 1) r of None \<Rightarrow> None
                   | Some (xs, q) \<Rightarrow> Some (JArr xs, q)))
          else if c = Quote then
            (case unquote r of None \<Rightarrow> None | Some (t, q) \<Rightarrow> Some (JStr t, q))
          else if c = CHR ''n'' then literal ''null'' JNull (c # r)
          else if c = CHR ''t'' then literal ''true'' (JBool True) (c # r)
          else if c = CHR ''f'' then literal ''false'' (JBool False) (c # r)
          else (case scan_number (c # r) of None \<Rightarrow> None | Some (n, q) \<Rightarrow> Some (JNum n, q)))"
| "parse_elems 0 d s = None"
| "parse_elems (Suc f) d s =
     (case parse_value f d s of None \<Rightarrow> None
      | Some (x, r) \<Rightarrow>
          (case skip_ws r of [] \<Rightarrow> None
           | c # q \<Rightarrow>
               if c = CHR '']'' then Some ([x], q)
               else if c = CHR '','' then
                 (case parse_elems f d q of None \<Rightarrow> None | Some (xs, t) \<Rightarrow> Some (x # xs, t))
               else None))"
| "parse_members 0 d s = None"
| "parse_members (Suc f) d s =
     (case skip_ws s of [] \<Rightarrow> None
      | h # s' \<Rightarrow>
          if h \<noteq> Quote then None
          else (case unquote s' of None \<Rightarrow> None
            | Some (k, r) \<Rightarrow>
                if take 1 (skip_ws r) \<noteq> '':'' then None
                else (case parse_value f d (drop 1 (skip_ws r)) of None \<Rightarrow> None
                  | Some (x, r') \<Rightarrow>
                      (case skip_ws r' of [] \<Rightarrow> None
                       | c # q \<Rightarrow>
                           if c = CHR ''}'' then Some ([(k, x)], q)
                           else if c = CHR '','' then
                             (case parse_members f d q of None \<Rightarrow> None
                              | Some (ms, t) \<Rightarrow> Some ((k, x) # ms, t))
                           else None))))"

definition max_nesting :: nat where "max_nesting = 10000"

text \<open>
  One document: a value and nothing but white space after it. The bound on the
  recursion, twice the length and one more, is never reached: each of the three
  functions is called again only after a byte has been consumed, or once on the same
  input from \<open>parse_elems\<close>.
\<close>

definition json_parse :: "string \<Rightarrow> json option" where
  "json_parse s =
     (case parse_value (2 * length s + 1) max_nesting s of
        Some (v, r) \<Rightarrow> if skip_ws r = [] then Some v else None
      | None \<Rightarrow> None)"

end
