(* ===== verification/Go_Json_Laws.thy ===== *)
theory Go_Json_Laws
  imports Go_Json
begin

text \<open>
  Laws of the JSON layer. Reading a quoted string gives the string back for valid
  UTF-8; reading a rendered tree gives the tree back, for trees whose strings are valid
  UTF-8, whose numbers are canonical decimals and whose nesting is within the limit.
  Rendering is therefore injective on such trees. The bound on the recursion of the
  reader never decides a result.
\<close>

section \<open>Characters\<close>

lemma eq_chr: "n < 256 \<Longrightarrow> c = chr n \<longleftrightarrow> byte c = n"
  by (metis byte_chr chr_byte)

lemma char_literals:
  "byte (CHR ''u'') = 117" "byte (CHR ''b'') = 98" "byte (CHR ''f'') = 102"
  "byte (CHR ''n'') = 110" "byte (CHR ''r'') = 114" "byte (CHR ''t'') = 116"
  "byte (CHR ''/'') = 47" "byte (CHR ''0'') = 48" "byte (CHR ''{'') = 123"
  "byte (CHR ''}'') = 125" "byte (CHR ''['') = 91" "byte (CHR '']'') = 93"
  "byte (CHR '','') = 44" "byte (CHR '':'') = 58" "byte (CHR ''-'') = 45"
  "byte (CHR ''.'') = 46" "byte (CHR ''e'') = 101" "byte (CHR ''E'') = 69"
  "byte (CHR ''+'') = 43" "byte (CHR ''2'') = 50"
  by (simp_all add: byte_def)

lemma eq_literals:
  "c = CHR ''u'' \<longleftrightarrow> byte c = 117" "c = CHR ''b'' \<longleftrightarrow> byte c = 98" "c = CHR ''f'' \<longleftrightarrow> byte c = 102"
  "c = CHR ''n'' \<longleftrightarrow> byte c = 110" "c = CHR ''r'' \<longleftrightarrow> byte c = 114" "c = CHR ''t'' \<longleftrightarrow> byte c = 116"
  "c = CHR ''/'' \<longleftrightarrow> byte c = 47" "c = CHR ''0'' \<longleftrightarrow> byte c = 48" "c = CHR ''{'' \<longleftrightarrow> byte c = 123"
  "c = CHR ''}'' \<longleftrightarrow> byte c = 125" "c = CHR ''['' \<longleftrightarrow> byte c = 91" "c = CHR '']'' \<longleftrightarrow> byte c = 93"
  "c = CHR '','' \<longleftrightarrow> byte c = 44" "c = CHR '':'' \<longleftrightarrow> byte c = 58" "c = CHR ''-'' \<longleftrightarrow> byte c = 45"
  "c = CHR ''.'' \<longleftrightarrow> byte c = 46" "c = CHR ''e'' \<longleftrightarrow> byte c = 101" "c = CHR ''E'' \<longleftrightarrow> byte c = 69"
  "c = CHR ''+'' \<longleftrightarrow> byte c = 43"
  by (metis byte_eq_iff char_literals)+

lemma byte_Quote [simp]: "byte Quote = 34" and byte_Backslash [simp]: "byte Backslash = 92"
  by (simp_all add: Quote_def Backslash_def byte_chr)

lemma eq_Quote: "c = Quote \<longleftrightarrow> byte c = 34" and eq_Backslash: "c = Backslash \<longleftrightarrow> byte c = 92"
  by (simp_all add: Quote_def Backslash_def eq_chr)

lemma prepend_Some [simp]: "prepend u (Some (t, r)) = Some (u @ t, r)"
  and prepend_None [simp]: "prepend u None = None"
  by (simp_all add: prepend_def)

section \<open>Strings\<close>

lemma hex4_two_zeros:
  assumes "m < 16" "n < 16"
  shows "hex4 (CHR ''0'' # CHR ''0'' # hex_digit m # hex_digit n # r) = Some (m * 16 + n)"
proof -
  have "hex_val (CHR ''0'') = Some 0" by (simp add: hex_val_def char_literals)
  with assms show ?thesis by (simp add: hex4_def hex_val_digit)
qed

lemma hex4_202:
  assumes "n < 16"
  shows "hex4 (CHR ''2'' # CHR ''0'' # CHR ''2'' # hex_digit n # r) = Some (0x2020 + n)"
proof -
  have "hex_val (CHR ''0'') = Some 0" "hex_val (CHR ''2'') = Some 2"
    by (simp_all add: hex_val_def char_literals)
  with assms show ?thesis by (simp add: hex4_def hex_val_digit)
qed

lemma escaped_rune_plain: "v < 0xD800 \<Longrightarrow> escaped_rune v r = (v, 0)"
  by (simp add: escaped_rune_def is_high_def is_low_def)

lemma unquote_u:
  "hex4 r = Some v \<Longrightarrow> v < 0xD800 \<Longrightarrow>
   unquote (Backslash # CHR ''u'' # r) = prepend (encode_rune v) (unquote (drop 4 r))"
  by (simp add: escaped_rune_plain eq_Quote)

lemma unquote_simple:
  "simple_escape e = Some x \<Longrightarrow> unquote (Backslash # e # r) = prepend [x] (unquote r)"
  by (auto simp: eq_Quote simple_escape_def eq_Backslash eq_literals split: if_splits)

lemma unquote_ascii:
  assumes "byte c < 128"
  shows "unquote (escape_ascii c @ r) = prepend [c] (unquote r)"
proof (cases "html_safe c")
  case True
  then show ?thesis by (simp add: escape_ascii_def html_safe_def eq_Quote eq_Backslash)
next
  case False
  have simples: "simple_escape Quote = Some Quote" "simple_escape Backslash = Some Backslash"
    "simple_escape (CHR ''b'') = Some (chr 8)" "simple_escape (CHR ''f'') = Some (chr 12)"
    "simple_escape (CHR ''n'') = Some (chr 10)" "simple_escape (CHR ''r'') = Some (chr 13)"
    "simple_escape (CHR ''t'') = Some (chr 9)"
    by (simp_all add: simple_escape_def eq_Quote eq_Backslash char_literals)
  consider "c \<in> {Quote, Backslash, chr 8, chr 12, chr 10, chr 13, chr 9}"
    | "byte c \<notin> {34, 92, 8, 12, 10, 13, 9}"
    by (auto simp: eq_chr eq_Quote eq_Backslash)
  then show ?thesis
  proof cases
    case 1
    with False simples show ?thesis
      by (auto simp: escape_ascii_def Let_def byte_chr esc_def unquote_simple simp del: unquote.simps)
  next
    case 2
    then have e: "escape_ascii c = Backslash # CHR ''u'' # CHR ''0'' # CHR ''0'' #
        [hex_digit (byte c div 16), hex_digit (byte c mod 16)]"
      using False by (simp add: escape_ascii_def Let_def esc_def)
    have "byte c div 16 < 16" using byte_less [of c] by linarith
    then have "hex4 (CHR ''0'' # CHR ''0'' # hex_digit (byte c div 16) # hex_digit (byte c mod 16) # r)
        = Some (byte c)"
      by (simp add: hex4_two_zeros)
    then show ?thesis using assms unquote_u [where v = "byte c"]
      by (simp add: e encode_rune_def del: unquote.simps)
  qed
qed

lemma unquote_line_sep:
  assumes "line_sep u"
  shows "unquote (esc (''u202'' @ [hex_digit (byte (last u) mod 16)]) @ r) = prepend u (unquote r)"
proof -
  have len: "length u = 3" using assms by (auto simp: line_sep_def dest: arg_cong [of _ _ length])
  then obtain a b c where u: "u = [a, b, c]"
    by (auto simp: numeral_3_eq_3 length_Suc_conv)
  with assms have bs: "byte a = 0xE2" "byte b = 0x80" "byte c = 0xA8 \<or> byte c = 0xA9"
    by (auto simp: line_sep_def)
  then have "u = [chr 0xE2, chr 0x80, chr (byte c)]"
    unfolding u by (metis chr_byte)
  then have "encode_rune (0x2020 + byte c mod 16) = u"
    using bs(3) by (elim disjE) (simp_all add: encode_rune_def del: chr_byte)
  then show ?thesis
    using hex4_202 [where n = "byte c mod 16" and r = r] unquote_u [where v = "0x2020 + byte c mod 16"] bs
    by (auto simp: u esc_def simp del: unquote.simps)
qed

lemma unquote_multi:
  assumes "rune_len (c # s) = Some n" "128 \<le> byte c"
  shows "unquote (take n (c # s) @ r) = prepend (take n (c # s)) (unquote r)"
proof -
  from rune_len_bounds [OF assms(1)] have n: "0 < n" "n \<le> Suc (length s)" by auto
  then have t: "take n (c # s) = c # take (n - 1) s" by (simp add: take_Cons')
  from rune_len_take_append [OF assms(1)] have "rune_len (c # take (n - 1) s @ r) = Some n"
    by (simp add: t)
  then show ?thesis using assms(2) n by (simp add: t eq_Quote eq_Backslash take_Cons')
qed

lemma unquote_escape:
  "valid_utf8 s \<Longrightarrow> unquote (escape_string s @ Quote # r) = Some (s, r)"
proof (induction s rule: escape_string.induct)
  case 1
  then show ?case by simp
next
  case (2 c s)
  show ?case
  proof (cases "byte c < 128")
    case True
    with 2 have "valid_utf8 s" by (simp add: rune_len_ascii)
    with 2 True show ?thesis by (simp add: unquote_ascii del: unquote.simps)
  next
    case False
    from "2.prems" obtain n where n: "rune_len (c # s) = Some n" and v: "valid_utf8 (drop (n - 1) s)"
      by (auto split: option.splits)
    from rune_len_bounds [OF n] have "0 < n" by simp
    then have s: "take n (c # s) @ drop (n - 1) s = c # s" by (simp add: take_Cons')
    from "2.IH"(3) [OF False n v] have IH: "unquote (escape_string (drop (n - 1) s) @ Quote # r)
        = Some (drop (n - 1) s, r)" .
    show ?thesis
    proof (cases "line_sep (take n (c # s))")
      case True
      then show ?thesis using False n IH s
          unquote_line_sep [OF True, of "escape_string (drop (n - 1) s) @ Quote # r"]
        by (simp del: unquote.simps)
    next
      case nl: False
      then show ?thesis using False n IH s unquote_multi [OF n, of "escape_string (drop (n - 1) s) @ Quote # r"]
        by (simp del: unquote.simps)
    qed
  qed
qed

lemma unquote_quote: "valid_utf8 s \<Longrightarrow> \<exists>q. quote s @ r = Quote # q \<and> unquote q = Some (s, r)"
  using unquote_escape by (simp add: quote_def)

section \<open>Numbers\<close>

lemma takeWhile_digits:
  assumes "list_all is_digit n" "r = [] \<or> \<not> is_digit (hd r)"
  shows "takeWhile is_digit (n @ r) = n \<and> dropWhile is_digit (n @ r) = r"
  using assms by (cases r) (auto simp: list_all_iff takeWhile_append2 dropWhile_append2)

text \<open>What may follow a number: nothing, or a byte that cannot continue it.\<close>

definition ends_number :: "string \<Rightarrow> bool" where
  "ends_number r \<longleftrightarrow> r = [] \<or> byte (hd r) \<in> {44, 93, 125}"

lemma scan_rest: "ends_number r \<Longrightarrow> scan_frac r = Some ([], r) \<and> scan_exp r = Some ([], r)"
  by (cases r) (auto simp: ends_number_def scan_frac_def scan_exp_def eq_literals)

lemma scan_int_decimal:
  assumes "canonical_decimal n" "ends_number r"
  shows "scan_int (n @ r) = Some (n, r)"
proof -
  from assms(1) obtain c t where n: "n = c # t" by (cases n) (auto simp: canonical_decimal_def)
  show ?thesis
  proof (cases "c = CHR ''0''")
    case True
    with assms(1) n have "t = []" by (auto simp: canonical_decimal_def)
    with True n show ?thesis by (simp add: scan_int_def)
  next
    case False
    have "r = [] \<or> \<not> is_digit (hd r)" using assms(2) by (auto simp: ends_number_def is_digit_def)
    then have "takeWhile is_digit (n @ r) = n \<and> dropWhile is_digit (n @ r) = r"
      using assms(1) by (intro takeWhile_digits) (simp_all add: canonical_decimal_def)
    then show ?thesis using False n by (simp add: scan_int_def digits1_def)
  qed
qed

lemma scan_number_decimal:
  assumes "canonical_decimal n" "ends_number r"
  shows "scan_number (n @ r) = Some (n, r)"
proof -
  from assms(1) obtain c t where n: "n = c # t" "is_digit c" by (cases n) (auto simp: canonical_decimal_def)
  then have "c \<noteq> CHR ''-''" by (auto simp: is_digit_def eq_literals)
  then show ?thesis using n scan_int_decimal [OF assms] scan_rest [OF assms(2)]
    by (simp add: scan_number_def scan_tail_def)
qed

section \<open>Trees\<close>

text \<open>
  The trees the program renders: valid UTF-8 text, canonical decimal numbers. The
  measures of a tree: its nesting and the recursion the reader needs for it.
\<close>

fun wf_json :: "json \<Rightarrow> bool"
  and wf_elems :: "json list \<Rightarrow> bool"
  and wf_members :: "(string \<times> json) list \<Rightarrow> bool" where
  "wf_json JNull = True"
| "wf_json (JBool b) = True"
| "wf_json (JNum n) = canonical_decimal n"
| "wf_json (JStr s) = valid_utf8 s"
| "wf_json (JArr xs) = wf_elems xs"
| "wf_json (JObj ms) = wf_members ms"
| "wf_elems [] = True"
| "wf_elems (x # xs) = (wf_json x \<and> wf_elems xs)"
| "wf_members [] = True"
| "wf_members (m # ms) = (valid_utf8 (fst m) \<and> wf_json (snd m) \<and> wf_members ms)"

fun nesting :: "json \<Rightarrow> nat"
  and nesting_elems :: "json list \<Rightarrow> nat"
  and nesting_members :: "(string \<times> json) list \<Rightarrow> nat" where
  "nesting JNull = 0"
| "nesting (JBool b) = 0"
| "nesting (JNum n) = 0"
| "nesting (JStr s) = 0"
| "nesting (JArr xs) = Suc (nesting_elems xs)"
| "nesting (JObj ms) = Suc (nesting_members ms)"
| "nesting_elems [] = 0"
| "nesting_elems (x # xs) = max (nesting x) (nesting_elems xs)"
| "nesting_members [] = 0"
| "nesting_members (m # ms) = max (nesting (snd m)) (nesting_members ms)"

lemma wf_elems_iff: "wf_elems xs \<longleftrightarrow> list_all wf_json xs"
  by (induction xs) auto

lemma wf_members_iff: "wf_members ms \<longleftrightarrow> list_all (\<lambda>m. valid_utf8 (fst m) \<and> wf_json (snd m)) ms"
  by (induction ms) auto

text \<open>The first byte of a rendered tree is not white space and tells its kind.\<close>

lemma skip_ws_nonspace: "s \<noteq> [] \<Longrightarrow> \<not> is_space (hd s) \<Longrightarrow> skip_ws (s @ r) = s @ r"
  by (cases s) (simp_all add: skip_ws_def)

lemma skip_ws_Cons: "\<not> is_space c \<Longrightarrow> skip_ws (c # r) = c # r"
  by (simp add: skip_ws_def)

lemma not_space [simp]:
  "\<not> is_space Quote" "\<not> is_space (CHR '','')" "\<not> is_space (CHR '':'')"
  "\<not> is_space (CHR '']'')" "\<not> is_space (CHR ''}'')" "\<not> is_space (CHR ''['')" "\<not> is_space (CHR ''{'')"
  by (simp_all add: is_space_def char_literals)

lemma render_head:
  "wf_json j \<Longrightarrow> \<exists>c t. render j = c # t \<and> \<not> is_space c \<and> byte c \<noteq> 93 \<and> byte c \<noteq> 125"
proof (cases j)
  case (JNum n)
  assume "wf_json j"
  with JNum obtain c t where "n = c # t" "is_digit c" by (cases n) (auto simp: canonical_decimal_def)
  with JNum show ?thesis by (auto simp: is_space_def is_digit_def)
qed (auto simp: is_space_def char_literals quote_def)

lemma ends_number_close [simp]:
  "ends_number (CHR '','' # r)" "ends_number (CHR '']'' # r)" "ends_number (CHR ''}'' # r)"
  "ends_number []"
  by (simp_all add: ends_number_def char_literals)

lemma parse_value_nonspace:
  "\<not> is_space c \<Longrightarrow> skip_ws (c # s) = c # s"
  by (simp add: skip_ws_def)

lemma parse_number:
  assumes "canonical_decimal n" "ends_number r"
  shows "parse_value (Suc f) d (n @ r) = Some (JNum n, r)"
proof -
  from assms(1) obtain c t where n: "n = c # t" "is_digit c" by (cases n) (auto simp: canonical_decimal_def)
  then have "byte c \<in> {48..57}" "\<not> is_space c" by (auto simp: is_digit_def is_space_def)
  then show ?thesis using scan_number_decimal [OF assms] n
    by (auto simp: parse_value_nonspace eq_literals eq_Quote)
qed

lemma parse_string:
  assumes "valid_utf8 s"
  shows "parse_value (Suc f) d (quote s @ r) = Some (JStr s, r)"
  using unquote_quote [OF assms, of r] by (auto simp: parse_value_nonspace eq_literals)

lemma parse_array:
  assumes "d \<noteq> 0" "\<exists>c t. s = c # t \<and> \<not> is_space c \<and> byte c \<noteq> 93"
    and "parse_elems f (d - 1) (s @ r) = Some (xs, q)"
  shows "parse_value (Suc f) d (CHR ''['' # s @ r) = Some (JArr xs, q)"
  using assms by (auto simp: parse_value_nonspace eq_literals char_literals)

lemma parse_object:
  assumes "d \<noteq> 0" "\<exists>c t. s = c # t \<and> \<not> is_space c \<and> byte c \<noteq> 125"
    and "parse_members f (d - 1) (s @ r) = Some (ms, q)"
  shows "parse_value (Suc f) d (CHR ''{'' # s @ r) = Some (JObj ms, q)"
  using assms by (auto simp: parse_value_nonspace eq_literals char_literals)

lemma parse_empty:
  "d \<noteq> 0 \<Longrightarrow> parse_value (Suc f) d (CHR ''['' # CHR '']'' # r) = Some (JArr [], r)"
  "d \<noteq> 0 \<Longrightarrow> parse_value (Suc f) d (CHR ''{'' # CHR ''}'' # r) = Some (JObj [], r)"
  by (auto simp: parse_value_nonspace eq_literals char_literals eq_Quote)

lemma parse_literals:
  "parse_value (Suc f) d (''null'' @ r) = Some (JNull, r)"
  "parse_value (Suc f) d (''true'' @ r) = Some (JBool True, r)"
  "parse_value (Suc f) d (''false'' @ r) = Some (JBool False, r)"
  by (simp_all add: parse_value_nonspace is_space_def char_literals eq_Quote literal_def)

lemma render_elems_head:
  "wf_elems xs \<Longrightarrow> xs \<noteq> [] \<Longrightarrow> \<exists>c t. render_elems xs = c # t \<and> \<not> is_space c \<and> byte c \<noteq> 93"
  using render_head by (cases xs) fastforce+

lemma render_members_head:
  "ms \<noteq> [] \<Longrightarrow> \<exists>c t. render_members ms = c # t \<and> \<not> is_space c \<and> byte c \<noteq> 125"
  by (cases ms) (auto simp: quote_def)

lemma parse_elems_end:
  "parse_value f d s = Some (x, CHR '']'' # r) \<Longrightarrow> parse_elems (Suc f) d s = Some ([x], r)"
  by (simp add: parse_value_nonspace)

lemma parse_elems_more:
  "parse_value f d s = Some (x, CHR '','' # t) \<Longrightarrow> parse_elems f d t = Some (xs, r) \<Longrightarrow>
   parse_elems (Suc f) d s = Some (x # xs, r)"
  by (simp add: parse_value_nonspace char_literals eq_literals)

lemma parse_members_end:
  assumes "valid_utf8 k" "parse_value f d s = Some (x, CHR ''}'' # r)"
  shows "parse_members (Suc f) d (quote k @ CHR '':'' # s) = Some ([(k, x)], r)"
  using unquote_quote [OF assms(1), of "CHR '':'' # s"] assms(2) by (auto simp: parse_value_nonspace)

lemma parse_members_more:
  assumes "valid_utf8 k" "parse_value f d s = Some (x, CHR '','' # t)" "parse_members f d t = Some (ms, r)"
  shows "parse_members (Suc f) d (quote k @ CHR '':'' # s) = Some ((k, x) # ms, r)"
  using unquote_quote [OF assms(1), of "CHR '':'' # s"] assms(2,3)
  by (auto simp: parse_value_nonspace char_literals eq_literals)

lemma parse_render_array:
  assumes "d \<noteq> 0" "wf_elems xs"
    and "xs \<noteq> [] \<Longrightarrow> parse_elems f (d - 1) (render_elems xs @ CHR '']'' # r) = Some (xs, r)"
  shows "parse_value (Suc f) d (render (JArr xs) @ r) = Some (JArr xs, r)"
  using assms parse_array [OF assms(1) render_elems_head [OF assms(2)]]
  by (cases "xs = []") (simp_all add: parse_empty del: parse_value.simps(2))

lemma parse_render_object:
  assumes "d \<noteq> 0"
    and "ms \<noteq> [] \<Longrightarrow> parse_members f (d - 1) (render_members ms @ CHR ''}'' # r) = Some (ms, r)"
  shows "parse_value (Suc f) d (render (JObj ms) @ r) = Some (JObj ms, r)"
  using assms parse_object [OF assms(1) render_members_head]
  by (cases "ms = []") (simp_all add: parse_empty del: parse_value.simps(2))

theorem parse_render:
  shows "wf_json j \<Longrightarrow> nesting j \<le> d \<Longrightarrow> ends_number r \<Longrightarrow> 2 * length (render j) < f \<Longrightarrow>
      parse_value f d (render j @ r) = Some (j, r)"
    and "wf_elems xs \<Longrightarrow> nesting_elems xs \<le> d \<Longrightarrow> xs \<noteq> [] \<Longrightarrow>
      2 * length (render_elems xs) + 1 < f \<Longrightarrow>
      parse_elems f d (render_elems xs @ CHR '']'' # r) = Some (xs, r)"
    and "wf_members ms \<Longrightarrow> nesting_members ms \<le> d \<Longrightarrow> ms \<noteq> [] \<Longrightarrow>
      2 * length (render_members ms) + 1 < f \<Longrightarrow>
      parse_members f d (render_members ms @ CHR ''}'' # r) = Some (ms, r)"
proof (induction j and xs and ms arbitrary: f d r and f d r and f d r rule: render_render_elems_render_members.induct)
  case 1
  then show ?case by (cases f) (simp_all only: parse_literals render.simps)
next
  case (2 b)
  then show ?case by (cases f; cases b) (simp_all add: parse_literals [simplified])
next
  case (3 n)
  then show ?case by (cases f) (simp_all add: parse_number del: parse_value.simps(2))
next
  case (4 s)
  then show ?case by (cases f) (simp_all add: parse_string del: parse_value.simps(2))
next
  case (5 xs)
  then obtain g where f: "f = Suc g" by (cases f) auto
  with "5.prems" have "2 * length (render_elems xs) + 1 < g" by simp
  with 5 f show ?case by (auto simp del: render.simps parse_value.simps(2) intro!: parse_render_array "5.IH")
next
  case (6 ms)
  then obtain g where f: "f = Suc g" by (cases f) auto
  with "6.prems" have "2 * length (render_members ms) + 1 < g" by simp
  with 6 f show ?case by (auto simp del: render.simps parse_value.simps(2) intro!: parse_render_object "6.IH")
next
  case (8 x xs)
  then obtain g where f: "f = Suc g" by (cases f) auto
  show ?case
  proof (cases "xs = []")
    case True
    with "8.prems" f "8.IH"(1) [of d "CHR '']'' # r" g] show ?thesis
      by (simp add: parse_elems_end del: parse_elems.simps)
  next
    case False
    let ?q = "CHR '','' # render_elems xs @ CHR '']'' # r"
    from "8.prems" f False have "parse_value g d (render x @ ?q) = Some (x, ?q)"
      "parse_elems g d (render_elems xs @ CHR '']'' # r) = Some (xs, r)"
      by (auto intro!: "8.IH")
    from parse_elems_more [OF this] f False show ?thesis by simp
  qed
next
  case (10 m ms)
  then obtain g where f: "f = Suc g" by (cases f) auto
  obtain k x where m: "m = (k, x)" by (cases m)
  show ?case
  proof (cases "ms = []")
    case True
    with "10.prems" f m "10.IH"(1) [of d "CHR ''}'' # r" g] show ?thesis
      by (simp add: parse_members_end del: parse_members.simps)
  next
    case False
    let ?q = "CHR '','' # render_members ms @ CHR ''}'' # r"
    from "10.prems" f m False have "parse_value g d (render x @ ?q) = Some (x, ?q)"
      "parse_members g d (render_members ms @ CHR ''}'' # r) = Some (ms, r)"
      by (auto intro!: "10.IH" [unfolded m, simplified] simp: quote_def)
    from parse_members_more [OF _ this] "10.prems"(1) f m False show ?thesis by (simp del: parse_members.simps)
  qed
qed simp_all

corollary json_parse_render:
  "wf_json j \<Longrightarrow> nesting j \<le> max_nesting \<Longrightarrow> json_parse (render j) = Some j"
  using parse_render(1) [of j max_nesting "[]" "2 * length (render j) + 1"]
  by (simp add: json_parse_def skip_ws_def)

corollary render_inject:
  "wf_json i \<Longrightarrow> wf_json j \<Longrightarrow> nesting i \<le> max_nesting \<Longrightarrow> nesting j \<le> max_nesting \<Longrightarrow>
   render i = render j \<longleftrightarrow> i = j"
  by (metis json_parse_render option.inject)

end
