(* ===== verification/Write_Encode.thy ===== *)
theory Write_Encode
  imports Write_Validate_Laws Go_Json_Laws
begin

text \<open>
  The request encoder (\<open>write/encode.go\<close>). Each wire struct is the JSON object its field
  tags describe, in field order, with the fields that \<open>omitempty\<close> leaves out; a value
  whose \<open>MarshalJSON\<close> fails makes the whole document fail. Against it stands the abstract
  request: what a request means to the server, without the representation choices of the
  Go types. The theory proves that the wire document is a function of the abstract
  request and that the function is injective.
\<close>

section \<open>The encoder\<close>

definition decimalUint64_json :: "u64 \<Rightarrow> json" where
  "decimalUint64_json v = JStr (format_uint (unat v))"

definition decimalInt64_json :: "64 word \<Rightarrow> json" where
  "decimalInt64_json v = JStr (format_int (sint v))"

definition wireObject_json :: "w_object \<Rightarrow> json option" where
  "wireObject_json object = (case obj_tag object of
     objectEntity \<Rightarrow> Some (JStr (obj_label object))
   | objectNumber \<Rightarrow> Some (JNum (format_uint (unat (obj_number object))))
   | _ \<Rightarrow> None)"

text \<open>\<open>Object.MarshalJSON\<close>: the standalone form validates first.\<close>

definition object_MarshalJSON :: "w_object \<Rightarrow> write_error option + string" where
  "object_MarshalJSON object = (case validateObject object ''object'' of
     Some e \<Rightarrow> Inl (Some e)
   | None \<Rightarrow> (case wireObject_json object of None \<Rightarrow> Inl None | Some j \<Rightarrow> Inr (render j)))"

text \<open>\<open>encodeDeadline\<close>: the two pointer fields it sets.\<close>

definition encodeDeadline :: "deadline \<Rightarrow> json option \<times> json option" where
  "encodeDeadline dl = (case dl_tag dl of
     deadlineAfter \<Rightarrow>
       (Some (decimalUint64_json (word_of_int (sint (dl_duration dl) sdiv 1000000))), None)
   | deadlineAt \<Rightarrow> (None, Some (decimalInt64_json (fst (exactUnixNano (dl_at dl)))))
   | _ \<Rightarrow> (None, None))"

definition encodeRecord :: "w_record \<Rightarrow> json option" where
  "encodeRecord r = map_option (\<lambda>object. struct_json
     [(''subject'', req (JStr (r_Subject r))),
      (''predicate'', req (JStr (r_Predicate r))),
      (''object'', req object),
      (''tense'', omit_str (r_Tense r)),
      (''raw_text'', omit_str (r_RawText r)),
      (''mode'', omit_str (r_Mode r)),
      (''ttl_ms'', fst (encodeDeadline (r_Expiration r))),
      (''expires_at_ns'', snd (encodeDeadline (r_Expiration r)))]) (wireObject_json (r_Object r))"

definition wireExact_json :: "string \<Rightarrow> string \<Rightarrow> json \<Rightarrow> json" where
  "wireExact_json s p object = struct_json
     [(''subject'', req (JStr s)), (''predicate'', req (JStr p)), (''object'', req object)]"

definition wireSlot_json :: "string \<Rightarrow> string \<Rightarrow> json" where
  "wireSlot_json s p = struct_json [(''subject'', req (JStr s)), (''predicate'', req (JStr p))]"

definition wireRetraction_json :: "string \<Rightarrow> json option \<Rightarrow> json option \<Rightarrow> json" where
  "wireRetraction_json factID where' slot = struct_json
     [(''fact'', omit_str factID), (''where'', where'), (''slot'', slot)]"

definition encodeRetraction :: "retraction \<Rightarrow> json option" where
  "encodeRetraction t = (case rt_tag t of
     retractionFact \<Rightarrow> Some (wireRetraction_json (rt_factID t) None None)
   | retractionExact \<Rightarrow> map_option (\<lambda>object. wireRetraction_json ''''
       (Some (wireExact_json (rt_subject t) (rt_predicate t) object)) None) (wireObject_json (rt_object t))
   | retractionSlot \<Rightarrow> Some (wireRetraction_json '''' None
       (Some (wireSlot_json (rt_subject t) (rt_predicate t))))
   | _ \<Rightarrow> Some (wireRetraction_json '''' None None))"

definition encodeCorrection :: "correction \<Rightarrow> json option" where
  "encodeCorrection c = map_option (\<lambda>replacement. struct_json
     [(''supersede'', req (JStr (co_factID c))), (''with'', req replacement)])
     (encodeRecord (co_replacement c))"

definition encodeExpiration :: "expiration \<Rightarrow> json" where
  "encodeExpiration e = struct_json
     [(''fact'', req (JStr (ex_factID e))),
      (''ttl_ms'', fst (encodeDeadline (ex_deadline e))),
      (''expires_at_ns'', snd (encodeDeadline (ex_deadline e)))]"

definition encodePersistence :: "persistence \<Rightarrow> json" where
  "encodePersistence p = struct_json [(''fact'', req (JStr (pe_factID p)))]"

definition encodeVocabulary :: "vocabulary_mode \<Rightarrow> json option" where
  "encodeVocabulary v =
     (if v = '''' then None else Some (struct_json [(''on_unknown'', req (JStr v))]))"

definition encodeTransactionTime :: "tx_time \<Rightarrow> json option" where
  "encodeTransactionTime t = (case tx_tag t of
     transactionTimeAt \<Rightarrow> Some (decimalInt64_json (fst (exactUnixNano (tx_at t))))
   | transactionTimeNanoseconds \<Rightarrow> Some (decimalInt64_json (tx_nanoseconds t))
   | _ \<Rightarrow> None)"

definition wireRequest_json :: "w_request \<Rightarrow> json option" where
  "wireRequest_json q =
     (case (those (map encodeRecord (Records q)), those (map encodeRetraction (Retractions q)),
            those (map encodeCorrection (Corrections q))) of
        (Some records, Some retractions, Some corrections) \<Rightarrow> Some (struct_json
          [(''write'', req (JStr ''facts'')),
           (''record'', omit_list records),
           (''retract'', omit_list retractions),
           (''correct'', omit_list corrections),
           (''expire'', omit_list (map encodeExpiration (Expirations q))),
           (''persist'', omit_list (map encodePersistence (Persistences q))),
           (''vocabulary'', encodeVocabulary (Vocabulary q)),
           (''tx_time_ns'', encodeTransactionTime (TransactionTime q))])
      | _ \<Rightarrow> None)"

datatype encode_error = EncodeInvalid write_error | EncodeObjectUnset

definition Encode :: "w_request \<Rightarrow> encode_error + string" where
  "Encode q = (case Validate q of
     Some e \<Rightarrow> Inl (EncodeInvalid e)
   | None \<Rightarrow> (case wireRequest_json q of None \<Rightarrow> Inl EncodeObjectUnset | Some j \<Rightarrow> Inr (render j)))"

section \<open>The abstract request\<close>

datatype a_object = AEntity string | ANumber nat | ANoObject
datatype a_deadline = ANever | AAfterMs nat | AAtNs int

definition abs_object :: "w_object \<Rightarrow> a_object" where
  "abs_object x = (case obj_tag x of objectEntity \<Rightarrow> AEntity (obj_label x)
     | objectNumber \<Rightarrow> ANumber (unat (obj_number x)) | _ \<Rightarrow> ANoObject)"

definition abs_deadline :: "deadline \<Rightarrow> a_deadline" where
  "abs_deadline d = (case dl_tag d of
     deadlineAfter \<Rightarrow> AAfterMs (nat (sint (dl_duration d) div 1000000))
   | deadlineAt \<Rightarrow> AAtNs (nanos (dl_at d)) | _ \<Rightarrow> ANever)"

definition abs_tx_time :: "tx_time \<Rightarrow> int option" where
  "abs_tx_time t = (case tx_tag t of transactionTimeAt \<Rightarrow> Some (nanos (tx_at t))
     | transactionTimeNanoseconds \<Rightarrow> Some (sint (tx_nanoseconds t)) | _ \<Rightarrow> None)"

datatype a_record = ARecord (a_subject: string) (a_predicate: string) (a_object: a_object)
  (a_tense: string) (a_raw: string) (a_mode: string) (a_deadline: a_deadline)

definition abs_record :: "w_record \<Rightarrow> a_record" where
  "abs_record r = ARecord (r_Subject r) (r_Predicate r) (abs_object (r_Object r)) (r_Tense r)
     (r_RawText r) (r_Mode r) (abs_deadline (r_Expiration r))"

datatype a_retraction = AFact string | AWhere string string a_object | ASlot string string | ANoSelector

definition abs_retraction :: "retraction \<Rightarrow> a_retraction" where
  "abs_retraction t = (case rt_tag t of retractionFact \<Rightarrow> AFact (rt_factID t)
     | retractionExact \<Rightarrow> AWhere (rt_subject t) (rt_predicate t) (abs_object (rt_object t))
     | retractionSlot \<Rightarrow> ASlot (rt_subject t) (rt_predicate t) | _ \<Rightarrow> ANoSelector)"

record a_request =
  A_records :: "a_record list"
  A_retractions :: "a_retraction list"
  A_corrections :: "(string \<times> a_record) list"
  A_expirations :: "(string \<times> a_deadline) list"
  A_persistences :: "string list"
  A_vocabulary :: string
  A_tx_time :: "int option"

definition abs_request :: "w_request \<Rightarrow> a_request" where
  "abs_request q = \<lparr>A_records = map abs_record (Records q),
     A_retractions = map abs_retraction (Retractions q),
     A_corrections = map (\<lambda>c. (co_factID c, abs_record (co_replacement c))) (Corrections q),
     A_expirations = map (\<lambda>e. (ex_factID e, abs_deadline (ex_deadline e))) (Expirations q),
     A_persistences = map pe_factID (Persistences q),
     A_vocabulary = Vocabulary q, A_tx_time = abs_tx_time (TransactionTime q)\<rparr>"

text \<open>The document of an abstract request.\<close>

fun doc_object :: "a_object \<Rightarrow> json" where
  "doc_object (AEntity s) = JStr s"
| "doc_object (ANumber n) = JNum (format_uint n)"
| "doc_object ANoObject = JNull"

fun doc_deadline :: "a_deadline \<Rightarrow> json option \<times> json option" where
  "doc_deadline ANever = (None, None)"
| "doc_deadline (AAfterMs n) = (Some (JStr (format_uint n)), None)"
| "doc_deadline (AAtNs n) = (None, Some (JStr (format_int n)))"

fun doc_record :: "a_record \<Rightarrow> json" where
  "doc_record (ARecord s p x t u m d) = struct_json
     [(''subject'', req (JStr s)), (''predicate'', req (JStr p)), (''object'', req (doc_object x)),
      (''tense'', omit_str t), (''raw_text'', omit_str u), (''mode'', omit_str m),
      (''ttl_ms'', fst (doc_deadline d)), (''expires_at_ns'', snd (doc_deadline d))]"

fun doc_retraction :: "a_retraction \<Rightarrow> json" where
  "doc_retraction (AFact s) = wireRetraction_json s None None"
| "doc_retraction (AWhere s p x) = wireRetraction_json '''' (Some (wireExact_json s p (doc_object x))) None"
| "doc_retraction (ASlot s p) = wireRetraction_json '''' None (Some (wireSlot_json s p))"
| "doc_retraction ANoSelector = wireRetraction_json '''' None None"

definition doc_correction :: "string \<times> a_record \<Rightarrow> json" where
  "doc_correction c = struct_json [(''supersede'', req (JStr (fst c))), (''with'', req (doc_record (snd c)))]"

definition doc_expiration :: "string \<times> a_deadline \<Rightarrow> json" where
  "doc_expiration e = struct_json [(''fact'', req (JStr (fst e))),
     (''ttl_ms'', fst (doc_deadline (snd e))), (''expires_at_ns'', snd (doc_deadline (snd e)))]"

definition doc_persistence :: "string \<Rightarrow> json" where
  "doc_persistence p = struct_json [(''fact'', req (JStr p))]"

definition doc_request :: "a_request \<Rightarrow> json" where
  "doc_request a = struct_json
     [(''write'', req (JStr ''facts'')),
      (''record'', omit_list (map doc_record (A_records a))),
      (''retract'', omit_list (map doc_retraction (A_retractions a))),
      (''correct'', omit_list (map doc_correction (A_corrections a))),
      (''expire'', omit_list (map doc_expiration (A_expirations a))),
      (''persist'', omit_list (map doc_persistence (A_persistences a))),
      (''vocabulary'', encodeVocabulary (A_vocabulary a)),
      (''tx_time_ns'', map_option (\<lambda>n. JStr (format_int n)) (A_tx_time a))]"

end
