(* ===== verification/Go_Json_Struct.thy ===== *)
theory Go_Json_Struct
  imports Go_Json_Laws
begin

text \<open>
  Documents of Go structs: which fields are present, when two documents of the same struct
  are equal, and one rule, \<open>fits\<close>, for the documents the reader gives back unchanged. Decimal
  integers are read back too.
\<close>

section \<open>Struct documents\<close>

lemma format_uint_not_minus: "CHR ''-'' # s \<noteq> format_uint n"
proof
  assume "CHR ''-'' # s = format_uint n"
  then have "list_all is_digit (CHR ''-'' # s)" using format_uint_digits [of n] by simp
  then show False by (simp add: is_digit_def char_literals)
qed

lemma format_int_inj: "format_int i = format_int j \<longleftrightarrow> i = j"
  using format_uint_not_minus format_uint_not_minus [symmetric]
  by (auto simp: format_int_def format_uint_inj)

lemma valid_utf8_format_int [simp]: "valid_utf8 (format_int i)"
proof -
  have "list_all (\<lambda>c. byte c < 128) (format_int i)"
    using digits_ascii [OF format_uint_digits] by (simp add: format_int_def char_literals)
  then show ?thesis by (rule valid_utf8_ascii)
qed

definition present :: "(string \<times> json option) list \<Rightarrow> (string \<times> json) list" where
  "present fs = List.map_filter (\<lambda>(k, v). map_option (Pair k) v) fs"

lemma present_simps [simp]: "present [] = []"
  "present ((k, v) # fs) = (case v of None \<Rightarrow> present fs | Some j \<Rightarrow> (k, j) # present fs)"
  by (simp_all add: present_def split: option.split)

lemma present_keys: "(k, j) \<in> set (present fs) \<Longrightarrow> k \<in> fst ` set fs"
  by (induction fs) (force split: option.splits)+

text \<open>Two structs of the same type have the same document only with the same fields.\<close>

lemma present_inject:
  "map fst fs = map fst gs \<Longrightarrow> distinct (map fst fs) \<Longrightarrow> present fs = present gs \<Longrightarrow> fs = gs"
proof (induction fs gs rule: list_induct2')
  case (4 f fs g gs)
  obtain k v where f: "f = (k, v)" by (cases f)
  obtain k' w where g: "g = (k', w)" by (cases g)
  have "k' = k" using "4.prems"(1) unfolding f g by simp
  note fg = f g [unfolded this]
  have "k \<notin> set (map fst fs)" using "4.prems"(2) unfolding fg list.map distinct.simps by simp
  moreover have "map fst gs = map fst fs" using "4.prems"(1) unfolding fg by simp
  ultimately have "k \<notin> fst ` set fs" "k \<notin> fst ` set gs" by (metis list.set_map)+
  then have k: "(k, j) \<notin> set (present fs)" "(k, j) \<notin> set (present gs)" for j
    using present_keys by blast+
  have eq: "present ((k, v) # fs) = present ((k, w) # gs)"
    using "4.prems"(3) unfolding fg .
  have "v = w \<and> present fs = present gs"
  proof (cases v)
    case None
    show ?thesis
    proof (cases w)
      case (Some j)
      then have "(k, j) \<in> set (present fs)" using eq None by simp
      then show ?thesis using k by blast
    qed (use eq None in simp)
  next
    case (Some i)
    show ?thesis
    proof (cases w)
      case None
      then have "present gs = (k, i) # present fs" using eq Some by simp
      then have "(k, i) \<in> set (present gs)" by simp
      then show ?thesis using k by blast
    qed (use eq Some in simp)
  qed
  with 4 fg show ?case by simp
qed simp_all

lemma struct_json_inject:
  "map fst fs = map fst gs \<Longrightarrow> distinct (map fst fs) \<Longrightarrow> struct_json fs = struct_json gs \<longleftrightarrow> fs = gs"
  using present_inject unfolding struct_json_def present_def [symmetric] by blast

lemma struct_json_fields:
  "struct_json fs = struct_json gs \<Longrightarrow> map fst fs = map fst gs \<and> distinct (map fst fs) \<longrightarrow> fs = gs"
  using struct_json_inject by blast

lemma omit_str_inject [simp]: "omit_str s = omit_str t \<longleftrightarrow> s = t"
  by (auto simp: omit_str_def split: if_splits)

lemma omit_list_inject [simp]: "omit_list s = omit_list t \<longleftrightarrow> s = t"
  by (auto simp: omit_list_def split: if_splits)

lemma req_inject [simp]: "req a = req b \<longleftrightarrow> a = b"
  by (simp add: req_def)

lemma wf_struct: "wf_json (struct_json fs) \<longleftrightarrow>
    list_all (\<lambda>(k, v). case v of None \<Rightarrow> True | Some j \<Rightarrow> valid_utf8 k \<and> wf_json j) fs"
  unfolding struct_json_def present_def [symmetric] wf_json.simps
proof (induction fs)
  case (Cons f fs)
  then show ?case by (cases f; cases "snd f") simp_all
qed simp

lemma nesting_struct: "nesting (struct_json fs) \<le> Suc d \<longleftrightarrow>
    list_all (\<lambda>(k, v). case v of None \<Rightarrow> True | Some j \<Rightarrow> nesting j \<le> d) fs"
  unfolding struct_json_def present_def [symmetric] nesting.simps
proof (induction fs)
  case (Cons f fs)
  then show ?case by (cases f; cases "snd f") simp_all
qed simp

lemma nesting_elems_le: "nesting_elems xs \<le> d \<longleftrightarrow> list_all (\<lambda>x. nesting x \<le> d) xs"
  by (induction xs) auto

section \<open>Documents that read back\<close>

text \<open>One rule for a struct: every present field is well formed and nested at most so deep.\<close>

definition fits :: "nat \<Rightarrow> json \<Rightarrow> bool" where
  "fits d j \<longleftrightarrow> wf_json j \<and> nesting j \<le> d"

lemma fits_scalar [simp]: "fits d (JStr s) \<longleftrightarrow> valid_utf8 s" "fits d (JNum n) \<longleftrightarrow> canonical_decimal n"
  "fits d JNull"
  by (simp_all add: fits_def)

lemma fits_JArr [simp]: "fits (Suc d) (JArr xs) \<longleftrightarrow> list_all (fits d) xs"
  by (auto simp: fits_def wf_elems_iff nesting_elems_le list_all_iff)

lemma fits_struct [simp]: "fits (Suc d) (struct_json fs) \<longleftrightarrow>
    list_all (\<lambda>(k, v). case v of None \<Rightarrow> True | Some j \<Rightarrow> valid_utf8 k \<and> fits d j) fs"
  unfolding fits_def wf_struct nesting_struct
proof (induction fs)
  case (Cons f fs)
  then show ?case by (cases f; cases "snd f") auto
qed simp

lemma fits_mono: "fits d j \<Longrightarrow> d \<le> e \<Longrightarrow> fits e j"
  by (simp add: fits_def)

lemma fits_omit_str: "valid_utf8 s \<Longrightarrow> (case omit_str s of None \<Rightarrow> True | Some j \<Rightarrow> fits d j)"
  by (simp add: omit_str_def)

lemma fits_omit_list:
  "list_all (fits d) xs \<Longrightarrow> (case omit_list xs of None \<Rightarrow> True | Some j \<Rightarrow> fits (Suc d) j)"
  by (simp add: omit_list_def)

definition opt_fits :: "nat \<Rightarrow> json option \<Rightarrow> bool" where
  "opt_fits d v \<longleftrightarrow> (case v of None \<Rightarrow> True | Some j \<Rightarrow> fits d j)"

lemma opt_fits_simps [simp]: "opt_fits d None" "opt_fits d (Some j) = fits d j" "opt_fits d (req j) = fits d j"
  "valid_utf8 s \<Longrightarrow> opt_fits d (omit_str s)" "list_all (fits d) xs \<Longrightarrow> opt_fits (Suc d) (omit_list xs)"
  by (simp_all add: opt_fits_def req_def fits_omit_str fits_omit_list)

lemma fits_fields: "list_all (\<lambda>(k, v). valid_utf8 k \<and> opt_fits d v) fs \<Longrightarrow> fits (Suc d) (struct_json fs)"
  unfolding fits_struct list_all_iff opt_fits_def by (fastforce split: option.splits)

lemma list_all_map_imp: "list_all P xs \<Longrightarrow> (\<And>x. P x \<Longrightarrow> Q (f x)) \<Longrightarrow> list_all Q (map f xs)"
  by (induction xs) simp_all

lemma valid_tag: "list_all (\<lambda>c. byte c < 128) s \<Longrightarrow> valid_utf8 s"
  by (rule valid_utf8_ascii)

section \<open>Wire formats\<close>

text \<open>What the encoders of the program promise together: the document of every accepted value is one
  the reader gives back, and two accepted values share it exactly when they mean the same. Then
  the bytes read back to the document and determine the meaning.\<close>

locale wire_format =
  fixes accepted :: "'r \<Rightarrow> bool"
    and doc :: "'r \<Rightarrow> json"
    and meaning :: "'r \<Rightarrow> 'm"
  assumes fitting: "accepted r \<Longrightarrow> fits max_nesting (doc r)"
    and same_doc: "accepted r \<Longrightarrow> accepted q \<Longrightarrow> doc r = doc q \<longleftrightarrow> meaning r = meaning q"
begin

lemma readable:
  assumes "accepted r"
  shows "wf_json (doc r)" "nesting (doc r) \<le> max_nesting"
  using fitting [OF assms] by (simp_all add: fits_def)

lemma reads_back: "accepted r \<Longrightarrow> json_parse (render (doc r)) = Some (doc r)"
  using readable json_parse_render by blast

lemma determines:
  assumes "accepted r" "accepted q"
  shows "render (doc r) = render (doc q) \<longleftrightarrow> meaning r = meaning q"
  using reads_back [OF assms(1)] reads_back [OF assms(2)] same_doc [OF assms] by (metis option.inject)

end

end
