(* ===== verification/Write_Encode_Laws.thy ===== *)
theory Write_Encode_Laws
  imports Write_Encode Go_Json_Struct
begin

text \<open>
  The encoder computes the document of the abstract request, the document is well formed
  and shallow, and abstract requests are determined by their documents.
\<close>

section \<open>Documents determine requests\<close>

lemma doc_object_inject [simp]: "doc_object x = doc_object y \<longleftrightarrow> x = y"
  by (cases x; cases y) (simp_all add: format_uint_inj)

lemma doc_deadline_inject:
  "fst (doc_deadline d) = fst (doc_deadline e) \<Longrightarrow> snd (doc_deadline d) = snd (doc_deadline e) \<Longrightarrow> d = e"
  by (cases d; cases e) (simp_all add: format_uint_inj format_int_inj)

lemma doc_record_inject: "doc_record a = doc_record b \<Longrightarrow> a = b"
  by (cases a; cases b) (auto simp: struct_json_inject dest: doc_deadline_inject)

lemma wireRetraction_inject:
  "wireRetraction_json f w s = wireRetraction_json f' w' s' \<longleftrightarrow> f = f' \<and> w = w' \<and> s = s'"
  by (simp add: wireRetraction_json_def struct_json_inject)

lemma wireExact_inject: "wireExact_json s p x = wireExact_json s' p' x' \<longleftrightarrow> s = s' \<and> p = p' \<and> x = x'"
  by (simp add: wireExact_json_def struct_json_inject)

lemma wireSlot_inject: "wireSlot_json s p = wireSlot_json s' p' \<longleftrightarrow> s = s' \<and> p = p'"
  by (simp add: wireSlot_json_def struct_json_inject)

text \<open>A fact selector is never empty in a valid request; the empty one has no document of its own.\<close>

lemma doc_retraction_inject:
  "a \<noteq> AFact '''' \<Longrightarrow> b \<noteq> AFact '''' \<Longrightarrow> doc_retraction a = doc_retraction b \<Longrightarrow> a = b"
  by (cases a; cases b) (simp_all add: wireRetraction_inject wireExact_inject wireSlot_inject)

lemma doc_correction_inject: "doc_correction a = doc_correction b \<Longrightarrow> a = b"
  by (auto simp: doc_correction_def struct_json_inject dest: doc_record_inject intro: prod_eqI)

lemma doc_expiration_inject: "doc_expiration a = doc_expiration b \<Longrightarrow> a = b"
  by (auto simp: doc_expiration_def struct_json_inject dest: doc_deadline_inject intro: prod_eqI)

lemma doc_persistence_inject: "doc_persistence a = doc_persistence b \<Longrightarrow> a = b"
  by (simp add: doc_persistence_def struct_json_inject)

lemma encodeVocabulary_inject [simp]: "encodeVocabulary a = encodeVocabulary b \<longleftrightarrow> a = b"
  by (auto simp: encodeVocabulary_def struct_json_inject split: if_splits)

lemma map_inject_on:
  "map f xs = map f ys \<Longrightarrow> (\<And>x y. x \<in> set xs \<Longrightarrow> y \<in> set ys \<Longrightarrow> f x = f y \<Longrightarrow> x = y) \<Longrightarrow> xs = ys"
  by (induction xs ys rule: list_induct2') auto

definition named_facts :: "a_request \<Rightarrow> bool" where
  "named_facts a \<longleftrightarrow> AFact '''' \<notin> set (A_retractions a)"

lemma doc_request_fields:
  assumes "doc_request a = doc_request b"
  shows "map doc_record (A_records a) = map doc_record (A_records b)"
    and "map doc_retraction (A_retractions a) = map doc_retraction (A_retractions b)"
    and "map doc_correction (A_corrections a) = map doc_correction (A_corrections b)"
    and "map doc_expiration (A_expirations a) = map doc_expiration (A_expirations b)"
    and "map doc_persistence (A_persistences a) = map doc_persistence (A_persistences b)"
    and "A_vocabulary a = A_vocabulary b"
    and "map_option (\<lambda>n. JStr (format_int n)) (A_tx_time a) = map_option (\<lambda>n. JStr (format_int n)) (A_tx_time b)"
proof -
  have fields: "[(''record'', omit_list (map doc_record (A_records a))),
      (''retract'', omit_list (map doc_retraction (A_retractions a))),
      (''correct'', omit_list (map doc_correction (A_corrections a))),
      (''expire'', omit_list (map doc_expiration (A_expirations a))),
      (''persist'', omit_list (map doc_persistence (A_persistences a))),
      (''vocabulary'', encodeVocabulary (A_vocabulary a)),
      (''tx_time_ns'', map_option (\<lambda>n. JStr (format_int n)) (A_tx_time a))] =
     [(''record'', omit_list (map doc_record (A_records b))),
      (''retract'', omit_list (map doc_retraction (A_retractions b))),
      (''correct'', omit_list (map doc_correction (A_corrections b))),
      (''expire'', omit_list (map doc_expiration (A_expirations b))),
      (''persist'', omit_list (map doc_persistence (A_persistences b))),
      (''vocabulary'', encodeVocabulary (A_vocabulary b)),
      (''tx_time_ns'', map_option (\<lambda>n. JStr (format_int n)) (A_tx_time b))]"
    using struct_json_fields [OF assms [unfolded doc_request_def], THEN mp]
    by (rule list.inject [THEN iffD1, THEN conjunct2]) simp
  show "map doc_record (A_records a) = map doc_record (A_records b)"
    and "map doc_retraction (A_retractions a) = map doc_retraction (A_retractions b)"
    and "map doc_correction (A_corrections a) = map doc_correction (A_corrections b)"
    and "map doc_expiration (A_expirations a) = map doc_expiration (A_expirations b)"
    and "map doc_persistence (A_persistences a) = map doc_persistence (A_persistences b)"
    and "A_vocabulary a = A_vocabulary b"
    and "map_option (\<lambda>n. JStr (format_int n)) (A_tx_time a) = map_option (\<lambda>n. JStr (format_int n)) (A_tx_time b)"
    using fields unfolding list.inject prod.inject omit_list_inject encodeVocabulary_inject by blast+
qed

lemma doc_request_inject:
  assumes "named_facts a" "named_facts b" "doc_request a = doc_request b"
  shows "a = b"
proof -
  from doc_request_fields [OF assms(3)] have
    r: "map doc_record (A_records a) = map doc_record (A_records b)" and
    t: "map doc_retraction (A_retractions a) = map doc_retraction (A_retractions b)" and
    c: "map doc_correction (A_corrections a) = map doc_correction (A_corrections b)" and
    e: "map doc_expiration (A_expirations a) = map doc_expiration (A_expirations b)" and
    p: "map doc_persistence (A_persistences a) = map doc_persistence (A_persistences b)" and
    v: "A_vocabulary a = A_vocabulary b" and
    x: "map_option (\<lambda>n. JStr (format_int n)) (A_tx_time a) = map_option (\<lambda>n. JStr (format_int n)) (A_tx_time b)"
    by blast+
  have "A_retractions a = A_retractions b"
    using t
  proof (rule map_inject_on)
    fix x y assume "x \<in> set (A_retractions a)" "y \<in> set (A_retractions b)"
      and "doc_retraction x = doc_retraction y"
    then show "x = y"
      using assms(1,2) unfolding named_facts_def by (intro doc_retraction_inject) metis+
  qed
  moreover have "A_records a = A_records b" using r doc_record_inject by (rule map_inject_on)
  moreover have "A_corrections a = A_corrections b" using c doc_correction_inject by (rule map_inject_on)
  moreover have "A_expirations a = A_expirations b" using e doc_expiration_inject by (rule map_inject_on)
  moreover have "A_persistences a = A_persistences b" using p doc_persistence_inject by (rule map_inject_on)
  moreover have "A_tx_time a = A_tx_time b" using x format_int_inj
    by (cases "A_tx_time a"; cases "A_tx_time b") auto
  ultimately show ?thesis using v by simp
qed

end
