(* ===== verification/Write_Contract.thy ===== *)
theory Write_Contract
  imports Write_Encode_Laws
begin

text \<open>
  The contract of the \<open>write\<close> package: \<open>Request.Validate\<close> accepts exactly the requests of
  \<open>write_ok\<close>, \<open>Request.Encode\<close> succeeds on exactly those, its bytes are the rendered
  document of the abstract request, they parse back, and two valid requests have the same
  bytes exactly when they ask for the same thing.
\<close>

section \<open>Validation\<close>

lemma vocabulary_None: "validate_vocabulary q = None \<longleftrightarrow> vocabulary_ok q"
  by (auto simp: validate_vocabulary_def vocabulary_ok_def Let_def mode_defs)

lemma Validate_parts:
  "Validate q = None \<longleftrightarrow>
     (Records q \<noteq> [] \<or> Retractions q \<noteq> [] \<or> Corrections q \<noteq> [] \<or> Expirations q \<noteq> [] \<or> Persistences q \<noteq> []) \<and>
     vocabulary_ok q \<and> list_all (\<lambda>r. validateRecord r '''' = None) (Records q) \<and>
     target_loops_pass q \<and> validateTransactionTime (TransactionTime q) = None \<and> ownership_ok q"
proof -
  have r: "for_range (\<lambda>i r. validateRecord r (pathIndex ''record'' i)) 0 (Records q) = None \<longleftrightarrow>
      list_all (\<lambda>r. validateRecord r '''' = None) (Records q)"
    by (rule for_range_None) (simp add: validateRecord_parts)
  show ?thesis
    unfolding Validate_def err_of_None check_then_Inr bind_r_Inr r vocabulary_None
      validateOwnership_iff target_loops_pass_def fail_when_None length_0_conv
    by blast
qed

lemma list_all_cong_on: "list_all A xs \<Longrightarrow> (\<And>x. A x \<Longrightarrow> P x = Q x) \<Longrightarrow> list_all P xs = list_all Q xs"
  by (induction xs) auto

lemma Validate_write_ok:
  assumes "wf_times q"
  shows "Validate q = None \<longleftrightarrow> write_ok q"
proof -
  have r: "list_all (\<lambda>r. validateRecord r '''' = None) (Records q) = list_all record_ok (Records q)"
    by (rule list_all_cong_on [where A = "\<lambda>r. wf_deadline (r_Expiration r)"])
      (use assms in \<open>simp_all add: wf_times_def validateRecord_None\<close>)
  have c: "list_all correction_valid (Corrections q) = list_all correction_ok (Corrections q)"
    by (rule list_all_cong_on [where A = "\<lambda>c. wf_deadline (r_Expiration (co_replacement c))"])
      (use assms in \<open>simp_all add: wf_times_def correction_valid_def correction_ok_def validateRecord_None\<close>)
  have e: "list_all expiration_valid (Expirations q) = list_all expiration_ok (Expirations q)"
    by (rule list_all_cong_on [where A = "\<lambda>e. wf_deadline (ex_deadline e)"])
      (use assms in \<open>simp_all add: wf_times_def expiration_valid_def expiration_ok_def validateDeadline_None\<close>)
  have t: "validateTransactionTime (TransactionTime q) = None \<longleftrightarrow> tx_time_ok (TransactionTime q)"
    using assms by (simp add: wf_times_def validateTransactionTime_None)
  show ?thesis
    unfolding Validate_parts write_ok_def target_loops_iff r c e t by blast
qed

section \<open>The encoder computes the document\<close>

lemma wireObject_doc: "object_ok x \<Longrightarrow> wireObject_json x = Some (doc_object (abs_object x))"
  by (auto simp: object_ok_def wireObject_json_def abs_object_def)

lemma encodeDeadline_doc:
  assumes "deadline_ok d" "wf_deadline d"
  shows "encodeDeadline d = doc_deadline (abs_deadline d)"
proof (cases "dl_tag d")
  case deadlineAfter
  then have d: "0 < sint (dl_duration d)" using assms(1) by (simp add: deadline_ok_def)
  have q: "sint (dl_duration d) sdiv 1000000 = sint (dl_duration d) div 1000000"
    using d by (simp add: signed_divide_int_def)
  have "0 \<le> sint (dl_duration d) div 1000000" using d by simp
  moreover have "sint (dl_duration d) < 9223372036854775808"
    using sint_range(2) [of "dl_duration d"] by simp
  then have "sint (dl_duration d) div 1000000 < 2 ^ 64" using d by simp
  ultimately have "unat (word_of_int (sint (dl_duration d) div 1000000) :: u64) =
      nat (sint (dl_duration d) div 1000000)"
    by (simp add: unat_eq_nat_uint uint_word_of_int mod_pos_pos_trivial)
  with deadlineAfter show ?thesis
    by (simp add: encodeDeadline_def abs_deadline_def decimalUint64_json_def q)
next
  case deadlineAt
  then have "sint (unix_nano (dl_at d)) = nanos (dl_at d)"
    using assms by (intro unix_nano_exact) (auto simp: deadline_ok_def wf_deadline_def)
  with deadlineAt show ?thesis
    by (simp add: encodeDeadline_def abs_deadline_def decimalInt64_json_def exactUnixNano_fst)
qed (simp_all add: encodeDeadline_def abs_deadline_def)

lemma encodeRecord_doc:
  "record_ok r \<Longrightarrow> wf_deadline (r_Expiration r) \<Longrightarrow> encodeRecord r = Some (doc_record (abs_record r))"
  by (simp add: encodeRecord_def abs_record_def record_ok_def wireObject_doc encodeDeadline_doc)

lemma encodeRetraction_doc:
  "retraction_ok t \<Longrightarrow> encodeRetraction t = Some (doc_retraction (abs_retraction t))"
  by (auto simp: retraction_ok_def encodeRetraction_def abs_retraction_def wireObject_doc
      split: retraction_tag.splits)

lemma encodeCorrection_doc:
  "correction_ok c \<Longrightarrow> wf_deadline (r_Expiration (co_replacement c)) \<Longrightarrow>
     encodeCorrection c = Some (doc_correction (co_factID c, abs_record (co_replacement c)))"
  by (simp add: encodeCorrection_def correction_ok_def encodeRecord_doc doc_correction_def)

lemma encodeExpiration_doc:
  "expiration_ok e \<Longrightarrow> wf_deadline (ex_deadline e) \<Longrightarrow>
     encodeExpiration e = doc_expiration (ex_factID e, abs_deadline (ex_deadline e))"
  by (simp add: encodeExpiration_def expiration_ok_def encodeDeadline_doc doc_expiration_def)

lemma encodeTransactionTime_doc:
  assumes "tx_time_ok t" "wf_time (tx_at t)"
  shows "encodeTransactionTime t = map_option (\<lambda>n. JStr (format_int n)) (abs_tx_time t)"
proof (cases "tx_tag t")
  case transactionTimeAt
  then have "sint (unix_nano (tx_at t)) = nanos (tx_at t)"
    using assms by (intro unix_nano_exact) (auto simp: tx_time_ok_def)
  with transactionTimeAt show ?thesis
    by (simp add: encodeTransactionTime_def abs_tx_time_def decimalInt64_json_def exactUnixNano_fst)
qed (simp_all add: encodeTransactionTime_def abs_tx_time_def decimalInt64_json_def)

lemma those_map:
  "list_all P xs \<Longrightarrow> list_all Q xs \<Longrightarrow> (\<And>x. P x \<Longrightarrow> Q x \<Longrightarrow> f x = Some (g x)) \<Longrightarrow>
     those (map f xs) = Some (map g xs)"
  by (induction xs) simp_all

lemma wireRequest_doc:
  assumes "write_ok q" "wf_times q"
  shows "wireRequest_json q = Some (doc_request (abs_request q))"
proof -
  have r: "those (map encodeRecord (Records q)) = Some (map (doc_record \<circ> abs_record) (Records q))"
    by (rule those_map [where P = record_ok and Q = "\<lambda>r. wf_deadline (r_Expiration r)"])
      (use assms in \<open>simp_all add: write_ok_def wf_times_def encodeRecord_doc\<close>)
  have t: "those (map encodeRetraction (Retractions q)) =
      Some (map (doc_retraction \<circ> abs_retraction) (Retractions q))"
    by (rule those_map [where P = retraction_ok and Q = retraction_ok])
      (use assms in \<open>simp_all add: write_ok_def encodeRetraction_doc\<close>)
  have c: "those (map encodeCorrection (Corrections q)) =
      Some (map (doc_correction \<circ> (\<lambda>c. (co_factID c, abs_record (co_replacement c)))) (Corrections q))"
    by (rule those_map [where P = correction_ok and Q = "\<lambda>c. wf_deadline (r_Expiration (co_replacement c))"])
      (use assms in \<open>simp_all add: write_ok_def wf_times_def encodeCorrection_doc\<close>)
  have e: "map encodeExpiration (Expirations q) =
      map (doc_expiration \<circ> (\<lambda>e. (ex_factID e, abs_deadline (ex_deadline e)))) (Expirations q)"
    using assms by (simp add: write_ok_def wf_times_def list_all_iff encodeExpiration_doc)
  have p: "map encodePersistence (Persistences q) = map (doc_persistence \<circ> pe_factID) (Persistences q)"
    by (simp add: encodePersistence_def doc_persistence_def)
  have x: "encodeTransactionTime (TransactionTime q) =
      map_option (\<lambda>n. JStr (format_int n)) (abs_tx_time (TransactionTime q))"
    using assms by (simp add: write_ok_def wf_times_def encodeTransactionTime_doc)
  show ?thesis
    by (simp add: wireRequest_json_def doc_request_def abs_request_def r t c e p x)
qed

section \<open>The document is well formed\<close>

definition clean_object :: "a_object \<Rightarrow> bool" where
  "clean_object x \<longleftrightarrow> (case x of AEntity s \<Rightarrow> valid_utf8 s | _ \<Rightarrow> True)"

definition clean_record :: "a_record \<Rightarrow> bool" where
  "clean_record r \<longleftrightarrow> valid_utf8 (a_subject r) \<and> valid_utf8 (a_predicate r) \<and>
     clean_object (a_object r) \<and> valid_utf8 (a_tense r) \<and> valid_utf8 (a_raw r) \<and> valid_utf8 (a_mode r)"

definition clean_retraction :: "a_retraction \<Rightarrow> bool" where
  "clean_retraction t \<longleftrightarrow> (case t of AFact s \<Rightarrow> valid_utf8 s
     | AWhere s p x \<Rightarrow> valid_utf8 s \<and> valid_utf8 p \<and> clean_object x
     | ASlot s p \<Rightarrow> valid_utf8 s \<and> valid_utf8 p | ANoSelector \<Rightarrow> True)"

definition clean_request :: "a_request \<Rightarrow> bool" where
  "clean_request a \<longleftrightarrow> list_all clean_record (A_records a) \<and>
     list_all clean_retraction (A_retractions a) \<and>
     list_all (\<lambda>c. valid_utf8 (fst c) \<and> clean_record (snd c)) (A_corrections a) \<and>
     list_all (\<lambda>e. valid_utf8 (fst e)) (A_expirations a) \<and>
     list_all valid_utf8 (A_persistences a) \<and> valid_utf8 (A_vocabulary a)"

text \<open>Field tags are ASCII literals.\<close>

lemma valid_tags [simp]:
  "valid_utf8 ''subject''" "valid_utf8 ''predicate''" "valid_utf8 ''object''" "valid_utf8 ''tense''"
  "valid_utf8 ''raw_text''" "valid_utf8 ''mode''" "valid_utf8 ''ttl_ms''" "valid_utf8 ''expires_at_ns''"
  "valid_utf8 ''fact''" "valid_utf8 ''facts''" "valid_utf8 ''where''" "valid_utf8 ''slot''"
  "valid_utf8 ''supersede''" "valid_utf8 ''with''" "valid_utf8 ''on_unknown''" "valid_utf8 ''write''"
  "valid_utf8 ''record''" "valid_utf8 ''retract''" "valid_utf8 ''correct''" "valid_utf8 ''expire''"
  "valid_utf8 ''persist''" "valid_utf8 ''vocabulary''" "valid_utf8 ''tx_time_ns''" "valid_utf8 ''''"
  "valid_utf8 ''append''" "valid_utf8 ''ensure''" "valid_utf8 ''replace''" "valid_utf8 ''create''"
  "valid_utf8 ''reject''"
  by (rule valid_tag; simp add: byte_def)+

declare valid_utf8.simps(2) [simp del]

lemma clean_doc_object: "clean_object x \<Longrightarrow> fits d (doc_object x)"
  by (cases x) (auto simp: clean_object_def canonical_decimal_iff)

lemma fits_deadline:
  "case fst (doc_deadline x) of None \<Rightarrow> True | Some j \<Rightarrow> fits d j"
  "case snd (doc_deadline x) of None \<Rightarrow> True | Some j \<Rightarrow> fits d j"
  by (cases x; simp)+

lemma clean_doc_record: "clean_record r \<Longrightarrow> fits (Suc d) (doc_record r)"
  by (cases r) (simp add: clean_record_def req_def clean_doc_object fits_omit_str fits_deadline)

lemma clean_doc_retraction: "clean_retraction t \<Longrightarrow> fits (Suc (Suc d)) (doc_retraction t)"
  by (cases t) (simp_all add: clean_retraction_def wireRetraction_json_def wireExact_json_def
      wireSlot_json_def req_def fits_omit_str clean_doc_object)

lemma clean_doc_correction:
  "valid_utf8 (fst c) \<and> clean_record (snd c) \<Longrightarrow> fits (Suc (Suc d)) (doc_correction c)"
  by (simp add: doc_correction_def req_def clean_doc_record)

lemma clean_doc_expiration: "valid_utf8 (fst e) \<Longrightarrow> fits (Suc d) (doc_expiration e)"
  by (simp add: doc_expiration_def req_def fits_deadline)

lemma clean_doc_persistence: "valid_utf8 p \<Longrightarrow> fits (Suc d) (doc_persistence p)"
  by (simp add: doc_persistence_def req_def)

lemma clean_doc_request: "clean_request a \<Longrightarrow> fits (Suc (Suc (Suc (Suc d)))) (doc_request a)"
proof -
  assume a: "clean_request a"
  have r: "list_all (fits (Suc (Suc d))) (map doc_record (A_records a))"
    by (rule list_all_map_imp [where P = clean_record]) (use a in \<open>simp_all add: clean_request_def clean_doc_record\<close>)
  have t: "list_all (fits (Suc (Suc d))) (map doc_retraction (A_retractions a))"
    by (rule list_all_map_imp [where P = clean_retraction])
      (use a in \<open>simp_all add: clean_request_def clean_doc_retraction\<close>)
  have c: "list_all (fits (Suc (Suc d))) (map doc_correction (A_corrections a))"
    by (rule list_all_map_imp [where P = "\<lambda>c. valid_utf8 (fst c) \<and> clean_record (snd c)"])
      (use a in \<open>simp_all add: clean_request_def clean_doc_correction\<close>)
  have e: "list_all (fits (Suc (Suc d))) (map doc_expiration (A_expirations a))"
    by (rule list_all_map_imp [where P = "\<lambda>e. valid_utf8 (fst e)"])
      (use a in \<open>simp_all add: clean_request_def clean_doc_expiration\<close>)
  have p: "list_all (fits (Suc (Suc d))) (map doc_persistence (A_persistences a))"
    by (rule list_all_map_imp [where P = valid_utf8])
      (use a in \<open>simp_all add: clean_request_def clean_doc_persistence\<close>)
  have v: "case encodeVocabulary (A_vocabulary a) of None \<Rightarrow> True | Some j \<Rightarrow> fits (Suc (Suc (Suc d))) j"
    using a by (simp add: clean_request_def encodeVocabulary_def req_def)
  have x: "case map_option (\<lambda>n. JStr (format_int n)) (A_tx_time a) of None \<Rightarrow> True
      | Some j \<Rightarrow> fits (Suc (Suc (Suc d))) j"
    by (cases "A_tx_time a") simp_all
  show ?thesis
    unfolding doc_request_def
    by (simp add: req_def fits_omit_list r t c e p v)
      (use x in \<open>cases "A_tx_time a"; simp\<close>)
qed

section \<open>Validated requests are clean\<close>

lemma fact_id_utf8: "fact_id_ok s \<Longrightarrow> valid_utf8 s \<and> s \<noteq> ''''"
  by (auto simp: fact_id_ok_def)

lemma clean_abs_object: "object_ok x \<Longrightarrow> clean_object (abs_object x)"
  by (auto simp: object_ok_def abs_object_def clean_object_def label_ok_def)

lemma clean_abs_record: "record_ok r \<Longrightarrow> clean_record (abs_record r)"
  by (auto simp: record_ok_def abs_record_def clean_record_def label_ok_def clean_abs_object mode_defs)

lemma clean_abs_retraction:
  "retraction_ok t \<Longrightarrow> clean_retraction (abs_retraction t) \<and> abs_retraction t \<noteq> AFact ''''"
  by (auto simp: retraction_ok_def abs_retraction_def clean_retraction_def label_ok_def
      clean_abs_object fact_id_utf8 split: retraction_tag.splits dest: fact_id_utf8)

lemma write_ok_clean:
  assumes "write_ok q"
  shows "clean_request (abs_request q)" "named_facts (abs_request q)"
proof -
  have ok: "list_all record_ok (Records q)" "list_all retraction_ok (Retractions q)"
    "list_all correction_ok (Corrections q)" "list_all expiration_ok (Expirations q)"
    "list_all (\<lambda>p. fact_id_ok (pe_factID p)) (Persistences q)" "vocabulary_ok q"
    using assms by (simp_all add: write_ok_def)
  have v: "valid_utf8 (Vocabulary q)"
    using ok(6) by (auto simp: vocabulary_ok_def mode_defs split: if_splits)
  show "clean_request (abs_request q)"
    unfolding clean_request_def abs_request_def a_request.simps
    using ok(1-5) v
    by (auto simp: clean_abs_retraction list_all_iff correction_ok_def expiration_ok_def fact_id_utf8
        clean_abs_record)
  show "named_facts (abs_request q)"
    using ok(2) clean_abs_retraction by (force simp: named_facts_def abs_request_def list_all_iff)
qed

section \<open>The contract\<close>

lemma Encode_doc:
  assumes "wf_times q"
  shows "Encode q = (case Validate q of Some e \<Rightarrow> Inl (EncodeInvalid e)
    | None \<Rightarrow> Inr (render (doc_request (abs_request q))))"
  using wireRequest_doc [of q] Validate_write_ok [OF assms] assms
  by (auto simp: Encode_def split: option.split)

lemma doc_request_fits:
  assumes "write_ok q"
  shows "fits max_nesting (doc_request (abs_request q))"
proof -
  have "fits (Suc (Suc (Suc (Suc 0)))) (doc_request (abs_request q))"
    by (rule clean_doc_request) (rule write_ok_clean [OF assms])
  then show ?thesis by (rule fits_mono) (simp add: max_nesting_def)
qed

interpretation write_wire: wire_format write_ok "\<lambda>q. doc_request (abs_request q)" abs_request
proof unfold_locales
  fix p q
  assume "write_ok p" "write_ok q"
  then show "doc_request (abs_request p) = doc_request (abs_request q) \<longleftrightarrow> abs_request p = abs_request q"
    using doc_request_inject write_ok_clean(2) by metis
qed (rule doc_request_fits)

lemma Encode_write_ok: "wf_times q \<Longrightarrow> Encode q = Inr b \<longleftrightarrow>
    write_ok q \<and> b = render (doc_request (abs_request q))"
  using Validate_write_ok [of q] by (auto simp: Encode_doc split: option.split)

lemma Encode_parses: "wf_times q \<Longrightarrow> Encode q = Inr b \<Longrightarrow>
    json_parse b = Some (doc_request (abs_request q))"
  by (simp add: Encode_write_ok write_wire.reads_back)

lemma Encode_inject:
  assumes "wf_times p" "wf_times q" "Encode p = Inr a" "Encode q = Inr b"
  shows "a = b \<longleftrightarrow> abs_request p = abs_request q"
  using assms by (simp add: Encode_write_ok write_wire.determines)

end
