(* ===== verification/Write_Features.thy ===== *)
theory Write_Features
  imports Write_Contract "HOL-Library.List_Lexorder"
begin

text \<open>
  \<open>Request.Features\<close> (\<open>write/validate.go\<close>): the advertised capabilities a request needs. The
  code walks the mutations and sets flags; the lemmas say that a capability is listed
  exactly when some mutation of the request uses it, and that each list is strictly
  ascending, hence without duplicates.
\<close>

section \<open>The walk\<close>

record needs =
  needCorrect :: bool
  needExpire :: bool
  needPersist :: bool
  needRecord :: bool
  needRetract :: bool
  needEntity :: bool
  needNumber :: bool
  needAbsolute :: bool
  needRelative :: bool
  needAppend :: bool
  needEnsure :: bool
  needReplace :: bool
  needFact :: bool
  needSlot :: bool
  needWhere :: bool

definition no_needs :: needs where
  "no_needs = \<lparr>needCorrect = False, needExpire = False, needPersist = False, needRecord = False,
     needRetract = False, needEntity = False, needNumber = False, needAbsolute = False,
     needRelative = False, needAppend = False, needEnsure = False, needReplace = False,
     needFact = False, needSlot = False, needWhere = False\<rparr>"

definition visitObject :: "w_object \<Rightarrow> needs \<Rightarrow> needs" where
  "visitObject x n = (case obj_tag x of objectEntity \<Rightarrow> n\<lparr>needEntity := True\<rparr>
     | objectNumber \<Rightarrow> n\<lparr>needNumber := True\<rparr> | _ \<Rightarrow> n)"

definition visitDeadline :: "deadline \<Rightarrow> needs \<Rightarrow> needs" where
  "visitDeadline d n = (case dl_tag d of deadlineAfter \<Rightarrow> n\<lparr>needRelative := True\<rparr>
     | deadlineAt \<Rightarrow> n\<lparr>needAbsolute := True\<rparr> | _ \<Rightarrow> n)"

definition visitMode :: "record_mode \<Rightarrow> needs \<Rightarrow> needs" where
  "visitMode m n = (if m = Ensure then n\<lparr>needEnsure := True\<rparr>
     else if m = Replace then n\<lparr>needReplace := True\<rparr> else n\<lparr>needAppend := True\<rparr>)"

definition visitRecord :: "w_record \<Rightarrow> needs \<Rightarrow> needs" where
  "visitRecord r n = visitMode (r_Mode r) (visitDeadline (r_Expiration r)
     (visitObject (r_Object r) (n\<lparr>needRecord := True\<rparr>)))"

definition visitRetraction :: "retraction \<Rightarrow> needs \<Rightarrow> needs" where
  "visitRetraction t n = (let n = n\<lparr>needRetract := True\<rparr> in case rt_tag t of
     retractionFact \<Rightarrow> n\<lparr>needFact := True\<rparr>
   | retractionExact \<Rightarrow> visitObject (rt_object t) (n\<lparr>needWhere := True\<rparr>)
   | retractionSlot \<Rightarrow> n\<lparr>needSlot := True\<rparr> | _ \<Rightarrow> n)"

definition visitCorrection :: "correction \<Rightarrow> needs \<Rightarrow> needs" where
  "visitCorrection c n = visitDeadline (r_Expiration (co_replacement c))
     (visitObject (r_Object (co_replacement c)) (n\<lparr>needCorrect := True\<rparr>))"

definition visitExpiration :: "expiration \<Rightarrow> needs \<Rightarrow> needs" where
  "visitExpiration e n = visitDeadline (ex_deadline e) (n\<lparr>needExpire := True\<rparr>)"

definition request_needs :: "w_request \<Rightarrow> needs" where
  "request_needs q =
     (fold visitExpiration (Expirations q) (fold visitCorrection (Corrections q)
       (fold visitRetraction (Retractions q) (fold visitRecord (Records q) no_needs))))
     \<lparr>needPersist := length (Persistences q) > 0\<rparr>"

definition needed :: "(bool \<times> string) list \<Rightarrow> string list" where
  "needed xs = map snd (filter fst xs)"

definition Features :: "w_request \<Rightarrow> features" where
  "Features q = (let n = request_needs q in
     \<lparr>f_Operations = needed [(needCorrect n, OperationCorrect), (needExpire n, OperationExpire),
        (needPersist n, OperationPersist), (needRecord n, OperationRecord), (needRetract n, OperationRetract)],
      f_ObjectKinds = needed [(needEntity n, ObjectEntityLabel), (needNumber n, ObjectU64)],
      f_ExpirationForms = needed [(needAbsolute n, ExpirationAbsolute), (needRelative n, ExpirationRelative)],
      f_VocabularyModes = needed [(Vocabulary q \<noteq> '''', Vocabulary q)],
      f_RecordModes = needed [(needAppend n, Append), (needEnsure n, Ensure), (needReplace n, Replace)],
      f_RetractionSelectors = needed [(needFact n, SelectorFact), (needSlot n, SelectorSlot),
        (needWhere n, SelectorWhere)]\<rparr>)"

section \<open>What the request uses\<close>

definition uses_object :: "object_tag \<Rightarrow> w_request \<Rightarrow> bool" where
  "uses_object t q \<longleftrightarrow> (\<exists>r \<in> set (Records q). obj_tag (r_Object r) = t) \<or>
     (\<exists>x \<in> set (Retractions q). rt_tag x = retractionExact \<and> obj_tag (rt_object x) = t) \<or>
     (\<exists>c \<in> set (Corrections q). obj_tag (r_Object (co_replacement c)) = t)"

definition uses_deadline :: "deadline_tag \<Rightarrow> w_request \<Rightarrow> bool" where
  "uses_deadline t q \<longleftrightarrow> (\<exists>r \<in> set (Records q). dl_tag (r_Expiration r) = t) \<or>
     (\<exists>c \<in> set (Corrections q). dl_tag (r_Expiration (co_replacement c)) = t) \<or>
     (\<exists>e \<in> set (Expirations q). dl_tag (ex_deadline e) = t)"

definition uses_mode :: "record_mode \<Rightarrow> w_request \<Rightarrow> bool" where
  "uses_mode m q \<longleftrightarrow> (\<exists>r \<in> set (Records q). r_Mode r = m)"

definition uses_selector :: "retraction_tag \<Rightarrow> w_request \<Rightarrow> bool" where
  "uses_selector t q \<longleftrightarrow> (\<exists>x \<in> set (Retractions q). rt_tag x = t)"

lemmas visit_defs = visitRecord_def visitRetraction_def visitCorrection_def visitExpiration_def
  visitObject_def visitDeadline_def visitMode_def Let_def

text \<open>The flags after each loop: up at the start, or raised by some element.\<close>

lemma record_flags:
  "needRecord (fold visitRecord rs n) \<longleftrightarrow> needRecord n \<or> rs \<noteq> []"
  "needEntity (fold visitRecord rs n) \<longleftrightarrow> needEntity n \<or> (\<exists>r \<in> set rs. obj_tag (r_Object r) = objectEntity)"
  "needNumber (fold visitRecord rs n) \<longleftrightarrow> needNumber n \<or> (\<exists>r \<in> set rs. obj_tag (r_Object r) = objectNumber)"
  "needAbsolute (fold visitRecord rs n) \<longleftrightarrow> needAbsolute n \<or> (\<exists>r \<in> set rs. dl_tag (r_Expiration r) = deadlineAt)"
  "needRelative (fold visitRecord rs n) \<longleftrightarrow> needRelative n \<or> (\<exists>r \<in> set rs. dl_tag (r_Expiration r) = deadlineAfter)"
  "needAppend (fold visitRecord rs n) \<longleftrightarrow> needAppend n \<or> (\<exists>r \<in> set rs. r_Mode r \<notin> {Ensure, Replace})"
  "needEnsure (fold visitRecord rs n) \<longleftrightarrow> needEnsure n \<or> (\<exists>r \<in> set rs. r_Mode r = Ensure)"
  "needReplace (fold visitRecord rs n) \<longleftrightarrow> needReplace n \<or> (\<exists>r \<in> set rs. r_Mode r = Replace)"
  "needCorrect (fold visitRecord rs n) = needCorrect n"
  "needExpire (fold visitRecord rs n) = needExpire n"
  "needRetract (fold visitRecord rs n) = needRetract n"
  "needFact (fold visitRecord rs n) = needFact n"
  "needSlot (fold visitRecord rs n) = needSlot n"
  "needWhere (fold visitRecord rs n) = needWhere n"
  by (induction rs arbitrary: n; auto simp: visit_defs split: object_tag.split deadline_tag.split)+

lemma retraction_flags:
  "needRetract (fold visitRetraction ts n) \<longleftrightarrow> needRetract n \<or> ts \<noteq> []"
  "needEntity (fold visitRetraction ts n) \<longleftrightarrow> needEntity n \<or> (\<exists>t \<in> set ts. rt_tag t = retractionExact \<and> obj_tag (rt_object t) = objectEntity)"
  "needNumber (fold visitRetraction ts n) \<longleftrightarrow> needNumber n \<or> (\<exists>t \<in> set ts. rt_tag t = retractionExact \<and> obj_tag (rt_object t) = objectNumber)"
  "needFact (fold visitRetraction ts n) \<longleftrightarrow> needFact n \<or> (\<exists>t \<in> set ts. rt_tag t = retractionFact)"
  "needSlot (fold visitRetraction ts n) \<longleftrightarrow> needSlot n \<or> (\<exists>t \<in> set ts. rt_tag t = retractionSlot)"
  "needWhere (fold visitRetraction ts n) \<longleftrightarrow> needWhere n \<or> (\<exists>t \<in> set ts. rt_tag t = retractionExact)"
  "needCorrect (fold visitRetraction ts n) = needCorrect n"
  "needExpire (fold visitRetraction ts n) = needExpire n"
  "needRecord (fold visitRetraction ts n) = needRecord n"
  "needAbsolute (fold visitRetraction ts n) = needAbsolute n"
  "needRelative (fold visitRetraction ts n) = needRelative n"
  "needAppend (fold visitRetraction ts n) = needAppend n"
  "needEnsure (fold visitRetraction ts n) = needEnsure n"
  "needReplace (fold visitRetraction ts n) = needReplace n"
  by (induction ts arbitrary: n; auto simp: visit_defs split: object_tag.split retraction_tag.split)+

lemma correction_flags:
  "needCorrect (fold visitCorrection cs n) \<longleftrightarrow> needCorrect n \<or> cs \<noteq> []"
  "needEntity (fold visitCorrection cs n) \<longleftrightarrow> needEntity n \<or> (\<exists>c \<in> set cs. obj_tag (r_Object (co_replacement c)) = objectEntity)"
  "needNumber (fold visitCorrection cs n) \<longleftrightarrow> needNumber n \<or> (\<exists>c \<in> set cs. obj_tag (r_Object (co_replacement c)) = objectNumber)"
  "needAbsolute (fold visitCorrection cs n) \<longleftrightarrow> needAbsolute n \<or> (\<exists>c \<in> set cs. dl_tag (r_Expiration (co_replacement c)) = deadlineAt)"
  "needRelative (fold visitCorrection cs n) \<longleftrightarrow> needRelative n \<or> (\<exists>c \<in> set cs. dl_tag (r_Expiration (co_replacement c)) = deadlineAfter)"
  "needExpire (fold visitCorrection cs n) = needExpire n"
  "needRecord (fold visitCorrection cs n) = needRecord n"
  "needRetract (fold visitCorrection cs n) = needRetract n"
  "needAppend (fold visitCorrection cs n) = needAppend n"
  "needEnsure (fold visitCorrection cs n) = needEnsure n"
  "needReplace (fold visitCorrection cs n) = needReplace n"
  "needFact (fold visitCorrection cs n) = needFact n"
  "needSlot (fold visitCorrection cs n) = needSlot n"
  "needWhere (fold visitCorrection cs n) = needWhere n"
  by (induction cs arbitrary: n; auto simp: visit_defs split: object_tag.split deadline_tag.split)+

lemma expiration_flags:
  "needExpire (fold visitExpiration es n) \<longleftrightarrow> needExpire n \<or> es \<noteq> []"
  "needAbsolute (fold visitExpiration es n) \<longleftrightarrow> needAbsolute n \<or> (\<exists>e \<in> set es. dl_tag (ex_deadline e) = deadlineAt)"
  "needRelative (fold visitExpiration es n) \<longleftrightarrow> needRelative n \<or> (\<exists>e \<in> set es. dl_tag (ex_deadline e) = deadlineAfter)"
  "needCorrect (fold visitExpiration es n) = needCorrect n"
  "needRecord (fold visitExpiration es n) = needRecord n"
  "needRetract (fold visitExpiration es n) = needRetract n"
  "needEntity (fold visitExpiration es n) = needEntity n"
  "needNumber (fold visitExpiration es n) = needNumber n"
  "needAppend (fold visitExpiration es n) = needAppend n"
  "needEnsure (fold visitExpiration es n) = needEnsure n"
  "needReplace (fold visitExpiration es n) = needReplace n"
  "needFact (fold visitExpiration es n) = needFact n"
  "needSlot (fold visitExpiration es n) = needSlot n"
  "needWhere (fold visitExpiration es n) = needWhere n"
  by (induction es arbitrary: n; auto simp: visit_defs split: deadline_tag.split)+

lemma request_needs_iff:
  "needCorrect (request_needs q) \<longleftrightarrow> Corrections q \<noteq> []"
  "needExpire (request_needs q) \<longleftrightarrow> Expirations q \<noteq> []"
  "needPersist (request_needs q) \<longleftrightarrow> Persistences q \<noteq> []"
  "needRecord (request_needs q) \<longleftrightarrow> Records q \<noteq> []"
  "needRetract (request_needs q) \<longleftrightarrow> Retractions q \<noteq> []"
  "needEntity (request_needs q) \<longleftrightarrow> uses_object objectEntity q"
  "needNumber (request_needs q) \<longleftrightarrow> uses_object objectNumber q"
  "needAbsolute (request_needs q) \<longleftrightarrow> uses_deadline deadlineAt q"
  "needRelative (request_needs q) \<longleftrightarrow> uses_deadline deadlineAfter q"
  "needAppend (request_needs q) \<longleftrightarrow> (\<exists>r \<in> set (Records q). r_Mode r \<notin> {Ensure, Replace})"
  "needEnsure (request_needs q) \<longleftrightarrow> uses_mode Ensure q"
  "needReplace (request_needs q) \<longleftrightarrow> uses_mode Replace q"
  "needFact (request_needs q) \<longleftrightarrow> uses_selector retractionFact q"
  "needSlot (request_needs q) \<longleftrightarrow> uses_selector retractionSlot q"
  "needWhere (request_needs q) \<longleftrightarrow> uses_selector retractionExact q"
  by (simp_all add: request_needs_def record_flags retraction_flags correction_flags
      expiration_flags no_needs_def uses_object_def uses_deadline_def
      uses_mode_def uses_selector_def disj_assoc)

section \<open>The lists\<close>

lemma set_needed: "set (needed xs) = {x. (True, x) \<in> set xs}"
  by (force simp: needed_def)

lemma sorted_needed: "sorted_wrt (<) (map snd xs) \<Longrightarrow> sorted_wrt (<) (needed xs)"
  unfolding needed_def by (induction xs) auto

end
