(* ===== verification/Write_Fixtures.thy ===== *)
theory Write_Fixtures
  imports Write_Contract
begin

text \<open>
  The requests of \<open>TestEncodingV1PreservesPublishedV020Bytes\<close> and the bytes pinned under
  \<open>write/testdata\<close>: the model computes the published bytes. The theorems of the other
  theories are applied at these requests.
\<close>

definition simple_record :: "string \<Rightarrow> string \<Rightarrow> w_object \<Rightarrow> w_record" where
  "simple_record s p x = \<lparr>r_Subject = s, r_Predicate = p, r_Object = x, r_Tense = '''',
     r_RawText = '''', r_Mode = Append, r_Expiration = no_deadline\<rparr>"

definition empty_request :: w_request where
  "empty_request = \<lparr>Records = [], Retractions = [], Corrections = [], Expirations = [],
     Persistences = [], Vocabulary = '''', TransactionTime = no_tx_time\<rparr>"

definition absolute :: go_time where
  "absolute = unix_time 1780000000000000000"

definition heartbeat :: w_request where
  "heartbeat = empty_request\<lparr>
     Records := [(simple_record ''worker:git-ingestion'' ''obs:heartbeat''
        (Entity ''service:project-observatory''))\<lparr>r_Expiration := After 30000000000\<rparr>],
     Vocabulary := CreateUnknown\<rparr>"

definition mutations :: w_request where
  "mutations = \<lparr>
     Records =
       [(simple_record ''metric:1'' ''obs:value'' (Number 42))
          \<lparr>r_Tense := ''tense:present'', r_RawText := ''forty-two'', r_Expiration := At absolute\<rparr>,
        (simple_record ''set:1'' ''obs:member'' (Entity ''thing:1''))\<lparr>r_Mode := Ensure\<rparr>,
        (simple_record ''hash:1'' ''obs:status'' (Entity ''status:open''))\<lparr>r_Mode := Replace\<rparr>],
     Retractions =
       [RetractFact ''10'', RetractExact ''set:2'' ''obs:member'' (Entity ''thing:2''),
        RetractExact ''set:3'' ''obs:value'' (Number 7), RetractSlot ''hash:2'' ''obs:status''],
     Corrections = [Correct ''11'' ((simple_record ''task:1'' ''obs:status'' (Entity ''status:done''))
        \<lparr>r_Expiration := After 5000000000\<rparr>)],
     Expirations = [ExpireAfter ''12'' 60000000000, ExpireAt ''13'' absolute],
     Persistences = [Persist ''14''],
     Vocabulary = CreateUnknown,
     TransactionTime = TransactionNanoseconds (- 5)\<rparr>"

definition transaction_zero :: w_request where
  "transaction_zero = empty_request\<lparr>Retractions := [RetractFact ''1''],
     TransactionTime := TransactionNanoseconds 0\<rparr>"

definition transaction_at :: w_request where
  "transaction_at = empty_request\<lparr>Retractions := [RetractFact ''2''],
     TransactionTime := AtTransactionTime absolute\<rparr>"

lemma wf_fixtures: "wf_times heartbeat" "wf_times mutations" "wf_times transaction_zero" "wf_times transaction_at"
  by code_simp+

lemma transaction_zero_bytes: "Encode transaction_zero = Inr
  ''{\"write\":\"facts\",\"retract\":[{\"fact\":\"1\"}],\"tx_time_ns\":\"0\"}''"
  by code_simp

lemma transaction_at_bytes: "Encode transaction_at = Inr
  ''{\"write\":\"facts\",\"retract\":[{\"fact\":\"2\"}],\"tx_time_ns\":\"1780000000000000000\"}''"
  by code_simp

lemma heartbeat_bytes: "Encode heartbeat = Inr
  ''{\"write\":\"facts\",\"record\":[{\"subject\":\"worker:git-ingestion\",\"predicate\":\"obs:heartbeat\",\"object\":\"service:project-observatory\",\"ttl_ms\":\"30000\"}],\"vocabulary\":{\"on_unknown\":\"create\"}}''"
  by code_simp

lemma mutations_valid: "Validate mutations = None"
  by code_simp

end
