(* ===== verification/Write_Properties.thy ===== *)
theory Write_Properties
  imports Write_Features Write_Fixtures
begin

text \<open>
  The properties of the \<open>write\<close> package, each with a witness at one of the published
  requests where it has a hypothesis.
\<close>

text \<open>C3. \<open>Request.Validate\<close> accepts exactly the requests of the declarative contract
  \<open>write_ok\<close>: some mutation, the vocabulary mode present exactly when entities may be created,
  every field in its range, every fact identifier targeted once, no two claims on the same
  slot or triple, and exactly representable times.\<close>

theorem validate_accepts_exactly:
  assumes "wf_times q"
  shows "Validate q = None \<longleftrightarrow> write_ok q"
  using assms by (rule Validate_write_ok)

theorem validate_accepts_exactly_witness: "Validate mutations = None \<and> write_ok mutations"
  using validate_accepts_exactly [OF wf_fixtures(2)] mutations_valid by simp

text \<open>C4. \<open>Request.Encode\<close> succeeds exactly on the valid requests, and what it returns is a
  JSON text that reads back as the document of the abstract request.\<close>

theorem encode_reads_back:
  assumes "wf_times q"
  shows "(Encode q = Inr b \<longleftrightarrow> write_ok q \<and> b = render (doc_request (abs_request q))) \<and>
    (Encode q = Inr b \<longrightarrow> json_parse b = Some (doc_request (abs_request q)))"
  using Encode_write_ok [OF assms] Encode_parses [OF assms] by blast

theorem encode_reads_back_witness: "\<exists>b. Encode transaction_zero = Inr b \<and> write_ok transaction_zero \<and>
    json_parse b = Some (doc_request (abs_request transaction_zero))"
  using encode_reads_back [OF wf_fixtures(3)] transaction_zero_bytes by blast

text \<open>C5. The bytes identify the request: two requests that encode have the same body exactly
  when they mean the same to the server. The idempotency receipt over the exact body
  therefore neither confuses two different writes nor tells equal ones apart.\<close>

theorem encode_injective:
  assumes "wf_times p" "wf_times q" "Encode p = Inr a" "Encode q = Inr b"
  shows "a = b \<longleftrightarrow> abs_request p = abs_request q"
  using assms by (rule Encode_inject)

theorem encode_injective_witness:
  "abs_request transaction_zero \<noteq> abs_request transaction_at"
  using encode_injective [OF wf_fixtures(3,4) transaction_zero_bytes transaction_at_bytes] by simp

text \<open>C35. The ownership pass rejects exactly the requests in which two replacements, ensures,
  appends, corrections or retractions claim overlapping slots or triples.\<close>

theorem ownership_exact: "validateOwnership q = None \<longleftrightarrow> ownership_ok q"
  by (rule validateOwnership_iff)

text \<open>A fact identifier is accepted exactly when it is the canonical decimal of a positive
  64-bit number.\<close>

theorem fact_id_canonical:
  "validateFactID s path = None \<longleftrightarrow> (\<exists>n. 0 < n \<and> n < 2 ^ 64 \<and> s = format_uint n)"
  unfolding validateFactID_None fact_id_ok_def ..

text \<open>C37. A deadline that validates is encoded without loss: a relative one as the exact number
  of milliseconds, an absolute one as the exact Unix nanoseconds.\<close>

theorem deadline_lossless:
  assumes "wf_time (dl_at d)" "validateDeadline d path = None"
  shows "(dl_tag d = deadlineAfter \<longrightarrow> (\<exists>ms. encodeDeadline d = (Some (JStr (format_uint ms)), None) \<and>
      int ms * 1000000 = sint (dl_duration d))) \<and>
    (dl_tag d = deadlineAt \<longrightarrow> encodeDeadline d = (None, Some (JStr (format_int (nanos (dl_at d))))))"
proof (intro conjI impI)
  have ok: "deadline_ok d" using assms validateDeadline_None by (simp add: wf_deadline_def)
  note doc = encodeDeadline_doc [OF ok, unfolded wf_deadline_def, OF assms(1)]
  {
    assume "dl_tag d = deadlineAfter"
    with ok have d: "0 < sint (dl_duration d)" "1000000 dvd sint (dl_duration d)"
      and e: "encodeDeadline d = (Some (JStr (format_uint (nat (sint (dl_duration d) div 1000000)))), None)"
      by (simp_all add: deadline_ok_def doc abs_deadline_def)
    from d have "0 \<le> sint (dl_duration d) div 1000000" by (intro pos_imp_zdiv_nonneg_iff [THEN iffD2]) simp_all
    with d have "int (nat (sint (dl_duration d) div 1000000)) * 1000000 = sint (dl_duration d)" by simp
    with e show "\<exists>ms. encodeDeadline d = (Some (JStr (format_uint ms)), None) \<and>
      int ms * 1000000 = sint (dl_duration d)" by blast
  }
  show "encodeDeadline d = (None, Some (JStr (format_int (nanos (dl_at d)))))" if "dl_tag d = deadlineAt"
    using that by (simp add: doc abs_deadline_def)
qed

theorem deadline_lossless_witness:
  "(\<exists>ms. encodeDeadline (After 30000000000) = (Some (JStr (format_uint ms)), None) \<and> int ms = 30000) \<and>
   encodeDeadline (At absolute) = (None, Some (JStr ''1780000000000000000''))"
proof -
  have a: "wf_time (dl_at (After 30000000000))" "validateDeadline (After 30000000000) '''' = None"
    "dl_tag (After 30000000000) = deadlineAfter" "sint (dl_duration (After 30000000000)) = 30000000000"
    by code_simp+
  have b: "wf_time (dl_at (At absolute))" "validateDeadline (At absolute) '''' = None"
    "dl_tag (At absolute) = deadlineAt"
    "format_int (nanos (dl_at (At absolute))) = ''1780000000000000000''" by code_simp+
  show ?thesis
    using deadline_lossless [OF a(1,2)] deadline_lossless [OF b(1,2)] a(3,4) b(3,4) by auto
qed

text \<open>C38. \<open>Request.Features\<close> lists each capability exactly when the request uses it, in
  strictly ascending order and so without duplicates.\<close>

theorem features_minimal:
  "(x \<in> set (f_Operations (Features q)) \<longleftrightarrow>
     x = OperationCorrect \<and> Corrections q \<noteq> [] \<or> x = OperationExpire \<and> Expirations q \<noteq> [] \<or>
     x = OperationPersist \<and> Persistences q \<noteq> [] \<or> x = OperationRecord \<and> Records q \<noteq> [] \<or>
     x = OperationRetract \<and> Retractions q \<noteq> []) \<and>
   (x \<in> set (f_ObjectKinds (Features q)) \<longleftrightarrow> x = ObjectEntityLabel \<and> uses_object objectEntity q \<or>
     x = ObjectU64 \<and> uses_object objectNumber q) \<and>
   (x \<in> set (f_ExpirationForms (Features q)) \<longleftrightarrow> x = ExpirationAbsolute \<and> uses_deadline deadlineAt q \<or>
     x = ExpirationRelative \<and> uses_deadline deadlineAfter q) \<and>
   (x \<in> set (f_VocabularyModes (Features q)) \<longleftrightarrow> x = Vocabulary q \<and> x \<noteq> '''') \<and>
   (x \<in> set (f_RecordModes (Features q)) \<longleftrightarrow>
     x = Append \<and> (\<exists>r \<in> set (Records q). r_Mode r \<notin> {Ensure, Replace}) \<or>
     x = Ensure \<and> uses_mode Ensure q \<or> x = Replace \<and> uses_mode Replace q) \<and>
   (x \<in> set (f_RetractionSelectors (Features q)) \<longleftrightarrow> x = SelectorFact \<and> uses_selector retractionFact q \<or>
     x = SelectorSlot \<and> uses_selector retractionSlot q \<or> x = SelectorWhere \<and> uses_selector retractionExact q) \<and>
   (\<forall>l \<in> {f_Operations (Features q), f_ObjectKinds (Features q), f_ExpirationForms (Features q),
      f_VocabularyModes (Features q), f_RecordModes (Features q), f_RetractionSelectors (Features q)}.
      sorted_wrt (<) l)"
proof -
  have "sorted_wrt (<) [OperationCorrect, OperationExpire, OperationPersist, OperationRecord, OperationRetract]"
    "sorted_wrt (<) [ObjectEntityLabel, ObjectU64]" "sorted_wrt (<) [ExpirationAbsolute, ExpirationRelative]"
    "sorted_wrt (<) [Append, Ensure, Replace]" "sorted_wrt (<) [SelectorFact, SelectorSlot, SelectorWhere]"
    "\<And>s :: string. sorted_wrt (<) [s]"
    by (code_simp | simp)+
  then show ?thesis
    unfolding Features_def Let_def features.simps set_needed
    by (auto simp: request_needs_iff intro!: sorted_needed simp del: sorted_wrt.simps)
qed

theorem features_minimal_witness: "OperationRetract \<in> set (f_Operations (Features transaction_zero))"
  using features_minimal [of OperationRetract transaction_zero] by (simp add: transaction_zero_def)

end
