(* ===== verification/Go_Json_Bound.thy ===== *)
theory Go_Json_Bound
  imports Go_Json_Laws
begin

text \<open>
  The reader of \<open>Go_Json\<close> is total: what it leaves unread is shorter than its input,
  so the bound on its recursion chosen by \<open>json_parse\<close> never decides a result. Any
  larger bound gives the same value and the same rest.
\<close>

section \<open>Readers consume\<close>

lemma length_skip_ws: "length (skip_ws s) \<le> length s"
  by (simp add: skip_ws_def length_dropWhile_le)

lemma prepend_SomeE:
  assumes "prepend u m = Some (t, r)"
  obtains t' where "m = Some (t', r)" "t = u @ t'"
  using assms by (auto simp: prepend_def)

lemma unquote_consumes: "unquote s = Some (t, r) \<Longrightarrow> length r < length s"
proof (induction s arbitrary: t rule: unquote.induct)
  case 1
  then show ?case by simp
next
  case (2 c s)
  show ?case
  proof (cases "c = Quote \<or> c = Backslash")
    case False
    have "c \<noteq> Quote" "c \<noteq> Backslash" using False by auto
    with 2 show ?thesis
      by (fastforce simp: prepend_def split: if_splits option.splits)
  next
    case True
    show ?thesis
    proof (cases "c = Quote")
      case True
      with 2 show ?thesis by simp
    next
      case q: False
      with True have c: "c = Backslash" by simp
      with "2.prems" q obtain e s' where s: "s = e # s'" by (cases s) auto
      show ?thesis
      proof (cases "e = CHR ''u''")
        case True
        with "2.prems" q c s obtain v where v: "hex4 s' = Some v"
          by (auto split: option.splits)
        with "2.prems" q c s True obtain t' where
          "unquote (drop (4 + snd (escaped_rune v (drop 4 s'))) s') = Some (t', r)"
          by (auto simp: prepend_def)
        with "2.IH"(1) [OF q c s True v] show ?thesis by (fastforce simp: s)
      next
        case False
        with "2.prems" q c s obtain x t' where "simple_escape e = Some x" "unquote s' = Some (t', r)"
          by (auto simp: prepend_def split: option.splits)
        with "2.IH"(2) [OF q c s False] show ?thesis by (fastforce simp: s)
      qed
    qed
  qed
qed

lemma digits1_consumes: "digits1 s = Some (t, r) \<Longrightarrow> length r < length s"
proof -
  assume a: "digits1 s = Some (t, r)"
  have "length s = length (takeWhile is_digit s) + length (dropWhile is_digit s)"
    by (metis length_append takeWhile_dropWhile_id)
  with a show ?thesis by (auto simp: digits1_def split: list.splits)
qed

lemma scan_int_consumes: "scan_int s = Some (t, r) \<Longrightarrow> length r < length s"
  by (auto simp: scan_int_def split: list.splits if_splits dest!: digits1_consumes)

lemma scan_frac_consumes: "scan_frac s = Some (t, r) \<Longrightarrow> length r \<le> length s"
  by (auto simp: scan_frac_def prepend_def split: list.splits if_splits dest!: digits1_consumes)

lemma scan_exp_consumes: "scan_exp s = Some (t, r) \<Longrightarrow> length r \<le> length s"
  by (auto simp: scan_exp_def prepend_def split: list.splits if_splits dest!: digits1_consumes)

lemma scan_tail_consumes: "scan_tail s = Some (t, r) \<Longrightarrow> length r < length s"
  by (auto simp: scan_tail_def prepend_def split: option.splits
      dest!: scan_int_consumes scan_frac_consumes scan_exp_consumes)

lemma scan_number_consumes: "scan_number s = Some (t, r) \<Longrightarrow> length r < length s"
  by (auto simp: scan_number_def prepend_def split: list.splits if_splits dest!: scan_tail_consumes)

lemma literal_consumes: "w \<noteq> [] \<Longrightarrow> literal w v s = Some (j, r) \<Longrightarrow> length r < length s"
  by (auto simp: literal_def prefix_def split: if_splits)

lemma skip_ws_Cons_length: "skip_ws s = c # r \<Longrightarrow> length r < length s"
  using length_skip_ws [of s] by simp

lemma skip_ws_tail_length: "length (drop 1 (skip_ws s)) \<le> length s"
  using length_skip_ws [of s] by simp

lemma parse_consumes_step:
  assumes v: "\<And>d s j r. parse_value f d s = Some (j, r) \<Longrightarrow> length r < length s"
    and e: "\<And>d s xs r. parse_elems f d s = Some (xs, r) \<Longrightarrow> length r < length s"
    and m: "\<And>d s ms r. parse_members f d s = Some (ms, r) \<Longrightarrow> length r < length s"
  shows "parse_value (Suc f) d s = Some (j, r) \<Longrightarrow> length r < length s"
    and "parse_elems (Suc f) d s = Some (xs, r) \<Longrightarrow> length r < length s"
    and "parse_members (Suc f) d s = Some (ms, r) \<Longrightarrow> length r < length s"
proof -
  assume p: "parse_value (Suc f) d s = Some (j, r)"
  then obtain c q where s: "skip_ws s = c # q" by (auto split: list.splits)
  have "length r \<le> length q"
    using p s skip_ws_tail_length [of q] scan_number_consumes [of "c # q"]
    by (auto dest!: e m unquote_consumes literal_consumes [rotated] split: if_splits option.splits simp del: drop_Suc)
  with skip_ws_Cons_length [OF s] show "length r < length s" by simp
next
  show "parse_elems (Suc f) d s = Some (xs, r) \<Longrightarrow> length r < length s"
    by (auto dest!: v e skip_ws_Cons_length split: if_splits option.splits list.splits)
next
  have tail: "parse_value f d (drop 1 (skip_ws q)) = Some (x, t) \<Longrightarrow> length t < length q" for q x t
    using v skip_ws_tail_length [of q] by (metis less_le_trans)
  show "parse_members (Suc f) d s = Some (ms, r) \<Longrightarrow> length r < length s"
    by (auto dest!: tail m unquote_consumes skip_ws_Cons_length split: if_splits option.splits list.splits simp del: One_nat_def)
qed

lemma parse_consumes:
  shows "parse_value f d s = Some (j, r) \<Longrightarrow> length r < length s"
    and "parse_elems f d s = Some (xs, r) \<Longrightarrow> length r < length s"
    and "parse_members f d s = Some (ms, r) \<Longrightarrow> length r < length s"
proof (induction f arbitrary: d s j xs ms r)
  case (Suc f)
  { case 1 show ?case by (rule parse_consumes_step(1) [OF _ _ _ 1]) (erule Suc.IH)+ }
  { case 2 show ?case by (rule parse_consumes_step(2) [OF _ _ _ 2]) (erule Suc.IH)+ }
  { case 3 show ?case by (rule parse_consumes_step(3) [OF _ _ _ 3]) (erule Suc.IH)+ }
qed simp_all

section \<open>The bound never decides\<close>

text \<open>Two bounds that are enough for a text are enough for what its readers leave.\<close>

lemma parse_bound_step:
  assumes v: "\<And>d s. 2 * length s < f \<Longrightarrow> 2 * length s < g \<Longrightarrow> parse_value f d s = parse_value g d s"
    and e: "\<And>d s. 2 * length s + 1 < f \<Longrightarrow> 2 * length s + 1 < g \<Longrightarrow> parse_elems f d s = parse_elems g d s"
    and m: "\<And>d s. 2 * length s + 1 < f \<Longrightarrow> 2 * length s + 1 < g \<Longrightarrow> parse_members f d s = parse_members g d s"
  shows "2 * length s \<le> f \<Longrightarrow> 2 * length s \<le> g \<Longrightarrow> parse_value (Suc f) d s = parse_value (Suc g) d s"
    and "2 * length s < f \<Longrightarrow> 2 * length s < g \<Longrightarrow> parse_elems (Suc f) d s = parse_elems (Suc g) d s"
    and "2 * length s < f \<Longrightarrow> 2 * length s < g \<Longrightarrow> parse_members (Suc f) d s = parse_members (Suc g) d s"
proof -
  assume "2 * length s \<le> f" "2 * length s \<le> g"
  then show "parse_value (Suc f) d s = parse_value (Suc g) d s"
    using e m by (auto split: list.split dest!: skip_ws_Cons_length)
next
  assume b: "2 * length s < f" "2 * length s < g"
  have rest: "parse_elems f d q = parse_elems g d q"
    if "parse_value g d s = Some (x, r)" "skip_ws r = c # q" for x r c q
    using b parse_consumes(1) [OF that(1)] skip_ws_Cons_length [OF that(2)] by (intro e) simp_all
  show "parse_elems (Suc f) d s = parse_elems (Suc g) d s"
    by (auto simp: v [OF b] dest: rest split: option.split list.split)
next
  assume b: "2 * length s < f" "2 * length s < g"
  have inner: "parse_value f d (drop 1 (skip_ws r)) = parse_value g d (drop 1 (skip_ws r))"
    if "skip_ws s = c # q" "unquote q = Some (k, r)" for c q k r
    using b skip_ws_Cons_length [OF that(1)] unquote_consumes [OF that(2)] skip_ws_tail_length [of r] by (intro v) simp_all
  have rest: "parse_members f d p = parse_members g d p"
    if "skip_ws s = c # q" "unquote q = Some (k, r)" "parse_value g d (drop 1 (skip_ws r)) = Some (x, t)" "skip_ws t = c' # p"
    for c q k r x t c' p
    using b skip_ws_Cons_length [OF that(1)] unquote_consumes [OF that(2)] skip_ws_tail_length [of r]
      parse_consumes(1) [OF that(3)] skip_ws_Cons_length [OF that(4)] by (intro m) simp_all
  show "parse_members (Suc f) d s = parse_members (Suc g) d s"
    by (auto simp: inner dest: rest split: option.split list.split simp del: One_nat_def)
qed

lemma parse_bound:
  shows "2 * length s < f \<Longrightarrow> 2 * length s < g \<Longrightarrow> parse_value f d s = parse_value g d s"
    and "2 * length s + 1 < f \<Longrightarrow> 2 * length s + 1 < g \<Longrightarrow> parse_elems f d s = parse_elems g d s"
    and "2 * length s + 1 < f \<Longrightarrow> 2 * length s + 1 < g \<Longrightarrow> parse_members f d s = parse_members g d s"
proof (induction f arbitrary: g d s)
  case (Suc f)
  { case 1 then obtain h where "g = Suc h" by (cases g) auto
    with 1 show ?case by (auto simp only: intro!: parse_bound_step(1) Suc.IH) }
  { case 2 then obtain h where "g = Suc h" by (cases g) auto
    with 2 show ?case by (auto simp only: intro!: parse_bound_step(2) Suc.IH) }
  { case 3 then obtain h where "g = Suc h" by (cases g) auto
    with 3 show ?case by (auto simp only: intro!: parse_bound_step(3) Suc.IH) }
qed simp_all

corollary json_parse_bound:
  assumes "2 * length s < f"
  shows "json_parse s = (case parse_value f max_nesting s of
    Some (v, r) \<Rightarrow> if skip_ws r = [] then Some v else None | None \<Rightarrow> None)"
  using parse_bound(1) [of s "2 * length s + 1" f max_nesting] assms by (simp add: json_parse_def)

end
