(* ===== verification/Client_Errors.thy ===== *)
theory Client_Errors
  imports Write_Types
begin

text \<open>
  The SDK's errors (\<open>errors.go\<close>): one constructor per error type, with its fields, and the
  errors of other code it wraps. \<open>chain\<close> is the order in which \<open>errors.As\<close> visits an error
  and what it unwraps to; every query of an error (\<open>IsRetryable\<close>, \<open>RequestIDFromError\<close>) is
  a search of that list.
\<close>

section \<open>Errors\<close>

text \<open>
  \<open>GoError\<close> is \<open>errors.New\<close> or \<open>fmt.Errorf\<close> without a wrapped error; \<open>GoWrap\<close> is
  \<open>fmt.Errorf\<close> with \<open>%w\<close>; \<open>LibError\<close> is an error of the standard library or of the caller's
  functions, with its text; \<open>JsonError\<close> is the failure of \<open>json.Unmarshal\<close> on a body.
  Fields that may be \<open>nil\<close> are options.
\<close>

datatype go_error =
    GoError string
  | GoWrap string go_error
  | LibError string
  | JsonError string bytes
  | ContextCanceled
  | ContextDeadlineExceeded
  | APIError (api_Status: int) (api_Code: string) (api_Retryable: bool) (api_RequestID: string)
      (api_Detail: string) (api_RawBody: bytes) (api_BodyTruncated: bool) (api_Malformed: bool)
      (api_DecodeError: "go_error option")
  | TransportError (tr_Method: string) (tr_Path: string) (tr_RequestID: string) (tr_Cause: "go_error option")
  | ResponseTooLargeError (rl_Status: int) (rl_RequestID: string) (rl_Limit: int)
  | RequestTooLargeError (ql_Size: int) (ql_Limit: int)
  | DecodeError (de_Status: int) (de_RequestID: string) (de_Body: bytes) (de_Cause: "go_error option")
  | CapabilityError (ca_Reason: string)
  | InvalidKeyError (ik_Key: string) (ik_Reason: string)
  | ProtocolError (pr_RequestID: string) (pr_Detail: string) (pr_Cause: "go_error option")
  | RetryStoppedError (rs_RequestID: string) (rs_Last: "go_error option") (rs_Cause: "go_error option")
  | UncertainOperationError (un_RequestID: string) (un_UncertainRequestID: string)
      (un_ExpectedIdentity: string) (un_ObservedIdentity: string) (un_Cause: "go_error option")
      (un_Last: "go_error option") (un_IdentityCause: "go_error option") (un_StopCause: "go_error option")
  | QueryValidationError (qv_Code: string) (qv_Path: string) (qv_Detail: string)
  | WriteValidationError (wv_error: write_error)
  | IngestValidationError (iv_Code: string) (iv_Path: string) (iv_Detail: string) (iv_Cause: "go_error option")

section \<open>errors.As\<close>

definition some_list :: "'a option list \<Rightarrow> 'a list" where
  "some_list xs = List.map_filter (\<lambda>x. x) xs"

lemma some_list_simps [simp]: "some_list [] = []" "some_list (None # xs) = some_list xs"
  "some_list (Some x # xs) = x # some_list xs"
  by (simp_all add: some_list_def)

text \<open>The \<open>Unwrap\<close> methods; those of the two joined errors drop the causes that are nil.\<close>

fun unwrap :: "go_error \<Rightarrow> go_error list" where
  "unwrap (GoWrap t e) = [e]"
| "unwrap (APIError s c r i d b t m cause) = some_list [cause]"
| "unwrap (TransportError m p i cause) = some_list [cause]"
| "unwrap (DecodeError s i b cause) = some_list [cause]"
| "unwrap (ProtocolError i d cause) = some_list [cause]"
| "unwrap (RetryStoppedError i lst cause) = some_list [cause, lst]"
| "unwrap (UncertainOperationError i u e ob cause lst identity stop) =
     some_list [cause, lst, identity, stop]"
| "unwrap (IngestValidationError c p d cause) = some_list [cause]"
| "unwrap e = []"

lemma unwrap_size: "x \<in> set (unwrap e) \<Longrightarrow> size x < size e"
  by (cases e) (auto simp: some_list_def List.map_filter_def split: if_splits option.splits)

function chain :: "go_error \<Rightarrow> go_error list" where
  "chain e = e # concat (map chain (unwrap e))"
  by auto
termination by (relation "measure size") (auto dest: unwrap_size)

declare chain.simps [simp del]

text \<open>\<open>errors.As\<close> for one error type: the first error of the chain of that type.\<close>

definition errors_As :: "(go_error \<Rightarrow> bool) \<Rightarrow> go_error \<Rightarrow> go_error option" where
  "errors_As is_type e = find is_type (chain e)"

lemma errors_As_None: "errors_As p e = None \<longleftrightarrow> (\<forall>x \<in> set (chain e). \<not> p x)"
  unfolding errors_As_def find_None_iff by blast

lemma errors_As_Some: "errors_As p e = Some x \<Longrightarrow> x \<in> set (chain e) \<and> p x"
  unfolding errors_As_def by (auto simp: find_Some_iff)

lemma errors_As_self: "p e \<Longrightarrow> errors_As p e = Some e"
  by (simp add: errors_As_def chain.simps)

lemma errors_As_wrap: "\<not> p (GoWrap t e) \<Longrightarrow> errors_As p (GoWrap t e) = errors_As p e"
  by (simp add: errors_As_def chain.simps [of "GoWrap t e"])

text \<open>An error that unwraps to one other error and is not of the type sought.\<close>

lemma errors_As_skip: "\<not> p e \<Longrightarrow> unwrap e = [] \<Longrightarrow> errors_As p e = None"
  by (simp add: errors_As_def chain.simps)

definition request_id_carrier :: "go_error \<Rightarrow> bool" where
  "request_id_carrier e \<longleftrightarrow> is_APIError e \<or> is_TransportError e \<or> is_ResponseTooLargeError e \<or>
     is_DecodeError e \<or> is_ProtocolError e \<or> is_RetryStoppedError e \<or> is_UncertainOperationError e"

fun requestIDValue :: "go_error \<Rightarrow> string" where
  "requestIDValue (APIError s c r i d b t m cause) = i"
| "requestIDValue (TransportError m p i cause) = i"
| "requestIDValue (ResponseTooLargeError s i l) = i"
| "requestIDValue (DecodeError s i b cause) = i"
| "requestIDValue (ProtocolError i d cause) = i"
| "requestIDValue (RetryStoppedError i lst cause) = i"
| "requestIDValue (UncertainOperationError i u e ob cause lst identity stop) = i"
| "requestIDValue e = ''''"

definition RequestIDFromError :: "go_error option \<Rightarrow> string" where
  "RequestIDFromError err = (case err of None \<Rightarrow> '''' | Some e \<Rightarrow>
     (case errors_As request_id_carrier e of None \<Rightarrow> '''' | Some carrier \<Rightarrow> requestIDValue carrier))"

definition IsRetryable :: "go_error option \<Rightarrow> bool" where
  "IsRetryable err = (case err of None \<Rightarrow> False | Some e \<Rightarrow>
     (case errors_As is_APIError e of None \<Rightarrow> False | Some api \<Rightarrow> api_Retryable api))"

section \<open>Error texts\<close>

text \<open>
  The texts of \<open>Error()\<close>. Three parts of the standard library stay parameters: the quoting of
  \<open>%q\<close>, the text of a JSON decoding error, and whether \<open>http.NewRequestWithContext\<close> accepts a
  method and a URL.
\<close>

record go_fmt =
  fmt_q :: "string \<Rightarrow> string"
  json_text :: "string \<Rightarrow> bytes \<Rightarrow> string"
  new_request_error :: "string \<Rightarrow> string \<Rightarrow> go_error option"

definition fmt_t :: "bool \<Rightarrow> string" where
  "fmt_t b = (if b then ''true'' else ''false'')"

text \<open>The \<open>Error\<close> methods. \<open>error_text_opt\<close> of \<open>None\<close> is what \<open>%v\<close> prints for a nil error, and what the
  methods that test their receiver return for a nil one; \<open>go_error\<close> has no typed nil pointer, and the
  program makes none.\<close>

fun error_text :: "go_fmt \<Rightarrow> go_error \<Rightarrow> string"
  and error_text_opt :: "go_fmt \<Rightarrow> go_error option \<Rightarrow> string" where
  "error_text f (GoError s) = s"
| "error_text f (GoWrap s e) = s @ '': '' @ error_text f e"
| "error_text f (LibError s) = s"
| "error_text f (JsonError target body) = json_text f target body"
| "error_text f ContextCanceled = ''context canceled''"
| "error_text f ContextDeadlineExceeded = ''context deadline exceeded''"
| "error_text f (APIError status code retryable rid detail raw tr malformed cause) =
     (if malformed
      then ''joeydb: HTTP '' @ format_int status @ '' malformed error response request_id='' @ fmt_q f rid
        @ '': '' @ detail
      else ''joeydb: HTTP '' @ format_int status @ '' code='' @ code @ '' retryable='' @ fmt_t retryable
        @ '' request_id='' @ rid @ '': '' @ detail)"
| "error_text f (TransportError m p i cause) =
     ''joeydb: '' @ m @ '' '' @ p @ '' transport failed request_id='' @ i @ '': '' @ error_text_opt f cause"
| "error_text f (ResponseTooLargeError s i l) =
     ''joeydb: response exceeds '' @ format_int l @ '' bytes (HTTP '' @ format_int s @ '', request_id='' @ i @ '')''"
| "error_text f (RequestTooLargeError n l) =
     ''joeydb: request is '' @ format_int n @ '' bytes; local limit is '' @ format_int l"
| "error_text f (DecodeError s i b cause) =
     ''joeydb: decode HTTP '' @ format_int s @ '' response request_id='' @ i @ '': '' @ error_text_opt f cause"
| "error_text f (CapabilityError r) = ''joeydb: capability refused: '' @ r"
| "error_text f (InvalidKeyError k r) = ''joeydb: invalid idempotency key '' @ fmt_q f k @ '': '' @ r"
| "error_text f (ProtocolError i d cause) = ''joeydb: protocol error request_id='' @ i @ '': '' @ d"
| "error_text f (RetryStoppedError i lst cause) =
     ''joeydb: retry stopped after request_id='' @ i @ '': '' @ error_text_opt f cause
     @ '' (last attempt: '' @ error_text_opt f lst @ '')''"
| "error_text f (UncertainOperationError i u ex ob cause lst identity stop) =
     (let uncertain = (if u = '''' then i else u);
          attempts = ''uncertain_request_id='' @ uncertain @ '': '' @ error_text_opt f cause
            @ (if lst = None then '''' else ''; final_request_id='' @ i @ '': '' @ error_text_opt f lst)
      in if identity \<noteq> None then
           ''joeydb: keyed write outcome uncertain; retry refused because log identity is unavailable (expected ''
           @ ex @ '', request_id='' @ i @ ''): '' @ error_text_opt f identity @ '' ('' @ attempts @ '')''
         else if ob \<noteq> '''' \<and> ob \<noteq> ex then
           ''joeydb: keyed write outcome uncertain; retry refused across log identity change ''
           @ ex @ '' -> '' @ ob @ '' (request_id='' @ i @ ''; '' @ attempts @ '')''
         else if stop \<noteq> None then
           ''joeydb: keyed write outcome uncertain; retry stopped on log '' @ ex
           @ '' (request_id='' @ i @ ''): '' @ error_text_opt f stop @ '' ('' @ attempts @ '')''
         else ''joeydb: keyed write outcome uncertain on log '' @ ex
           @ '' (request_id='' @ i @ ''; '' @ attempts @ '')'')"
| "error_text f (QueryValidationError c p d) =
     ''query: validation failed path='' @ p @ '' code='' @ c @ '': '' @ d"
| "error_text f (WriteValidationError e) = write_error_text e"
| "error_text f (IngestValidationError c p d cause) =
     ''ingest: validation failed path='' @ p @ '' code='' @ c @ '': '' @ d"
| "error_text_opt f None = ''<nil>''"
| "error_text_opt f (Some e) = error_text f e"

end
