(* ===== verification/Client_Types.thy ===== *)
theory Client_Types
  imports Client_Errors Go_Time
begin

text \<open>
  The wire types of the client (\<open>types.go\<close>): the capability manifest, the introspection
  report, one bounded response, and what a session is asked to prove. The anonymous structs
  of the source are records of their own. Integers keep Go's value (\<open>int\<close> and \<open>int64\<close> are the
  values the JSON decoder has already range-checked).
\<close>

definition RequestIDHeader :: string where "RequestIDHeader = ''X-Request-ID''"
definition IdempotencyKeyHeader :: string where "IdempotencyKeyHeader = ''Idempotency-Key''"
definition IdempotencyReplayHeader :: string where "IdempotencyReplayHeader = ''Idempotency-Replayed''"
definition AgentProtocol :: string where "AgentProtocol = ''joeydb-agent-http''"
definition AgentProtocolVersion :: string where "AgentProtocolVersion = ''3''"
definition CapabilitiesSchemaFloor :: int where "CapabilitiesSchemaFloor = 1"
definition IntrospectionSchemaFloor :: int where "IntrospectionSchemaFloor = 1"

lemmas wire_constants [code_defs] = RequestIDHeader_def IdempotencyKeyHeader_def
  IdempotencyReplayHeader_def AgentProtocol_def AgentProtocolVersion_def CapabilitiesSchemaFloor_def
  IntrospectionSchemaFloor_def

section \<open>Capabilities\<close>

record cap_node =
  n_Role :: string
  n_WritesAllowed :: bool
  n_AutoBuild :: bool
  n_Durability :: string
  n_SyncLevel :: string

record cap_limits =
  l_MaxJSONRequestBytes :: int
  l_MaxLogBytes :: int
  l_MaxIdempotencyReceipts :: int
  l_MaxIdempotencyRetainedResponseBytes :: int
  l_MaxInflightQueries :: int
  l_MaxInflightMutations :: int
  l_MaxInflightObservations :: int

record cap_endpoint =
  ep_Name :: string
  ep_Path :: string
  ep_Method :: string
  ep_Effect :: string
  ep_Enabled :: bool

record cap_query =
  q_Find :: "string list"
  q_WhereForms :: "string list"
  q_WhereFields :: "string list"
  q_Clauses :: "string list"
  q_NumericBounds :: "string list"
  q_OrderKeys :: "string list"
  q_ReturnShapes :: "string list"
  q_Consistency :: "string list"
  q_OptimizeModes :: "string list"
  q_Representations :: "string list"

record idempotency =
  i_Supported :: bool
  i_KeyHeader :: string
  i_ReplayHeader :: string
  i_BodyIdentity :: string
  i_RequiredKeyPrefix :: string
  i_MaxKeyBytes :: int
  i_ResponseMaxBytes :: int

record cap_write =
  w_Write :: "string list"
  w_Operations :: "string list"
  w_ObjectKinds :: "string list"
  w_ExpirationForms :: "string list"
  w_VocabularyModes :: "string list"
  w_RecordModes :: "string list"
  w_RetractSelectors :: "string list"
  w_Idempotency :: idempotency

record cap_errors =
  e_SchemaVersion :: int
  e_RequestIDHeader :: string
  e_BodyFields :: "string list"
  e_Codes :: "string list"

record cap_safety =
  s_Authentication :: bool
  s_MachineErrorCodes :: bool
  s_RequestCorrelation :: bool
  s_WriteIdempotency :: bool
  s_WriteDryRun :: bool
  s_LogicalChangeFeed :: bool

record capabilities =
  c_SchemaVersion :: int
  c_Protocol :: string
  c_ProtocolVersion :: string
  c_Node :: cap_node
  c_Limits :: cap_limits
  c_Endpoints :: "cap_endpoint list"
  c_Query :: cap_query
  c_Write :: cap_write
  c_Errors :: cap_errors
  c_Safety :: cap_safety

section \<open>Introspection\<close>

record capacity_resource =
  cr_Used :: int
  cr_Max :: int
  cr_Remaining :: int
  cr_State :: string

record introspection_store =
  is_Version :: int
  is_LogIdentity :: string
  is_LogOffset :: int
  is_LogDigest :: int
  is_IdempotencyKeys :: int
  is_IdempotencyResponseBytes :: int

record introspection_capacity =
  ic_CanonicalLogBytes :: capacity_resource
  ic_IdempotencyReceipts :: capacity_resource
  ic_IdempotencyRetainedResponseBytes :: capacity_resource

record introspection =
  in_SchemaVersion :: int
  in_Store :: introspection_store
  in_Capacity :: introspection_capacity

section \<open>Responses and requirements\<close>

text \<open>Response headers as \<open>net/http\<close> delivers them: canonical names, values in order.\<close>

type_synonym http_header = "(string \<times> string) list"

record response =
  resp_Status :: int
  resp_Header :: http_header
  resp_RequestID :: string
  resp_Body :: bytes
  resp_Replayed :: bool
  resp_ReplayHeaderPresent :: bool

section \<open>Contexts, policies, requirements\<close>

text \<open>
  The outside world is a value of type \<open>'w\<close> that every effect passes on. A context is what the
  code asks of it: \<open>Err()\<close>, and the race of \<open>Done()\<close> against a timer. The functions a
  caller may set on a retry policy are options; they act on the world like every other effect.
\<close>

record 'w ctx =
  ctx_Err :: "'w \<Rightarrow> go_error option"
  ctx_Wait :: "duration \<Rightarrow> 'w \<Rightarrow> go_error option \<times> 'w"

type_synonym 'w backoff = "int \<Rightarrow> 'w \<Rightarrow> duration \<times> 'w"
type_synonym 'w sleep = "'w ctx \<Rightarrow> duration \<Rightarrow> 'w \<Rightarrow> go_error option \<times> 'w"

record 'w retry_policy =
  rp_MaxAttempts :: int
  rp_Backoff :: "'w backoff option"
  rp_Sleep :: "'w sleep option"

record 'w requirements =
  rq_Writable :: bool
  rq_Ingestion :: bool
  rq_Retry :: "'w retry_policy"

end
