(* ===== verification/Go_Json_Decode.thy ===== *)
theory Go_Json_Decode
  imports Go_Json
begin

text \<open>
  What the client uses of \<open>json.Unmarshal\<close> into structs. A decoder updates the old value of its
  target and says whether a type error was recorded: as in Go, decoding goes on after a type
  error and the first one is returned at the end. Field names match exactly or else by case
  folding; a repeated member decodes into what the first one left; \<open>null\<close> leaves scalars alone
  and clears pointers and slices; a pointer is allocated before its target is decoded.
\<close>

type_synonym 'a dec = "json \<Rightarrow> 'a \<Rightarrow> 'a \<times> bool"

section \<open>Scalars\<close>

definition dec_string :: "string dec" where
  "dec_string j old = (case j of JStr s \<Rightarrow> (s, False) | JNull \<Rightarrow> (old, False) | _ \<Rightarrow> (old, True))"

definition dec_bool :: "bool dec" where
  "dec_bool j old = (case j of JBool b \<Rightarrow> (b, False) | JNull \<Rightarrow> (old, False) | _ \<Rightarrow> (old, True))"

text \<open>\<open>strconv.ParseInt\<close> and \<open>strconv.ParseUint\<close> on a JSON number literal; fractions and
  exponents are errors.\<close>

definition all_digits :: "string \<Rightarrow> bool" where
  "all_digits s \<longleftrightarrow> s \<noteq> [] \<and> list_all is_digit s"

definition literal_int :: "string \<Rightarrow> int option" where
  "literal_int s = (case s of
     c # r \<Rightarrow> (if c = CHR ''-'' then (if all_digits r then Some (- int (digits_val r)) else None)
       else if all_digits s then Some (int (digits_val s)) else None)
   | [] \<Rightarrow> None)"

definition dec_int :: "int dec" where
  "dec_int j old = (case j of
     JNum s \<Rightarrow> (case literal_int s of
         Some i \<Rightarrow> if - (2 ^ 63) \<le> i \<and> i < 2 ^ 63 then (i, False) else (old, True)
       | None \<Rightarrow> (old, True))
   | JNull \<Rightarrow> (old, False) | _ \<Rightarrow> (old, True))"

definition dec_uint :: "nat \<Rightarrow> int dec" where
  "dec_uint bits j old = (case j of
     JNum s \<Rightarrow> (if all_digits s \<and> digits_val s < 2 ^ bits then (int (digits_val s), False) else (old, True))
   | JNull \<Rightarrow> (old, False) | _ \<Rightarrow> (old, True))"

section \<open>Pointers, slices, structs\<close>

definition dec_ptr :: "'a dec \<Rightarrow> 'a \<Rightarrow> 'a option dec" where
  "dec_ptr d zero j old = (if j = JNull then (None, False)
     else (let (x, e) = d j (case old of None \<Rightarrow> zero | Some x \<Rightarrow> x) in (Some x, e)))"

text \<open>A slice is decoded in place: element \<open>i\<close> into the old element \<open>i\<close>, or into a zero value
  when the slice has to grow. The spare capacity of a slice shortened before is not modelled here, as
  it is for ingestion batches; it shows only when an answer gives a member at least three times.\<close>

fun dec_elems :: "'a dec \<Rightarrow> 'a \<Rightarrow> json list \<Rightarrow> 'a list \<Rightarrow> 'a list \<times> bool" where
  "dec_elems d zero [] old = ([], False)"
| "dec_elems d zero (j # js) old =
     (let (x, e) = d j (case old of [] \<Rightarrow> zero | y # _ \<Rightarrow> y);
          (xs, es) = dec_elems d zero js (tl old)
      in (x # xs, e \<or> es))"

definition dec_slice :: "'a dec \<Rightarrow> 'a \<Rightarrow> 'a list dec" where
  "dec_slice d zero j old = (case j of JArr js \<Rightarrow> dec_elems d zero js old | JNull \<Rightarrow> ([], False)
     | _ \<Rightarrow> (old, True))"

definition dec_strings :: "string list dec" where
  "dec_strings = dec_slice dec_string ''''"

text \<open>Case folding of member names: ASCII letters, and the two runes outside ASCII that fold to
  one (the Kelvin sign and the long s). The other runes never match an ASCII field name.\<close>

fun fold_name :: "string \<Rightarrow> string" where
  "fold_name (a # b # c # s) =
     (if byte a = 0xE2 \<and> byte b = 0x84 \<and> byte c = 0xAA then CHR ''k'' # fold_name s
      else if byte a = 0xC5 \<and> byte b = 0xBF then CHR ''s'' # fold_name (c # s)
      else to_lower [a] @ fold_name (b # c # s))"
| "fold_name [a, b] = (if byte a = 0xC5 \<and> byte b = 0xBF then ''s'' else to_lower [a, b])"
| "fold_name s = to_lower s"

type_synonym 's fields = "(string \<times> 's dec) list"

definition field :: "string \<Rightarrow> ('s \<Rightarrow> 'a) \<Rightarrow> (('a \<Rightarrow> 'a) \<Rightarrow> 's \<Rightarrow> 's) \<Rightarrow> 'a dec \<Rightarrow> string \<times> 's dec" where
  "field name get upd d = (name, \<lambda>j s. let (x, e) = d j (get s) in (upd (\<lambda>_. x) s, e))"

definition find_field :: "'s fields \<Rightarrow> string \<Rightarrow> 's dec option" where
  "find_field fs k = (case map_of fs k of
     Some d \<Rightarrow> Some d
   | None \<Rightarrow> map_option snd (find (\<lambda>f. fold_name (fst f) = fold_name k) fs))"

fun dec_members :: "'s fields \<Rightarrow> (string \<times> json) list \<Rightarrow> 's \<Rightarrow> 's \<times> bool" where
  "dec_members fs [] s = (s, False)"
| "dec_members fs ((k, j) # ms) s =
     (let (s', e) = (case find_field fs k of None \<Rightarrow> (s, False) | Some d \<Rightarrow> d j s);
          (s'', es) = dec_members fs ms s'
      in (s'', e \<or> es))"

definition dec_struct :: "'s fields \<Rightarrow> 's dec" where
  "dec_struct fs j s = (case j of JObj ms \<Rightarrow> dec_members fs ms s | JNull \<Rightarrow> (s, False) | _ \<Rightarrow> (s, True))"

text \<open>\<open>json.Unmarshal\<close> into a zero value: a syntax error leaves it untouched.\<close>

definition unmarshal :: "'a dec \<Rightarrow> 'a \<Rightarrow> bytes \<Rightarrow> 'a \<times> bool" where
  "unmarshal d zero body = (case json_parse body of None \<Rightarrow> (zero, True) | Some j \<Rightarrow> d j zero)"

end
