(* ===== verification/Client_Decode.thy ===== *)
theory Client_Decode
  imports Client_Types Go_Json_Decode
begin

text \<open>
  The field tags of \<open>types.go\<close>: how \<open>json.Unmarshal\<close> fills the capability manifest, the
  introspection report, the managed error body and the write receipt, from their zero values.
\<close>

section \<open>Capabilities\<close>

definition node_fields :: "cap_node fields" where
  "node_fields =
    [field ''role'' n_Role n_Role_update dec_string,
     field ''writes_allowed'' n_WritesAllowed n_WritesAllowed_update dec_bool,
     field ''auto_build'' n_AutoBuild n_AutoBuild_update dec_bool,
     field ''durability'' n_Durability n_Durability_update dec_string,
     field ''sync_level'' n_SyncLevel n_SyncLevel_update dec_string]"

definition zero_node :: cap_node where
  "zero_node = \<lparr>n_Role = '''', n_WritesAllowed = False, n_AutoBuild = False, n_Durability = '''',
     n_SyncLevel = ''''\<rparr>"

definition limits_fields :: "cap_limits fields" where
  "limits_fields =
    [field ''max_json_request_bytes'' l_MaxJSONRequestBytes l_MaxJSONRequestBytes_update dec_int,
     field ''max_log_bytes'' l_MaxLogBytes l_MaxLogBytes_update dec_int,
     field ''max_idempotency_receipts'' l_MaxIdempotencyReceipts l_MaxIdempotencyReceipts_update dec_int,
     field ''max_idempotency_retained_response_bytes'' l_MaxIdempotencyRetainedResponseBytes
       l_MaxIdempotencyRetainedResponseBytes_update dec_int,
     field ''max_inflight_queries'' l_MaxInflightQueries l_MaxInflightQueries_update dec_int,
     field ''max_inflight_mutations'' l_MaxInflightMutations l_MaxInflightMutations_update dec_int,
     field ''max_inflight_observations'' l_MaxInflightObservations l_MaxInflightObservations_update dec_int]"

definition zero_limits :: cap_limits where
  "zero_limits = \<lparr>l_MaxJSONRequestBytes = 0, l_MaxLogBytes = 0, l_MaxIdempotencyReceipts = 0,
     l_MaxIdempotencyRetainedResponseBytes = 0, l_MaxInflightQueries = 0, l_MaxInflightMutations = 0,
     l_MaxInflightObservations = 0\<rparr>"

definition endpoint_fields :: "cap_endpoint fields" where
  "endpoint_fields =
    [field ''name'' ep_Name ep_Name_update dec_string, field ''path'' ep_Path ep_Path_update dec_string,
     field ''method'' ep_Method ep_Method_update dec_string,
     field ''effect'' ep_Effect ep_Effect_update dec_string,
     field ''enabled'' ep_Enabled ep_Enabled_update dec_bool]"

definition zero_endpoint :: cap_endpoint where
  "zero_endpoint = \<lparr>ep_Name = '''', ep_Path = '''', ep_Method = '''', ep_Effect = '''', ep_Enabled = False\<rparr>"

definition query_fields :: "cap_query fields" where
  "query_fields =
    [field ''find'' q_Find q_Find_update dec_strings,
     field ''where_forms'' q_WhereForms q_WhereForms_update dec_strings,
     field ''where_fields'' q_WhereFields q_WhereFields_update dec_strings,
     field ''clauses'' q_Clauses q_Clauses_update dec_strings,
     field ''numeric_bounds'' q_NumericBounds q_NumericBounds_update dec_strings,
     field ''order_keys'' q_OrderKeys q_OrderKeys_update dec_strings,
     field ''return_shapes'' q_ReturnShapes q_ReturnShapes_update dec_strings,
     field ''consistency'' q_Consistency q_Consistency_update dec_strings,
     field ''optimize_modes'' q_OptimizeModes q_OptimizeModes_update dec_strings,
     field ''representations'' q_Representations q_Representations_update dec_strings]"

definition zero_query :: cap_query where
  "zero_query = \<lparr>q_Find = [], q_WhereForms = [], q_WhereFields = [], q_Clauses = [], q_NumericBounds = [],
     q_OrderKeys = [], q_ReturnShapes = [], q_Consistency = [], q_OptimizeModes = [],
     q_Representations = []\<rparr>"

definition idempotency_fields :: "idempotency fields" where
  "idempotency_fields =
    [field ''supported'' i_Supported i_Supported_update dec_bool,
     field ''key_header'' i_KeyHeader i_KeyHeader_update dec_string,
     field ''replay_header'' i_ReplayHeader i_ReplayHeader_update dec_string,
     field ''body_identity'' i_BodyIdentity i_BodyIdentity_update dec_string,
     field ''required_key_prefix'' i_RequiredKeyPrefix i_RequiredKeyPrefix_update dec_string,
     field ''max_key_bytes'' i_MaxKeyBytes i_MaxKeyBytes_update dec_int,
     field ''response_max_bytes'' i_ResponseMaxBytes i_ResponseMaxBytes_update dec_int]"

definition zero_idempotency :: idempotency where
  "zero_idempotency = \<lparr>i_Supported = False, i_KeyHeader = '''', i_ReplayHeader = '''', i_BodyIdentity = '''',
     i_RequiredKeyPrefix = '''', i_MaxKeyBytes = 0, i_ResponseMaxBytes = 0\<rparr>"

definition write_fields :: "cap_write fields" where
  "write_fields =
    [field ''write'' w_Write w_Write_update dec_strings,
     field ''operations'' w_Operations w_Operations_update dec_strings,
     field ''object_kinds'' w_ObjectKinds w_ObjectKinds_update dec_strings,
     field ''expiration_forms'' w_ExpirationForms w_ExpirationForms_update dec_strings,
     field ''vocabulary_modes'' w_VocabularyModes w_VocabularyModes_update dec_strings,
     field ''record_modes'' w_RecordModes w_RecordModes_update dec_strings,
     field ''retract_selectors'' w_RetractSelectors w_RetractSelectors_update dec_strings,
     field ''idempotency'' w_Idempotency w_Idempotency_update (dec_struct idempotency_fields)]"

definition zero_write :: cap_write where
  "zero_write = \<lparr>w_Write = [], w_Operations = [], w_ObjectKinds = [], w_ExpirationForms = [],
     w_VocabularyModes = [], w_RecordModes = [], w_RetractSelectors = [], w_Idempotency = zero_idempotency\<rparr>"

definition errors_fields :: "cap_errors fields" where
  "errors_fields =
    [field ''schema_version'' e_SchemaVersion e_SchemaVersion_update dec_int,
     field ''request_id_header'' e_RequestIDHeader e_RequestIDHeader_update dec_string,
     field ''body_fields'' e_BodyFields e_BodyFields_update dec_strings,
     field ''codes'' e_Codes e_Codes_update dec_strings]"

definition zero_errors :: cap_errors where
  "zero_errors = \<lparr>e_SchemaVersion = 0, e_RequestIDHeader = '''', e_BodyFields = [], e_Codes = []\<rparr>"

definition safety_fields :: "cap_safety fields" where
  "safety_fields =
    [field ''authentication'' s_Authentication s_Authentication_update dec_bool,
     field ''machine_error_codes'' s_MachineErrorCodes s_MachineErrorCodes_update dec_bool,
     field ''request_correlation'' s_RequestCorrelation s_RequestCorrelation_update dec_bool,
     field ''write_idempotency'' s_WriteIdempotency s_WriteIdempotency_update dec_bool,
     field ''write_dry_run'' s_WriteDryRun s_WriteDryRun_update dec_bool,
     field ''logical_change_feed'' s_LogicalChangeFeed s_LogicalChangeFeed_update dec_bool]"

definition zero_safety :: cap_safety where
  "zero_safety = \<lparr>s_Authentication = False, s_MachineErrorCodes = False, s_RequestCorrelation = False,
     s_WriteIdempotency = False, s_WriteDryRun = False, s_LogicalChangeFeed = False\<rparr>"

definition capabilities_fields :: "capabilities fields" where
  "capabilities_fields =
    [field ''schema_version'' c_SchemaVersion c_SchemaVersion_update dec_int,
     field ''protocol'' c_Protocol c_Protocol_update dec_string,
     field ''protocol_version'' c_ProtocolVersion c_ProtocolVersion_update dec_string,
     field ''node'' c_Node c_Node_update (dec_struct node_fields),
     field ''limits'' c_Limits c_Limits_update (dec_struct limits_fields),
     field ''endpoints'' c_Endpoints c_Endpoints_update (dec_slice (dec_struct endpoint_fields) zero_endpoint),
     field ''query'' c_Query c_Query_update (dec_struct query_fields),
     field ''write'' c_Write c_Write_update (dec_struct write_fields),
     field ''errors'' c_Errors c_Errors_update (dec_struct errors_fields),
     field ''safety'' c_Safety c_Safety_update (dec_struct safety_fields)]"

definition zero_capabilities :: capabilities where
  "zero_capabilities = \<lparr>c_SchemaVersion = 0, c_Protocol = '''', c_ProtocolVersion = '''', c_Node = zero_node,
     c_Limits = zero_limits, c_Endpoints = [], c_Query = zero_query, c_Write = zero_write,
     c_Errors = zero_errors, c_Safety = zero_safety\<rparr>"

section \<open>Introspection\<close>

definition resource_fields :: "capacity_resource fields" where
  "resource_fields =
    [field ''used'' cr_Used cr_Used_update dec_int, field ''max'' cr_Max cr_Max_update dec_int,
     field ''remaining'' cr_Remaining cr_Remaining_update dec_int,
     field ''state'' cr_State cr_State_update dec_string]"

definition zero_resource :: capacity_resource where
  "zero_resource = \<lparr>cr_Used = 0, cr_Max = 0, cr_Remaining = 0, cr_State = ''''\<rparr>"

definition store_fields :: "introspection_store fields" where
  "store_fields =
    [field ''version'' is_Version is_Version_update (dec_uint 64),
     field ''log_identity'' is_LogIdentity is_LogIdentity_update dec_string,
     field ''log_offset'' is_LogOffset is_LogOffset_update dec_int,
     field ''log_digest'' is_LogDigest is_LogDigest_update (dec_uint 32),
     field ''idempotency_keys'' is_IdempotencyKeys is_IdempotencyKeys_update dec_int,
     field ''idempotency_response_bytes'' is_IdempotencyResponseBytes is_IdempotencyResponseBytes_update dec_int]"

definition zero_store :: introspection_store where
  "zero_store = \<lparr>is_Version = 0, is_LogIdentity = '''', is_LogOffset = 0, is_LogDigest = 0,
     is_IdempotencyKeys = 0, is_IdempotencyResponseBytes = 0\<rparr>"

definition capacity_fields :: "introspection_capacity fields" where
  "capacity_fields =
    [field ''canonical_log_bytes'' ic_CanonicalLogBytes ic_CanonicalLogBytes_update (dec_struct resource_fields),
     field ''idempotency_receipts'' ic_IdempotencyReceipts ic_IdempotencyReceipts_update
       (dec_struct resource_fields),
     field ''idempotency_retained_response_bytes'' ic_IdempotencyRetainedResponseBytes
       ic_IdempotencyRetainedResponseBytes_update (dec_struct resource_fields)]"

definition introspection_fields :: "introspection fields" where
  "introspection_fields =
    [field ''schema_version'' in_SchemaVersion in_SchemaVersion_update dec_int,
     field ''store'' in_Store in_Store_update (dec_struct store_fields),
     field ''capacity'' in_Capacity in_Capacity_update (dec_struct capacity_fields)]"

definition zero_introspection :: introspection where
  "zero_introspection = \<lparr>in_SchemaVersion = 0, in_Store = zero_store, in_Capacity =
     \<lparr>ic_CanonicalLogBytes = zero_resource, ic_IdempotencyReceipts = zero_resource,
      ic_IdempotencyRetainedResponseBytes = zero_resource\<rparr>\<rparr>"

section \<open>Error bodies and write receipts\<close>

record api_wire =
  aw_Error :: "string option"
  aw_Code :: "string option"
  aw_Retryable :: "bool option"
  aw_RequestID :: "string option"

definition api_fields :: "api_wire fields" where
  "api_fields =
    [field ''error'' aw_Error aw_Error_update (dec_ptr dec_string ''''),
     field ''code'' aw_Code aw_Code_update (dec_ptr dec_string ''''),
     field ''retryable'' aw_Retryable aw_Retryable_update (dec_ptr dec_bool False),
     field ''request_id'' aw_RequestID aw_RequestID_update (dec_ptr dec_string '''')]"

definition zero_api :: api_wire where
  "zero_api = \<lparr>aw_Error = None, aw_Code = None, aw_Retryable = None, aw_RequestID = None\<rparr>"

record receipt =
  rc_Committed :: bool
  rc_LogIdentity :: string

definition receipt_fields :: "receipt fields" where
  "receipt_fields =
    [field ''committed'' rc_Committed rc_Committed_update dec_bool,
     field ''log_identity'' rc_LogIdentity rc_LogIdentity_update dec_string]"

definition zero_receipt :: receipt where
  "zero_receipt = \<lparr>rc_Committed = False, rc_LogIdentity = ''''\<rparr>"

end
