(* ===== verification/Client_Keys.thy ===== *)
theory Client_Keys
  imports Client_Types
begin

text \<open>
  Idempotency keys, request identifiers and log identities: the syntax checks of
  \<open>config.go\<close>, \<open>client.go\<close> and \<open>session.go\<close>, and how a logical key becomes a wire key
  (\<open>authoring.go\<close>).
\<close>

section \<open>Tokens\<close>

definition wire_char :: "char \<Rightarrow> bool" where
  "wire_char c \<longleftrightarrow> (CHR ''a'' \<le> c \<and> c \<le> CHR ''z'') \<or> (CHR ''A'' \<le> c \<and> c \<le> CHR ''Z'') \<or>
     (CHR ''0'' \<le> c \<and> c \<le> CHR ''9'') \<or> c = CHR ''.'' \<or> c = CHR ''_'' \<or> c = CHR '':'' \<or> c = CHR ''-''"

text \<open>Hexadecimal digits are wire characters.\<close>

lemma hex_wire: "is_lower_hex c \<Longrightarrow> wire_char c"
proof -
  assume "is_lower_hex c"
  then have "byte (CHR ''0'') \<le> byte c \<and> byte c \<le> byte (CHR ''9'') \<or> byte (CHR ''a'') \<le> byte c \<and> byte c \<le> byte (CHR ''z'')"
    by (auto simp: is_lower_hex_def byte_def)
  then show ?thesis by (auto simp: wire_char_def byte_def less_eq_char_def)
qed

lemma hex_wire_all: "list_all wire_char (hex_encode s)"
  using hex_encode_lower [of s] by (auto simp: list_all_iff hex_wire)

definition validWireToken :: "string \<Rightarrow> bool" where
  "validWireToken value \<longleftrightarrow>
     (if length value < 1 \<or> length value > 128 then False else list_all wire_char value)"

definition validPrefix :: "string \<Rightarrow> bool" where
  "validPrefix value \<longleftrightarrow>
     (if value = '''' \<or> length value > 127 then False else list_all wire_char value)"

definition validLogIdentity :: "string \<Rightarrow> bool" where
  "validLogIdentity identity \<longleftrightarrow>
     (if length identity \<noteq> 32 then False
      else hex_decode identity \<noteq> None \<and> identity = to_lower identity)"

lemma lower_hex_chars:
  "hex_val c \<noteq> None \<and> \<not> (65 \<le> byte c \<and> byte c \<le> 90) \<longleftrightarrow> is_lower_hex c"
  by (auto simp: hex_val_def is_lower_hex_def Let_def split: if_splits)

lemma validLogIdentity_iff:
  "validLogIdentity s \<longleftrightarrow> length s = 32 \<and> list_all is_lower_hex s"
proof -
  have "hex_decode s \<noteq> None \<longleftrightarrow> list_all (\<lambda>c. hex_val c \<noteq> None) s" if "length s = 32"
    using hex_decode_chars [of s] that by simp
  moreover have "s = to_lower s \<longleftrightarrow> list_all (\<lambda>c. \<not> (65 \<le> byte c \<and> byte c \<le> 90)) s"
    using to_lower_fix [of s] by metis
  moreover have "list_all is_lower_hex s \<longleftrightarrow>
      list_all (\<lambda>c. hex_val c \<noteq> None) s \<and> list_all (\<lambda>c. \<not> (65 \<le> byte c \<and> byte c \<le> 90)) s"
    unfolding list_all_iff using lower_hex_chars by blast
  ultimately show ?thesis unfolding validLogIdentity_def by (simp del: not_None_eq)
qed

section \<open>Key syntax\<close>

definition apostrophe :: string where "apostrophe = [CHR 0x27]"

definition validateKeySyntax :: "go_fmt \<Rightarrow> string \<Rightarrow> int \<Rightarrow> string \<Rightarrow> go_error option" where
  "validateKeySyntax f key maxBytes pre = first_err
     [fail_when (\<not> validWireToken key) (InvalidKeyError key
        (''must be 1-128 characters using letters, digits, '.', '_', ':', or '-'' @ apostrophe)),
      fail_when (maxBytes \<le> 0 \<or> int (length key) > maxBytes) (InvalidKeyError key
        (''exceeds advertised '' @ format_int maxBytes
          @ ''-byte limit; shorten the logical suffix or semantic namespace'')),
      fail_when (pre \<noteq> '''' \<and> (\<not> prefix pre key \<or> length key = length pre)) (InvalidKeyError key
        (''must begin with '' @ fmt_q f pre @ '' and include a suffix''))]"

lemma validateKeySyntax_None:
  "validateKeySyntax f key maxBytes pre = None \<longleftrightarrow>
     validWireToken key \<and> 0 < maxBytes \<and> int (length key) \<le> maxBytes \<and>
     (pre = '''' \<or> strict_prefix pre key)"
  by (auto simp: validateKeySyntax_def strict_prefix_def prefix_def)

section \<open>Logical keys\<close>

datatype write_key_tag = writeKeyUnset | writeKeySuffix | writeKeyFull

record write_key =
  wk_tag :: write_key_tag
  wk_value :: string

definition KeySuffix :: "string \<Rightarrow> write_key" where
  "KeySuffix v = \<lparr>wk_tag = writeKeySuffix, wk_value = v\<rparr>"

definition FullKey :: "string \<Rightarrow> write_key" where
  "FullKey v = \<lparr>wk_tag = writeKeyFull, wk_value = v\<rparr>"

definition Suffix :: "write_key \<Rightarrow> string \<times> bool" where
  "Suffix key = (if wk_tag key \<noteq> writeKeySuffix then ('''', False) else (wk_value key, True))"

definition resolveWriteKey :: "go_fmt \<Rightarrow> idempotency \<Rightarrow> write_key \<Rightarrow> go_error + string" where
  "resolveWriteKey f idem key = (case wk_tag key of
     writeKeySuffix \<Rightarrow>
       (let pre = i_RequiredKeyPrefix idem; resolved = pre @ wk_value key in
        check_then (fail_when (\<not> validWireToken (wk_value key)) (InvalidKeyError (wk_value key)
          (''suffix must use letters, digits, '.', '_', ':', or '-'' @ apostrophe)))
        (check_then (fail_when (pre \<noteq> '''' \<and> prefix pre (wk_value key)) (InvalidKeyError (wk_value key)
          (''suffix already contains the advertised required prefix '' @ fmt_q f pre)))
        (check_then (validateKeySyntax f resolved (i_MaxKeyBytes idem) pre)
        (Inr resolved))))
   | writeKeyFull \<Rightarrow>
       check_then (validateKeySyntax f (wk_value key) (i_MaxKeyBytes idem) (i_RequiredKeyPrefix idem))
       (Inr (wk_value key))
   | writeKeyUnset \<Rightarrow> Inl (InvalidKeyError '''' ''use joeydb.KeySuffix or joeydb.FullKey''))"

text \<open>What a wire key of the advertised contract is.\<close>

definition wire_key :: "idempotency \<Rightarrow> string \<Rightarrow> bool" where
  "wire_key idem k \<longleftrightarrow> validWireToken k \<and> int (length k) \<le> i_MaxKeyBytes idem \<and>
     (i_RequiredKeyPrefix idem = '''' \<or> strict_prefix (i_RequiredKeyPrefix idem) k)"

lemma wire_key_syntax:
  "validateKeySyntax f k (i_MaxKeyBytes idem) (i_RequiredKeyPrefix idem) = None \<longleftrightarrow> wire_key idem k"
proof -
  have "0 < i_MaxKeyBytes idem" if "validWireToken k" "int (length k) \<le> i_MaxKeyBytes idem"
    using that by (cases k) (simp_all add: validWireToken_def)
  then show ?thesis unfolding validateKeySyntax_None wire_key_def by blast
qed

lemma validWireToken_append:
  "validWireToken (p @ s) \<Longrightarrow> s \<noteq> [] \<Longrightarrow> validWireToken s"
  by (cases s) (auto simp: validWireToken_def split: if_splits)

lemma resolve_suffix:
  "resolveWriteKey f idem (KeySuffix v) = Inr k \<longleftrightarrow>
     k = i_RequiredKeyPrefix idem @ v \<and> wire_key idem k \<and> v \<noteq> '''' \<and>
     \<not> (i_RequiredKeyPrefix idem \<noteq> '''' \<and> prefix (i_RequiredKeyPrefix idem) v)"
proof -
  have "v \<noteq> '''' \<Longrightarrow> wire_key idem (i_RequiredKeyPrefix idem @ v) \<Longrightarrow> validWireToken v"
    unfolding wire_key_def by (blast intro: validWireToken_append)
  moreover have "validWireToken v \<Longrightarrow> v \<noteq> ''''" by (auto simp: validWireToken_def)
  ultimately show ?thesis
    by (auto simp: resolveWriteKey_def KeySuffix_def Let_def check_then_Inr wire_key_syntax)
qed

lemma resolve_full:
  "resolveWriteKey f idem (FullKey v) = Inr k \<longleftrightarrow> k = v \<and> wire_key idem v"
  by (auto simp: resolveWriteKey_def FullKey_def check_then_Inr wire_key_syntax)

lemma resolve_wire_key: "resolveWriteKey f idem key = Inr k \<Longrightarrow> wire_key idem k"
  by (auto simp: resolveWriteKey_def Let_def check_then_Inr wire_key_syntax split: write_key_tag.splits)

end
