(* ===== verification/Client_Http.thy ===== *)
theory Client_Http
  imports Client_Decode Client_Keys "HOL-Library.AList"
begin

text \<open>
  One HTTP attempt (\<open>client.go\<close>): building the request, sending it once, reading a bounded
  answer, and turning every failure into the SDK's error with its request identifier. The
  round tripper, the identifier generator and the clock are functions of the client or the
  context on the world \<open>'w\<close>. Every request that goes out is recorded, with its outcome, in
  the trace of the run; the trace is history that no operation reads.
\<close>

section \<open>What is outside\<close>

record http_request =
  hq_Method :: string
  hq_URL :: string
  hq_Header :: http_header
  hq_Body :: "bytes option"

text \<open>An answer: the bytes the body delivers and how its reading ends, with the end of the body or an
  error; \<open>ha_ErrorWithData\<close> says that the error comes from the very \<open>Read\<close> that delivers the last
  bytes, not from a \<open>Read\<close> after it.\<close>

record http_answer =
  ha_Status :: int
  ha_Header :: http_header
  ha_Body :: bytes
  ha_ReadError :: "go_error option"
  ha_ErrorWithData :: bool

datatype http_outcome = HttpFailed go_error | HttpAnswered http_answer

datatype event = Sent http_request http_outcome

record 'w client =
  cl_BaseURL :: string
  cl_Do :: "http_request \<Rightarrow> 'w \<Rightarrow> http_outcome \<times> 'w"
  cl_MaxRequestBytes :: int
  cl_MaxResponseBytes :: int
  cl_MaxErrorBodyBytes :: int
  cl_UserAgent :: string
  cl_RequestID :: "'w \<Rightarrow> (go_error + string) \<times> 'w"

record 'w net =
  nt_world :: 'w
  nt_trace :: "event list"

section \<open>Headers\<close>

text \<open>\<open>textproto.CanonicalMIMEHeaderKey\<close> on the ASCII names the client uses.\<close>

fun canonical_from :: "bool \<Rightarrow> string \<Rightarrow> string" where
  "canonical_from upper [] = []"
| "canonical_from upper (c # s) =
     (if upper \<and> 97 \<le> byte c \<and> byte c \<le> 122 then chr (byte c - 32)
      else if \<not> upper \<and> 65 \<le> byte c \<and> byte c \<le> 90 then chr (byte c + 32) else c)
     # canonical_from (c = CHR ''-'') s"

definition canonical_header :: "string \<Rightarrow> string" where
  "canonical_header s = canonical_from True s"

definition header_Set :: "string \<Rightarrow> string \<Rightarrow> http_header \<Rightarrow> http_header" where
  "header_Set name v h = AList.update (canonical_header name) v h"

definition header_Get :: "string \<Rightarrow> http_header \<Rightarrow> string" where
  "header_Get name h = (case map_of h (canonical_header name) of None \<Rightarrow> '''' | Some v \<Rightarrow> v)"

definition parse_bool :: "string \<Rightarrow> bool option" where
  "parse_bool s =
     (if s \<in> set [''1'', ''t'', ''T'', ''true'', ''TRUE'', ''True''] then Some True
      else if s \<in> set [''0'', ''f'', ''F'', ''false'', ''FALSE'', ''False''] then Some False else None)"

section \<open>Building the request\<close>

datatype request_option = WithRequestID string

fun apply_options :: "request_option option list \<Rightarrow> string \<Rightarrow> go_error + string" where
  "apply_options [] requestID = Inr requestID"
| "apply_options (None # opts) requestID = Inl (GoError ''joeydb: nil request option'')"
| "apply_options (Some (WithRequestID i) # opts) requestID =
     (if \<not> validWireToken i
      then Inl (GoError (''joeydb: request ID must be 1-128 characters using letters, digits, '' @
        '''.', '_', ':', or '-'' @ apostrophe))
      else apply_options opts i)"

definition choose_request_id :: "'w client \<Rightarrow> string \<Rightarrow> 'w \<Rightarrow> (go_error + string) \<times> 'w" where
  "choose_request_id c applied w =
     (if applied \<noteq> '''' then (Inr applied, w)
      else case cl_RequestID c w of
        (Inl e, w') \<Rightarrow> (Inl (GoWrap ''joeydb: request ID generator'' e), w')
      | (Inr generated, w') \<Rightarrow>
          (if \<not> validWireToken generated
           then (Inl (GoError ''joeydb: request ID generator returned an unsafe identifier''), w')
           else (Inr generated, w')))"

definition request_headers :: "'w client \<Rightarrow> string \<Rightarrow> bytes option \<Rightarrow> string \<Rightarrow> string \<Rightarrow> http_header" where
  "request_headers c meth body key requestID =
     (let h = header_Set RequestIDHeader requestID (header_Set ''User-Agent'' (cl_UserAgent c)
            (header_Set ''Accept'' ''application/json'' []));
          h = (if body \<noteq> None \<or> meth = ''POST''
            then header_Set ''Content-Type'' ''application/json'' h else h)
      in if key \<noteq> '''' then header_Set IdempotencyKeyHeader key h else h)"

definition body_bytes :: "bytes option \<Rightarrow> bytes" where
  "body_bytes body = (case body of None \<Rightarrow> '''' | Some b \<Rightarrow> b)"

text \<open>The part of \<open>Client.do\<close> before the round trip: every refusal without network I/O.\<close>

definition prepare :: "go_fmt \<Rightarrow> 'w client \<Rightarrow> 'w ctx option \<Rightarrow> string \<Rightarrow> string \<Rightarrow> bytes option \<Rightarrow> string \<Rightarrow>
    request_option option list \<Rightarrow> 'w \<Rightarrow> (go_error + http_request \<times> string) \<times> 'w" where
  "prepare f c ctx meth path body key opts w =
     (if ctx = None then (Inl (GoError ''joeydb: nil context''), w)
      else if int (length (body_bytes body)) > cl_MaxRequestBytes c
      then (Inl (RequestTooLargeError (int (length (body_bytes body))) (cl_MaxRequestBytes c)), w)
      else case apply_options opts '''' of
        Inl e \<Rightarrow> (Inl e, w)
      | Inr applied \<Rightarrow>
          (case choose_request_id c applied w of
             (Inl e, w') \<Rightarrow> (Inl e, w')
           | (Inr requestID, w') \<Rightarrow>
               (case new_request_error f meth (cl_BaseURL c @ path) of
                  Some e \<Rightarrow> (Inl (GoWrap ''joeydb: create request'' e), w')
                | None \<Rightarrow> (Inr (\<lparr>hq_Method = meth, hq_URL = cl_BaseURL c @ path,
                    hq_Header = request_headers c meth body key requestID, hq_Body = body\<rparr>, requestID), w'))))"

section \<open>Reading the answer\<close>

definition status_ok :: "int \<Rightarrow> bool" where
  "status_ok s \<longleftrightarrow> \<not> (s < 200 \<or> s \<ge> 300)"

definition decodeAPIError :: "response \<Rightarrow> bool \<Rightarrow> go_error" where
  "decodeAPIError r truncated =
     (let (wire, failed) = unmarshal (dec_struct api_fields) zero_api (resp_Body r);
          decodeErr = (if failed then Some (JsonError ''APIError'' (resp_Body r)) else None);
          detail = (case aw_Error wire of None \<Rightarrow> '''' | Some s \<Rightarrow> s);
          no_id = (aw_RequestID wire = None \<or> aw_RequestID wire = Some '''')
      in APIError (resp_Status r)
           (case aw_Code wire of None \<Rightarrow> '''' | Some s \<Rightarrow> s)
           (case aw_Retryable wire of None \<Rightarrow> False | Some b \<Rightarrow> b)
           (if no_id then resp_RequestID r else the (aw_RequestID wire))
           (if detail = '''' then
              (if truncated then ''error response body exceeded the diagnostic limit''
               else if decodeErr \<noteq> None then ''error response is not valid JoeyDB JSON''
               else ''error response omitted required managed fields'')
            else detail)
           (resp_Body r) truncated
           (decodeErr \<noteq> None \<or> truncated \<or> aw_Error wire = None \<or> aw_Code wire = None \<or>
            aw_Retryable wire = None \<or> no_id)
           decodeErr)"

text \<open>
  What \<open>Client.do\<close> returns: never a success without a response. A read stops after the
  limit plus one byte, so an error of the body counts when the body breaks off before that, or at
  that byte in the \<open>Read\<close> that delivers it.
\<close>

datatype attempt = AttemptOk response | AttemptFailed "response option" go_error

definition replay_header :: "http_header \<Rightarrow> bool option" where
  "replay_header h = (let v = header_Get IdempotencyReplayHeader h in
     if v = '''' then None else parse_bool v)"

definition answer_request_id :: "string \<Rightarrow> http_header \<Rightarrow> string" where
  "answer_request_id requestID h = (let v = header_Get RequestIDHeader h in if v = '''' then requestID else v)"

definition read_limit :: "'w client \<Rightarrow> int \<Rightarrow> int" where
  "read_limit c status = (if status_ok status then cl_MaxResponseBytes c else cl_MaxErrorBodyBytes c)"

text \<open>The body read through the limit, and whether it was longer.\<close>

definition bounded_read :: "int \<Rightarrow> bytes \<Rightarrow> bytes \<times> bool" where
  "bounded_read limit body = (let raw = take (nat (limit + 1)) body; tooLarge = (int (length raw) > limit)
     in (if tooLarge then take (nat limit) raw else raw, tooLarge))"

text \<open>The error \<open>io.ReadAll\<close> returns of the body behind an \<open>io.LimitReader\<close>.\<close>

definition read_error :: "int \<Rightarrow> http_answer \<Rightarrow> go_error option" where
  "read_error limit a = (let n = int (length (ha_Body a)) in
     if n \<le> limit \<or> 0 \<le> limit \<and> n = limit + 1 \<and> ha_ErrorWithData a then ha_ReadError a else None)"

definition answer_response :: "'w client \<Rightarrow> string \<Rightarrow> http_answer \<Rightarrow> response" where
  "answer_response c requestID a = \<lparr>resp_Status = ha_Status a, resp_Header = ha_Header a,
     resp_RequestID = answer_request_id requestID (ha_Header a),
     resp_Body = fst (bounded_read (read_limit c (ha_Status a)) (ha_Body a)),
     resp_Replayed = (replay_header (ha_Header a) = Some True),
     resp_ReplayHeaderPresent = (replay_header (ha_Header a) \<noteq> None)\<rparr>"

definition read_answer :: "'w client \<Rightarrow> string \<Rightarrow> string \<Rightarrow> string \<Rightarrow> http_answer \<Rightarrow> attempt" where
  "read_answer c meth path requestID a =
     (let limit = read_limit c (ha_Status a);
          readErr = read_error limit a;
          tooLarge = snd (bounded_read limit (ha_Body a));
          response = answer_response c requestID a
      in case readErr of
           Some e \<Rightarrow> AttemptFailed (Some response)
             (TransportError meth path (resp_RequestID response) (Some (GoWrap ''read response'' e)))
         | None \<Rightarrow>
             (if \<not> status_ok (ha_Status a)
              then AttemptFailed (Some response) (decodeAPIError response tooLarge)
              else if tooLarge
              then AttemptFailed (Some response)
                (ResponseTooLargeError (ha_Status a) (resp_RequestID response) limit)
              else AttemptOk response))"

definition receive :: "'w client \<Rightarrow> string \<Rightarrow> string \<Rightarrow> string \<Rightarrow> http_outcome \<Rightarrow> attempt" where
  "receive c meth path requestID out = (case out of
     HttpFailed e \<Rightarrow> AttemptFailed None (TransportError meth path requestID (Some e))
   | HttpAnswered a \<Rightarrow> read_answer c meth path requestID a)"

section \<open>The operations\<close>

definition client_do :: "go_fmt \<Rightarrow> 'w client \<Rightarrow> 'w ctx option \<Rightarrow> string \<Rightarrow> string \<Rightarrow> bytes option \<Rightarrow> string \<Rightarrow>
    request_option option list \<Rightarrow> 'w net \<Rightarrow> attempt \<times> 'w net" where
  "client_do f c ctx meth path body key opts n =
     (case prepare f c ctx meth path body key opts (nt_world n) of
        (Inl e, w) \<Rightarrow> (AttemptFailed None e, n\<lparr>nt_world := w\<rparr>)
      | (Inr (request, requestID), w) \<Rightarrow>
          (let (out, w') = cl_Do c request w
           in (receive c meth path requestID out,
               \<lparr>nt_world = w', nt_trace = nt_trace n @ [Sent request out]\<rparr>)))"

text \<open>A caller's destination is what \<open>json.Unmarshal\<close> into it returns; \<open>None\<close> is a nil destination.\<close>

type_synonym out_dest = "(bytes \<Rightarrow> go_error option) option"

definition decodeResponse :: "response \<Rightarrow> out_dest \<Rightarrow> go_error option" where
  "decodeResponse r out = (case out of None \<Rightarrow> None | Some decode \<Rightarrow>
     (case decode (resp_Body r) of None \<Rightarrow> None
      | Some e \<Rightarrow> Some (DecodeError (resp_Status r) (resp_RequestID r) (resp_Body r) (Some e))))"

definition decode_attempt :: "attempt \<Rightarrow> out_dest \<Rightarrow> attempt" where
  "decode_attempt a out = (case a of
     AttemptFailed r e \<Rightarrow> AttemptFailed r e
   | AttemptOk r \<Rightarrow> (case decodeResponse r out of None \<Rightarrow> AttemptOk r | Some e \<Rightarrow> AttemptFailed (Some r) e))"

definition client_Query :: "go_fmt \<Rightarrow> 'w client \<Rightarrow> 'w ctx option \<Rightarrow> bytes option \<Rightarrow> out_dest \<Rightarrow>
    request_option option list \<Rightarrow> 'w net \<Rightarrow> attempt \<times> 'w net" where
  "client_Query f c ctx body out opts n =
     (let (a, n') = client_do f c ctx ''POST'' ''/query'' body '''' opts n in (decode_attempt a out, n'))"

text \<open>\<open>QueryJSON\<close>, given what \<open>json.Marshal\<close> makes of the caller's value.\<close>

definition client_QueryJSON :: "go_fmt \<Rightarrow> 'w client \<Rightarrow> 'w ctx option \<Rightarrow> go_error + bytes \<Rightarrow> out_dest \<Rightarrow>
    request_option option list \<Rightarrow> 'w net \<Rightarrow> attempt \<times> 'w net" where
  "client_QueryJSON f c ctx marshalled out opts n = (case marshalled of
     Inl e \<Rightarrow> (AttemptFailed None (GoWrap ''joeydb: encode query'' e), n)
   | Inr body \<Rightarrow> client_Query f c ctx (Some body) out opts n)"

definition client_Write :: "go_fmt \<Rightarrow> 'w client \<Rightarrow> 'w ctx option \<Rightarrow> bytes option \<Rightarrow> out_dest \<Rightarrow>
    request_option option list \<Rightarrow> 'w net \<Rightarrow> attempt \<times> 'w net" where
  "client_Write f c ctx body out opts n =
     (let (a, n') = client_do f c ctx ''POST'' ''/write'' body '''' opts n in (decode_attempt a out, n'))"

definition client_KeyedWrite :: "go_fmt \<Rightarrow> 'w client \<Rightarrow> 'w ctx option \<Rightarrow> bytes option \<Rightarrow> string \<Rightarrow> out_dest \<Rightarrow>
    request_option option list \<Rightarrow> 'w net \<Rightarrow> attempt \<times> 'w net" where
  "client_KeyedWrite f c ctx body key out opts n =
     (case validateKeySyntax f key 128 '''' of
        Some e \<Rightarrow> (AttemptFailed None e, n)
      | None \<Rightarrow> (let (a, n') = client_do f c ctx ''POST'' ''/write'' body key opts n
          in (decode_attempt a out, n')))"

text \<open>\<open>Client.Capabilities\<close> and \<open>Client.Introspect\<close>: a GET whose body is decoded into a typed
  value; the response, when there is one, comes beside the value or the error.\<close>

definition typed_get :: "go_fmt \<Rightarrow> 'w client \<Rightarrow> 'w ctx option \<Rightarrow> string \<Rightarrow> string \<Rightarrow> 'a dec \<Rightarrow> 'a \<Rightarrow>
    request_option option list \<Rightarrow> 'w net \<Rightarrow> ((go_error + 'a) \<times> response option) \<times> 'w net" where
  "typed_get f c ctx path target d zero opts n =
     (case client_do f c ctx ''GET'' path None '''' opts n of
        (AttemptFailed r e, n') \<Rightarrow> ((Inl e, r), n')
      | (AttemptOk r, n') \<Rightarrow>
          (let (v, failed) = unmarshal d zero (resp_Body r)
           in if failed then ((Inl (DecodeError (resp_Status r) (resp_RequestID r) (resp_Body r)
                (Some (JsonError target (resp_Body r)))), Some r), n')
              else ((Inr v, Some r), n')))"

definition client_Capabilities :: "go_fmt \<Rightarrow> 'w client \<Rightarrow> 'w ctx option \<Rightarrow> request_option option list \<Rightarrow>
    'w net \<Rightarrow> ((go_error + capabilities) \<times> response option) \<times> 'w net" where
  "client_Capabilities f c ctx opts n = typed_get f c ctx ''/capabilities'' ''Capabilities''
     (dec_struct capabilities_fields) zero_capabilities opts n"

definition client_Introspect :: "go_fmt \<Rightarrow> 'w client \<Rightarrow> 'w ctx option \<Rightarrow> request_option option list \<Rightarrow>
    'w net \<Rightarrow> ((go_error + introspection) \<times> response option) \<times> 'w net" where
  "client_Introspect f c ctx opts n = typed_get f c ctx ''/introspect'' ''Introspection''
     (dec_struct introspection_fields) zero_introspection opts n"

end
