(* ===== verification/Client_Session.thy ===== *)
theory Client_Session
  imports Client_Http
begin

text \<open>
  A session (\<open>session.go\<close>, and \<open>RetryPolicy\<close> of \<open>types.go\<close>): the preflight that pins a log
  identity, and the keyed write with its exact-body retry loop. The loop is written over the
  two calls it makes (the keyed attempt and the identity recheck), which \<open>writeExact\<close>
  instantiates with the client's.
\<close>

section \<open>Retry policy\<close>

text \<open>The default back-off: 50ms doubled per retry, never above one second.\<close>

fun backoff_loop :: "nat \<Rightarrow> int \<Rightarrow> int" where
  "backoff_loop 0 delay = delay"
| "backoff_loop (Suc n) delay = (if delay < 1000000000 then backoff_loop n (delay * 2) else delay)"

definition default_backoff :: "int \<Rightarrow> int" where
  "default_backoff retry = (let delay = backoff_loop (nat retry) 50000000 in
     if delay > 1000000000 then 1000000000 else delay)"

definition sleepContext :: "'w sleep" where
  "sleepContext ctx delay w =
     (if sint delay < 0 then (Some (GoError ''joeydb: retry backoff must not be negative''), w)
      else ctx_Wait ctx delay w)"

record 'w retry =
  re_MaxAttempts :: int
  re_Backoff :: "'w backoff"
  re_Sleep :: "'w sleep"

definition ConservativeRetryPolicy :: "'w retry_policy" where
  "ConservativeRetryPolicy = \<lparr>rp_MaxAttempts = 3, rp_Backoff = None, rp_Sleep = None\<rparr>"

definition normalized :: "'w retry_policy \<Rightarrow> go_error + 'w retry" where
  "normalized p = (let attempts = (if rp_MaxAttempts p = 0 then 1 else rp_MaxAttempts p) in
     if attempts < 1 \<or> attempts > 10
     then Inl (CapabilityError ''retry MaxAttempts must be in 1..10'')
     else Inr \<lparr>re_MaxAttempts = attempts,
       re_Backoff = (case rp_Backoff p of Some b \<Rightarrow> b
         | None \<Rightarrow> (\<lambda>retry w. (word_of_int (default_backoff retry), w))),
       re_Sleep = (case rp_Sleep p of Some s \<Rightarrow> s | None \<Rightarrow> sleepContext)\<rparr>)"

section \<open>Preflight\<close>

definition contains :: "string list \<Rightarrow> string \<Rightarrow> bool" where
  "contains values value = list_ex (\<lambda>candidate. candidate = value) values"

definition containsAll :: "string list \<Rightarrow> string list \<Rightarrow> bool" where
  "containsAll values required = list_all (contains values) required"

definition absoluteBodyLimit :: int where "absoluteBodyLimit = 67108864"

definition refuse_when :: "bool \<Rightarrow> string \<Rightarrow> go_error option" where
  "refuse_when b reason = fail_when b (CapabilityError reason)"

text \<open>The checks every session needs.\<close>

definition validate_node :: "capabilities \<Rightarrow> go_error option" where
  "validate_node c = first_err
    [refuse_when (c_SchemaVersion c < CapabilitiesSchemaFloor) ''capabilities schema is unsupported'',
     refuse_when (c_Protocol c \<noteq> AgentProtocol \<or> c_ProtocolVersion c \<noteq> AgentProtocolVersion)
       (''protocol must be '' @ AgentProtocol @ ''/'' @ AgentProtocolVersion),
     refuse_when (n_Role (c_Node c) \<noteq> ''primary'' \<and> n_Role (c_Node c) \<noteq> ''follower'')
       ''node role is unsupported'',
     refuse_when (n_WritesAllowed (c_Node c) \<noteq> (n_Role (c_Node c) = ''primary''))
       ''node role and writes_allowed disagree'',
     refuse_when (\<not> contains (q_Find (c_Query c)) ''facts'' \<or> \<not> contains (q_Consistency (c_Query c)) ''strict'' \<or>
         \<not> contains (q_OptimizeModes (c_Query c)) ''auto'')
       ''required query vocabulary is not advertised'',
     refuse_when (e_SchemaVersion (c_Errors c) < 1 \<or> e_RequestIDHeader (c_Errors c) \<noteq> RequestIDHeader \<or>
         \<not> containsAll (e_BodyFields (c_Errors c)) [''code'', ''error'', ''request_id'', ''retryable''] \<or>
         \<not> s_MachineErrorCodes (c_Safety c) \<or> \<not> s_RequestCorrelation (c_Safety c))
       ''machine error and request-correlation contract is incompatible'',
     refuse_when (n_Durability (c_Node c) \<notin> set [''none'', ''interval'', ''commit''])
       ''node durability is unsupported'',
     refuse_when (n_SyncLevel (c_Node c) \<noteq> ''os'' \<and> n_SyncLevel (c_Node c) \<noteq> ''full'')
       ''node sync level is unsupported'',
     refuse_when (l_MaxJSONRequestBytes (c_Limits c) \<le> 0 \<or> l_MaxJSONRequestBytes (c_Limits c) > absoluteBodyLimit)
       ''node does not advertise a supported bounded JSON request limit'']"

text \<open>The checks of a session that writes.\<close>

definition validate_writable :: "int \<Rightarrow> capabilities \<Rightarrow> go_error option" where
  "validate_writable maxResponse c = (let i = w_Idempotency (c_Write c) in first_err
    [refuse_when (n_Role (c_Node c) \<noteq> ''primary'' \<or> \<not> n_WritesAllowed (c_Node c))
       ''node is not a writable primary'',
     refuse_when (\<not> contains (w_Write (c_Write c)) ''facts'') ''facts write contract is not advertised'',
     refuse_when (\<not> s_WriteIdempotency (c_Safety c) \<or> \<not> i_Supported i) ''write idempotency is not advertised'',
     refuse_when (i_KeyHeader i \<noteq> IdempotencyKeyHeader \<or> i_ReplayHeader i \<noteq> IdempotencyReplayHeader \<or>
         i_BodyIdentity i \<noteq> ''sha256_exact_body_bytes'')
       ''idempotency wire contract is incompatible'',
     refuse_when (i_MaxKeyBytes i \<le> 0 \<or> i_MaxKeyBytes i > 128 \<or> i_ResponseMaxBytes i \<le> 0 \<or>
         i_ResponseMaxBytes i > maxResponse)
       ''idempotency key/response limits are unbounded or unsupported'',
     refuse_when (i_RequiredKeyPrefix i \<noteq> '''' \<and> (\<not> validPrefix (i_RequiredKeyPrefix i) \<or>
         int (length (i_RequiredKeyPrefix i)) \<ge> i_MaxKeyBytes i))
       ''required idempotency key prefix is invalid''])"

text \<open>The checks of a session that ingests.\<close>

definition validate_ingestion :: "capabilities \<Rightarrow> go_error option" where
  "validate_ingestion c = first_err
    [refuse_when (n_Durability (c_Node c) \<noteq> ''commit'' \<or>
         (n_SyncLevel (c_Node c) \<noteq> ''os'' \<and> n_SyncLevel (c_Node c) \<noteq> ''full''))
       ''ingestion requires commit/os or commit/full durability'',
     refuse_when (\<not> contains (w_Operations (c_Write c)) ''record'' \<or>
         \<not> contains (w_RecordModes (c_Write c)) ''ensure'' \<or> \<not> contains (w_VocabularyModes (c_Write c)) ''create'')
       ''ingestion write vocabulary is not advertised'']"

definition validateCapabilities :: "'w client \<Rightarrow> capabilities \<Rightarrow> 'w requirements \<Rightarrow> go_error option" where
  "validateCapabilities cl c rq = first_err
     [validate_node c,
      (if rq_Writable rq \<or> rq_Ingestion rq then validate_writable (cl_MaxResponseBytes cl) c else None),
      (if rq_Ingestion rq then validate_ingestion c else None)]"

record 'w session =
  se_client :: "'w client"
  se_capabilities :: capabilities
  se_logIdentity :: string
  se_requirements :: "'w requirements"
  se_retry :: "'w retry"

definition Require :: "go_fmt \<Rightarrow> 'w client \<Rightarrow> 'w ctx option \<Rightarrow> 'w requirements \<Rightarrow> request_option option list \<Rightarrow>
    'w net \<Rightarrow> (go_error + 'w session) \<times> 'w net" where
  "Require f cl ctx rq opts n = (case normalized (rq_Retry rq) of
     Inl e \<Rightarrow> (Inl e, n)
   | Inr retry \<Rightarrow> (case client_Capabilities f cl ctx opts n of
       ((Inl e, _), n) \<Rightarrow> (Inl e, n)
     | ((Inr capabilities, _), n) \<Rightarrow> (case validateCapabilities cl capabilities rq of
         Some e \<Rightarrow> (Inl e, n)
       | None \<Rightarrow> (case client_Introspect f cl ctx opts n of
           ((Inl e, _), n) \<Rightarrow> (Inl e, n)
         | ((Inr introspection, _), n) \<Rightarrow>
             (if in_SchemaVersion introspection < IntrospectionSchemaFloor
              then (Inl (CapabilityError ''introspection schema is unsupported''), n)
              else if \<not> validLogIdentity (is_LogIdentity (in_Store introspection))
              then (Inl (CapabilityError ''introspection returned an invalid log identity''), n)
              else (Inr \<lparr>se_client = cl, se_capabilities = capabilities,
                se_logIdentity = is_LogIdentity (in_Store introspection),
                se_requirements = rq, se_retry = retry\<rparr>, n))))))"

definition currentIdentity :: "go_fmt \<Rightarrow> 'w session \<Rightarrow> 'w ctx \<Rightarrow> 'w net \<Rightarrow> (go_error + string) \<times> 'w net" where
  "currentIdentity f s ctx n = (case client_Introspect f (se_client s) (Some ctx) [] n of
     ((Inl e, _), n) \<Rightarrow> (Inl e, n)
   | ((Inr introspection, _), n) \<Rightarrow>
       (if in_SchemaVersion introspection < IntrospectionSchemaFloor \<or>
           \<not> validLogIdentity (is_LogIdentity (in_Store introspection))
        then (Inl (CapabilityError ''identity recheck returned invalid introspection''), n)
        else (Inr (is_LogIdentity (in_Store introspection)), n)))"

section \<open>One keyed write\<close>

definition validateWriteSuccess :: "string \<Rightarrow> response \<Rightarrow> go_error option" where
  "validateWriteSuccess pinned r =
     (if \<not> resp_ReplayHeaderPresent r
      then Some (ProtocolError (resp_RequestID r)
        ''successful keyed write omitted a valid Idempotency-Replayed header'' None)
      else (let (result, failed) = unmarshal (dec_struct receipt_fields) zero_receipt (resp_Body r) in
        if failed then Some (ProtocolError (resp_RequestID r)
          ''successful keyed write returned malformed JSON'' (Some (JsonError ''receipt'' (resp_Body r))))
        else if \<not> rc_Committed result then Some (ProtocolError (resp_RequestID r)
          ''successful keyed write did not report committed=true'' None)
        else if \<not> validLogIdentity (rc_LogIdentity result) then Some (ProtocolError (resp_RequestID r)
          ''successful keyed write returned an invalid log identity'' None)
        else if rc_LogIdentity result \<noteq> pinned then Some (ProtocolError (resp_RequestID r)
          (''successful keyed write identified log '' @ rc_LogIdentity result @ ''; session pins '' @ pinned) None)
        else None))"

definition retryCandidate :: "go_error \<Rightarrow> bool" where
  "retryCandidate e =
     (if errors_As is_TransportError e \<noteq> None then True
      else case errors_As is_APIError e of None \<Rightarrow> False
        | Some api \<Rightarrow> api_Retryable api \<or> api_Status api = 429)"

definition possiblySubmitted :: "response option \<Rightarrow> go_error \<Rightarrow> bool" where
  "possiblySubmitted r e \<longleftrightarrow> errors_As is_TransportError e \<noteq> None \<or>
     (case r of None \<Rightarrow> False | Some r \<Rightarrow> resp_Status r \<ge> 200 \<and> resp_Status r < 300)"

record uncertainty =
  wu_active :: bool
  wu_attempt :: int
  wu_requestID :: string
  wu_cause :: "go_error option"

definition no_uncertainty :: uncertainty where
  "no_uncertainty = \<lparr>wu_active = False, wu_attempt = 0, wu_requestID = '''', wu_cause = None\<rparr>"

definition uncertainty_note :: "uncertainty \<Rightarrow> int \<Rightarrow> response option \<Rightarrow> go_error \<Rightarrow> uncertainty" where
  "uncertainty_note u attempt r e =
     (if wu_active u \<or> \<not> possiblySubmitted r e then u
      else \<lparr>wu_active = True, wu_attempt = attempt, wu_requestID = RequestIDFromError (Some e),
        wu_cause = Some e\<rparr>)"

text \<open>\<open>Session.uncertain\<close>.\<close>

definition uncertain :: "string \<Rightarrow> uncertainty \<Rightarrow> go_error option \<Rightarrow> int \<Rightarrow> go_error option \<Rightarrow> go_error option \<Rightarrow>
    string \<Rightarrow> string \<Rightarrow> go_error" where
  "uncertain pinned u lst lastAttempt identityCause stopCause observed requestID =
     (let state = (if wu_active u then u
            else \<lparr>wu_active = True, wu_attempt = lastAttempt, wu_requestID = requestID, wu_cause = lst\<rparr>);
          final = (if wu_attempt state \<noteq> lastAttempt then lst else None)
      in UncertainOperationError requestID (wu_requestID state) pinned observed (wu_cause state) final
           identityCause stopCause)"

section \<open>The retry loop\<close>

text \<open>
  The calls the loop makes, on the state \<open>'n\<close> of the outside: the keyed attempt, the identity
  recheck, the context, and the policy's two functions.
\<close>

record 'n write_calls =
  wc_post :: "'n \<Rightarrow> attempt \<times> 'n"
  wc_recheck :: "'n \<Rightarrow> (go_error + string) \<times> 'n"
  wc_ctx_Err :: "'n \<Rightarrow> go_error option"
  wc_backoff :: "int \<Rightarrow> 'n \<Rightarrow> duration \<times> 'n"
  wc_sleep :: "duration \<Rightarrow> 'n \<Rightarrow> go_error option \<times> 'n"

text \<open>What a write is checked against: the pinned identity, the receipt limit, the attempts.\<close>

record write_terms =
  wt_pinned :: string
  wt_responseMax :: int
  wt_maxAttempts :: int

definition check_success :: "write_terms \<Rightarrow> out_dest \<Rightarrow> response \<Rightarrow> go_error option" where
  "check_success t out r = first_err
     [fail_when (int (length (resp_Body r)) > wt_responseMax t) (ProtocolError (resp_RequestID r)
        (''successful keyed write response is '' @ format_int (int (length (resp_Body r)))
          @ '' bytes; advertised limit is '' @ format_int (wt_responseMax t)) None),
      validateWriteSuccess (wt_pinned t) r,
      decodeResponse r out]"

text \<open>After a failed attempt that may be retried: recheck the identity, back off, sleep.\<close>

definition between_attempts :: "write_terms \<Rightarrow> 'n write_calls \<Rightarrow> int \<Rightarrow> uncertainty \<Rightarrow> go_error \<Rightarrow> 'n \<Rightarrow>
    go_error option \<times> 'n" where
  "between_attempts t c attempt u e n =
     (let rid = RequestIDFromError (Some e) in
      case wc_recheck c n of
        (Inl identityErr, n) \<Rightarrow>
          (Some (uncertain (wt_pinned t) u (Some e) attempt (Some identityErr) None '''' rid), n)
      | (Inr observed, n) \<Rightarrow>
          (if observed \<noteq> wt_pinned t
           then (Some (uncertain (wt_pinned t) u (Some e) attempt None None observed rid), n)
           else
             (let (delay, n) = wc_backoff c (attempt - 1) n;
                  stopped = (\<lambda>stopErr. if wu_active u
                    then uncertain (wt_pinned t) u (Some e) attempt None (Some stopErr) observed rid
                    else RetryStoppedError rid (Some e) (Some stopErr))
              in if sint delay < 0
                 then (Some (stopped (GoError ''joeydb: retry backoff must not be negative'')), n)
                 else case wc_sleep c delay n of
                   (Some sleepErr, n) \<Rightarrow> (Some (stopped sleepErr), n)
                 | (None, n) \<Rightarrow> (None, n))))"

text \<open>The context is consulted before every attempt.\<close>

definition context_stop :: "write_terms \<Rightarrow> int \<Rightarrow> uncertainty \<Rightarrow> go_error option \<Rightarrow> go_error \<Rightarrow> go_error" where
  "context_stop t attempt u lastErr err =
     (if wu_active u then uncertain (wt_pinned t) u lastErr (attempt - 1) None (Some err) ''''
        (RequestIDFromError lastErr)
      else if lastErr \<noteq> None then RetryStoppedError (RequestIDFromError lastErr) lastErr (Some err)
      else err)"

text \<open>\<open>remaining\<close> counts the attempts left; with none left Go's loop falls through to its last
  return, which has no error when no attempt was made.\<close>

fun write_loop :: "write_terms \<Rightarrow> 'n write_calls \<Rightarrow> out_dest \<Rightarrow> nat \<Rightarrow> int \<Rightarrow> response option \<Rightarrow>
    go_error option \<Rightarrow> uncertainty \<Rightarrow> 'n \<Rightarrow> (response option \<times> go_error option) \<times> 'n" where
  "write_loop t c out 0 attempt lastResponse lastErr u n = ((lastResponse, lastErr), n)"
| "write_loop t c out (Suc remaining) attempt lastResponse lastErr u n =
     (case wc_ctx_Err c n of
        Some err \<Rightarrow> ((lastResponse, Some (context_stop t attempt u lastErr err)), n)
      | None \<Rightarrow> (case wc_post c n of
          (AttemptOk r, n) \<Rightarrow> (case check_success t out r of
              Some e \<Rightarrow> ((Some r, Some (uncertain (wt_pinned t) u (Some e) attempt None None '''' (resp_RequestID r))), n)
            | None \<Rightarrow> ((Some r, None), n))
        | (AttemptFailed r e, n) \<Rightarrow>
            (let u = uncertainty_note u attempt r e in
             if attempt = wt_maxAttempts t \<or> \<not> retryCandidate e
             then ((r, Some (if wu_active u then uncertain (wt_pinned t) u (Some e) attempt None None ''''
                     (RequestIDFromError (Some e)) else e)), n)
             else (case between_attempts t c attempt u e n of
                 (Some stop, n) \<Rightarrow> ((r, Some stop), n)
               | (None, n) \<Rightarrow> write_loop t c out remaining (attempt + 1) r (Some e) u n))))"

section \<open>writeExact\<close>

definition session_terms :: "'w session \<Rightarrow> write_terms" where
  "session_terms s = \<lparr>wt_pinned = se_logIdentity s,
     wt_responseMax = i_ResponseMaxBytes (w_Idempotency (c_Write (se_capabilities s))),
     wt_maxAttempts = re_MaxAttempts (se_retry s)\<rparr>"

definition session_calls :: "go_fmt \<Rightarrow> 'w session \<Rightarrow> 'w ctx \<Rightarrow> bytes option \<Rightarrow> string \<Rightarrow>
    request_option option list \<Rightarrow> 'w net write_calls" where
  "session_calls f s ctx body key opts =
     \<lparr>wc_post = client_do f (se_client s) (Some ctx) ''POST'' ''/write'' body key opts,
      wc_recheck = currentIdentity f s ctx,
      wc_ctx_Err = (\<lambda>n. ctx_Err ctx (nt_world n)),
      wc_backoff = (\<lambda>retry n. let (d, w) = re_Backoff (se_retry s) retry (nt_world n) in (d, n\<lparr>nt_world := w\<rparr>)),
      wc_sleep = (\<lambda>d n. let (e, w) = re_Sleep (se_retry s) ctx d (nt_world n) in (e, n\<lparr>nt_world := w\<rparr>))\<rparr>"

text \<open>\<open>append([]byte(nil), body...)\<close>: a copy, which is nil when there is nothing to copy.\<close>

definition copy_body :: "bytes option \<Rightarrow> bytes option" where
  "copy_body body = (if body_bytes body = '''' then None else Some (body_bytes body))"

definition not_preflighted :: go_error where
  "not_preflighted = CapabilityError ''session was not preflighted for writes''"

definition writeExact :: "go_fmt \<Rightarrow> 'w session \<Rightarrow> 'w ctx \<Rightarrow> bytes option \<Rightarrow> string \<Rightarrow> out_dest \<Rightarrow> bool \<Rightarrow>
    request_option option list \<Rightarrow> 'w net \<Rightarrow> (response option \<times> go_error option) \<times> 'w net" where
  "writeExact f s ctx body key out copyBody opts n =
     (let rq = se_requirements s; idem = w_Idempotency (c_Write (se_capabilities s));
          limit = l_MaxJSONRequestBytes (c_Limits (se_capabilities s))
      in if \<not> rq_Writable rq \<and> \<not> rq_Ingestion rq then ((None, Some not_preflighted), n)
         else case validateKeySyntax f key (i_MaxKeyBytes idem) (i_RequiredKeyPrefix idem) of
           Some e \<Rightarrow> ((None, Some e), n)
         | None \<Rightarrow>
             (if int (length (body_bytes body)) > limit
              then ((None, Some (RequestTooLargeError (int (length (body_bytes body))) limit)), n)
              else write_loop (session_terms s)
                (session_calls f s ctx (if copyBody then copy_body body else body) key opts) out
                (nat (re_MaxAttempts (se_retry s))) 1 None None no_uncertainty n))"

definition WriteExact :: "go_fmt \<Rightarrow> 'w session \<Rightarrow> 'w ctx \<Rightarrow> bytes option \<Rightarrow> string \<Rightarrow> out_dest \<Rightarrow>
    request_option option list \<Rightarrow> 'w net \<Rightarrow> (response option \<times> go_error option) \<times> 'w net" where
  "WriteExact f s ctx body key out opts n = writeExact f s ctx body key out True opts n"

end
