(* ===== verification/Client_Protocol.thy ===== *)
theory Client_Protocol
  imports Client_Session
begin

text \<open>
  The protocol of a keyed write, as a step relation over the events that go on the wire. A run
  starts with some attempts left and nothing in doubt; an attempt that is not the last one may be
  followed by a recheck of the log identity, and only a confirmed recheck leads to another
  attempt. The verdict is what the caller learns. What the protocol promises is proved by rule
  induction here; that the retry loop follows it is proved in \<open>Client_Session_Laws\<close>.
\<close>

section \<open>The steps\<close>

datatype verdict = Done | InDoubt | NotDone

datatype phase = Attempting nat bool | Rechecking nat bool | Settled verdict

text \<open>A verdict without a new answer: never a success, and in doubt once a write may have been submitted.\<close>

definition may_stop :: "bool \<Rightarrow> verdict \<Rightarrow> bool" where
  "may_stop doubt v \<longleftrightarrow> v \<noteq> Done \<and> (doubt \<longrightarrow> v = InDoubt)"

inductive protocol_step :: "('e \<Rightarrow> bool) \<Rightarrow> ('e \<Rightarrow> bool) \<Rightarrow> ('e \<Rightarrow> bool) \<Rightarrow> ('e \<Rightarrow> bool) \<Rightarrow>
    phase \<Rightarrow> 'e list \<Rightarrow> phase \<Rightarrow> bool"
  for is_write refused answered confirmed where
  Stop: "may_stop doubt v \<Longrightarrow> protocol_step is_write refused answered confirmed (Attempting k doubt) [] (Settled v)"
| Answered: "is_write ev \<Longrightarrow> answered ev \<Longrightarrow> v \<noteq> NotDone \<Longrightarrow>
    protocol_step is_write refused answered confirmed (Attempting (Suc k) doubt) [ev] (Settled v)"
| Failed: "is_write ev \<Longrightarrow> may_stop (doubt \<or> \<not> refused ev) v \<Longrightarrow>
    protocol_step is_write refused answered confirmed (Attempting (Suc k) doubt) [ev] (Settled v)"
| Retry: "is_write ev \<Longrightarrow> doubt \<or> \<not> refused ev \<longrightarrow> doubt' \<Longrightarrow>
    protocol_step is_write refused answered confirmed (Attempting (Suc k) doubt) [ev] (Rechecking k doubt')"
| Unsent: "doubt \<longrightarrow> doubt' \<Longrightarrow>
    protocol_step is_write refused answered confirmed (Attempting (Suc k) doubt) [] (Rechecking k doubt')"
| Abandon: "may_stop doubt v \<Longrightarrow> length evs \<le> 1 \<Longrightarrow> \<forall>ev \<in> set evs. \<not> is_write ev \<Longrightarrow>
    protocol_step is_write refused answered confirmed (Rechecking k doubt) evs (Settled v)"
| Confirm: "\<not> is_write ev \<Longrightarrow> confirmed ev \<Longrightarrow>
    protocol_step is_write refused answered confirmed (Rechecking (Suc k) doubt) [ev] (Attempting (Suc k) doubt)"

inductive_cases attempting_step: "protocol_step w r ok c (Attempting k doubt) evs q"
inductive_cases rechecking_step: "protocol_step w r ok c (Rechecking k doubt) evs q"
inductive_simps settled_step [simp]: "protocol_step w r ok c (Settled v) evs q"

inductive protocol_run :: "('e \<Rightarrow> bool) \<Rightarrow> ('e \<Rightarrow> bool) \<Rightarrow> ('e \<Rightarrow> bool) \<Rightarrow> ('e \<Rightarrow> bool) \<Rightarrow>
    phase \<Rightarrow> 'e list \<Rightarrow> phase \<Rightarrow> bool"
  for is_write refused answered confirmed where
  Here: "protocol_run is_write refused answered confirmed p [] p"
| Step: "protocol_step is_write refused answered confirmed p evs q \<Longrightarrow> protocol_run is_write refused answered confirmed q evs' r \<Longrightarrow>
    protocol_run is_write refused answered confirmed p (evs @ evs') r"

lemma run_step: "protocol_step w r ok c p evs q \<Longrightarrow> protocol_run w r ok c p evs q"
  using protocol_run.Step [OF _ protocol_run.Here] by fastforce

section \<open>Every run is safe\<close>

text \<open>Every write but the first comes right after a confirmed identity.\<close>

definition guarded :: "('e \<Rightarrow> bool) \<Rightarrow> ('e \<Rightarrow> bool) \<Rightarrow> 'e list \<Rightarrow> bool" where
  "guarded is_write confirmed evs \<longleftrightarrow> successively (\<lambda>x y. is_write y \<longrightarrow> confirmed x) evs"

lemma guarded_Nil [simp]: "guarded w c []" and guarded_single [simp]: "guarded w c [x]"
  by (simp_all add: guarded_def)

lemma guarded_Cons: "guarded w c (x # y # evs) \<longleftrightarrow> (w y \<longrightarrow> c x) \<and> guarded w c (y # evs)"
  by (simp add: guarded_def)

text \<open>The writes a phase may still make, and the events; a phase that may have written already
  starts with no write.\<close>

fun writes_left :: "phase \<Rightarrow> nat" where
  "writes_left (Attempting k doubt) = k"
| "writes_left (Rechecking k doubt) = k"
| "writes_left (Settled v) = 0"

fun in_doubt :: "phase \<Rightarrow> bool" where
  "in_doubt (Attempting k doubt) = doubt"
| "in_doubt (Rechecking k doubt) = doubt"
| "in_doubt (Settled v) = (v = InDoubt)"

fun events_left :: "phase \<Rightarrow> nat" where
  "events_left (Attempting k doubt) = 2 * k"
| "events_left (Rechecking k doubt) = 2 * k + 1"
| "events_left (Settled v) = 0"

fun attempting :: "phase \<Rightarrow> bool" where
  "attempting (Attempting k doubt) = True" | "attempting _ = False"

lemma run_settled: "protocol_run w r ok c (Settled v) evs q \<Longrightarrow> evs = [] \<and> q = Settled v"
  by (induction "Settled v :: phase" evs q rule: protocol_run.induct) simp_all

lemma run_safe:
  assumes "protocol_run w r ok c p evs q"
  shows "length (filter w evs) \<le> writes_left p \<and> length evs \<le> events_left p \<and> guarded w c evs \<and>
    (\<not> attempting p \<and> evs \<noteq> [] \<longrightarrow> \<not> w (hd evs)) \<and>
    (q = Settled NotDone \<and> p \<noteq> q \<longrightarrow> \<not> in_doubt p \<and> (\<forall>ev \<in> set evs. w ev \<longrightarrow> r ev)) \<and>
    (q = Settled Done \<and> p \<noteq> q \<longrightarrow> evs \<noteq> [] \<and> w (last evs) \<and> ok (last evs))"
  using assms
proof (induction rule: protocol_run.induct)
  case (Here p)
  then show ?case by simp
next
  case (Step p evs q evs' s)
  from Step.hyps(1) show ?case
  proof (cases rule: protocol_step.cases)
    case (Stop doubt v k)
    with run_settled [of w r ok c v evs' s] Step.hyps(2) show ?thesis by (auto simp: may_stop_def)
  next
    case (Answered ev v k doubt)
    with run_settled [of w r ok c v evs' s] Step.hyps(2) show ?thesis by auto
  next
    case (Failed ev doubt v k)
    with run_settled [of w r ok c v evs' s] Step.hyps(2) show ?thesis by (auto simp: may_stop_def)
  next
    case (Retry ev doubt doubt' k)
    with Step.IH show ?thesis by (cases evs') (auto simp: guarded_Cons)
  next
    case (Confirm ev k doubt)
    with Step.IH show ?thesis by (cases evs') (auto simp: guarded_Cons)
  next
    case (Unsent doubt doubt' k)
    with Step.IH show ?thesis by auto
  next
    case (Abandon doubt v k)
    with run_settled [of w r ok c v evs' s] Step.hyps(2) show ?thesis
      by (cases evs) (auto simp: may_stop_def)
  qed
qed

end
