(* ===== verification/Client_Http_Laws.thy ===== *)
theory Client_Http_Laws
  imports Client_Http
begin

text \<open>
  What one attempt does: it sends at most the one request its arguments describe, an error
  without a request in the trace was found before any I/O, and an error after the request is
  either a refusal by the server or one that \<open>possiblySubmitted\<close> recognises.
\<close>

section \<open>Headers\<close>

lemma header_Get_Set:
  "header_Get k (header_Set k' v h) = (if canonical_header k = canonical_header k' then v else header_Get k h)"
  by (simp add: header_Get_def header_Set_def update_conv')

lemma canonical_names:
  "canonical_header IdempotencyKeyHeader = ''Idempotency-Key''" "canonical_header RequestIDHeader = ''X-Request-Id''"
  "canonical_header ''User-Agent'' = ''User-Agent''" "canonical_header ''Accept'' = ''Accept''"
  "canonical_header ''Content-Type'' = ''Content-Type''"
  by code_simp+

lemma request_headers_Get:
  "header_Get IdempotencyKeyHeader (request_headers c m body key rid) = key"
  "header_Get RequestIDHeader (request_headers c m body key rid) = rid"
  by (simp_all add: request_headers_def Let_def header_Get_Set canonical_names)
    (simp_all add: header_Get_def)

section \<open>One attempt\<close>

lemma prepare_Inr:
  assumes "prepare f c ctx m path body key opts w = (Inr (rq, rid), w')"
  shows "hq_Method rq = m \<and> hq_URL rq = cl_BaseURL c @ path \<and> hq_Body rq = body \<and>
    header_Get IdempotencyKeyHeader (hq_Header rq) = key \<and>
    header_Get RequestIDHeader (hq_Header rq) = rid \<and> ctx \<noteq> None \<and>
    int (length (body_bytes body)) \<le> cl_MaxRequestBytes c"
  using assms request_headers_Get unfolding prepare_def
  by (auto split: if_splits sum.splits prod.splits option.splits)

lemma client_do_cases:
  assumes "client_do f c ctx m path body key opts n = (a, n')"
  obtains (refused) e where "a = AttemptFailed None e" "nt_trace n' = nt_trace n"
  | (sent) rq rid out where "a = receive c m path rid out" "nt_trace n' = nt_trace n @ [Sent rq out]"
      "hq_Method rq = m" "hq_URL rq = cl_BaseURL c @ path" "hq_Body rq = body"
      "header_Get IdempotencyKeyHeader (hq_Header rq) = key"
proof -
  obtain res w where p: "prepare f c ctx m path body key opts (nt_world n) = (res, w)" by fastforce
  show ?thesis
  proof (cases res)
    case (Inl e)
    then show ?thesis using assms p refused by (auto simp: client_do_def)
  next
    case (Inr x)
    obtain rq rid where x: "x = (rq, rid)" by (cases x)
    obtain out w' where out: "cl_Do c rq w = (out, w')" by fastforce
    have "a = receive c m path rid out" "nt_trace n' = nt_trace n @ [Sent rq out]"
      using assms p Inr x out by (auto simp: client_do_def Let_def)
    then show ?thesis using sent prepare_Inr [OF p [unfolded Inr x]] by blast
  qed
qed

lemma bounded_read_whole:
  assumes "\<not> snd (bounded_read limit b)"
  shows "fst (bounded_read limit b) = b" "int (length b) \<le> limit"
proof -
  have l: "\<not> int (length (take (nat (limit + 1)) b)) > limit"
    using assms by (simp add: bounded_read_def Let_def)
  then have "0 \<le> limit" by linarith
  then have "length b \<le> nat (limit + 1)" "int (length b) \<le> limit" using l by (auto simp: min_def split: if_splits)
  then show "fst (bounded_read limit b) = b" "int (length b) \<le> limit"
    using l by (simp_all add: bounded_read_def Let_def)
qed

text \<open>What is kept of a body is a prefix of it within the limit.\<close>

lemma bounded_read_prefix:
  "0 \<le> limit \<Longrightarrow> prefix (fst (bounded_read limit b)) b \<and> int (length (fst (bounded_read limit b))) \<le> limit"
  by (auto simp: bounded_read_def Let_def take_is_prefix)

lemma answer_response_sel [simp]:
  "resp_Status (answer_response c i a) = ha_Status a"
  "resp_Body (answer_response c i a) = fst (bounded_read (read_limit c (ha_Status a)) (ha_Body a))"
  by (simp_all add: answer_response_def)

lemma receive_Ok:
  assumes "receive c m path rid out = AttemptOk r"
  obtains a where "out = HttpAnswered a" "status_ok (ha_Status a)" "resp_Body r = ha_Body a"
    "r = answer_response c rid a" "int (length (ha_Body a)) \<le> cl_MaxResponseBytes c" "ha_ReadError a = None"
proof -
  obtain a where out: "out = HttpAnswered a"
    using assms by (auto simp: receive_def split: http_outcome.splits)
  let ?l = "cl_MaxResponseBytes c"
  have ok: "status_ok (ha_Status a)" and r: "r = answer_response c rid a"
    and b: "\<not> snd (bounded_read ?l (ha_Body a))"
    and e: "int (length (ha_Body a)) > ?l \<or> ha_ReadError a = None"
    using assms unfolding out receive_def read_answer_def http_outcome.case
    by (auto simp: Let_def read_limit_def read_error_def split: option.splits if_splits)
  show ?thesis using that [OF out ok] r e bounded_read_whole [OF b] ok by (simp add: read_limit_def not_less)
qed

lemma decodeAPIError_is: "is_APIError (decodeAPIError r t)"
  by (simp add: decodeAPIError_def Let_def case_prod_beta)

text \<open>How an attempt can fail after the request went out.\<close>

lemma receive_Failed:
  assumes "receive c m path rid out = AttemptFailed r e"
  shows "is_TransportError e \<or> (\<exists>s. r = Some s \<and> 200 \<le> resp_Status s \<and> resp_Status s < 300) \<or>
    (\<exists>a. out = HttpAnswered a \<and> \<not> status_ok (ha_Status a) \<and>
      read_error (cl_MaxErrorBodyBytes c) a = None \<and> is_APIError e)"
proof (cases out)
  case (HttpFailed x)
  then show ?thesis using assms by (auto simp: receive_def)
next
  case (HttpAnswered a)
  then show ?thesis
    using assms decodeAPIError_is [of "answer_response c rid a"] unfolding receive_def read_answer_def Let_def
    by (auto simp: status_ok_def read_limit_def split: option.splits if_splits)
qed

end
