(* ===== verification/Client_Session_Laws.thy ===== *)
theory Client_Session_Laws
  imports Client_Protocol Client_Http_Laws
begin

text \<open>
  The safety of the keyed write. The interface \<open>keyed_service\<close> states what the retry loop
  relies on: an attempt puts at most one write on the wire and says \<open>possiblySubmitted\<close> unless
  the server refused it, a recheck puts no write on the wire and answers the pinned identity
  only after the server reported it, and the pauses send nothing. The loop's guarantees are
  proved from these laws; the client's operations are shown to satisfy them.
\<close>

section \<open>The interface\<close>

text \<open>What the caller learns from the error of a write.\<close>

definition verdict_of :: "go_error option \<Rightarrow> verdict" where
  "verdict_of e = (case e of None \<Rightarrow> Done | Some x \<Rightarrow> if is_UncertainOperationError x then InDoubt else NotDone)"

lemma may_stop_error: "may_stop d (verdict_of (Some x)) \<longleftrightarrow> (d \<longrightarrow> is_UncertainOperationError x)"
  by (auto simp: may_stop_def verdict_of_def)

text \<open>
  A safe run with at most \<open>k\<close> writes: only allowed events, the writes guarded, and an error that
  is not an uncertain outcome only if the server refused every write and none was in doubt.
\<close>

definition safe_run :: "('e \<Rightarrow> bool) \<Rightarrow> ('e \<Rightarrow> bool) \<Rightarrow> ('e \<Rightarrow> bool) \<Rightarrow> ('e \<Rightarrow> bool) \<Rightarrow> nat \<Rightarrow> bool \<Rightarrow> 'e list \<Rightarrow>
    go_error option \<Rightarrow> bool" where
  "safe_run is_write refused confirmed allowed k active evs e \<longleftrightarrow>
     (\<forall>ev \<in> set evs. allowed ev) \<and> length (filter is_write evs) \<le> k \<and> guarded is_write confirmed evs \<and>
     (\<forall>x. e = Some x \<longrightarrow> is_UncertainOperationError x \<or>
        \<not> active \<and> (\<forall>ev \<in> set evs. is_write ev \<longrightarrow> refused ev))"

lemma protocol_safe_run:
  assumes "protocol_run w r ok c (Attempting k active) evs (Settled (verdict_of e))" "\<forall>ev \<in> set evs. allowed ev"
  shows "safe_run w r c allowed k active evs e"
  using run_safe [OF assms(1)] assms(2) unfolding safe_run_def verdict_of_def
  by (auto split: option.splits if_splits)

text \<open>The events from \<open>n\<close> to \<open>n'\<close> are allowed, and a run of the protocol from \<open>p\<close> to the verdict \<open>v\<close>.\<close>

definition settles :: "('n \<Rightarrow> 'e list) \<Rightarrow> ('e \<Rightarrow> bool) \<Rightarrow> ('e \<Rightarrow> bool) \<Rightarrow> ('e \<Rightarrow> bool) \<Rightarrow> ('e \<Rightarrow> bool) \<Rightarrow>
    ('e \<Rightarrow> bool) \<Rightarrow> phase \<Rightarrow> 'n \<Rightarrow> 'n \<Rightarrow> verdict \<Rightarrow> bool" where
  "settles trace w r ok c allowed p n n' v \<longleftrightarrow> (\<exists>evs. trace n' = trace n @ evs \<and> (\<forall>ev \<in> set evs. allowed ev) \<and>
     protocol_run w r ok c p evs (Settled v))"

lemma settles_at_once:
  "trace n' = trace n @ evs \<Longrightarrow> \<forall>ev \<in> set evs. allowed ev \<Longrightarrow> protocol_step w r ok c p evs (Settled v) \<Longrightarrow>
   settles trace w r ok c allowed p n n' v"
  unfolding settles_def by (blast intro: run_step)

lemma settles_later:
  assumes "trace m = trace n @ evs" "\<forall>ev \<in> set evs. allowed ev" "protocol_step w r ok c p evs q"
    and "settles trace w r ok c allowed q m n' v"
  shows "settles trace w r ok c allowed p n n' v"
proof -
  from assms(4) obtain evs' where "trace n' = trace m @ evs'" "\<forall>ev \<in> set evs'. allowed ev"
    "protocol_run w r ok c q evs' (Settled v)" unfolding settles_def by blast
  with assms(1-3) show ?thesis
    unfolding settles_def by (intro exI [of _ "evs @ evs'"]) (auto intro: protocol_run.Step)
qed

locale keyed_service =
  fixes t :: write_terms
    and c :: "'n write_calls"
    and trace :: "'n \<Rightarrow> 'e list"
    and is_write :: "'e \<Rightarrow> bool"
    and refused :: "'e \<Rightarrow> bool"
    and answered :: "'e \<Rightarrow> bool"
    and confirmed :: "'e \<Rightarrow> bool"
    and allowed :: "'e \<Rightarrow> bool"
  assumes post_ok: "wc_post c n = (AttemptOk r, n') \<Longrightarrow>
      \<exists>ev. trace n' = trace n @ [ev] \<and> is_write ev \<and> allowed ev \<and> answered ev"
    and post_failed: "wc_post c n = (AttemptFailed last_resp e, n') \<Longrightarrow> trace n' = trace n \<or>
      (\<exists>ev. trace n' = trace n @ [ev] \<and> is_write ev \<and> allowed ev \<and>
        (possiblySubmitted last_resp e \<or> refused ev))"
    and recheck: "wc_recheck c n = (res, n') \<Longrightarrow> (trace n' = trace n \<and> res \<noteq> Inr (wt_pinned t)) \<or>
      (\<exists>ev. trace n' = trace n @ [ev] \<and> \<not> is_write ev \<and> allowed ev \<and>
        (res = Inr (wt_pinned t) \<longrightarrow> confirmed ev))"
    and backoff: "wc_backoff c i n = (d, n') \<Longrightarrow> trace n' = trace n"
    and sleep: "wc_sleep c d n = (err, n') \<Longrightarrow> trace n' = trace n"
begin

lemma between_events:
  assumes "between_attempts t c attempt u e n = (stop, n')"
  shows "\<exists>evs. trace n' = trace n @ evs \<and> length evs \<le> 1 \<and> (\<forall>ev \<in> set evs. \<not> is_write ev \<and> allowed ev) \<and>
    (stop = None \<longrightarrow> (\<exists>ev. evs = [ev] \<and> confirmed ev))"
proof -
  obtain res m where rc: "wc_recheck c n = (res, m)" by fastforce
  have m: "res = Inr (wt_pinned t) \<or> n' = m \<and> stop \<noteq> None"
    using assms unfolding between_attempts_def rc by (auto simp: Let_def split: sum.splits if_splits)
  have n': "trace n' = trace m"
    using assms backoff sleep unfolding between_attempts_def rc
    by (auto simp: Let_def split: sum.splits if_splits prod.splits option.splits)
  show ?thesis
    using recheck [OF rc] m n' by (elim disjE) (auto intro: exI [of _ "[]"])
qed

text \<open>A stop between attempts is an uncertain outcome once a write may have been submitted.\<close>

lemma between_stop:
  "between_attempts t c attempt u e n = (Some stop, n') \<Longrightarrow> wu_active u \<Longrightarrow> is_UncertainOperationError stop"
  unfolding between_attempts_def
  by (auto simp: Let_def uncertain_def split: sum.splits if_splits prod.splits option.splits)

lemma uncertain_is: "is_UncertainOperationError (uncertain p u lst a i s ob rid)"
  by (simp add: uncertain_def Let_def)

lemma context_stop_is: "wu_active u \<Longrightarrow> is_UncertainOperationError (context_stop t a u lst err)"
  by (simp add: context_stop_def uncertain_is)

lemma note_active: "wu_active u \<Longrightarrow> wu_active (uncertainty_note u a r e)"
  by (simp add: uncertainty_note_def)

lemma note_submitted: "possiblySubmitted r e \<Longrightarrow> wu_active (uncertainty_note u a r e)"
  by (simp add: uncertainty_note_def)

text \<open>Each outcome of an attempt and of a recheck is a step of the protocol.\<close>

abbreviation run_to :: "phase \<Rightarrow> 'n \<Rightarrow> 'n \<Rightarrow> verdict \<Rightarrow> bool" where
  "run_to \<equiv> settles trace is_write refused answered confirmed allowed"

lemma cancelled:
  "may_stop d v \<Longrightarrow> run_to (Attempting k d) n n v"
  by (rule settles_at_once [of _ _ _ "[]"]) (auto intro: protocol_step.Stop)

lemma answered:
  assumes "wc_post c n = (AttemptOk s, m)" "v \<noteq> NotDone"
  shows "run_to (Attempting (Suc k) d) n m v"
  using post_ok [OF assms(1)] assms(2) by (auto intro!: settles_at_once protocol_step.Answered)

lemma failed_events:
  assumes "wc_post c n = (AttemptFailed r e, m)"
  obtains "trace m = trace n @ []"
  | ev where "trace m = trace n @ [ev]" "is_write ev" "\<forall>x \<in> set [ev]. allowed x"
      "wu_active u \<or> \<not> refused ev \<longrightarrow> wu_active (uncertainty_note u a r e)"
  using post_failed [OF assms] note_active note_submitted by fastforce

lemma failed_settles:
  assumes "wc_post c n = (AttemptFailed r e, m)" "may_stop (wu_active (uncertainty_note u a r e)) v"
  shows "run_to (Attempting (Suc k) (wu_active u)) n m v"
proof (cases rule: failed_events [OF assms(1), where u = u and a = a])
  case 1
  then show ?thesis using assms(2) note_active [of u a r e]
    by (intro settles_at_once [of trace, OF 1] protocol_step.Stop) (auto simp: may_stop_def)
next
  case (2 ev)
  then show ?thesis using assms(2)
    by (intro settles_at_once [of trace, OF 2(1,3)] protocol_step.Failed) (auto simp: may_stop_def)
qed

lemma failed_rechecks:
  assumes "wc_post c n = (AttemptFailed r e, m)"
    and "run_to (Rechecking k (wu_active (uncertainty_note u a r e))) m n' v"
  shows "run_to (Attempting (Suc k) (wu_active u)) n n' v"
proof (cases rule: failed_events [OF assms(1), where u = u and a = a])
  case 1
  then show ?thesis using note_active [of u a r e]
    by (intro settles_later [of trace, OF 1 _ _ assms(2)]) (auto intro: protocol_step.Unsent)
next
  case (2 ev)
  show ?thesis by (rule settles_later [of trace, OF 2(1,3) protocol_step.Retry [where is_write = is_write and refused = refused, OF 2(2,4)] assms(2)])
qed

lemma abandoned:
  assumes "between_attempts t c attempt u e n = (Some stop, m)"
  shows "run_to (Rechecking k (wu_active u)) n m (verdict_of (Some stop))"
proof -
  from between_events [OF assms] obtain evs where evs: "trace m = trace n @ evs" "length evs \<le> 1"
    "\<forall>ev \<in> set evs. \<not> is_write ev \<and> allowed ev" by blast
  have "may_stop (wu_active u) (verdict_of (Some stop))"
    using between_stop [OF assms] by (simp add: may_stop_error)
  then show ?thesis using evs by (intro settles_at_once [of trace, OF evs(1)] protocol_step.Abandon) auto
qed

lemma confirmed_next:
  assumes "between_attempts t c attempt u e n = (None, m)" "run_to (Attempting (Suc k) d) m n' v"
  shows "run_to (Rechecking (Suc k) d) n n' v"
proof -
  from between_events [OF assms(1)] obtain ev where ev: "trace m = trace n @ [ev]" "confirmed ev"
    "\<not> is_write ev" "allowed ev" by force
  show ?thesis
    by (rule settles_later [of trace, OF ev(1) _ protocol_step.Confirm [where is_write = is_write and confirmed = confirmed, OF ev(3,2)] assms(2)])
      (simp add: ev(4))
qed

text \<open>The loop is a run of the protocol, and the verdict is the error it returns.\<close>

lemma loop_settles:
  assumes "write_loop t c out remaining attempt lastR lastE u n = ((r, e), n')"
    and "0 < remaining" "attempt + int remaining = wt_maxAttempts t + 1"
  shows "run_to (Attempting remaining (wu_active u)) n n' (verdict_of e)"
  using assms
proof (induction remaining arbitrary: attempt lastR lastE u n)
  case (Suc k)
  obtain a m where post: "wc_post c n = (a, m)" by fastforce
  consider (stop) err where "wc_ctx_Err c n = Some err" | (ok) s where "wc_ctx_Err c n = None" "a = AttemptOk s"
    | (failed) pr err where "wc_ctx_Err c n = None" "a = AttemptFailed pr err"
    by (cases "wc_ctx_Err c n"; cases a) auto
  then show ?case
  proof cases
    case stop
    with Suc.prems(1) context_stop_is show ?thesis by (auto simp: may_stop_error intro!: cancelled)
  next
    case ok
    with Suc.prems(1) post have "n' = m" "verdict_of e \<noteq> NotDone"
      using uncertain_is by (auto simp: verdict_of_def split: option.splits)
    with answered post ok show ?thesis by blast
  next
    case failed
    let ?u = "uncertainty_note u attempt pr err"
    note post = post [unfolded failed(2)]
    obtain stop m2 where bt: "between_attempts t c attempt ?u err m = (stop, m2)" by fastforce
    consider (last) "attempt = wt_maxAttempts t \<or> \<not> retryCandidate err"
      | (abandon) x where "attempt \<noteq> wt_maxAttempts t" "retryCandidate err" "stop = Some x"
      | (again) "attempt \<noteq> wt_maxAttempts t" "retryCandidate err" "stop = None" by (cases stop) auto
    then show ?thesis
    proof cases
      case last
      with Suc.prems(1) post failed have "n' = m" "may_stop (wu_active ?u) (verdict_of e)"
        using uncertain_is by (auto simp: Let_def may_stop_error)
      with failed_settles [OF post] show ?thesis by blast
    next
      case abandon
      with Suc.prems(1) post failed bt have "n' = m2" "e = Some x" by (auto simp: Let_def)
      with failed_rechecks [OF post abandoned] bt abandon show ?thesis by blast
    next
      case again
      with Suc.prems(3) obtain k' where k: "k = Suc k'" by (cases k) auto
      have "run_to (Attempting k (wu_active ?u)) m2 n' (verdict_of e)"
        by (rule Suc.IH [of "attempt + 1" pr "Some err"])
          (use Suc.prems post failed bt again k in \<open>auto simp: Let_def\<close>)
      then show ?thesis unfolding k
        using failed_rechecks [OF post confirmed_next] bt again by blast
    qed
  qed
qed simp

lemma loop_run:
  assumes "write_loop t c out remaining attempt lastR lastE u n = ((r, e), n')"
    and "0 < remaining" "attempt + int remaining = wt_maxAttempts t + 1"
  shows "\<exists>evs. trace n' = trace n @ evs \<and> (\<forall>ev \<in> set evs. allowed ev) \<and>
    protocol_run is_write refused answered confirmed (Attempting remaining (wu_active u)) evs (Settled (verdict_of e))"
  using loop_settles [OF assms] unfolding settles_def .

lemma loop_safe:
  assumes "write_loop t c out remaining attempt lastR lastE u n = ((r, e), n')"
    and "0 < remaining" "attempt + int remaining = wt_maxAttempts t + 1"
  shows "\<exists>evs. trace n' = trace n @ evs \<and>
    safe_run is_write refused confirmed allowed remaining (wu_active u) evs e"
  using loop_run [OF assms] protocol_safe_run by blast

lemma loop_success:
  "write_loop t c out remaining attempt lastR lastE u n = ((r, None), n') \<Longrightarrow> lastE \<noteq> None \<or> 0 < remaining \<Longrightarrow>
   \<exists>s m m'. r = Some s \<and> check_success t out s = None \<and> wc_post c m = (AttemptOk s, m')"
proof (induction remaining arbitrary: attempt lastR lastE u n)
  case (Suc k)
  obtain a m where post: "wc_post c n = (a, m)" by fastforce
  show ?case
  proof (cases a)
    case (AttemptOk s)
    then show ?thesis using Suc.prems(1) post by (auto split: option.splits)
  next
    case (AttemptFailed pr err)
    let ?u = "uncertainty_note u attempt pr err"
    obtain stop m2 where bt: "between_attempts t c attempt ?u err m = (stop, m2)" by fastforce
    have "write_loop t c out k (attempt + 1) pr (Some err) ?u m2 = ((r, None), n')"
      using Suc.prems(1) post AttemptFailed bt by (auto simp: Let_def split: option.splits if_splits)
    then show ?thesis using Suc.IH by blast
  qed
qed auto

end

section \<open>The client provides the interface\<close>

fun is_post :: "event \<Rightarrow> bool" where
  "is_post (Sent rq out) \<longleftrightarrow> hq_Method rq = ''POST''"

text \<open>
  The reading of a body did not break off: the body ended without an error, or the reader stopped
  after the limit plus one byte before the error came. A negative limit reads nothing.
\<close>

definition body_received :: "int \<Rightarrow> http_answer \<Rightarrow> bool" where
  "body_received limit a \<longleftrightarrow> ha_ReadError a = None \<or> limit < 0 \<or> int (length (ha_Body a)) > limit + 1 \<or>
     int (length (ha_Body a)) = limit + 1 \<and> \<not> ha_ErrorWithData a"

lemma read_error_None: "read_error limit a = None \<Longrightarrow> body_received limit a"
  by (auto simp: read_error_def body_received_def Let_def split: if_splits)

text \<open>The server refused a write: an answer with a status that is not 2xx, whose body was received.\<close>

fun refused_by_server :: "'w session \<Rightarrow> event \<Rightarrow> bool" where
  "refused_by_server s (Sent rq out) \<longleftrightarrow>
     (case out of HttpFailed e \<Rightarrow> False | HttpAnswered a \<Rightarrow> \<not> status_ok (ha_Status a) \<and>
        body_received (cl_MaxErrorBodyBytes (se_client s)) a)"

fun answered_ok :: "event \<Rightarrow> bool" where
  "answered_ok (Sent rq out) \<longleftrightarrow> (case out of HttpFailed e \<Rightarrow> False | HttpAnswered a \<Rightarrow> status_ok (ha_Status a))"

definition reports_identity :: "bytes \<Rightarrow> string \<Rightarrow> bool" where
  "reports_identity body i \<longleftrightarrow>
     (let (v, failed) = unmarshal (dec_struct introspection_fields) zero_introspection body
      in \<not> failed \<and> is_LogIdentity (in_Store v) = i)"

fun confirms_identity :: "'w session \<Rightarrow> event \<Rightarrow> bool" where
  "confirms_identity s (Sent rq out) \<longleftrightarrow> hq_Method rq = ''GET'' \<and>
     hq_URL rq = cl_BaseURL (se_client s) @ ''/introspect'' \<and>
     (case out of HttpFailed e \<Rightarrow> False
      | HttpAnswered a \<Rightarrow> status_ok (ha_Status a) \<and> reports_identity (ha_Body a) (se_logIdentity s))"

text \<open>The only requests of a keyed write: the exact body under the key, and identity rechecks.\<close>

fun exact_event :: "'w session \<Rightarrow> bytes option \<Rightarrow> string \<Rightarrow> event \<Rightarrow> bool" where
  "exact_event s body key (Sent rq out) \<longleftrightarrow>
     (hq_Method rq = ''POST'' \<and> hq_URL rq = cl_BaseURL (se_client s) @ ''/write'' \<and> hq_Body rq = body \<and>
      header_Get IdempotencyKeyHeader (hq_Header rq) = key) \<or>
     (hq_Method rq = ''GET'' \<and> hq_URL rq = cl_BaseURL (se_client s) @ ''/introspect'' \<and> hq_Body rq = None)"

lemma session_post_ok:
  assumes "wc_post (session_calls f s ctx body key opts) n = (AttemptOk r, n')"
  shows "\<exists>ev. nt_trace n' = nt_trace n @ [ev] \<and> is_post ev \<and> exact_event s body key ev \<and>
    answered_ok ev"
proof -
  have d: "client_do f (se_client s) (Some ctx) ''POST'' ''/write'' body key opts n = (AttemptOk r, n')"
    using assms by (simp add: session_calls_def)
  show ?thesis
  proof (cases rule: client_do_cases [OF d])
    case (2 rq rid out)
    obtain b where "out = HttpAnswered b" "status_ok (ha_Status b)" using receive_Ok [OF 2(1) [symmetric]] by blast
    with 2 show ?thesis by auto
  qed simp
qed

lemma session_post_failed:
  assumes "wc_post (session_calls f s ctx body key opts) n = (AttemptFailed r e, n')"
  shows "nt_trace n' = nt_trace n \<or> (\<exists>ev. nt_trace n' = nt_trace n @ [ev] \<and> is_post ev \<and>
    exact_event s body key ev \<and> (possiblySubmitted r e \<or> refused_by_server s ev))"
proof -
  have d: "client_do f (se_client s) (Some ctx) ''POST'' ''/write'' body key opts n = (AttemptFailed r e, n')"
    using assms by (simp add: session_calls_def)
  show ?thesis
  proof (cases rule: client_do_cases [OF d])
    case (2 rq rid out)
    have "possiblySubmitted r e \<or> refused_by_server s (Sent rq out)"
      using receive_Failed [OF 2(1) [symmetric]] errors_As_self [of is_TransportError e]
      by (auto simp: possiblySubmitted_def read_error_None)
    then show ?thesis using 2 by (intro disjI2 exI [of _ "Sent rq out"]) auto
  qed simp
qed

lemma session_recheck:
  assumes "wc_recheck (session_calls f s ctx body key opts) n = (res, n')"
  shows "(nt_trace n' = nt_trace n \<and> res \<noteq> Inr (wt_pinned (session_terms s))) \<or>
    (\<exists>ev. nt_trace n' = nt_trace n @ [ev] \<and> \<not> is_post ev \<and> exact_event s body key ev \<and>
      (res = Inr (wt_pinned (session_terms s)) \<longrightarrow> confirms_identity s ev))"
proof -
  obtain a m where d: "client_do f (se_client s) (Some ctx) ''GET'' ''/introspect'' None '''' [] n = (a, m)"
    by fastforce
  have n': "n' = m"
    using assms d by (auto simp: session_calls_def currentIdentity_def client_Introspect_def typed_get_def Let_def
        split: attempt.splits prod.splits sum.splits if_splits)
  have res: "res = Inr (se_logIdentity s) \<Longrightarrow>
      \<exists>r. a = AttemptOk r \<and> reports_identity (resp_Body r) (se_logIdentity s)"
    using assms d by (auto simp: session_calls_def currentIdentity_def client_Introspect_def typed_get_def Let_def
        reports_identity_def split: attempt.splits prod.splits sum.splits if_splits)
  show ?thesis
  proof (cases rule: client_do_cases [OF d])
    case (1 e)
    then show ?thesis using n' res by (auto simp: session_terms_def)
  next
    case (2 rq rid out)
    have "res = Inr (se_logIdentity s) \<Longrightarrow> confirms_identity s (Sent rq out)"
    proof -
      assume "res = Inr (se_logIdentity s)"
      then obtain r where r: "a = AttemptOk r" "reports_identity (resp_Body r) (se_logIdentity s)"
        using res by blast
      then obtain b where "out = HttpAnswered b" "status_ok (ha_Status b)" "resp_Body r = ha_Body b"
        using receive_Ok 2(1) by metis
      then show "confirms_identity s (Sent rq out)" using r 2(3,4) by simp
    qed
    then show ?thesis using 2 n' by (intro disjI2 exI [of _ "Sent rq out"]) (auto simp: session_terms_def)
  qed
qed

lemma session_backoff:
  "wc_backoff (session_calls f s ctx body key opts) i n = (d, n') \<Longrightarrow> nt_trace n' = nt_trace n"
  by (auto simp: session_calls_def split: prod.splits)

lemma session_sleep:
  "wc_sleep (session_calls f s ctx body key opts) d n = (err, n') \<Longrightarrow> nt_trace n' = nt_trace n"
  by (auto simp: session_calls_def split: prod.splits)

interpretation keyed: keyed_service "session_terms s" "session_calls f s ctx body key opts" nt_trace
    is_post "refused_by_server s" answered_ok "confirms_identity s" "exact_event s body key"
  for s f ctx body key opts
  by (unfold_locales; (rule session_post_ok session_post_failed session_recheck session_backoff session_sleep; assumption))

end
