(* ===== verification/Client_Authoring.thy ===== *)
theory Client_Authoring
  imports Client_Session_Laws Write_Features
begin

text \<open>
  Typed writes through a session (\<open>authoring.go\<close>): encode once, check the request's features
  against the advertised ones, resolve the key, and hand the bytes to the keyed write.
\<close>

definition refuse_feature :: "go_fmt \<Rightarrow> string \<Rightarrow> string \<Rightarrow> go_error" where
  "refuse_feature f category value =
     CapabilityError (''typed write requires advertised '' @ category @ '' '' @ fmt_q f value)"

definition require_all :: "go_fmt \<Rightarrow> string \<Rightarrow> string list \<Rightarrow> string list \<Rightarrow> go_error option" where
  "require_all f category advertised wanted =
     first_err (map (\<lambda>v. fail_when (\<not> contains advertised v) (refuse_feature f category v)) wanted)"

definition validateWriteFeatures :: "go_fmt \<Rightarrow> cap_write \<Rightarrow> features \<Rightarrow> go_error option" where
  "validateWriteFeatures f w x = first_err
     [require_all f ''operation'' (w_Operations w) (f_Operations x),
      require_all f ''object kind'' (w_ObjectKinds w) (f_ObjectKinds x),
      require_all f ''expiration form'' (w_ExpirationForms w) (f_ExpirationForms x),
      require_all f ''vocabulary mode'' (w_VocabularyModes w) (f_VocabularyModes x),
      require_all f ''record mode'' (w_RecordModes w) (map CapabilityName (f_RecordModes x)),
      require_all f ''retraction selector'' (w_RetractSelectors w) (f_RetractionSelectors x)]"

definition encode_failure :: "encode_error \<Rightarrow> go_error" where
  "encode_failure e = (case e of EncodeInvalid v \<Rightarrow> WriteValidationError v
     | EncodeObjectUnset \<Rightarrow> GoError ''write: object is unset'')"

definition WriteRequest :: "go_fmt \<Rightarrow> 'w session \<Rightarrow> 'w ctx \<Rightarrow> write_key \<Rightarrow> w_request \<Rightarrow> out_dest \<Rightarrow>
    request_option option list \<Rightarrow> 'w net \<Rightarrow> (response option \<times> go_error option) \<times> 'w net" where
  "WriteRequest f s ctx key q out opts n =
     (let rq = se_requirements s; w = c_Write (se_capabilities s) in
      case Encode q of
        Inl e \<Rightarrow> ((None, Some (encode_failure e)), n)
      | Inr body \<Rightarrow>
          (if \<not> rq_Writable rq \<and> \<not> rq_Ingestion rq then ((None, Some not_preflighted), n)
           else case validateWriteFeatures f w (Features q) of
             Some e \<Rightarrow> ((None, Some e), n)
           | None \<Rightarrow> (case resolveWriteKey f (w_Idempotency w) key of
               Inl e \<Rightarrow> ((None, Some e), n)
             | Inr resolved \<Rightarrow> writeExact f s ctx (Some body) resolved out False opts n)))"

section \<open>Advertised features\<close>

lemma contains_iff [simp]: "contains xs x \<longleftrightarrow> x \<in> set xs"
  by (auto simp: contains_def list_ex_iff)

lemma first_err_all: "first_err xs = None \<longleftrightarrow> (\<forall>x \<in> set xs. x = None)"
  by (induction xs) (auto split: option.split)

lemma require_all_None: "require_all f c xs ys = None \<longleftrightarrow> set ys \<subseteq> set xs"
  by (auto simp: require_all_def first_err_all)

definition advertises :: "cap_write \<Rightarrow> features \<Rightarrow> bool" where
  "advertises w x \<longleftrightarrow> set (f_Operations x) \<subseteq> set (w_Operations w) \<and>
     set (f_ObjectKinds x) \<subseteq> set (w_ObjectKinds w) \<and>
     set (f_ExpirationForms x) \<subseteq> set (w_ExpirationForms w) \<and>
     set (f_VocabularyModes x) \<subseteq> set (w_VocabularyModes w) \<and>
     CapabilityName ` set (f_RecordModes x) \<subseteq> set (w_RecordModes w) \<and>
     set (f_RetractionSelectors x) \<subseteq> set (w_RetractSelectors w)"

lemma validateWriteFeatures_None: "validateWriteFeatures f w x = None \<longleftrightarrow> advertises w x"
  by (auto simp: validateWriteFeatures_def advertises_def require_all_None)

section \<open>The keyed write\<close>

lemma writeExact_run:
  "\<exists>evs. nt_trace (snd (writeExact f s ctx body key out cp opts n)) = nt_trace n @ evs \<and>
     safe_run is_post (refused_by_server s) (confirms_identity s)
       (exact_event s (if cp then copy_body body else body) key)
       (nat (re_MaxAttempts (se_retry s))) False evs (snd (fst (writeExact f s ctx body key out cp opts n)))"
proof -
  let ?b = "if cp then copy_body body else body"
  let ?loop = "write_loop (session_terms s) (session_calls f s ctx ?b key opts) out
      (nat (re_MaxAttempts (se_retry s))) 1 None None no_uncertainty n"
  have none: "safe_run is_post (refused_by_server s) (confirms_identity s) (exact_event s ?b key) k False [] e" for k e
    by (simp add: safe_run_def guarded_def)
  show ?thesis
  proof (cases "writeExact f s ctx body key out cp opts n = ?loop \<and> 0 < re_MaxAttempts (se_retry s)")
    case True
    obtain r e n' where l: "?loop = ((r, e), n')" by (cases ?loop) auto
    have "1 + int (nat (re_MaxAttempts (se_retry s))) = wt_maxAttempts (session_terms s) + 1"
      using True by (simp add: session_terms_def)
    from keyed.loop_safe [OF l _ this] show ?thesis
      using True l by (simp add: no_uncertainty_def)
  next
    case False
    then have "nt_trace (snd (writeExact f s ctx body key out cp opts n)) = nt_trace n"
      by (auto simp: writeExact_def Let_def split: option.splits if_splits)
    then show ?thesis using none by (intro exI [of _ "[]"]) simp
  qed
qed

text \<open>A keyed write is a run of the protocol; one that is refused before any attempt stops at once.\<close>

lemma writeExact_protocol:
  assumes "writeExact f s ctx body key out cp opts n = ((r, e), n')" "0 < re_MaxAttempts (se_retry s)"
  shows "\<exists>evs. nt_trace n' = nt_trace n @ evs \<and>
    (\<forall>ev \<in> set evs. exact_event s (if cp then copy_body body else body) key ev) \<and>
    protocol_run is_post (refused_by_server s) answered_ok (confirms_identity s)
      (Attempting (nat (re_MaxAttempts (se_retry s))) False) evs (Settled (verdict_of e))"
proof -
  let ?b = "if cp then copy_body body else body"
  let ?loop = "write_loop (session_terms s) (session_calls f s ctx ?b key opts) out
      (nat (re_MaxAttempts (se_retry s))) 1 None None no_uncertainty n"
  show ?thesis
  proof (cases "writeExact f s ctx body key out cp opts n = ?loop")
    case True
    with assms(1) have l: "?loop = ((r, e), n')" by simp
    have "1 + int (nat (re_MaxAttempts (se_retry s))) = wt_maxAttempts (session_terms s) + 1"
      using assms(2) by (simp add: session_terms_def)
    from keyed.loop_run [OF l _ this] assms(2) show ?thesis by (simp add: no_uncertainty_def)
  next
    case False
    then have "n' = n \<and> e \<noteq> None"
    proof (cases "validateKeySyntax f key (i_MaxKeyBytes (w_Idempotency (c_Write (se_capabilities s))))
        (i_RequiredKeyPrefix (w_Idempotency (c_Write (se_capabilities s))))")
      case None
      with False assms(1) show ?thesis by (auto simp: writeExact_def Let_def None split: if_splits)
    next
      case (Some x)
      with assms(1) have "n' = n \<and> (e = Some x \<or> e = Some not_preflighted)"
        by (auto simp: writeExact_def Let_def split: if_splits)
      then show ?thesis by blast
    qed
    then have "n' = n" "may_stop False (verdict_of e)" by (auto simp: may_stop_def verdict_of_def split: if_splits)
    then show ?thesis
      by (intro exI [of _ "[]"]) (auto intro!: run_step protocol_step.Stop)
  qed
qed

text \<open>A success carries a receipt that was checked.\<close>

definition committed_receipt :: "string \<Rightarrow> response \<Rightarrow> bool" where
  "committed_receipt pinned r \<longleftrightarrow> resp_ReplayHeaderPresent r \<and>
     (let (v, failed) = unmarshal (dec_struct receipt_fields) zero_receipt (resp_Body r)
      in \<not> failed \<and> rc_Committed v \<and> rc_LogIdentity v = pinned)"

lemma validateWriteSuccess_None:
  "validateWriteSuccess pinned r = None \<longleftrightarrow> committed_receipt pinned r \<and> validLogIdentity pinned"
  by (auto simp: validateWriteSuccess_def committed_receipt_def Let_def case_prod_beta)

lemma check_success_None:
  "check_success t out r = None \<longleftrightarrow> int (length (resp_Body r)) \<le> wt_responseMax t \<and>
     committed_receipt (wt_pinned t) r \<and> validLogIdentity (wt_pinned t) \<and> decodeResponse r out = None"
  by (auto simp: check_success_def validateWriteSuccess_None)

lemma writeExact_success:
  assumes "fst (writeExact f s ctx body key out cp opts n) = (r, None)" "0 < re_MaxAttempts (se_retry s)"
  shows "\<exists>x. r = Some x \<and> status_ok (resp_Status x) \<and> committed_receipt (se_logIdentity s) x \<and>
    int (length (resp_Body x)) \<le> i_ResponseMaxBytes (w_Idempotency (c_Write (se_capabilities s))) \<and>
    decodeResponse x out = None"
proof -
  let ?b = "if cp then copy_body body else body"
  let ?c = "session_calls f s ctx ?b key opts"
  obtain n' where w: "writeExact f s ctx body key out cp opts n = ((r, None), n')"
    using assms(1) by (cases "writeExact f s ctx body key out cp opts n") auto
  then have "write_loop (session_terms s) ?c out (nat (re_MaxAttempts (se_retry s))) 1 None None
      no_uncertainty n = ((r, None), n')"
    by (auto simp: writeExact_def Let_def split: if_splits option.splits)
  from keyed.loop_success [OF this] assms(2) obtain x m m' where
    x: "r = Some x" "check_success (session_terms s) out x = None" "wc_post ?c m = (AttemptOk x, m')"
    by auto
  then have d: "client_do f (se_client s) (Some ctx) ''POST'' ''/write'' ?b key opts m = (AttemptOk x, m')"
    by (simp add: session_calls_def)
  have "status_ok (resp_Status x)"
  proof (cases rule: client_do_cases [OF d])
    case (2 rq rid out')
    from 2(1) [symmetric] show ?thesis by (elim receive_Ok) simp
  qed simp
  then show ?thesis using x by (simp add: check_success_None session_terms_def)
qed

end
