(* ===== verification/Client_Fixtures.thy ===== *)
theory Client_Fixtures
  imports Client_Authoring
begin

text \<open>
  A scripted server for witnesses: the world is the list of the answers still to come, and a
  round trip takes the next one. The session is pinned to one log and retries up to three
  times.
\<close>

type_synonym script = "http_outcome list"

definition demo_fmt :: go_fmt where
  "demo_fmt = \<lparr>fmt_q = (\<lambda>s. s), json_text = (\<lambda>target body. ''invalid JSON''), new_request_error = (\<lambda>m u. None)\<rparr>"

definition demo_do :: "http_request \<Rightarrow> script \<Rightarrow> http_outcome \<times> script" where
  "demo_do rq w = (case w of [] \<Rightarrow> (HttpFailed (LibError ''connection refused''), []) | x # xs \<Rightarrow> (x, xs))"

definition demo_client :: "script client" where
  "demo_client = \<lparr>cl_BaseURL = ''http://joey'', cl_Do = demo_do, cl_MaxRequestBytes = 1000,
     cl_MaxResponseBytes = 1000, cl_MaxErrorBodyBytes = 500, cl_UserAgent = ''joeydb-go/v0'',
     cl_RequestID = (\<lambda>w. (Inr ''req-1'', w))\<rparr>"

definition demo_ctx :: "script ctx" where
  "demo_ctx = \<lparr>ctx_Err = (\<lambda>w. None), ctx_Wait = (\<lambda>d w. (None, w))\<rparr>"

definition demo_log :: string where "demo_log = ''0123456789abcdef0123456789abcdef''"

definition demo_idempotency :: idempotency where
  "demo_idempotency = \<lparr>i_Supported = True, i_KeyHeader = IdempotencyKeyHeader,
     i_ReplayHeader = IdempotencyReplayHeader, i_BodyIdentity = ''sha256_exact_body_bytes'',
     i_RequiredKeyPrefix = ''e1:'', i_MaxKeyBytes = 128, i_ResponseMaxBytes = 500\<rparr>"

definition demo_capabilities :: capabilities where
  "demo_capabilities = zero_capabilities
     \<lparr>c_Limits := zero_limits\<lparr>l_MaxJSONRequestBytes := 1000\<rparr>,
      c_Write := \<lparr>w_Write = [''facts''], w_Operations = [''record'', ''retract''],
        w_ObjectKinds = [''entity_label'', ''u64''], w_ExpirationForms = [],
        w_VocabularyModes = [''create''], w_RecordModes = [''append'', ''ensure''],
        w_RetractSelectors = [''fact''], w_Idempotency = demo_idempotency\<rparr>\<rparr>"

definition demo_session :: "script session" where
  "demo_session = \<lparr>se_client = demo_client, se_capabilities = demo_capabilities, se_logIdentity = demo_log,
     se_requirements = \<lparr>rq_Writable = True, rq_Ingestion = False, rq_Retry = ConservativeRetryPolicy\<rparr>,
     se_retry = \<lparr>re_MaxAttempts = 3, re_Backoff = (\<lambda>i w. (50000000, w)), re_Sleep = sleepContext\<rparr>\<rparr>"

definition answer :: "int \<Rightarrow> http_header \<Rightarrow> string \<Rightarrow> http_outcome" where
  "answer status header body =
     HttpAnswered \<lparr>ha_Status = status, ha_Header = header, ha_Body = body, ha_ReadError = None, ha_ErrorWithData = False\<rparr>"

definition demo_receipt :: http_outcome where
  "demo_receipt = answer 200 [(''Idempotency-Replayed'', ''false'')]
     (''{\"committed\":true,\"log_identity\":\"'' @ demo_log @ ''\"}'')"

definition demo_identity :: http_outcome where
  "demo_identity = answer 200 [] (''{\"schema_version\":1,\"store\":{\"log_identity\":\"'' @ demo_log @ ''\"}}'')"

definition demo_refusal :: http_outcome where
  "demo_refusal = answer 400 []
     ''{\"error\":\"bad\",\"code\":\"invalid\",\"retryable\":false,\"request_id\":\"s\"}''"

definition demo_net :: "script \<Rightarrow> script net" where
  "demo_net w = \<lparr>nt_world = w, nt_trace = []\<rparr>"

definition demo_write :: "script \<Rightarrow> (response option \<times> go_error option) \<times> script net" where
  "demo_write w = WriteExact demo_fmt demo_session demo_ctx (Some ''{}'') ''e1:k'' None [] (demo_net w)"

lemma demo_retry: "map_option resp_Status (fst (fst (demo_write [HttpFailed (LibError ''reset''), demo_identity, demo_receipt]))) = Some 200 \<and>
  snd (fst (demo_write [HttpFailed (LibError ''reset''), demo_identity, demo_receipt])) = None"
  by code_simp

lemma demo_refused: "map_option is_UncertainOperationError (snd (fst (demo_write [demo_refusal]))) = Some False"
  by code_simp

end
