(* ===== verification/Client_Classify.thy ===== *)
theory Client_Classify
  imports Client_Errors
begin

text \<open>
  The machine-readable view of an error (\<open>classify.go\<close>). The code tries one error type after
  the other with \<open>errors.As\<close>; the model keeps the order of the tries. The lemmas show that the
  view does not depend on how often the error was wrapped, that \<open>MayHaveCommitted\<close> is set exactly
  for an uncertain operation in the chain, and which type decides the kind.
\<close>

datatype error_kind = NoKind | KindQueryValidation | KindWriteValidation | KindIngestValidation
  | KindAPI | KindCapability | KindInvalidKey | KindRequestTooLarge | KindResponseTooLarge
  | KindDecode | KindTransport | KindRetryStopped | KindProtocol | KindUncertainOperation
  | KindContextCanceled | KindContextDeadline | KindUnknown

fun error_kind_string :: "error_kind \<Rightarrow> string" where
  "error_kind_string NoKind = ''''"
| "error_kind_string KindQueryValidation = ''query_validation''"
| "error_kind_string KindWriteValidation = ''write_validation''"
| "error_kind_string KindIngestValidation = ''ingest_validation''"
| "error_kind_string KindAPI = ''api''"
| "error_kind_string KindCapability = ''capability''"
| "error_kind_string KindInvalidKey = ''invalid_key''"
| "error_kind_string KindRequestTooLarge = ''request_too_large''"
| "error_kind_string KindResponseTooLarge = ''response_too_large''"
| "error_kind_string KindDecode = ''decode''"
| "error_kind_string KindTransport = ''transport''"
| "error_kind_string KindRetryStopped = ''retry_stopped''"
| "error_kind_string KindProtocol = ''protocol''"
| "error_kind_string KindUncertainOperation = ''uncertain_operation''"
| "error_kind_string KindContextCanceled = ''context_canceled''"
| "error_kind_string KindContextDeadline = ''context_deadline''"
| "error_kind_string KindUnknown = ''unknown''"

record error_info =
  ei_Kind :: error_kind
  ei_Code :: string
  ei_Path :: string
  ei_Detail :: string
  ei_HTTPStatus :: int
  ei_Retryable :: bool
  ei_RequestID :: string
  ei_UncertainRequestID :: string
  ei_ExpectedLogIdentity :: string
  ei_ObservedLogIdentity :: string
  ei_MayHaveCommitted :: bool
  ei_Method :: string
  ei_Endpoint :: string
  ei_Key :: string
  ei_Size :: int
  ei_Limit :: int
  ei_Body :: bytes
  ei_BodyTruncated :: bool
  ei_Malformed :: bool
  ei_Err :: "go_error option"
  ei_Origin :: "go_error option"
  ei_LastAttempt :: "go_error option"
  ei_Terminal :: "go_error option"
  ei_IdentityCause :: "go_error option"
  ei_StopCause :: "go_error option"

definition zero_info :: error_info where
  "zero_info = \<lparr>ei_Kind = NoKind, ei_Code = '''', ei_Path = '''', ei_Detail = '''', ei_HTTPStatus = 0,
     ei_Retryable = False, ei_RequestID = '''', ei_UncertainRequestID = '''',
     ei_ExpectedLogIdentity = '''', ei_ObservedLogIdentity = '''', ei_MayHaveCommitted = False,
     ei_Method = '''', ei_Endpoint = '''', ei_Key = '''', ei_Size = 0, ei_Limit = 0, ei_Body = '''',
     ei_BodyTruncated = False, ei_Malformed = False, ei_Err = None, ei_Origin = None,
     ei_LastAttempt = None, ei_Terminal = None, ei_IdentityCause = None, ei_StopCause = None\<rparr>"

text \<open>\<open>info.Kind\<close> and \<open>info.Code\<close> of the branches that use the kind as the code.\<close>

definition of_kind :: "error_kind \<Rightarrow> error_info \<Rightarrow> error_info" where
  "of_kind k info = info\<lparr>ei_Kind := k, ei_Code := error_kind_string k\<rparr>"

definition orElse :: "'a option \<Rightarrow> 'a option \<Rightarrow> 'a option" where
  "orElse a b = (case a of None \<Rightarrow> b | Some x \<Rightarrow> Some x)"

definition classify_uncertain :: "go_fmt \<Rightarrow> error_info \<Rightarrow> go_error \<Rightarrow> error_info" where
  "classify_uncertain f info u = (of_kind KindUncertainOperation info)
     \<lparr>ei_Detail := error_text f u, ei_RequestID := un_RequestID u,
      ei_UncertainRequestID := (if un_UncertainRequestID u = '''' then un_RequestID u
        else un_UncertainRequestID u),
      ei_ExpectedLogIdentity := un_ExpectedIdentity u, ei_ObservedLogIdentity := un_ObservedIdentity u,
      ei_MayHaveCommitted := True, ei_Origin := un_Cause u, ei_LastAttempt := un_Last u,
      ei_IdentityCause := un_IdentityCause u, ei_StopCause := un_StopCause u,
      ei_Terminal := orElse (un_StopCause u) (orElse (un_IdentityCause u)
        (orElse (un_Last u) (un_Cause u)))\<rparr>"

definition classify_stopped :: "go_fmt \<Rightarrow> error_info \<Rightarrow> go_error \<Rightarrow> error_info" where
  "classify_stopped f info s = (of_kind KindRetryStopped info)
     \<lparr>ei_Detail := error_text f s, ei_RequestID := rs_RequestID s, ei_Origin := rs_Last s,
      ei_LastAttempt := rs_Last s, ei_Terminal := rs_Cause s, ei_StopCause := rs_Cause s\<rparr>"

definition classify_api :: "error_info \<Rightarrow> go_error \<Rightarrow> error_info" where
  "classify_api info a = info\<lparr>ei_Kind := KindAPI, ei_Code := api_Code a, ei_Detail := api_Detail a,
     ei_HTTPStatus := api_Status a, ei_Retryable := api_Retryable a, ei_RequestID := api_RequestID a,
     ei_Body := api_RawBody a, ei_BodyTruncated := api_BodyTruncated a,
     ei_Malformed := api_Malformed a, ei_Origin := api_DecodeError a\<rparr>"

definition classify_validation :: "error_kind \<Rightarrow> error_info \<Rightarrow> string \<Rightarrow> string \<Rightarrow> string \<Rightarrow> error_info" where
  "classify_validation k info code path detail =
     info\<lparr>ei_Kind := k, ei_Code := code, ei_Path := path, ei_Detail := detail\<rparr>"

text \<open>The tries in the order of the code: the test of \<open>errors.As\<close> and what fills the view.\<close>

definition classifiers :: "go_fmt \<Rightarrow> ((go_error \<Rightarrow> bool) \<times> (error_info \<Rightarrow> go_error \<Rightarrow> error_info)) list" where
  "classifiers f =
    [(is_UncertainOperationError, classify_uncertain f),
     (is_RetryStoppedError, classify_stopped f),
     (is_APIError, classify_api),
     (is_CapabilityError, \<lambda>info e. (of_kind KindCapability info)\<lparr>ei_Detail := ca_Reason e\<rparr>),
     (is_InvalidKeyError, \<lambda>info e. (of_kind KindInvalidKey info)
        \<lparr>ei_Detail := ik_Reason e, ei_Key := ik_Key e\<rparr>),
     (is_RequestTooLargeError, \<lambda>info e. (of_kind KindRequestTooLarge info)
        \<lparr>ei_Detail := error_text f e, ei_Size := ql_Size e, ei_Limit := ql_Limit e\<rparr>),
     (is_ResponseTooLargeError, \<lambda>info e. (of_kind KindResponseTooLarge info)
        \<lparr>ei_Detail := error_text f e, ei_HTTPStatus := rl_Status e, ei_RequestID := rl_RequestID e,
         ei_Limit := rl_Limit e\<rparr>),
     (is_DecodeError, \<lambda>info e. (of_kind KindDecode info)
        \<lparr>ei_Detail := error_text f e, ei_HTTPStatus := de_Status e, ei_RequestID := de_RequestID e,
         ei_Body := de_Body e, ei_Origin := de_Cause e\<rparr>),
     (is_TransportError, \<lambda>info e. (of_kind KindTransport info)
        \<lparr>ei_Detail := error_text f e, ei_Method := tr_Method e, ei_Endpoint := tr_Path e,
         ei_RequestID := tr_RequestID e, ei_Origin := tr_Cause e\<rparr>),
     (is_ProtocolError, \<lambda>info e. (of_kind KindProtocol info)
        \<lparr>ei_Detail := pr_Detail e, ei_RequestID := pr_RequestID e, ei_Origin := pr_Cause e\<rparr>),
     (is_QueryValidationError, \<lambda>info e.
        classify_validation KindQueryValidation info (qv_Code e) (qv_Path e) (qv_Detail e)),
     (is_WriteValidationError, \<lambda>info e.
        classify_validation KindWriteValidation info (write_code_string (w_code (wv_error e)))
          (w_path (wv_error e)) (w_detail (wv_error e))),
     (is_IngestValidationError, \<lambda>info e.
        classify_validation KindIngestValidation info (iv_Code e) (iv_Path e) (iv_Detail e)),
     (\<lambda>e. e = ContextCanceled, \<lambda>info e.
        (of_kind KindContextCanceled info)\<lparr>ei_Detail := error_text f ContextCanceled\<rparr>),
     (\<lambda>e. e = ContextDeadlineExceeded, \<lambda>info e.
        (of_kind KindContextDeadline info)\<lparr>ei_Detail := error_text f ContextDeadlineExceeded\<rparr>)]"

fun first_match :: "((go_error \<Rightarrow> bool) \<times> (error_info \<Rightarrow> go_error \<Rightarrow> error_info)) list \<Rightarrow>
    go_error \<Rightarrow> error_info \<Rightarrow> error_info option" where
  "first_match [] e info = None"
| "first_match ((p, fill) # cs) e info = (case errors_As p e of
     Some x \<Rightarrow> Some (fill info x) | None \<Rightarrow> first_match cs e info)"

definition Classify :: "go_fmt \<Rightarrow> go_error option \<Rightarrow> error_info" where
  "Classify f err = (case err of None \<Rightarrow> zero_info | Some e \<Rightarrow>
     (let info = zero_info\<lparr>ei_Err := Some e, ei_RequestID := RequestIDFromError (Some e),
            ei_Retryable := IsRetryable (Some e)\<rparr>
      in case first_match (classifiers f) e info of
           Some filled \<Rightarrow> filled
         | None \<Rightarrow> (of_kind KindUnknown info)\<lparr>ei_Detail := error_text f e\<rparr>))"

section \<open>Wrapping\<close>

lemma first_match_wrap:
  "list_all (\<lambda>c. \<not> fst c (GoWrap t e)) cs \<Longrightarrow> first_match cs (GoWrap t e) info = first_match cs e info"
  by (induction cs) (auto simp: errors_As_wrap split: option.split)

lemma classifiers_wrap: "list_all (\<lambda>c. \<not> fst c (GoWrap t e)) (classifiers f)"
  by (simp add: classifiers_def)

lemma RequestIDFromError_wrap: "RequestIDFromError (Some (GoWrap t e)) = RequestIDFromError (Some e)"
  by (simp add: RequestIDFromError_def errors_As_wrap request_id_carrier_def)

lemma IsRetryable_wrap: "IsRetryable (Some (GoWrap t e)) = IsRetryable (Some e)"
  by (simp add: IsRetryable_def errors_As_wrap)

text \<open>Every filler keeps \<open>Err\<close> and treats it as any other field.\<close>

definition keeps_err :: "(error_info \<Rightarrow> go_error \<Rightarrow> error_info) \<Rightarrow> bool" where
  "keeps_err fill \<longleftrightarrow> (\<forall>info e u. fill (info\<lparr>ei_Err := u\<rparr>) e = (fill info e)\<lparr>ei_Err := u\<rparr>)"

lemmas filler_defs = classify_uncertain_def classify_stopped_def classify_api_def
  classify_validation_def of_kind_def

lemma classifiers_keep: "list_all (\<lambda>c. keeps_err (snd c)) (classifiers f)"
  by (simp add: classifiers_def keeps_err_def filler_defs)

lemma first_match_keep:
  "list_all (\<lambda>c. keeps_err (snd c)) cs \<Longrightarrow>
   first_match cs e (info\<lparr>ei_Err := u\<rparr>) = map_option (\<lambda>i. i\<lparr>ei_Err := u\<rparr>) (first_match cs e info)"
  by (induction cs) (auto simp: keeps_err_def split: option.split)

section \<open>Which kind\<close>

lemma first_match_None: "first_match cs e info = None \<longleftrightarrow> (\<forall>c \<in> set cs. errors_As (fst c) e = None)"
  by (induction cs e info rule: first_match.induct) (simp_all split: option.split)

text \<open>Only the first classifier sets \<open>MayHaveCommitted\<close>.\<close>

lemma first_match_commit:
  assumes "\<forall>c \<in> set cs. \<forall>info x. ei_MayHaveCommitted (snd c info x) = ei_MayHaveCommitted info"
  shows "first_match cs e info = Some i \<Longrightarrow> ei_MayHaveCommitted i = ei_MayHaveCommitted info"
  using assms by (induction cs) (auto split: option.splits)

lemma commit_fillers:
  "\<forall>c \<in> set (tl (classifiers f)). \<forall>info x. ei_MayHaveCommitted (snd c info x) = ei_MayHaveCommitted info"
  by (simp add: classifiers_def filler_defs)

lemma MayHaveCommitted_iff:
  "ei_MayHaveCommitted (Classify f (Some e)) \<longleftrightarrow>
     (\<exists>x \<in> set (chain e). is_UncertainOperationError x)"
proof (cases "errors_As is_UncertainOperationError e")
  case None
  obtain cs where cs: "classifiers f = (is_UncertainOperationError, classify_uncertain f) # cs" "cs = tl (classifiers f)"
    by (simp add: classifiers_def)
  have "\<not> ei_MayHaveCommitted (Classify f (Some e))"
    using first_match_commit [OF commit_fillers [of f]] None
    by (auto simp: Classify_def Let_def cs(1) zero_info_def of_kind_def split: option.split)
  then show ?thesis using None unfolding errors_As_None by blast
next
  case (Some x)
  then have "ei_MayHaveCommitted (Classify f (Some e))"
    by (simp add: Classify_def Let_def classifiers_def classify_uncertain_def)
  then show ?thesis using errors_As_Some [OF Some] by blast
qed

lemma Classify_wrap:
  assumes "ei_Kind (Classify f (Some e)) \<noteq> KindUnknown"
  shows "Classify f (Some (GoWrap t e)) = (Classify f (Some e))\<lparr>ei_Err := Some (GoWrap t e)\<rparr>"
proof -
  let ?i = "zero_info\<lparr>ei_RequestID := RequestIDFromError (Some e), ei_Retryable := IsRetryable (Some e)\<rparr>"
  have upd: "zero_info\<lparr>ei_Err := u, ei_RequestID := r, ei_Retryable := b\<rparr> =
      zero_info\<lparr>ei_RequestID := r, ei_Retryable := b\<rparr>\<lparr>ei_Err := u\<rparr>" for u r b
    by simp
  have m: "first_match (classifiers f) e (?i\<lparr>ei_Err := u\<rparr>) =
      map_option (\<lambda>i. i\<lparr>ei_Err := u\<rparr>) (first_match (classifiers f) e ?i)" for u
    by (rule first_match_keep) (rule classifiers_keep)
  show ?thesis
    using assms
    by (cases "first_match (classifiers f) e ?i")
      (simp_all add: Classify_def Let_def RequestIDFromError_wrap IsRetryable_wrap upd m
        first_match_wrap [OF classifiers_wrap] of_kind_def)
qed

lemma Classify_kind_unknown:
  "ei_Kind (Classify f (Some e)) = KindUnknown \<longleftrightarrow>
     (\<forall>c \<in> set (classifiers f). \<forall>x \<in> set (chain e). \<not> fst c x)"
proof -
  have k: "\<forall>c \<in> set cs. \<forall>info x. ei_Kind (snd c info x) \<noteq> KindUnknown \<Longrightarrow>
      first_match cs e info = Some i \<Longrightarrow> ei_Kind i \<noteq> KindUnknown" for cs info i
    by (induction cs) (auto split: option.splits)
  have "\<forall>c \<in> set (classifiers f). \<forall>info x. ei_Kind (snd c info x) \<noteq> KindUnknown"
    by (simp add: classifiers_def filler_defs)
  note k = k [OF this]
  show ?thesis
    unfolding errors_As_None [symmetric] first_match_None [symmetric, where info = "zero_info\<lparr>ei_Err := Some e,
      ei_RequestID := RequestIDFromError (Some e), ei_Retryable := IsRetryable (Some e)\<rparr>"]
    using k by (auto simp: Classify_def Let_def of_kind_def split: option.split)
qed

end
