(* ===== verification/Semantic_Key.thy ===== *)
theory Semantic_Key
  imports Client_Keys Sha256
begin

text \<open>
  \<open>SemanticKey\<close> (\<open>semantic_key.go\<close>): a logical key derived from a namespace and an ordered list
  of parts, by hashing a length-framed text. The lemmas show that the framed text determines the
  namespace and the parts, that the base64 suffix determines the digest, and that every suffix
  is a valid wire token of bounded length.
\<close>

section \<open>base64.RawURLEncoding\<close>

definition b64_char :: "nat \<Rightarrow> char" where
  "b64_char n = (if n < 26 then chr (65 + n) else if n < 52 then chr (71 + n)
     else if n < 62 then chr (n - 4) else if n = 62 then CHR ''-'' else CHR ''_'')"

fun base64_raw_url :: "bytes \<Rightarrow> string" where
  "base64_raw_url [] = []"
| "base64_raw_url [a] = (let v = byte a * 16 in map b64_char [v div 64, v mod 64])"
| "base64_raw_url [a, b] = (let v = (byte a * 256 + byte b) * 4 in
     map b64_char [v div 4096, v div 64 mod 64, v mod 64])"
| "base64_raw_url (a # b # c # s) = (let v = (byte a * 256 + byte b) * 256 + byte c in
     map b64_char [v div 262144, v div 4096 mod 64, v div 64 mod 64, v mod 64] @ base64_raw_url s)"

section \<open>The key\<close>

definition SemanticKeyDomain :: string where
  "SemanticKeyDomain = ''github.com/aerialcombat/joeydb-go/semantic-key/v1''"

definition maxSemanticKeyNamespaceBytes :: nat where "maxSemanticKeyNamespaceBytes = 32"

definition namespace_char :: "char \<Rightarrow> bool" where
  "namespace_char c \<longleftrightarrow> (CHR ''a'' \<le> c \<and> c \<le> CHR ''z'') \<or> (CHR ''0'' \<le> c \<and> c \<le> CHR ''9'') \<or>
     c = CHR ''.'' \<or> c = CHR ''_'' \<or> c = CHR ''-''"

definition validSemanticKeyNamespace :: "string \<Rightarrow> bool" where
  "validSemanticKeyNamespace namespace \<longleftrightarrow>
     (if length namespace = 0 \<or> length namespace > maxSemanticKeyNamespaceBytes then False
      else if hd namespace < CHR ''a'' \<or> hd namespace > CHR ''z'' then False
      else list_all namespace_char (tl namespace))"

text \<open>\<open>writeSemanticUint64\<close> and \<open>writeSemanticFrame\<close>: what they write to the digest.\<close>

definition semantic_uint64 :: "nat \<Rightarrow> bytes" where
  "semantic_uint64 n = be_bytes 8 (n mod 2 ^ 64)"

definition semantic_frame :: "bytes \<Rightarrow> bytes" where
  "semantic_frame v = semantic_uint64 (length v) @ v"

definition semantic_text :: "string \<Rightarrow> string list \<Rightarrow> bytes" where
  "semantic_text namespace parts = semantic_frame SemanticKeyDomain @ semantic_frame namespace @
     semantic_uint64 (length parts) @ concat (map semantic_frame parts)"

definition SemanticKey :: "string \<Rightarrow> string list \<Rightarrow> go_error + write_key" where
  "SemanticKey namespace parts =
     (if \<not> validSemanticKeyNamespace namespace
      then Inl (InvalidKeyError namespace
        (''semantic namespace must be 1-32 bytes, start with a lowercase letter, '' @
         ''and use only lowercase letters, digits, '.', '_', or '-'' @ apostrophe))
      else Inr (KeySuffix (namespace @ '':'' @ base64_raw_url (sha256 (semantic_text namespace parts)))))"

section \<open>Injectivity\<close>

lemma b64_char_inj: "m < 64 \<Longrightarrow> n < 64 \<Longrightarrow> b64_char m = b64_char n \<Longrightarrow> m = n"
proof -
  have "distinct (map b64_char [0..<64])" by code_simp
  then have "inj_on b64_char {0..<64}" unfolding distinct_map set_upt by blast
  then show "m < 64 \<Longrightarrow> n < 64 \<Longrightarrow> b64_char m = b64_char n \<Longrightarrow> m = n"
    by (rule inj_onD) simp_all
qed

lemma div_mod_eq: "x div m = y div m \<Longrightarrow> x mod m = y mod m \<Longrightarrow> x = y" for x y m :: nat
proof -
  assume "x div m = y div m" "x mod m = y mod m"
  then have "x div m * m + x mod m = y div m * m + y mod m" by simp
  then show "x = y" unfolding div_mult_mod_eq .
qed

text \<open>Two-digit numbers to the base 256.\<close>

lemma base256: "b < 256 \<Longrightarrow> b' < 256 \<Longrightarrow> a * 256 + b = a' * 256 + b' \<Longrightarrow> a = a' \<and> b = b'" for a b :: nat
proof -
  assume l: "b < 256" "b' < 256" and e: "a * 256 + b = a' * 256 + b'"
  have "(a * 256 + b) mod 256 = (a' * 256 + b') mod 256" using e by (rule arg_cong)
  then have "b = b'" using l by simp
  with e show "a = a' \<and> b = b'" by simp
qed

lemma byte_inj: "byte a = byte b \<Longrightarrow> a = b"
  by (metis chr_byte)

lemma sextets:
  fixes v w :: nat
  assumes "v div 262144 = w div 262144" "v div 4096 mod 64 = w div 4096 mod 64"
    "v div 64 mod 64 = w div 64 mod 64" "v mod 64 = w mod 64"
  shows "v = w"
proof -
  have n: "x div 262144 = x div 64 div 64 div 64" "x div 4096 = x div 64 div 64" for x :: nat
    by (simp_all flip: div_mult2_eq)
  show ?thesis using assms unfolding n by (intro div_mod_eq [of v 64 w] div_mod_eq [of "v div 64" 64 "w div 64"]
    div_mod_eq [of "v div 64 div 64" 64 "w div 64 div 64"])
qed

lemma two_bytes_bound: "x < 256 \<Longrightarrow> y < 256 \<Longrightarrow> (x * 256 + y) * 4 < 64 * 4096" for x y :: nat
  by simp

lemma three_bytes_bound: "x < 256 \<Longrightarrow> y < 256 \<Longrightarrow> z < 256 \<Longrightarrow> (x * 256 + y) * 256 + z < 64 * 262144" for x y z :: nat
  by simp

lemma base64_one: "base64_raw_url [a] = base64_raw_url [a'] \<Longrightarrow> a = a'"
proof -
  let ?v = "byte a * 16" and ?w = "byte a' * 16"
  assume e: "base64_raw_url [a] = base64_raw_url [a']"
  have "?v < 4096" "?w < 4096" using byte_less [of a] byte_less [of a'] by simp_all
  then have q: "?v div 64 < 64" "?w div 64 < 64" by (simp_all only: less_mult_imp_div_less)
  have "b64_char (?v div 64) = b64_char (?w div 64)" "b64_char (?v mod 64) = b64_char (?w mod 64)"
    using e unfolding base64_raw_url.simps Let_def list.map list.inject by blast+
  then have "?v div 64 = ?w div 64" "?v mod 64 = ?w mod 64"
    using q b64_char_inj mod_less_divisor [of 64] zero_less_numeral by metis+
  then have "?v = ?w" by (rule div_mod_eq)
  then show "a = a'" by (auto dest: byte_inj)
qed

lemma base64_two: "base64_raw_url [a, b] = base64_raw_url [a', b'] \<Longrightarrow> a = a' \<and> b = b'"
proof -
  let ?v = "(byte a * 256 + byte b) * 4" and ?w = "(byte a' * 256 + byte b') * 4"
  assume p: "base64_raw_url [a, b] = base64_raw_url [a', b']"
  have l: "byte a < 256" "byte b < 256" "byte a' < 256" "byte b' < 256" by simp_all
  then have "?v < 64 * 4096" "?w < 64 * 4096" by (simp_all only: two_bytes_bound)
  then have "?v div 4096 < 64" and "?w div 4096 < 64" by (blast intro: less_mult_imp_div_less)+
  moreover have "b64_char (?v div 4096) = b64_char (?w div 4096)"
    "b64_char (?v div 64 mod 64) = b64_char (?w div 64 mod 64)"
    "b64_char (?v mod 64) = b64_char (?w mod 64)"
    using p unfolding base64_raw_url.simps Let_def list.map list.inject by blast+
  ultimately have e: "?v div 4096 = ?w div 4096" "?v div 64 mod 64 = ?w div 64 mod 64" "?v mod 64 = ?w mod 64"
    using b64_char_inj mod_less_divisor [of 64] zero_less_numeral by metis+
  have n: "x div 262144 = x div 4096 div 64" for x :: nat by (simp flip: div_mult2_eq)
  have "?v = ?w" by (rule sextets) (simp_all only: e n)
  then have "byte a * 256 + byte b = byte a' * 256 + byte b'" by simp
  then show ?thesis using base256 [OF l(2,4)] by (auto dest: byte_inj)
qed

lemma base64_three:
  "base64_raw_url (a # b # c # s) = base64_raw_url (a' # b' # c' # s') \<Longrightarrow>
   a = a' \<and> b = b' \<and> c = c' \<and> base64_raw_url s = base64_raw_url s'"
proof -
  let ?v = "(byte a * 256 + byte b) * 256 + byte c" and ?w = "(byte a' * 256 + byte b') * 256 + byte c'"
  assume p: "base64_raw_url (a # b # c # s) = base64_raw_url (a' # b' # c' # s')"
  have l: "byte a < 256" "byte b < 256" "byte c < 256" "byte a' < 256" "byte b' < 256" "byte c' < 256"
    by simp_all
  then have "?v < 64 * 262144" "?w < 64 * 262144" by (simp_all only: three_bytes_bound)
  then have q: "?v div 262144 < 64" "?w div 262144 < 64" by (blast intro: less_mult_imp_div_less)+
  have e: "b64_char (?v div 262144) = b64_char (?w div 262144)"
    "b64_char (?v div 4096 mod 64) = b64_char (?w div 4096 mod 64)"
    "b64_char (?v div 64 mod 64) = b64_char (?w div 64 mod 64)"
    "b64_char (?v mod 64) = b64_char (?w mod 64)" "base64_raw_url s = base64_raw_url s'"
    using p unfolding base64_raw_url.simps Let_def list.map list.inject append_Cons append_Nil by blast+
  have m: "x mod 64 < 64" for x :: nat by simp
  have "?v = ?w"
    using b64_char_inj [OF q e(1)] b64_char_inj [OF m m e(2)] b64_char_inj [OF m m e(3)]
      b64_char_inj [OF m m e(4)] by (rule sextets)
  then have "byte a * 256 + byte b = byte a' * 256 + byte b'" "c = c'"
    using base256 [OF l(3,6)] byte_inj by blast+
  then show ?thesis using base256 [OF l(2,5)] byte_inj e(5) by blast
qed

lemma base64_inject:
  "length s = length t \<Longrightarrow> base64_raw_url s = base64_raw_url t \<Longrightarrow> s = t"
proof (induction s arbitrary: t rule: base64_raw_url.induct)
  case (2 a)
  then obtain a' where "t = [a']" by (cases t) auto
  with "2.prems"(2) base64_one show ?case by blast
next
  case (3 a b)
  then obtain a' b' where "t = [a', b']" by (cases t; cases "tl t") auto
  with "3.prems"(2) base64_two show ?case by blast
next
  case (4 a b c s)
  then obtain a' b' c' s' where t: "t = a' # b' # c' # s'"
    by (cases t; cases "tl t"; cases "tl (tl t)") auto
  from base64_three [OF "4.prems"(2) [unfolded t]] "4.prems"(1) show ?case
    unfolding t by (auto intro: "4.IH" simp del: base64_raw_url.simps)
qed simp

section \<open>The framed text\<close>

lemma be_bytes_inject: "x < 256 ^ n \<Longrightarrow> y < 256 ^ n \<Longrightarrow> be_bytes n x = be_bytes n y \<Longrightarrow> x = y"
proof (induction n arbitrary: x y)
  case (Suc n)
  have d: "be_bytes (Suc n) z = be_bytes n (z div 256) @ [chr (z mod 256)]" for z
  proof -
    have "z div 256 ^ (Suc n - 1 - i) = z div 256 div 256 ^ (n - 1 - i)" if "i < n" for i
    proof -
      have "Suc n - 1 - i = Suc (n - 1 - i)" using that by simp
      then show ?thesis by (simp add: div_mult2_eq)
    qed
    then show ?thesis by (simp add: be_bytes_def)
  qed
  have "be_bytes n (x div 256) = be_bytes n (y div 256)" "chr (x mod 256) = chr (y mod 256)"
    using Suc.prems(3) unfolding d by simp_all
  then have "x div 256 = y div 256" "byte (chr (x mod 256)) = byte (chr (y mod 256))"
    using Suc by (simp_all add: less_mult_imp_div_less)
  then show ?case by (intro div_mod_eq [of x 256 y]) (simp_all add: byte_chr)
qed simp

lemma semantic_uint64_inject:
  "x < 2 ^ 64 \<Longrightarrow> y < 2 ^ 64 \<Longrightarrow> semantic_uint64 x = semantic_uint64 y \<Longrightarrow> x = y"
  unfolding semantic_uint64_def using be_bytes_inject [of x 8 y] by simp

lemma length_semantic_uint64 [simp]: "length (semantic_uint64 x) = 8"
  by (simp add: semantic_uint64_def)

lemma semantic_frame_inject:
  assumes "length v < 2 ^ 64" "length w < 2 ^ 64" "semantic_frame v @ r = semantic_frame w @ s"
  shows "v = w \<and> r = s"
proof -
  have "semantic_uint64 (length v) = semantic_uint64 (length w)" "v @ r = w @ s"
    using assms(3) by (simp_all add: semantic_frame_def)
  with assms(1,2) show ?thesis using semantic_uint64_inject [of "length v" "length w"] by simp
qed

lemma frames_inject:
  "length ps = length qs \<Longrightarrow> \<forall>p \<in> set (ps @ qs). length p < 2 ^ 64 \<Longrightarrow>
   concat (map semantic_frame ps) = concat (map semantic_frame qs) \<Longrightarrow> ps = qs"
proof (induction ps qs rule: list_induct2)
  case (Cons p ps q qs)
  then show ?case using semantic_frame_inject [of p q] by simp
qed simp

text \<open>Lengths are those of Go slices and strings: below 2 to the 64.\<close>

definition go_sized :: "string \<Rightarrow> string list \<Rightarrow> bool" where
  "go_sized n ps \<longleftrightarrow> length n < 2 ^ 64 \<and> length ps < 2 ^ 64 \<and> (\<forall>p \<in> set ps. length p < 2 ^ 64)"

lemma semantic_text_inject:
  assumes "go_sized n ps" "go_sized m qs" "semantic_text n ps = semantic_text m qs"
  shows "n = m \<and> ps = qs"
proof -
  have "semantic_frame n @ semantic_uint64 (length ps) @ concat (map semantic_frame ps) =
      semantic_frame m @ semantic_uint64 (length qs) @ concat (map semantic_frame qs)"
    using assms(3) by (simp add: semantic_text_def)
  then have "n = m" "semantic_uint64 (length ps) @ concat (map semantic_frame ps) =
      semantic_uint64 (length qs) @ concat (map semantic_frame qs)"
    using semantic_frame_inject assms(1,2) unfolding go_sized_def by blast+
  then have "length ps = length qs" "concat (map semantic_frame ps) = concat (map semantic_frame qs)"
    using semantic_uint64_inject [of "length ps" "length qs"] assms(1,2) by (simp_all add: go_sized_def)
  then show ?thesis using frames_inject [of ps qs] assms(1,2) \<open>n = m\<close> by (auto simp: go_sized_def)
qed

section \<open>The suffix\<close>

lemma namespace_wire: "namespace_char c \<Longrightarrow> wire_char c"
  by (auto simp: namespace_char_def wire_char_def)

lemma validSemanticKeyNamespace_iff:
  "validSemanticKeyNamespace n \<longleftrightarrow> n \<noteq> '''' \<and> length n \<le> 32 \<and> CHR ''a'' \<le> hd n \<and> hd n \<le> CHR ''z'' \<and>
     list_all namespace_char n"
  by (cases n) (auto simp: validSemanticKeyNamespace_def maxSemanticKeyNamespaceBytes_def namespace_char_def)

lemma b64_char_wire: "n < 64 \<Longrightarrow> wire_char (b64_char n) \<and> b64_char n \<noteq> CHR '':''"
proof -
  have "list_all (\<lambda>n. wire_char (b64_char n) \<and> b64_char n \<noteq> CHR '':'') [0..<64]" by code_simp
  then show "n < 64 \<Longrightarrow> wire_char (b64_char n) \<and> b64_char n \<noteq> CHR '':''"
    unfolding list_all_iff set_upt by simp
qed

lemma base64_wire: "list_all (\<lambda>c. wire_char c \<and> c \<noteq> CHR '':'') (base64_raw_url s)"
proof (induction s rule: base64_raw_url.induct)
  case (2 a)
  have "byte a * 16 < 64 * 64" using byte_less [of a] by linarith
  then show ?case by (simp add: Let_def b64_char_wire less_mult_imp_div_less del: div_mult2_eq)
next
  case (3 a b)
  have "(byte a * 256 + byte b) * 4 < 64 * 4096" by (rule two_bytes_bound) simp_all
  then have "(byte a * 256 + byte b) * 4 div 4096 < 64" by (rule less_mult_imp_div_less)
  then show ?case unfolding base64_raw_url.simps Let_def list.map list.pred_inject
    using b64_char_wire mod_less_divisor [of 64] by simp
next
  case (4 a b c s)
  have "(byte a * 256 + byte b) * 256 + byte c < 64 * 262144"
    by (rule three_bytes_bound) simp_all
  then have "((byte a * 256 + byte b) * 256 + byte c) div 262144 < 64" by (rule less_mult_imp_div_less)
  then show ?case using 4 unfolding base64_raw_url.simps Let_def list.map list_all_append list.pred_inject
    using b64_char_wire mod_less_divisor [of 64] by simp
qed simp

lemma length_base64: "length (base64_raw_url s) = (4 * length s + 2) div 3"
  by (induction s rule: base64_raw_url.induct) (simp_all add: Let_def)

lemma SemanticKey_wire:
  assumes "SemanticKey n ps = Inr k"
  shows "wk_tag k = writeKeySuffix \<and> validWireToken (wk_value k) \<and> length (wk_value k) = length n + 44"
proof -
  have n: "list_all wire_char n" "length n \<le> 32"
    and k: "k = KeySuffix (n @ '':'' @ base64_raw_url (sha256 (semantic_text n ps)))"
    using assms namespace_wire
    by (auto simp: SemanticKey_def validSemanticKeyNamespace_iff list_all_iff split: if_splits)
  have "wire_char CHR '':''" by (simp add: wire_char_def)
  then show ?thesis
    using n base64_wire [of "sha256 (semantic_text n ps)"]
    by (auto simp: k KeySuffix_def validWireToken_def length_base64 list_all_iff)
qed

lemma split_at_colon:
  "a @ CHR '':'' # b = c @ CHR '':'' # d \<Longrightarrow> CHR '':'' \<notin> set a \<Longrightarrow> CHR '':'' \<notin> set c \<Longrightarrow> a = c \<and> b = d"
  by (induction a c rule: list_induct2') auto

lemma SemanticKey_eq:
  assumes "SemanticKey n ps = Inr k" "SemanticKey m qs = Inr k"
  shows "n = m \<and> sha256 (semantic_text n ps) = sha256 (semantic_text m qs)"
proof -
  have c: "CHR '':'' \<notin> set n" if "SemanticKey n ps = Inr k" for n ps
    using that by (auto simp: SemanticKey_def validSemanticKeyNamespace_iff list_all_iff namespace_char_def
        split: if_splits)
  have "n @ CHR '':'' # base64_raw_url (sha256 (semantic_text n ps)) =
      m @ CHR '':'' # base64_raw_url (sha256 (semantic_text m qs))"
    using assms by (auto simp: SemanticKey_def KeySuffix_def split: if_splits)
  then have "n = m" "base64_raw_url (sha256 (semantic_text n ps)) = base64_raw_url (sha256 (semantic_text m qs))"
    using split_at_colon [OF _ c [OF assms(1)] c [OF assms(2)]] by blast+
  then show ?thesis using base64_inject by simp
qed

end
