(* ===== verification/Client_Properties.thy ===== *)
theory Client_Properties
  imports Client_Fixtures Client_Classify Semantic_Key Write_Fixtures
begin

text \<open>
  The properties of the client and its sessions, each with a witness on the scripted server.
\<close>

text \<open>C1. What a keyed write puts on the wire: only POSTs of the exact body under the given key and
  GETs of the introspection report; at most as many POSTs as the policy has attempts; and every
  POST but the first comes immediately after an answer of the server that reports the pinned
  log identity. A body is never re-encoded and a write is never resent across a log change.\<close>

theorem write_exact_on_the_wire:
  "\<exists>evs. nt_trace (snd (WriteExact f s ctx body key out opts n)) = nt_trace n @ evs \<and>
     (\<forall>ev \<in> set evs. exact_event s (copy_body body) key ev) \<and>
     length (filter is_post evs) \<le> nat (re_MaxAttempts (se_retry s)) \<and>
     successively (\<lambda>x y. is_post y \<longrightarrow> confirms_identity s x) evs"
  using writeExact_run [of f s ctx body key out True opts n]
  unfolding WriteExact_def safe_run_def guarded_def by auto

theorem write_exact_on_the_wire_witness:
  "\<exists>x y z. nt_trace (snd (demo_write [HttpFailed (LibError ''reset''), demo_identity, demo_receipt])) = [x, y, z] \<and>
     is_post x \<and> is_post z \<and> exact_event demo_session (Some ''{}'') ''e1:k'' z \<and> confirms_identity demo_session y"
proof -
  let ?w = "[HttpFailed (LibError ''reset''), demo_identity, demo_receipt]"
  have p: "map is_post (nt_trace (snd (demo_write ?w))) = [True, False, True]" by code_simp
  then obtain x y z where t: "nt_trace (snd (demo_write ?w)) = [x, y, z]" and xyz: "is_post x" "is_post z"
    by (auto simp: map_eq_Cons_conv)
  moreover have "copy_body (Some ''{}'') = Some ''{}''" by code_simp
  ultimately show ?thesis
    using write_exact_on_the_wire [of demo_fmt demo_session demo_ctx "Some ''{}''" "''e1:k''" None "[]" "demo_net ?w"]
    unfolding demo_write_def [symmetric] by (auto simp: demo_net_def)
qed

text \<open>C2. No commit is lost in an error: when \<open>Classify\<close> does not report \<open>MayHaveCommitted\<close> for the
  error of a keyed write, every POST the write sent was answered by a response that is not 2xx and
  whose body did not break off while it was read: it ended, or was read through the client's limit
  for error bodies and one byte more.\<close>

theorem write_exact_definite_error:
  assumes "snd (fst (WriteExact f s ctx body key out opts n)) = Some e"
    and "\<not> ei_MayHaveCommitted (Classify f (Some e))"
  shows "\<exists>evs. nt_trace (snd (WriteExact f s ctx body key out opts n)) = nt_trace n @ evs \<and>
    (\<forall>ev \<in> set evs. is_post ev \<longrightarrow> refused_by_server s ev)"
proof -
  have "\<not> is_UncertainOperationError e"
    using assms(2) unfolding MayHaveCommitted_iff by (auto simp: chain.simps [of e])
  then show ?thesis
    using writeExact_run [of f s ctx body key out True opts n] assms(1)
    unfolding WriteExact_def safe_run_def by auto
qed

theorem write_exact_definite_error_witness:
  "\<exists>evs. nt_trace (snd (demo_write [demo_refusal])) = evs \<and> length evs = 1 \<and>
     (\<forall>ev \<in> set evs. is_post ev \<longrightarrow> refused_by_server demo_session ev)"
proof -
  have l: "length (nt_trace (snd (demo_write [demo_refusal]))) = 1" by code_simp
  have k: "map_option (\<lambda>e. ei_MayHaveCommitted (Classify demo_fmt (Some e))) (snd (fst (demo_write [demo_refusal])))
      = Some False"
    by code_simp
  then obtain e where e: "snd (fst (demo_write [demo_refusal])) = Some e"
    "\<not> ei_MayHaveCommitted (Classify demo_fmt (Some e))"
    by auto
  show ?thesis
    using write_exact_definite_error [OF e [unfolded demo_write_def]] l
    unfolding demo_write_def [symmetric] by (auto simp: demo_net_def)
qed

text \<open>C6. A keyed write succeeds only with a checked receipt: a 2xx response with a valid replay
  header, \<open>committed\<close> true, the pinned log identity, and a body within the advertised limit.\<close>

theorem write_exact_success:
  assumes "0 < re_MaxAttempts (se_retry s)"
    and "snd (fst (WriteExact f s ctx body key out opts n)) = None"
  shows "\<exists>r. fst (fst (WriteExact f s ctx body key out opts n)) = Some r \<and> status_ok (resp_Status r) \<and>
    committed_receipt (se_logIdentity s) r \<and>
    int (length (resp_Body r)) \<le> i_ResponseMaxBytes (w_Idempotency (c_Write (se_capabilities s)))"
  using writeExact_success [of f s ctx body key out True opts n
      "fst (fst (WriteExact f s ctx body key out opts n))"] assms
  unfolding WriteExact_def by (metis prod.collapse)

theorem write_exact_success_witness:
  "\<exists>r. fst (fst (demo_write [demo_receipt])) = Some r \<and> committed_receipt demo_log r"
proof -
  have "0 < re_MaxAttempts (se_retry demo_session)" "snd (fst (demo_write [demo_receipt])) = None"
    "se_logIdentity demo_session = demo_log"
    by code_simp+
  then show ?thesis
    using write_exact_success [of demo_session demo_fmt demo_ctx "Some ''{}''" "''e1:k''" None "[]"
      "demo_net [demo_receipt]"]
    unfolding demo_write_def [symmetric] by auto
qed

text \<open>C9. A typed write reaches the wire only when the request is valid, the session was preflighted
  for writes, every feature of the request is advertised and the key is a wire key; then every
  POST carries the encoded bytes.\<close>

theorem write_request_gate:
  assumes "nt_trace (snd (WriteRequest f s ctx key q out opts n)) \<noteq> nt_trace n"
  shows "\<exists>body k. Encode q = Inr body \<and> (rq_Writable (se_requirements s) \<or> rq_Ingestion (se_requirements s)) \<and>
    advertises (c_Write (se_capabilities s)) (Features q) \<and>
    resolveWriteKey f (w_Idempotency (c_Write (se_capabilities s))) key = Inr k \<and>
    (\<exists>evs. nt_trace (snd (WriteRequest f s ctx key q out opts n)) = nt_trace n @ evs \<and>
      (\<forall>ev \<in> set evs. exact_event s (Some body) k ev))"
proof -
  from assms obtain body k where *: "Encode q = Inr body" "rq_Writable (se_requirements s) \<or> rq_Ingestion (se_requirements s)"
    "advertises (c_Write (se_capabilities s)) (Features q)"
    "resolveWriteKey f (w_Idempotency (c_Write (se_capabilities s))) key = Inr k"
    "WriteRequest f s ctx key q out opts n = writeExact f s ctx (Some body) k out False opts n"
    by (auto simp: WriteRequest_def Let_def split: sum.splits if_splits option.splits
        dest: validateWriteFeatures_None [THEN iffD1])
  then show ?thesis
    using writeExact_run [of f s ctx "Some body" k out False opts n] unfolding safe_run_def by auto
qed

theorem write_request_gate_witness:
  "\<exists>body. Encode transaction_zero = Inr body \<and> (\<exists>k. resolveWriteKey demo_fmt demo_idempotency (KeySuffix ''k'') = Inr k)"
proof -
  let ?n = "demo_net [demo_receipt]"
  have "length (nt_trace (snd (WriteRequest demo_fmt demo_session demo_ctx (KeySuffix ''k'') transaction_zero None []
      ?n))) = 1"
    by code_simp
  then have "nt_trace (snd (WriteRequest demo_fmt demo_session demo_ctx (KeySuffix ''k'') transaction_zero None []
      ?n)) \<noteq> nt_trace ?n"
    by (auto simp: demo_net_def)
  from write_request_gate [OF this] show ?thesis
    by (auto simp: demo_session_def demo_capabilities_def)
qed

text \<open>C7. A keyed write is a run of the protocol of \<open>Client_Protocol\<close> from its first attempt to a verdict:
  the verdict is the error it returns, an attempt follows another only over a confirmed recheck of
  the log identity, and what it does ends within two requests for each attempt the policy allows.
  A verdict of success is reached by a POST that got a 2xx answer.\<close>

theorem write_exact_refines_protocol:
  assumes "WriteExact f s ctx body key out opts n = ((r, e), n')" "0 < re_MaxAttempts (se_retry s)"
  shows "\<exists>evs. nt_trace n' = nt_trace n @ evs \<and>
    protocol_run is_post (refused_by_server s) answered_ok (confirms_identity s)
      (Attempting (nat (re_MaxAttempts (se_retry s))) False) evs (Settled (verdict_of e)) \<and>
    length evs \<le> 2 * nat (re_MaxAttempts (se_retry s)) \<and>
    (verdict_of e = Done \<longrightarrow> evs \<noteq> [] \<and> is_post (last evs) \<and> answered_ok (last evs))"
proof -
  obtain evs where "nt_trace n' = nt_trace n @ evs"
    and run: "protocol_run is_post (refused_by_server s) answered_ok (confirms_identity s)
      (Attempting (nat (re_MaxAttempts (se_retry s))) False) evs (Settled (verdict_of e))"
    using writeExact_protocol [OF assms(1) [unfolded WriteExact_def] assms(2)] by blast
  with run_safe [OF run] show ?thesis by auto
qed

theorem write_exact_refines_protocol_witness:
  "\<exists>evs. nt_trace (snd (demo_write [HttpFailed (LibError ''reset''), demo_identity, demo_receipt])) = evs \<and>
    length evs = 3 \<and> protocol_run is_post (refused_by_server demo_session) answered_ok (confirms_identity demo_session)
      (Attempting 3 False) evs (Settled Done)"
proof -
  let ?w = "[HttpFailed (LibError ''reset''), demo_identity, demo_receipt]"
  obtain r e n' where w: "demo_write ?w = ((r, e), n')" by (metis prod.exhaust)
  have "snd (fst (demo_write ?w)) = None" "length (nt_trace (snd (demo_write ?w))) = 3" by code_simp+
  moreover have "0 < re_MaxAttempts (se_retry demo_session)" "nat (re_MaxAttempts (se_retry demo_session)) = 3"
    by (simp_all add: demo_session_def)
  ultimately show ?thesis
    using write_exact_refines_protocol [OF w [unfolded demo_write_def]] w
    by (auto simp: verdict_of_def demo_net_def)
qed

end
