(* ===== verification/Client_Key_Properties.thy ===== *)
theory Client_Key_Properties
  imports Client_Classify Semantic_Key Client_Session
begin

text \<open>
  The properties of keys, identities, back-off and the error view.
\<close>

text \<open>C15. A key resolves to a wire key of the advertised contract in one way: a suffix becomes the
  prefix followed by the suffix, a full key stays itself, the two spellings of a wire key agree,
  and with a required prefix a key that carries it already is refused as a suffix.\<close>

theorem resolve_write_key:
  "(resolveWriteKey f idem (KeySuffix v) = Inr k \<longrightarrow> k = i_RequiredKeyPrefix idem @ v \<and> wire_key idem k \<and>
      resolveWriteKey f idem (FullKey k) = Inr k \<and>
      (i_RequiredKeyPrefix idem \<noteq> '''' \<longrightarrow> \<not> (\<exists>k'. resolveWriteKey f idem (KeySuffix k) = Inr k'))) \<and>
   (resolveWriteKey f idem (FullKey v) = Inr k \<longleftrightarrow> k = v \<and> wire_key idem v)"
  by (auto simp: resolve_suffix resolve_full)

definition sample_idempotency :: idempotency where
  "sample_idempotency = \<lparr>i_Supported = True, i_KeyHeader = IdempotencyKeyHeader,
     i_ReplayHeader = IdempotencyReplayHeader, i_BodyIdentity = ''sha256_exact_body_bytes'',
     i_RequiredKeyPrefix = ''e1:'', i_MaxKeyBytes = 64, i_ResponseMaxBytes = 500\<rparr>"

definition sample_fmt :: go_fmt where
  "sample_fmt = \<lparr>fmt_q = (\<lambda>s. s), json_text = (\<lambda>target body. ''invalid JSON''), new_request_error = (\<lambda>m u. None)\<rparr>"

theorem resolve_write_key_witness:
  "resolveWriteKey sample_fmt sample_idempotency (FullKey ''e1:task'') = Inr ''e1:task''"
proof -
  have "resolveWriteKey sample_fmt sample_idempotency (KeySuffix ''task'') = Inr ''e1:task''" by code_simp
  then show ?thesis using resolve_write_key by blast
qed

text \<open>C36. Two semantic keys are equal only for the same namespace and parts, or for two different
  framed texts with the same SHA-256 digest: the framing itself never confuses two operations.\<close>

theorem semantic_key_injective:
  assumes "go_sized n ps" "go_sized m qs" "SemanticKey n ps = Inr k" "SemanticKey m qs = Inr k"
  shows "n = m \<and> ps = qs \<or>
    semantic_text n ps \<noteq> semantic_text m qs \<and> sha256 (semantic_text n ps) = sha256 (semantic_text m qs)"
  using SemanticKey_eq [OF assms(3,4)] semantic_text_inject [OF assms(1,2)] by blast

theorem semantic_key_injective_witness:
  "\<exists>k m. SemanticKey ''boundary'' [''ab'', ''c''] = Inr k \<and> SemanticKey ''boundary'' [''a'', ''bc''] = Inr m \<and>
     ((k = m) = (sha256 (semantic_text ''boundary'' [''ab'', ''c'']) = sha256 (semantic_text ''boundary'' [''a'', ''bc''])))"
proof -
  have n: "validSemanticKeyNamespace ''boundary''"
    "semantic_text ''boundary'' [''ab'', ''c''] \<noteq> semantic_text ''boundary'' [''a'', ''bc'']"
    by code_simp+
  obtain k m where k: "SemanticKey ''boundary'' [''ab'', ''c''] = Inr k"
    and m: "SemanticKey ''boundary'' [''a'', ''bc''] = Inr m"
    using n(1) by (simp add: SemanticKey_def)
  have g: "go_sized ''boundary'' [''ab'', ''c'']" "go_sized ''boundary'' [''a'', ''bc'']"
    by (simp_all add: go_sized_def)
  have "k = m" if "sha256 (semantic_text ''boundary'' [''ab'', ''c'']) = sha256 (semantic_text ''boundary'' [''a'', ''bc''])"
    using k m that by (simp add: SemanticKey_def split: if_splits)
  moreover have "sha256 (semantic_text ''boundary'' [''ab'', ''c'']) = sha256 (semantic_text ''boundary'' [''a'', ''bc''])"
    if "k = m"
    using semantic_key_injective [OF g k] m that by simp
  ultimately show ?thesis using k m by blast
qed

text \<open>Every semantic key is a suffix of wire characters of exactly 44 bytes more than its
  namespace, so at most 76, whatever the parts.\<close>

theorem semantic_key_shape:
  assumes "SemanticKey n ps = Inr k"
  shows "Suffix k = (wk_value k, True) \<and> validWireToken (wk_value k) \<and> length (wk_value k) = length n + 44 \<and>
    length (wk_value k) \<le> 76"
proof -
  have "length n \<le> 32"
    using assms by (auto simp: SemanticKey_def validSemanticKeyNamespace_iff split: if_splits)
  then show ?thesis using SemanticKey_wire [OF assms] by (simp add: Suffix_def)
qed

theorem semantic_key_shape_witness:
  "\<exists>k. SemanticKey ''empty'' [] = Inr k \<and> length (wk_value k) = 49"
proof -
  have "validSemanticKeyNamespace ''empty''" by code_simp
  then obtain k where k: "SemanticKey ''empty'' [] = Inr k" by (simp add: SemanticKey_def)
  then show ?thesis using semantic_key_shape [OF k] by simp
qed

text \<open>A log identity is valid exactly when it is 32 lowercase hexadecimal digits.\<close>

theorem log_identity_exact:
  "validLogIdentity s \<longleftrightarrow> length s = 32 \<and> list_all is_lower_hex s"
  by (rule validLogIdentity_iff)

text \<open>C39. \<open>Classify\<close> reports \<open>MayHaveCommitted\<close> exactly when an uncertain-operation error is
  somewhere in the chain of wrapped errors.\<close>

theorem classify_may_have_committed:
  "ei_MayHaveCommitted (Classify f (Some e)) \<longleftrightarrow> (\<exists>x \<in> set (chain e). is_UncertainOperationError x)"
  by (rule MayHaveCommitted_iff)

text \<open>Wrapping an error with \<open>fmt.Errorf\<close> and \<open>%w\<close> changes nothing in its classification
  but the error it refers to, unless the error is of no known type.\<close>

theorem classify_wrap:
  assumes "ei_Kind (Classify f (Some e)) \<noteq> KindUnknown"
  shows "Classify f (Some (GoWrap t e)) = (Classify f (Some e))\<lparr>ei_Err := Some (GoWrap t e)\<rparr>"
  using assms by (rule Classify_wrap)

theorem classify_wrap_witness:
  "ei_Kind (Classify sample_fmt (Some (GoWrap ''outer'' (TransportError ''POST'' ''/write'' ''r1'' None)))) = KindTransport"
proof -
  have "ei_Kind (Classify sample_fmt (Some (TransportError ''POST'' ''/write'' ''r1'' None))) = KindTransport"
    by code_simp
  then show ?thesis
    using classify_wrap [of sample_fmt "TransportError ''POST'' ''/write'' ''r1'' None" "''outer''"] by simp
qed

lemma backoff_loop_exact:
  "0 < d \<Longrightarrow> backoff_loop n d \<ge> d \<and> (backoff_loop n d = d * 2 ^ n \<or> backoff_loop n d \<ge> 1000000000 \<and> d * 2 ^ n \<ge> 1000000000)"
proof (induction n arbitrary: d)
  case (Suc n)
  have "(1::int) \<le> 2 ^ Suc n" by (rule one_le_power) simp
  then have "d * 2 ^ Suc n \<ge> d" using Suc.prems mult_left_mono [of 1 "2 ^ Suc n" d] by simp
  then have big: "\<not> d < 1000000000 \<Longrightarrow> 1000000000 \<le> d * 2 ^ Suc n" by linarith
  show ?case
  proof (cases "d < 1000000000")
    case True
    then show ?thesis using Suc.IH [of "d * 2"] Suc.prems by (auto simp: mult.assoc)
  next
    case False
    then show ?thesis using big by simp
  qed
qed simp

text \<open>The default back-off doubles from 50ms and is capped at one second.\<close>

theorem default_backoff_exact:
  "default_backoff retry = min 1000000000 (50000000 * 2 ^ nat retry)"
  using backoff_loop_exact [of 50000000 "nat retry"] by (auto simp: default_backoff_def Let_def min_def)

end
