(* ===== verification/Client_Preflight_Laws.thy ===== *)
theory Client_Preflight_Laws
  imports Client_Authoring Client_Classify
begin

text \<open>
  What the preflight establishes. \<open>session_ok\<close> is the invariant of a session: it is set up by
  \<open>Require\<close>, and a session is immutable. The lemmas unfold it into what the writes rely on.
\<close>

section \<open>The checks, declaratively\<close>

definition node_ok :: "capabilities \<Rightarrow> bool" where
  "node_ok c \<longleftrightarrow> 1 \<le> c_SchemaVersion c \<and> c_Protocol c = ''joeydb-agent-http'' \<and> c_ProtocolVersion c = ''3'' \<and>
     (n_Role (c_Node c) = ''primary'' \<and> n_WritesAllowed (c_Node c) \<or>
      n_Role (c_Node c) = ''follower'' \<and> \<not> n_WritesAllowed (c_Node c)) \<and>
     ''facts'' \<in> set (q_Find (c_Query c)) \<and> ''strict'' \<in> set (q_Consistency (c_Query c)) \<and>
     ''auto'' \<in> set (q_OptimizeModes (c_Query c)) \<and>
     1 \<le> e_SchemaVersion (c_Errors c) \<and> e_RequestIDHeader (c_Errors c) = ''X-Request-ID'' \<and>
     {''code'', ''error'', ''request_id'', ''retryable''} \<subseteq> set (e_BodyFields (c_Errors c)) \<and>
     s_MachineErrorCodes (c_Safety c) \<and> s_RequestCorrelation (c_Safety c) \<and>
     n_Durability (c_Node c) \<in> {''none'', ''interval'', ''commit''} \<and>
     n_SyncLevel (c_Node c) \<in> {''os'', ''full''} \<and>
     0 < l_MaxJSONRequestBytes (c_Limits c) \<and> l_MaxJSONRequestBytes (c_Limits c) \<le> 64 * 2 ^ 20"

definition writable_ok :: "int \<Rightarrow> capabilities \<Rightarrow> bool" where
  "writable_ok maxResponse c \<longleftrightarrow> (let i = w_Idempotency (c_Write c) in
     n_Role (c_Node c) = ''primary'' \<and> n_WritesAllowed (c_Node c) \<and> ''facts'' \<in> set (w_Write (c_Write c)) \<and>
     s_WriteIdempotency (c_Safety c) \<and> i_Supported i \<and> i_KeyHeader i = ''Idempotency-Key'' \<and>
     i_ReplayHeader i = ''Idempotency-Replayed'' \<and> i_BodyIdentity i = ''sha256_exact_body_bytes'' \<and>
     0 < i_MaxKeyBytes i \<and> i_MaxKeyBytes i \<le> 128 \<and>
     0 < i_ResponseMaxBytes i \<and> i_ResponseMaxBytes i \<le> maxResponse \<and>
     (i_RequiredKeyPrefix i = '''' \<or> list_all wire_char (i_RequiredKeyPrefix i) \<and>
        int (length (i_RequiredKeyPrefix i)) < i_MaxKeyBytes i))"

definition ingestion_ok :: "capabilities \<Rightarrow> bool" where
  "ingestion_ok c \<longleftrightarrow> n_Durability (c_Node c) = ''commit'' \<and> n_SyncLevel (c_Node c) \<in> {''os'', ''full''} \<and>
     ''record'' \<in> set (w_Operations (c_Write c)) \<and> ''ensure'' \<in> set (w_RecordModes (c_Write c)) \<and>
     ''create'' \<in> set (w_VocabularyModes (c_Write c))"

lemma refuse_when_None [simp]: "refuse_when b r = None \<longleftrightarrow> \<not> b"
  by (simp add: refuse_when_def)

lemma validate_node_None: "validate_node c = None \<longleftrightarrow> node_ok c"
  unfolding validate_node_def node_ok_def first_err_None refuse_when_None wire_constants
    absoluteBodyLimit_def containsAll_def
  by auto

lemma validate_writable_None: "validate_writable m c = None \<longleftrightarrow> writable_ok m c"
  unfolding validate_writable_def writable_ok_def Let_def first_err_None refuse_when_None wire_constants
    validPrefix_def
  by auto

lemma validate_ingestion_None: "validate_ingestion c = None \<longleftrightarrow> ingestion_ok c"
  unfolding validate_ingestion_def ingestion_ok_def first_err_None refuse_when_None by auto

definition session_ok :: "'w session \<Rightarrow> bool" where
  "session_ok s \<longleftrightarrow> (let c = se_capabilities s; rq = se_requirements s in
     node_ok c \<and>
     (rq_Writable rq \<or> rq_Ingestion rq \<longrightarrow> writable_ok (cl_MaxResponseBytes (se_client s)) c) \<and>
     (rq_Ingestion rq \<longrightarrow> ingestion_ok c) \<and>
     validLogIdentity (se_logIdentity s) \<and>
     1 \<le> re_MaxAttempts (se_retry s) \<and> re_MaxAttempts (se_retry s) \<le> 10)"

lemma validateCapabilities_None:
  "validateCapabilities cl c rq = None \<longleftrightarrow> node_ok c \<and>
     (rq_Writable rq \<or> rq_Ingestion rq \<longrightarrow> writable_ok (cl_MaxResponseBytes cl) c) \<and>
     (rq_Ingestion rq \<longrightarrow> ingestion_ok c)"
  by (auto simp: validateCapabilities_def validate_node_None validate_writable_None validate_ingestion_None)

lemma normalized_Inr:
  "normalized p = Inr r \<Longrightarrow> 1 \<le> re_MaxAttempts r \<and> re_MaxAttempts r \<le> 10"
  by (auto simp: normalized_def Let_def split: if_splits)

section \<open>Require\<close>

lemma typed_get_events:
  assumes "typed_get f cl ctx path target d zero opts n = (v, n')"
  shows "\<exists>evs. nt_trace n' = nt_trace n @ evs \<and> length evs \<le> 1 \<and> (\<forall>ev \<in> set evs. \<not> is_post ev)"
proof -
  obtain a m where d: "client_do f cl ctx ''GET'' path None '''' opts n = (a, m)" by fastforce
  then have "n' = m"
    using assms by (auto simp: typed_get_def Let_def split: attempt.splits prod.splits if_splits)
  then show ?thesis by (cases rule: client_do_cases [OF d]) auto
qed

lemma Require_events:
  "\<exists>evs. nt_trace (snd (Require f cl ctx rq opts n)) = nt_trace n @ evs \<and> length evs \<le> 2 \<and>
     (\<forall>ev \<in> set evs. \<not> is_post ev)"
proof (cases "normalized (rq_Retry rq)")
  case (Inl e)
  then show ?thesis by (simp add: Require_def)
next
  case (Inr r)
  obtain vc nc where c: "client_Capabilities f cl ctx opts n = (vc, nc)" by fastforce
  obtain vi ni where i: "client_Introspect f cl ctx opts nc = (vi, ni)" by fastforce
  obtain ec where ec: "nt_trace nc = nt_trace n @ ec" "length ec \<le> 1" "\<forall>ev \<in> set ec. \<not> is_post ev"
    using typed_get_events [OF c [unfolded client_Capabilities_def]] by blast
  obtain ei where ei: "nt_trace ni = nt_trace nc @ ei" "length ei \<le> 1" "\<forall>ev \<in> set ei. \<not> is_post ev"
    using typed_get_events [OF i [unfolded client_Introspect_def]] by blast
  have "snd (Require f cl ctx rq opts n) = nc \<or> snd (Require f cl ctx rq opts n) = ni"
    using Inr c i by (auto simp: Require_def split: sum.splits option.splits prod.splits)
  then show ?thesis
  proof
    assume "snd (Require f cl ctx rq opts n) = nc"
    then show ?thesis using ec by (intro exI [of _ ec]) simp
  next
    assume "snd (Require f cl ctx rq opts n) = ni"
    then show ?thesis using ec ei by (intro exI [of _ "ec @ ei"]) auto
  qed
qed

lemma Require_session:
  assumes "Require f cl ctx rq opts n = (Inr s, n')"
  shows "session_ok s \<and> se_client s = cl \<and> se_requirements s = rq"
  using assms normalized_Inr [of "rq_Retry rq"]
  by (auto simp: Require_def session_ok_def Let_def validateCapabilities_None
      split: sum.splits option.splits prod.splits if_splits)

section \<open>Room for keys\<close>

lemma usable_key:
  assumes "writable_ok m c" "i = w_Idempotency (c_Write c)"
  shows "\<exists>v. resolveWriteKey f i (KeySuffix v) = Inr (i_RequiredKeyPrefix i @ v)"
proof -
  define p where "p = i_RequiredKeyPrefix i"
  have p: "list_all wire_char p" "int (length p) < i_MaxKeyBytes i" "i_MaxKeyBytes i \<le> 128"
    using assms by (auto simp: writable_ok_def Let_def p_def)
  define v where "v = (if p = ''a'' then ''b'' else ''a'')"
  have w: "list_all wire_char v" "length v = 1" by (auto simp: v_def wire_char_def)
  have "int (length (p @ v)) \<le> i_MaxKeyBytes i" using p(2) w(2) by simp
  then have "wire_key i (p @ v)"
    using p w unfolding wire_key_def validWireToken_def
    by (auto simp: p_def strict_prefix_def)
  moreover have "\<not> (p \<noteq> '''' \<and> prefix p v)"
    by (auto simp: v_def prefix_Cons split: if_splits)
  ultimately show ?thesis unfolding resolve_suffix p_def [symmetric] using w(2) by (intro exI [of _ v]) auto
qed

section \<open>Refusals\<close>

lemma writeExact_refused:
  assumes "\<not> rq_Writable (se_requirements s) \<and> \<not> rq_Ingestion (se_requirements s) \<or>
    \<not> wire_key (w_Idempotency (c_Write (se_capabilities s))) key \<or>
    l_MaxJSONRequestBytes (c_Limits (se_capabilities s)) < int (length (body_bytes body))"
  shows "\<exists>e. writeExact f s ctx body key out cp opts n = ((None, Some e), n) \<and>
    (is_CapabilityError e \<or> is_InvalidKeyError e \<or> is_RequestTooLargeError e)"
proof -
  have k: "validateKeySyntax f key m p = Some e \<Longrightarrow> is_InvalidKeyError e" for m p e
    by (auto simp: validateKeySyntax_def fail_when_def split: if_splits option.splits)
  show ?thesis
    using assms k by (auto simp: writeExact_def Let_def not_preflighted_def wire_key_syntax [symmetric, where f = f]
        split: option.splits)
qed

lemma refusal_kind:
  "is_CapabilityError e \<or> is_InvalidKeyError e \<or> is_RequestTooLargeError e \<Longrightarrow>
   ei_Kind (Classify f (Some e)) \<in> {KindCapability, KindInvalidKey, KindRequestTooLarge} \<and>
   \<not> ei_MayHaveCommitted (Classify f (Some e))"
proof -
  assume e: "is_CapabilityError e \<or> is_InvalidKeyError e \<or> is_RequestTooLargeError e"
  then have "chain e = [e]" by (cases e) (simp_all add: chain.simps)
  have a: "unwrap x = [] \<Longrightarrow> errors_As p x = (if p x then Some x else None)" for p x
    by (simp add: errors_As_def chain.simps)
  have "\<not> ei_MayHaveCommitted (Classify f (Some e))"
    using e \<open>chain e = [e]\<close> by (cases e) (simp_all add: MayHaveCommitted_iff)
  moreover have "ei_Kind (Classify f (Some e)) \<in> {KindCapability, KindInvalidKey, KindRequestTooLarge}"
    using e by (cases e) (simp_all add: Classify_def Let_def classifiers_def a of_kind_def)
  ultimately show ?thesis by simp
qed

section \<open>The request of an attempt\<close>

lemma apply_options_token: "apply_options opts i = Inr j \<Longrightarrow> i = '''' \<or> validWireToken i \<Longrightarrow> j = '''' \<or> validWireToken j"
  by (induction opts i rule: apply_options.induct) (auto split: if_splits)

lemma choose_request_id_token:
  "choose_request_id c i w = (Inr rid, w') \<Longrightarrow> i = '''' \<or> validWireToken i \<Longrightarrow> validWireToken rid"
  by (auto simp: choose_request_id_def split: if_splits sum.splits prod.splits)

lemma prepare_token:
  assumes "prepare f c ctx m path body key opts w = (Inr (rq, rid), w')"
  shows "validWireToken rid"
proof -
  obtain i where i: "apply_options opts '''' = Inr i"
    using assms unfolding prepare_def by (cases "apply_options opts ''''") (simp_all split: if_splits)
  obtain res w0 where c: "choose_request_id c i w = (res, w0)" by fastforce
  have "res = Inr rid"
    using assms i c unfolding prepare_def by (cases res) (simp_all split: if_splits option.splits)
  moreover have "i = '''' \<or> validWireToken i" using apply_options_token [OF i] by simp
  ultimately show ?thesis using choose_request_id_token c by metis
qed

definition attempt_response :: "attempt \<Rightarrow> response option" where
  "attempt_response a = (case a of AttemptOk r \<Rightarrow> Some r | AttemptFailed r e \<Rightarrow> r)"

lemma client_do_request:
  assumes "client_do f c ctx m path body key opts n = (a, n')"
  shows "nt_trace n' = nt_trace n \<and> attempt_response a = None \<or>
    (\<exists>rq rid out. nt_trace n' = nt_trace n @ [Sent rq out] \<and> a = receive c m path rid out \<and> hq_Body rq = body \<and>
       int (length (body_bytes body)) \<le> cl_MaxRequestBytes c \<and>
       validWireToken (header_Get RequestIDHeader (hq_Header rq)))"
proof (cases "prepare f c ctx m path body key opts (nt_world n)")
  case p: (Pair res w)
  show ?thesis
  proof (cases res)
    case (Inl e)
    then show ?thesis using assms p by (auto simp: client_do_def attempt_response_def)
  next
    case (Inr x)
    obtain rq rid where x: "x = (rq, rid)" by (cases x)
    obtain out w' where "cl_Do c rq w = (out, w')" by fastforce
    then have "a = receive c m path rid out" "nt_trace n' = nt_trace n @ [Sent rq out]"
      using assms p Inr x by (auto simp: client_do_def Let_def)
    then show ?thesis
      using prepare_Inr [OF p [unfolded Inr x]] prepare_token [OF p [unfolded Inr x]] by blast
  qed
qed

lemma receive_bounded:
  assumes "0 \<le> cl_MaxResponseBytes c" "0 \<le> cl_MaxErrorBodyBytes c" "attempt_response (receive c m path rid out) = Some r"
  shows "\<exists>b. out = HttpAnswered b \<and> prefix (resp_Body r) (ha_Body b) \<and>
    int (length (resp_Body r)) \<le> read_limit c (resp_Status r)"
proof (cases out)
  case (HttpAnswered b)
  then have r: "r = answer_response c rid b"
    using assms(3) by (auto simp: receive_def read_answer_def attempt_response_def Let_def split: option.splits if_splits)
  have "0 \<le> read_limit c (ha_Status b)" using assms(1,2) by (simp add: read_limit_def)
  from bounded_read_prefix [OF this] show ?thesis using HttpAnswered r by simp
qed (use assms in \<open>simp add: receive_def attempt_response_def\<close>)

end
