(* ===== verification/Write_Response.thy ===== *)
theory Write_Response
  imports Go_Json_Decode
begin

text \<open>
  The receipt of a facts-write as a caller decodes it (\<open>write/response.go\<close>): the json tags of its
  structs as decoders. A missing member leaves the zero value.
\<close>

record fact_result =
  fr_ID :: string
  fr_Subject :: string
  fr_Predicate :: string
  fr_Object :: string

definition fact_result_fields :: "fact_result fields" where
  "fact_result_fields =
    [field ''id'' fr_ID fr_ID_update dec_string, field ''subject'' fr_Subject fr_Subject_update dec_string,
     field ''predicate'' fr_Predicate fr_Predicate_update dec_string,
     field ''object'' fr_Object fr_Object_update dec_string]"

definition zero_fact_result :: fact_result where
  "zero_fact_result = \<lparr>fr_ID = '''', fr_Subject = '''', fr_Predicate = '''', fr_Object = ''''\<rparr>"

record correct_result =
  cr_Superseded :: string
  cr_ID :: string

definition correct_result_fields :: "correct_result fields" where
  "correct_result_fields =
    [field ''superseded'' cr_Superseded cr_Superseded_update dec_string, field ''id'' cr_ID cr_ID_update dec_string]"

definition zero_correct_result :: correct_result where
  "zero_correct_result = \<lparr>cr_Superseded = '''', cr_ID = ''''\<rparr>"

record expiration_result =
  xr_Fact :: string
  xr_ExpiresAtNS :: string
  xr_Changed :: bool

definition expiration_result_fields :: "expiration_result fields" where
  "expiration_result_fields =
    [field ''fact'' xr_Fact xr_Fact_update dec_string,
     field ''expires_at_ns'' xr_ExpiresAtNS xr_ExpiresAtNS_update dec_string,
     field ''changed'' xr_Changed xr_Changed_update dec_bool]"

definition zero_expiration_result :: expiration_result where
  "zero_expiration_result = \<lparr>xr_Fact = '''', xr_ExpiresAtNS = '''', xr_Changed = False\<rparr>"

record created_entity =
  ce_ID :: string
  ce_Label :: string

definition created_entity_fields :: "created_entity fields" where
  "created_entity_fields =
    [field ''id'' ce_ID ce_ID_update dec_string, field ''label'' ce_Label ce_Label_update dec_string]"

definition zero_created_entity :: created_entity where
  "zero_created_entity = \<lparr>ce_ID = '''', ce_Label = ''''\<rparr>"

record logical_result =
  lr_Scope :: string
  lr_Index :: int
  lr_Operation :: string
  lr_Outcome :: string
  lr_ID :: string
  lr_Superseded :: string
  lr_Removed :: "string list"

definition logical_result_fields :: "logical_result fields" where
  "logical_result_fields =
    [field ''scope'' lr_Scope lr_Scope_update dec_string, field ''index'' lr_Index lr_Index_update dec_int,
     field ''operation'' lr_Operation lr_Operation_update dec_string,
     field ''outcome'' lr_Outcome lr_Outcome_update dec_string, field ''id'' lr_ID lr_ID_update dec_string,
     field ''superseded'' lr_Superseded lr_Superseded_update dec_string,
     field ''removed'' lr_Removed lr_Removed_update dec_strings]"

definition zero_logical_result :: logical_result where
  "zero_logical_result = \<lparr>lr_Scope = '''', lr_Index = 0, lr_Operation = '''', lr_Outcome = '''', lr_ID = '''',
     lr_Superseded = '''', lr_Removed = []\<rparr>"

record facts_response =
  fw_Committed :: bool
  fw_Watermark :: int
  fw_LogIdentity :: string
  fw_Facts :: "fact_result list"
  fw_Retracted :: "string list"
  fw_Corrected :: "correct_result list"
  fw_Expirations :: "expiration_result list"
  fw_CreatedEntities :: "created_entity list"
  fw_Logical :: "logical_result list"

definition facts_response_fields :: "facts_response fields" where
  "facts_response_fields =
    [field ''committed'' fw_Committed fw_Committed_update dec_bool,
     field ''watermark'' fw_Watermark fw_Watermark_update (dec_uint 64),
     field ''log_identity'' fw_LogIdentity fw_LogIdentity_update dec_string,
     field ''facts'' fw_Facts fw_Facts_update (dec_slice (dec_struct fact_result_fields) zero_fact_result),
     field ''retracted'' fw_Retracted fw_Retracted_update dec_strings,
     field ''corrected'' fw_Corrected fw_Corrected_update (dec_slice (dec_struct correct_result_fields) zero_correct_result),
     field ''expirations'' fw_Expirations fw_Expirations_update
       (dec_slice (dec_struct expiration_result_fields) zero_expiration_result),
     field ''created_entities'' fw_CreatedEntities fw_CreatedEntities_update
       (dec_slice (dec_struct created_entity_fields) zero_created_entity),
     field ''logical'' fw_Logical fw_Logical_update (dec_slice (dec_struct logical_result_fields) zero_logical_result)]"

definition zero_facts_response :: facts_response where
  "zero_facts_response = \<lparr>fw_Committed = False, fw_Watermark = 0, fw_LogIdentity = '''', fw_Facts = [],
     fw_Retracted = [], fw_Corrected = [], fw_Expirations = [], fw_CreatedEntities = [], fw_Logical = []\<rparr>"

definition decode_facts_response :: "bytes \<Rightarrow> facts_response \<times> bool" where
  "decode_facts_response body = unmarshal (dec_struct facts_response_fields) zero_facts_response body"

end
