(* ===== verification/Client_Receipt.thy ===== *)
theory Client_Receipt
  imports Client_Authoring Write_Response
begin

text \<open>
  Receipts. \<open>write/response.go\<close> declares the document a caller decodes a facts-write into. The
  session checks a small receipt of its own before that; a decoder that reads the same members and
  more reads the same receipt from every body, so what was checked is what the caller sees.
\<close>

section \<open>A decoder that reads more\<close>

text \<open>Decoders of structs, \<open>fs\<close> the larger one, \<open>v\<close> the view of it that \<open>gs\<close> decodes.\<close>

definition agrees :: "('s \<Rightarrow> 't) \<Rightarrow> 's fields \<Rightarrow> 't fields \<Rightarrow> bool" where
  "agrees v fs gs \<longleftrightarrow> distinct (map (\<lambda>f. fold_name (fst f)) fs) \<and> distinct (map fst gs) \<and>
     fst ` set gs \<subseteq> fst ` set fs \<and>
     (\<forall>(n, d) \<in> set fs. case map_of gs n of
        Some d' \<Rightarrow> \<forall>j s. d' j (v s) = (v (fst (d j s)), snd (d j s))
      | None \<Rightarrow> \<forall>j s. v (fst (d j s)) = v s)"

lemma agrees_names:
  assumes "agrees v fs gs" "(n, d) \<in> set fs" "n' \<in> fst ` set gs" "fold_name n' = fold_name n"
  shows "n' = n"
proof -
  from assms(1,3) obtain d' where "(n', d') \<in> set fs" by (force simp: agrees_def)
  moreover have "inj_on (\<lambda>f. fold_name (fst f)) (set fs)"
    using assms(1) by (simp add: agrees_def distinct_map)
  ultimately have "(n', d') = (n, d)" using assms(2,4) inj_onD by fastforce
  then show ?thesis by simp
qed

lemma find_field_cases:
  "find_field fs k = Some d \<Longrightarrow> \<exists>n. (n, d) \<in> set fs \<and> fold_name n = fold_name k \<and> (n = k \<or> k \<notin> fst ` set fs)"
proof (cases "map_of fs k")
  case None
  moreover assume "find_field fs k = Some d"
  ultimately obtain f where "find (\<lambda>f. fold_name (fst f) = fold_name k) fs = Some f" "d = snd f"
    by (auto simp: find_field_def)
  then have "f \<in> set fs" "fold_name (fst f) = fold_name k" "d = snd f" by (auto simp: find_Some_iff)
  with None show ?thesis by (auto simp: map_of_eq_None_iff intro!: exI [of _ "fst f"])
next
  case (Some d')
  moreover assume "find_field fs k = Some d"
  ultimately have "map_of fs k = Some d" by (simp add: find_field_def)
  then show ?thesis by (auto dest: map_of_SomeD)
qed

lemma find_field_None: "find_field fs k = None \<longleftrightarrow> (\<forall>n \<in> fst ` set fs. fold_name n \<noteq> fold_name k)"
proof (cases "map_of fs k")
  case None
  then show ?thesis by (force simp: find_field_def find_None_iff)
next
  case (Some d)
  then have "k \<in> fst ` set fs" by (force dest: map_of_SomeD)
  with Some show ?thesis by (auto simp: find_field_def)
qed

lemma find_field_Some:
  assumes "agrees v fs gs" "(n, d) \<in> set fs" "fold_name n = fold_name k" "n = k \<or> k \<notin> fst ` set fs"
  shows "find_field gs k = map_of gs n"
proof (cases "map_of gs n")
  case None
  have "fold_name n' \<noteq> fold_name k" if "n' \<in> fst ` set gs" for n'
    using agrees_names [OF assms(1,2) that] assms(3) None that by (auto simp: map_of_eq_None_iff)
  with None show ?thesis by (simp add: find_field_None)
next
  case (Some d')
  then have g: "(n, d') \<in> set gs" by (rule map_of_SomeD)
  then have "find_field gs k \<noteq> None" using assms(3) unfolding find_field_None by force
  then obtain d'' where d'': "find_field gs k = Some d''" by blast
  then obtain m where m: "(m, d'') \<in> set gs" "fold_name m = fold_name k" using find_field_cases by blast
  then have "m = n" using agrees_names [OF assms(1,2), of m] assms(3) by force
  with m g assms(1) have "d'' = d'" by (auto simp: agrees_def dest: eq_key_imp_eq_value)
  with d'' Some show ?thesis by simp
qed

lemma agrees_member:
  assumes "agrees v fs gs"
  shows "case find_field fs k of
     None \<Rightarrow> find_field gs k = None
   | Some d \<Rightarrow> (case find_field gs k of
       None \<Rightarrow> \<forall>j s. v (fst (d j s)) = v s
     | Some d' \<Rightarrow> \<forall>j s. d' j (v s) = (v (fst (d j s)), snd (d j s)))"
proof (cases "find_field fs k")
  case None
  then have "find_field gs k = None" using assms unfolding find_field_None agrees_def by blast
  with None show ?thesis by simp
next
  case (Some d)
  then obtain n where n: "(n, d) \<in> set fs" "fold_name n = fold_name k" "n = k \<or> k \<notin> fst ` set fs"
    using find_field_cases by blast
  have "case map_of gs n of
      Some d' \<Rightarrow> \<forall>j s. d' j (v s) = (v (fst (d j s)), snd (d j s)) | None \<Rightarrow> \<forall>j s. v (fst (d j s)) = v s"
    using assms n(1) unfolding agrees_def by blast
  with Some find_field_Some [OF assms n] show ?thesis by (simp split: option.splits)
qed

lemma agrees_members:
  assumes "agrees v fs gs"
  shows "fst (dec_members gs ms (v s)) = v (fst (dec_members fs ms s)) \<and>
    (snd (dec_members gs ms (v s)) \<longrightarrow> snd (dec_members fs ms s))"
proof (induction ms arbitrary: s)
  case (Cons m ms)
  obtain k j where m: "m = (k, j)" by (cases m)
  note a = agrees_member [OF assms, of k]
  show ?case
  proof (cases "find_field fs k")
    case None
    with a Cons.IH [of s] m show ?thesis by (simp add: split_beta)
  next
    case (Some d)
    show ?thesis
    proof (cases "find_field gs k")
      case None
      with a Some have "v (fst (d j s)) = v s" by simp
      with None Some Cons.IH [of "fst (d j s)"] m show ?thesis by (simp add: split_beta)
    next
      case g: (Some d')
      with a Some have "d' j (v s) = (v (fst (d j s)), snd (d j s))" by simp
      with g Some Cons.IH [of "fst (d j s)"] m show ?thesis by (auto simp: split_beta)
    qed
  qed
qed simp

lemma agrees_unmarshal:
  assumes "agrees v fs gs"
  shows "fst (unmarshal (dec_struct gs) (v z) body) = v (fst (unmarshal (dec_struct fs) z body))"
  using agrees_members [OF assms] by (auto simp: unmarshal_def dec_struct_def split: option.split json.split)

section \<open>The receipt of a facts-write\<close>

definition facts_receipt :: "facts_response \<Rightarrow> receipt" where
  "facts_receipt w = \<lparr>rc_Committed = fw_Committed w, rc_LogIdentity = fw_LogIdentity w\<rparr>"

text \<open>A caller's destination of this type; decoding into it fails as \<open>json.Unmarshal\<close> does.\<close>

definition facts_response_dest :: out_dest where
  "facts_response_dest = Some (\<lambda>body. if snd (decode_facts_response body) then Some (JsonError ''write.Response'' body) else None)"

lemma facts_names: "distinct (map (\<lambda>f. fold_name (fst f)) facts_response_fields)"
  by code_simp

lemma facts_agree: "agrees facts_receipt facts_response_fields receipt_fields"
  using facts_names unfolding agrees_def
  by (simp add: facts_response_fields_def receipt_fields_def field_def facts_receipt_def split_beta)

lemma facts_receipt_agrees:
  "fst (unmarshal (dec_struct receipt_fields) zero_receipt body) = facts_receipt (fst (decode_facts_response body))"
proof -
  have z: "zero_receipt = facts_receipt zero_facts_response"
    by (simp add: zero_receipt_def zero_facts_response_def facts_receipt_def)
  show ?thesis unfolding z decode_facts_response_def by (rule agrees_unmarshal [OF facts_agree])
qed

lemma committed_receipt_view:
  assumes "committed_receipt pinned r"
    and "fst (unmarshal (dec_struct receipt_fields) zero_receipt (resp_Body r)) = w"
  shows "rc_Committed w \<and> rc_LogIdentity w = pinned"
  using assms by (auto simp: committed_receipt_def split_beta)

end
