(* ===== verification/Ingest_Types.thy ===== *)
theory Ingest_Types
  imports Client_Errors
begin

text \<open>
  The types of the \<open>ingest\<close> package (\<open>ingest/ingest.go\<close>, \<open>ingest/constructors.go\<close>,
  \<open>ingest/errors.go\<close>): the typed batch, its constructors, the limits and the validation codes.
  A validation error is the SDK's \<open>IngestValidationError\<close>. A nil and an empty slice of claims are
  not told apart: validation refuses both.
\<close>

section \<open>Validation errors\<close>

datatype ingest_code =
    IngestCanonicalTooLarge | IngestDuplicateField | IngestDuplicateSemanticClaim | IngestDuplicateValue
  | IngestExplicitNull | IngestIncompatibleFields | IngestInputTooLarge | IngestInvalidArtifact
  | IngestInvalidCount | IngestInvalidDigest | IngestInvalidJSON | IngestInvalidMediaType
  | IngestInvalidObject | IngestInvalidUnicode | IngestInvalidUTF8 | IngestMaxDepth
  | IngestMissingField | IngestNumberOutOfRange | IngestReservedNamespace | IngestTrailingContent
  | IngestUnknownField | IngestUnsupportedValue | IngestValueTooLarge

fun ingest_code_string :: "ingest_code \<Rightarrow> string" where
  "ingest_code_string IngestCanonicalTooLarge = ''canonical_too_large''"
| "ingest_code_string IngestDuplicateField = ''duplicate_field''"
| "ingest_code_string IngestDuplicateSemanticClaim = ''duplicate_semantic_claim''"
| "ingest_code_string IngestDuplicateValue = ''duplicate_value''"
| "ingest_code_string IngestExplicitNull = ''explicit_null''"
| "ingest_code_string IngestIncompatibleFields = ''incompatible_fields''"
| "ingest_code_string IngestInputTooLarge = ''input_too_large''"
| "ingest_code_string IngestInvalidArtifact = ''invalid_artifact''"
| "ingest_code_string IngestInvalidCount = ''invalid_count''"
| "ingest_code_string IngestInvalidDigest = ''invalid_digest''"
| "ingest_code_string IngestInvalidJSON = ''invalid_json''"
| "ingest_code_string IngestInvalidMediaType = ''invalid_media_type''"
| "ingest_code_string IngestInvalidObject = ''invalid_object''"
| "ingest_code_string IngestInvalidUnicode = ''invalid_unicode''"
| "ingest_code_string IngestInvalidUTF8 = ''invalid_utf8''"
| "ingest_code_string IngestMaxDepth = ''max_depth''"
| "ingest_code_string IngestMissingField = ''missing_field''"
| "ingest_code_string IngestNumberOutOfRange = ''number_out_of_range''"
| "ingest_code_string IngestReservedNamespace = ''reserved_namespace''"
| "ingest_code_string IngestTrailingContent = ''trailing_content''"
| "ingest_code_string IngestUnknownField = ''unknown_field''"
| "ingest_code_string IngestUnsupportedValue = ''unsupported_value''"
| "ingest_code_string IngestValueTooLarge = ''value_too_large''"

definition ingest_invalid :: "ingest_code \<Rightarrow> string \<Rightarrow> string \<Rightarrow> go_error" where
  "ingest_invalid code path detail = IngestValidationError (ingest_code_string code) path detail None"

definition ingest_invalidCause :: "ingest_code \<Rightarrow> string \<Rightarrow> string \<Rightarrow> go_error \<Rightarrow> go_error" where
  "ingest_invalidCause code path detail cause =
     IngestValidationError (ingest_code_string code) path detail (Some cause)"

lemma ingest_invalid_is [simp]:
  "is_IngestValidationError (ingest_invalid c p d)" "is_IngestValidationError (ingest_invalidCause c p d e)"
  by (simp_all add: ingest_invalid_def ingest_invalidCause_def)

section \<open>Limits and domains\<close>

definition SchemaV1 :: string where "SchemaV1 = ''joeydb.ingestion/v1''"
definition ProfileKnowledgeProposals :: string where "ProfileKnowledgeProposals = ''knowledge-proposals/v1''"
definition ProfileTrustedFacts :: string where "ProfileTrustedFacts = ''trusted-facts/v1''"
definition MaxInputBytes :: nat where "MaxInputBytes = 1048576"
definition MaxJSONDepth :: nat where "MaxJSONDepth = 64"
definition MaxClaims :: nat where "MaxClaims = 4096"
definition MaxEvidence :: nat where "MaxEvidence = 256"
definition MaxLabelBytes :: nat where "MaxLabelBytes = 4096"
definition MaxTextBytes :: nat where "MaxTextBytes = 262144"
definition IngestMaxJSSafeInteger :: nat where "IngestMaxJSSafeInteger = 2 ^ 53 - 1"
definition producerDomainV1 :: string where "producerDomainV1 = ''joeydb.ingestion.producer/v1'' @ [chr 0]"
definition claimDomainV1 :: string where "claimDomainV1 = ''joeydb.ingestion.claim/v1'' @ [chr 0]"
definition batchEntityPrefix :: string where "batchEntityPrefix = ''ingestion:''"
definition claimEntityPrefix :: string where "claimEntityPrefix = ''claim:sha256:''"
definition sourceEntityPrefix :: string where "sourceEntityPrefix = ''source:''"

section \<open>The batch\<close>

record i_producer =
  ip_Name :: string
  ip_Version :: string
  ip_RunID :: string
  ip_SchemaIdentity :: string

record i_artifact =
  ia_Mode :: string
  ia_URI :: string

record i_source =
  iu_Digest :: string
  iu_MediaType :: string
  iu_Artifact :: i_artifact

record i_object =
  io_Entity :: string
  io_U64 :: string

record i_evidence =
  ev_Locator :: string
  ev_Quote :: string

record i_claim =
  cm_ExternalID :: string
  cm_Subject :: string
  cm_Predicate :: string
  cm_Object :: i_object
  cm_ConfidencePPM :: "u64 option"
  cm_Evidence :: "i_evidence list"

record i_batch =
  ib_Schema :: string
  ib_Profile :: string
  ib_Producer :: i_producer
  ib_Source :: "i_source option"
  ib_Claims :: "i_claim list"

section \<open>Constructors\<close>

definition ArtifactModeCopy :: string where "ArtifactModeCopy = ''copy''"
definition ArtifactModeLink :: string where "ArtifactModeLink = ''link''"
definition ArtifactModePurge :: string where "ArtifactModePurge = ''purge''"
definition ArtifactModeNone :: string where "ArtifactModeNone = ''none''"

lemmas artifact_modes [code_defs] = ArtifactModeCopy_def ArtifactModeLink_def ArtifactModePurge_def
  ArtifactModeNone_def

definition ingest_Entity :: "string \<Rightarrow> i_object" where
  "ingest_Entity label = \<lparr>io_Entity = label, io_U64 = ''''\<rparr>"

definition ingest_Number :: "u64 \<Rightarrow> i_object" where
  "ingest_Number value = \<lparr>io_Entity = '''', io_U64 = format_uint (unat value)\<rparr>"

definition CopyArtifact :: "string \<Rightarrow> i_artifact" where
  "CopyArtifact uri = \<lparr>ia_Mode = ArtifactModeCopy, ia_URI = uri\<rparr>"

definition LinkArtifact :: "string \<Rightarrow> i_artifact" where
  "LinkArtifact uri = \<lparr>ia_Mode = ArtifactModeLink, ia_URI = uri\<rparr>"

definition PurgeArtifact :: i_artifact where
  "PurgeArtifact = \<lparr>ia_Mode = ArtifactModePurge, ia_URI = ''''\<rparr>"

definition NoArtifact :: i_artifact where
  "NoArtifact = \<lparr>ia_Mode = ArtifactModeNone, ia_URI = ''''\<rparr>"

definition ConfidencePPM :: "u64 \<Rightarrow> u64 option" where
  "ConfidencePPM value = Some value"

text \<open>A deep copy is the same value.\<close>

definition cloneClaim :: "i_claim \<Rightarrow> i_claim" where
  "cloneClaim c = c\<lparr>cm_ConfidencePPM := (case cm_ConfidencePPM c of None \<Rightarrow> None | Some v \<Rightarrow> ConfidencePPM v),
     cm_Evidence := cm_Evidence c\<rparr>"

lemma cloneClaim_id [simp]: "cloneClaim c = c"
  by (cases "cm_ConfidencePPM c") (simp_all add: cloneClaim_def ConfidencePPM_def)

definition newBatch :: "string \<Rightarrow> i_producer \<Rightarrow> i_claim list \<Rightarrow> i_batch" where
  "newBatch profile producer claims = \<lparr>ib_Schema = SchemaV1, ib_Profile = profile, ib_Producer = producer,
     ib_Source = None, ib_Claims = map cloneClaim claims\<rparr>"

definition NewKnowledgeProposals :: "i_producer \<Rightarrow> i_claim list \<Rightarrow> i_batch" where
  "NewKnowledgeProposals producer claims = newBatch ProfileKnowledgeProposals producer claims"

definition NewTrustedFacts :: "i_producer \<Rightarrow> i_claim list \<Rightarrow> i_batch" where
  "NewTrustedFacts producer claims = newBatch ProfileTrustedFacts producer claims"

end
