(* ===== verification/Ingest_Validate.thy ===== *)
theory Ingest_Validate
  imports Ingest_Types Go_Json_Struct Sha256
begin

text \<open>
  Validation of an ingestion batch (\<open>Validate\<close> of \<open>ingest/ingest.go\<close> and what it calls), statement
  by statement, and the canonical documents whose digests name the producer and the claims.
  \<open>json.Marshal\<close> of these structs cannot fail, so its error branches are absent.
\<close>

section \<open>Canonical documents\<close>

definition object_json :: "i_object \<Rightarrow> json" where
  "object_json x = struct_json [(''entity'', omit_str (io_Entity x)), (''u64'', omit_str (io_U64 x))]"

definition evidence_json :: "i_evidence \<Rightarrow> json" where
  "evidence_json e = struct_json [(''locator'', req (JStr (ev_Locator e))), (''quote'', omit_str (ev_Quote e))]"

definition confidence_json :: "u64 option \<Rightarrow> json option" where
  "confidence_json c = map_option (\<lambda>v. JNum (format_uint (unat v))) c"

definition producerIdentity_json :: "i_producer \<Rightarrow> json" where
  "producerIdentity_json p = struct_json
     [(''name'', req (JStr (ip_Name p))), (''version'', req (JStr (ip_Version p))),
      (''schema_identity'', req (JStr (ip_SchemaIdentity p)))]"

definition claimIdentity_json :: "string \<Rightarrow> string \<Rightarrow> string \<Rightarrow> i_claim \<Rightarrow> json" where
  "claimIdentity_json profile producer sourceDigest c = struct_json
     [(''profile'', req (JStr profile)), (''producer'', req (JStr producer)),
      (''source_digest'', omit_str sourceDigest), (''subject'', req (JStr (cm_Subject c))),
      (''predicate'', req (JStr (cm_Predicate c))), (''object'', req (object_json (cm_Object c))),
      (''confidence_ppm'', confidence_json (cm_ConfidencePPM c)),
      (''evidence'', omit_list (map evidence_json (cm_Evidence c)))]"

definition producer_entity :: "i_producer \<Rightarrow> string" where
  "producer_entity p = ''producer:sha256:'' @ hex_encode (sha256 (producerDomainV1 @ render (producerIdentity_json p)))"

definition source_digest :: "i_batch \<Rightarrow> string" where
  "source_digest b = (case ib_Source b of None \<Rightarrow> '''' | Some s \<Rightarrow> iu_Digest s)"

definition claim_entity :: "i_batch \<Rightarrow> i_claim \<Rightarrow> string" where
  "claim_entity b c = claimEntityPrefix @ hex_encode (sha256 (claimDomainV1 @
     render (claimIdentity_json (ib_Profile b) (producer_entity (ib_Producer b)) (source_digest b) c)))"

section \<open>Values\<close>

definition too_large :: "nat \<Rightarrow> string \<Rightarrow> string \<Rightarrow> go_error option" where
  "too_large n value path = fail_when (length value > n)
     (ingest_invalid IngestValueTooLarge path (''exceeds '' @ format_uint n @ '' bytes''))"

definition missing :: "string \<times> string \<Rightarrow> go_error option" where
  "missing f = fail_when (snd f = '''') (ingest_invalid IngestMissingField (fst f) ''value is required'')"

definition ValidSHA256Identity :: "string \<Rightarrow> bool" where
  "ValidSHA256Identity value \<longleftrightarrow> \<not> (length value \<noteq> 71 \<or> \<not> prefix ''sha256:'' value) \<and>
     (case hex_decode (drop 7 value) of None \<Rightarrow> False
      | Some decoded \<Rightarrow> length decoded = 32 \<and> value = ''sha256:'' @ hex_encode decoded)"

definition reserved_prefixes :: "string list" where
  "reserved_prefixes = [''ingest:'', ''ingestion:sha256:'', ''claim:sha256:'', ''producer:sha256:'',
     ''source:sha256:'', ''media-type:'']"

definition validateUserLabel :: "go_fmt \<Rightarrow> string \<Rightarrow> string \<Rightarrow> go_error option" where
  "validateUserLabel f label path = first_err (too_large MaxLabelBytes label path #
     map (\<lambda>p. fail_when (prefix p label) (ingest_invalid IngestReservedNamespace path
       (''uses compiler-reserved namespace '' @ fmt_q f p))) reserved_prefixes)"

text \<open>The text of the error of \<open>strconv.ParseUint\<close>: digits are read until the first other byte or
  the first overflow.\<close>

fun parse_uint_reason :: "nat \<Rightarrow> string \<Rightarrow> string" where
  "parse_uint_reason n [] = ''value out of range''"
| "parse_uint_reason n (c # s) =
     (if \<not> is_digit c then ''invalid syntax''
      else if 10 * n + digit_val c \<ge> 2 ^ 64 then ''value out of range''
      else parse_uint_reason (10 * n + digit_val c) s)"

definition parse_uint_error :: "go_fmt \<Rightarrow> string \<Rightarrow> go_error" where
  "parse_uint_error f s = LibError (''strconv.ParseUint: parsing '' @ fmt_q f s @ '': '' @
     (if s = '''' then ''invalid syntax'' else parse_uint_reason 0 s))"

definition ingest_validateObject :: "go_fmt \<Rightarrow> i_object \<Rightarrow> string \<Rightarrow> go_error option" where
  "ingest_validateObject f x path =
     (let forms = (if io_Entity x \<noteq> '''' then 1 else 0) + (if io_U64 x \<noteq> '''' then 1 else 0 :: nat) in
      if forms \<noteq> 1
      then Some (ingest_invalid IngestInvalidObject path ''exactly one of entity or u64 is required'')
      else if io_U64 x = '''' then None
      else if length (io_U64 x) > 1 \<and> hd (io_U64 x) = CHR ''0''
      then Some (ingest_invalid IngestInvalidObject (path @ ''.u64'') ''must be a canonical decimal string'')
      else case parse_uint64 (io_U64 x) of
        None \<Rightarrow> Some (ingest_invalidCause IngestInvalidObject (path @ ''.u64'')
          ''must be a canonical non-negative decimal string'' (parse_uint_error f (io_U64 x)))
      | Some v \<Rightarrow> fail_when (v > IngestMaxJSSafeInteger) (ingest_invalid IngestNumberOutOfRange (path @ ''.u64'')
          (''exceeds JoeyDB's current JSON safe-integer limit '' @ format_uint IngestMaxJSSafeInteger)))"

section \<open>Media types\<close>

text \<open>
  \<open>mime.ParseMediaType\<close>. With a parameter part its result is shorter than the input, so the
  caller's comparison with the input fails whatever the parameters are; the model has no result
  then. Otherwise the type is the lower-cased and trimmed input, when it is a token or two
  tokens around a slash.
\<close>

definition token_char :: "char \<Rightarrow> bool" where
  "token_char c \<longleftrightarrow> 33 \<le> byte c \<and> byte c \<le> 126 \<and> c \<notin> set (''()<>@,;:/[]?='' @ [Quote, Backslash])"

definition trim_space :: "string \<Rightarrow> string" where
  "trim_space s = (let sp = (\<lambda>c. byte c \<in> {9, 10, 11, 12, 13, 32}) in
     rev (dropWhile sp (rev (dropWhile sp s))))"

definition check_media_type :: "string \<Rightarrow> bool" where
  "check_media_type s = (let typ = takeWhile token_char s; r = dropWhile token_char s in
     if typ = '''' then False
     else case r of
       [] \<Rightarrow> True
     | c # r \<Rightarrow> c = CHR ''/'' \<and> takeWhile token_char r \<noteq> '''' \<and> dropWhile token_char r = '''')"

definition parse_media_type :: "string \<Rightarrow> string option" where
  "parse_media_type s =
     (if CHR '';'' \<in> set s then None
      else let m = trim_space (to_lower s) in if check_media_type m then Some m else None)"

definition canonical_media_type :: "string \<Rightarrow> bool" where
  "canonical_media_type s \<longleftrightarrow> parse_media_type s = Some s \<and> to_lower s = s"

section \<open>UTF-8\<close>

definition claim_path :: "nat \<Rightarrow> string" where
  "claim_path i = ''claims['' @ format_uint i @ '']''"

definition evidence_path :: "string \<Rightarrow> nat \<Rightarrow> string" where
  "evidence_path path j = path @ ''.evidence['' @ format_uint j @ '']''"

definition check_utf8 :: "string \<times> string \<Rightarrow> go_error option" where
  "check_utf8 f = fail_when (\<not> valid_utf8 (snd f))
     (ingest_invalid IngestInvalidUTF8 (fst f) ''value must contain valid UTF-8'')"

definition claim_utf8 :: "nat \<Rightarrow> i_claim \<Rightarrow> go_error option" where
  "claim_utf8 i c = first_err
     (map check_utf8 [(claim_path i @ ''.external_id'', cm_ExternalID c), (claim_path i @ ''.subject'', cm_Subject c),
        (claim_path i @ ''.predicate'', cm_Predicate c), (claim_path i @ ''.object.entity'', io_Entity (cm_Object c)),
        (claim_path i @ ''.object.u64'', io_U64 (cm_Object c))] @
      [for_range (\<lambda>j e. first_err (map check_utf8
         [(evidence_path (claim_path i) j @ ''.locator'', ev_Locator e),
          (evidence_path (claim_path i) j @ ''.quote'', ev_Quote e)])) 0 (cm_Evidence c)])"

definition validateUTF8Strings :: "i_batch \<Rightarrow> go_error option" where
  "validateUTF8Strings b = (let p = ib_Producer b in first_err
     (map check_utf8 [(''schema'', ib_Schema b), (''profile'', ib_Profile b), (''producer.name'', ip_Name p),
        (''producer.version'', ip_Version p), (''producer.run_id'', ip_RunID p),
        (''producer.schema_identity'', ip_SchemaIdentity p)] @
      (case ib_Source b of None \<Rightarrow> []
       | Some s \<Rightarrow> map check_utf8 [(''source.digest'', iu_Digest s), (''source.media_type'', iu_MediaType s),
           (''source.artifact.mode'', ia_Mode (iu_Artifact s)), (''source.artifact.uri'', ia_URI (iu_Artifact s))]) @
      [for_range claim_utf8 0 (ib_Claims b)]))"

section \<open>Producer and source\<close>

definition validate_producer :: "i_producer \<Rightarrow> go_error option" where
  "validate_producer p =
     (let fields = [(''producer.name'', ip_Name p), (''producer.version'', ip_Version p), (''producer.run_id'', ip_RunID p)]
      in first_err (map missing fields @ map (\<lambda>f. too_large MaxLabelBytes (snd f) (fst f)) fields @
        [fail_when (\<not> ValidSHA256Identity (ip_SchemaIdentity p))
          (ingest_invalid IngestInvalidDigest ''producer.schema_identity'' ''must be lowercase sha256:<64-hex>'')]))"

definition validate_artifact :: "go_fmt \<Rightarrow> i_artifact \<Rightarrow> go_error option" where
  "validate_artifact f a =
     (if ia_Mode a \<in> set [ArtifactModeCopy, ArtifactModeLink] then
        fail_when (ia_URI a = '''') (ingest_invalid IngestMissingField ''source.artifact.uri''
          (''source.artifact.uri is required for mode '' @ fmt_q f (ia_Mode a)))
      else if ia_Mode a \<in> set [ArtifactModePurge, ArtifactModeNone] then
        fail_when (ia_URI a \<noteq> '''') (ingest_invalid IngestIncompatibleFields ''source.artifact.uri''
          (''source.artifact.uri is not allowed for mode '' @ fmt_q f (ia_Mode a)))
      else Some (ingest_invalid IngestInvalidArtifact ''source.artifact.mode''
        ''must be \"copy\", \"link\", \"purge\", or \"none\"''))"

definition validate_source :: "go_fmt \<Rightarrow> i_source \<Rightarrow> go_error option" where
  "validate_source f s = first_err
     [fail_when (\<not> ValidSHA256Identity (iu_Digest s))
        (ingest_invalid IngestInvalidDigest ''source.digest'' ''must be lowercase sha256:<64-hex>''),
      missing (''source.media_type'', iu_MediaType s),
      too_large MaxLabelBytes (iu_MediaType s) ''source.media_type'',
      fail_when (\<not> canonical_media_type (iu_MediaType s)) (ingest_invalid IngestInvalidMediaType
        ''source.media_type'' ''must be a canonical lowercase type/subtype without parameters''),
      fail_when (length (ia_URI (iu_Artifact s)) > MaxTextBytes) (ingest_invalid IngestValueTooLarge
        ''source.artifact.uri'' (''source.artifact.uri exceeds '' @ format_uint MaxTextBytes @ '' bytes'')),
      validate_artifact f (iu_Artifact s)]"

section \<open>Claims\<close>

definition validate_evidence :: "string \<Rightarrow> nat \<Rightarrow> i_evidence \<Rightarrow> go_error option" where
  "validate_evidence path j e = (let ep = evidence_path path j in first_err
     [missing (ep @ ''.locator'', ev_Locator e),
      fail_when (length (ev_Locator e) > MaxLabelBytes) (ingest_invalid IngestValueTooLarge (ep @ ''.locator'')
        (ep @ ''.locator exceeds '' @ format_uint MaxLabelBytes @ '' bytes'')),
      fail_when (length (ev_Quote e) > MaxTextBytes) (ingest_invalid IngestValueTooLarge (ep @ ''.quote'')
        (ep @ ''.quote exceeds '' @ format_uint MaxTextBytes @ '' bytes''))])"

definition claim_labels :: "go_fmt \<Rightarrow> string \<Rightarrow> i_claim \<Rightarrow> go_error option" where
  "claim_labels f path c = first_err
     (map missing [(path @ ''.external_id'', cm_ExternalID c), (path @ ''.subject'', cm_Subject c),
        (path @ ''.predicate'', cm_Predicate c)] @
      [too_large MaxLabelBytes (cm_ExternalID c) (path @ ''.external_id''),
       validateUserLabel f (cm_Subject c) (path @ ''.subject''),
       validateUserLabel f (cm_Predicate c) (path @ ''.predicate'')])"

definition claim_values :: "go_fmt \<Rightarrow> bool \<Rightarrow> string \<Rightarrow> i_claim \<Rightarrow> go_error option" where
  "claim_values f has_source path c = first_err
     [ingest_validateObject f (cm_Object c) (path @ ''.object''),
      (if io_Entity (cm_Object c) \<noteq> '''' then validateUserLabel f (io_Entity (cm_Object c)) (path @ ''.object.entity'')
       else None),
      (case cm_ConfidencePPM c of None \<Rightarrow> None
       | Some v \<Rightarrow> fail_when (v > 1000000) (ingest_invalid IngestNumberOutOfRange (path @ ''.confidence_ppm'')
           ''must be in 0..1000000'')),
      fail_when (length (cm_Evidence c) > MaxEvidence) (ingest_invalid IngestInvalidCount (path @ ''.evidence'')
        (path @ ''.evidence exceeds '' @ format_uint MaxEvidence @ '' items'')),
      fail_when (cm_Evidence c \<noteq> [] \<and> \<not> has_source) (ingest_invalid IngestIncompatibleFields (path @ ''.evidence'')
        ''evidence requires source''),
      for_range (validate_evidence path) 0 (cm_Evidence c)]"

definition validate_claim :: "go_fmt \<Rightarrow> bool \<Rightarrow> string list \<Rightarrow> nat \<Rightarrow> i_claim \<Rightarrow> go_error + string list" where
  "validate_claim f has_source seen i c = (let path = claim_path i in
     check_then (claim_labels f path c)
     (check_then (fail_when (seen_held seen (cm_ExternalID c) \<noteq> None)
        (ingest_invalid IngestDuplicateValue (path @ ''.external_id'') (fmt_q f (cm_ExternalID c) @ '' is duplicated'')))
     (check_then (claim_values f has_source path c)
     (Inr (seen_claim (cm_ExternalID c) () seen)))))"

definition unique_claim :: "go_fmt \<Rightarrow> i_batch \<Rightarrow> string list \<Rightarrow> nat \<Rightarrow> i_claim \<Rightarrow> go_error + string list" where
  "unique_claim f b seen i c =
     check_then (fail_when (seen_held seen (claim_entity b c) \<noteq> None)
       (ingest_invalid IngestDuplicateSemanticClaim (claim_path i)
         (''duplicate semantic claim '' @ fmt_q f (cm_ExternalID c))))
     (Inr (seen_claim (claim_entity b c) () seen))"

definition validateSemanticClaimUniqueness :: "go_fmt \<Rightarrow> i_batch \<Rightarrow> go_error option" where
  "validateSemanticClaimUniqueness f b = err_of (for_state (unique_claim f b) 0 [] (ib_Claims b))"

section \<open>Validate\<close>

definition IngestValidate :: "go_fmt \<Rightarrow> i_batch \<Rightarrow> go_error option" where
  "IngestValidate f b = first_err
     [validateUTF8Strings b,
      fail_when (ib_Schema b \<noteq> SchemaV1) (ingest_invalid IngestUnsupportedValue ''schema''
        (''must be '' @ fmt_q f SchemaV1)),
      fail_when (ib_Profile b \<noteq> ProfileKnowledgeProposals \<and> ib_Profile b \<noteq> ProfileTrustedFacts)
        (ingest_invalid IngestUnsupportedValue ''profile''
          (''must be '' @ fmt_q f ProfileKnowledgeProposals @ '' or '' @ fmt_q f ProfileTrustedFacts)),
      validate_producer (ib_Producer b),
      (case ib_Source b of None \<Rightarrow> None | Some s \<Rightarrow> validate_source f s),
      fail_when (ib_Claims b = [] \<or> length (ib_Claims b) > MaxClaims) (ingest_invalid IngestInvalidCount ''claims''
        (''must contain 1..'' @ format_uint MaxClaims @ '' claims'')),
      err_of (for_state (validate_claim f (ib_Source b \<noteq> None)) 0 [] (ib_Claims b)),
      validateSemanticClaimUniqueness f b]"

end
