(* ===== verification/Ingest_Contract.thy ===== *)
theory Ingest_Contract
  imports Ingest_Validate
begin

text \<open>
  What a valid ingestion batch is, and that \<open>Validate\<close> accepts exactly those: the declarative
  \<open>batch_ok\<close> says it without paths, messages, loops or the order of the checks. The loop over
  the claims and the pass over their identities are clients of the registry of seen keys.
\<close>

section \<open>The contract\<close>

definition digest_ok :: "string \<Rightarrow> bool" where
  "digest_ok s \<longleftrightarrow> (\<exists>h. s = ''sha256:'' @ h \<and> length h = 64 \<and> list_all is_lower_hex h)"

definition bounded :: "nat \<Rightarrow> string \<Rightarrow> bool" where
  "bounded n s \<longleftrightarrow> s \<noteq> '''' \<and> length s \<le> n"

definition user_label :: "string \<Rightarrow> bool" where
  "user_label s \<longleftrightarrow> length s \<le> MaxLabelBytes \<and> list_all (\<lambda>p. \<not> prefix p s) reserved_prefixes"

definition i_object_ok :: "i_object \<Rightarrow> bool" where
  "i_object_ok x \<longleftrightarrow> io_Entity x \<noteq> '''' \<and> io_U64 x = '''' \<and> user_label (io_Entity x) \<or>
     io_Entity x = '''' \<and> (\<exists>n < 2 ^ 53. io_U64 x = format_uint n)"

definition evidence_ok :: "i_evidence \<Rightarrow> bool" where
  "evidence_ok e \<longleftrightarrow> bounded MaxLabelBytes (ev_Locator e) \<and> length (ev_Quote e) \<le> MaxTextBytes"

definition producer_ok :: "i_producer \<Rightarrow> bool" where
  "producer_ok p \<longleftrightarrow> bounded MaxLabelBytes (ip_Name p) \<and> bounded MaxLabelBytes (ip_Version p) \<and>
     bounded MaxLabelBytes (ip_RunID p) \<and> digest_ok (ip_SchemaIdentity p)"

definition artifact_ok :: "i_artifact \<Rightarrow> bool" where
  "artifact_ok a \<longleftrightarrow> ia_Mode a \<in> {ArtifactModeCopy, ArtifactModeLink} \<and> bounded MaxTextBytes (ia_URI a) \<or>
     ia_Mode a \<in> {ArtifactModePurge, ArtifactModeNone} \<and> ia_URI a = ''''"

definition source_ok :: "i_source \<Rightarrow> bool" where
  "source_ok s \<longleftrightarrow> digest_ok (iu_Digest s) \<and> bounded MaxLabelBytes (iu_MediaType s) \<and>
     canonical_media_type (iu_MediaType s) \<and> artifact_ok (iu_Artifact s)"

definition claim_ok :: "bool \<Rightarrow> i_claim \<Rightarrow> bool" where
  "claim_ok has_source c \<longleftrightarrow> bounded MaxLabelBytes (cm_ExternalID c) \<and>
     cm_Subject c \<noteq> '''' \<and> user_label (cm_Subject c) \<and> cm_Predicate c \<noteq> '''' \<and> user_label (cm_Predicate c) \<and>
     i_object_ok (cm_Object c) \<and>
     (case cm_ConfidencePPM c of None \<Rightarrow> True | Some v \<Rightarrow> unat v \<le> 1000000) \<and>
     length (cm_Evidence c) \<le> MaxEvidence \<and> list_all evidence_ok (cm_Evidence c) \<and>
     (cm_Evidence c \<noteq> [] \<longrightarrow> has_source)"

text \<open>The strings of a batch, in the order in which the code visits them.\<close>

definition evidence_strings :: "i_evidence \<Rightarrow> string list" where
  "evidence_strings e = [ev_Locator e, ev_Quote e]"

definition claim_strings :: "i_claim \<Rightarrow> string list" where
  "claim_strings c = [cm_ExternalID c, cm_Subject c, cm_Predicate c, io_Entity (cm_Object c), io_U64 (cm_Object c)] @
     concat (map evidence_strings (cm_Evidence c))"

definition source_strings :: "i_source option \<Rightarrow> string list" where
  "source_strings s = (case s of None \<Rightarrow> []
     | Some s \<Rightarrow> [iu_Digest s, iu_MediaType s, ia_Mode (iu_Artifact s), ia_URI (iu_Artifact s)])"

definition producer_strings :: "i_producer \<Rightarrow> string list" where
  "producer_strings p = [ip_Name p, ip_Version p, ip_RunID p, ip_SchemaIdentity p]"

definition batch_strings :: "i_batch \<Rightarrow> string list" where
  "batch_strings b = [ib_Schema b, ib_Profile b] @ producer_strings (ib_Producer b) @
     source_strings (ib_Source b) @ concat (map claim_strings (ib_Claims b))"

definition batch_ok :: "i_batch \<Rightarrow> bool" where
  "batch_ok b \<longleftrightarrow> list_all valid_utf8 (batch_strings b) \<and>
     ib_Schema b = SchemaV1 \<and> ib_Profile b \<in> {ProfileKnowledgeProposals, ProfileTrustedFacts} \<and>
     producer_ok (ib_Producer b) \<and> (case ib_Source b of None \<Rightarrow> True | Some s \<Rightarrow> source_ok s) \<and>
     ib_Claims b \<noteq> [] \<and> length (ib_Claims b) \<le> MaxClaims \<and>
     list_all (claim_ok (ib_Source b \<noteq> None)) (ib_Claims b) \<and>
     distinct (map cm_ExternalID (ib_Claims b)) \<and> distinct (map (claim_entity b) (ib_Claims b))"

section \<open>Values\<close>

lemma first_err_append: "first_err (xs @ ys) = None \<longleftrightarrow> first_err xs = None \<and> first_err ys = None"
  by (induction xs) simp_all

lemma first_err_map: "first_err (map g xs) = None \<longleftrightarrow> list_all (\<lambda>x. g x = None) xs"
  by (induction xs) simp_all

lemma missing_None [simp]: "missing f = None \<longleftrightarrow> snd f \<noteq> ''''"
  by (simp add: missing_def)

lemma too_large_None [simp]: "too_large n s p = None \<longleftrightarrow> length s \<le> n"
  by (auto simp: too_large_def)

lemma check_utf8_None [simp]: "check_utf8 f = None \<longleftrightarrow> valid_utf8 (snd f)"
  by (simp add: check_utf8_def)

lemma hex_decode_length: "hex_decode s = Some d \<Longrightarrow> length s = 2 * length d"
  by (induction s arbitrary: d rule: hex_decode.induct) (auto split: option.splits)

lemma ValidSHA256Identity_iff: "ValidSHA256Identity s \<longleftrightarrow> digest_ok s"
proof
  assume "ValidSHA256Identity s"
  then obtain d where d: "length s = 71" "length d = 32" "s = ''sha256:'' @ hex_encode d"
    by (auto simp: ValidSHA256Identity_def split: option.splits)
  then show "digest_ok s" unfolding digest_ok_def by (intro exI [of _ "hex_encode d"]) (simp add: hex_encode_lower)
next
  assume "digest_ok s"
  then obtain h where h: "s = ''sha256:'' @ h" "length h = 64" "list_all is_lower_hex h"
    by (auto simp: digest_ok_def)
  then obtain d where "hex_decode h = Some d" "hex_encode d = h" using hex_decode_lower [of h] by auto
  moreover have "length d = 32" using hex_decode_length [OF calculation(1)] h(2) by simp
  ultimately show "ValidSHA256Identity s" by (simp add: ValidSHA256Identity_def h)
qed

lemma validateUserLabel_None: "validateUserLabel f s p = None \<longleftrightarrow> user_label s"
  by (simp add: validateUserLabel_def user_label_def first_err_map)

lemma leading_zero: "length s > 1 \<and> hd s = CHR ''0'' \<or> parse_uint64 s = None \<or> s = '''' \<or> canonical_decimal s"
  by (auto simp: canonical_decimal_def parse_uint64_def)

lemma validateObject_number:
  assumes "io_Entity x = ''''"
  shows "ingest_validateObject f x p = None \<longleftrightarrow> (\<exists>n < 2 ^ 53. io_U64 x = format_uint n)"
proof (cases "canonical_decimal (io_U64 x)")
  case True
  then obtain n where n: "io_U64 x = format_uint n" by (auto simp: canonical_decimal_iff)
  have z: "\<not> (length (format_uint n) > 1 \<and> hd (format_uint n) = CHR ''0'')"
    using canonical_format by (simp add: canonical_decimal_def)
  have p: "parse_uint64 (format_uint n) = (if n < 2 ^ 64 then Some n else None)"
    by (simp add: parse_uint64_def)
  show ?thesis using z assms by (auto simp: ingest_validateObject_def n p IngestMaxJSSafeInteger_def format_uint_inj)
next
  case False
  have "ingest_validateObject f x p \<noteq> None"
    using leading_zero [of "io_U64 x"] False assms by (auto simp: ingest_validateObject_def)
  then show ?thesis using False canonical_format by auto
qed

lemma object_None:
  "ingest_validateObject f x p = None \<and> (if io_Entity x \<noteq> '''' then validateUserLabel f (io_Entity x) q else None) = None
     \<longleftrightarrow> i_object_ok x"
proof (cases "io_Entity x = ''''")
  case True
  then show ?thesis using validateObject_number [OF True] by (simp add: i_object_ok_def)
next
  case False
  have "ingest_validateObject f x p = None \<longleftrightarrow> io_U64 x = ''''"
    using False by (auto simp: ingest_validateObject_def)
  with False show ?thesis by (simp add: i_object_ok_def validateUserLabel_None)
qed

section \<open>Parts of a batch\<close>

lemma validate_producer_None: "validate_producer p = None \<longleftrightarrow> producer_ok p"
  by (auto simp: validate_producer_def producer_ok_def bounded_def ValidSHA256Identity_iff)

lemma artifact_modes_distinct:
  "ArtifactModeCopy \<noteq> ArtifactModePurge" "ArtifactModeCopy \<noteq> ArtifactModeNone"
  "ArtifactModeLink \<noteq> ArtifactModePurge" "ArtifactModeLink \<noteq> ArtifactModeNone"
  by (simp_all add: artifact_modes)

lemma validate_artifact_None:
  "length (ia_URI a) \<le> MaxTextBytes \<and> validate_artifact f a = None \<longleftrightarrow> artifact_ok a"
  using artifact_modes_distinct by (auto simp: validate_artifact_def artifact_ok_def bounded_def)

lemma validate_source_None: "validate_source f s = None \<longleftrightarrow> source_ok s"
  using validate_artifact_None [of "iu_Artifact s" f]
  by (auto simp: validate_source_def source_ok_def bounded_def ValidSHA256Identity_iff)

lemma validate_evidence_None: "validate_evidence p j e = None \<longleftrightarrow> evidence_ok e"
  by (auto simp: validate_evidence_def evidence_ok_def bounded_def Let_def)

lemma claim_labels_None:
  "claim_labels f p c = None \<longleftrightarrow> bounded MaxLabelBytes (cm_ExternalID c) \<and>
     cm_Subject c \<noteq> '''' \<and> user_label (cm_Subject c) \<and> cm_Predicate c \<noteq> '''' \<and> user_label (cm_Predicate c)"
  by (auto simp: claim_labels_def bounded_def validateUserLabel_None)

lemma confidence_None:
  "(case c of None \<Rightarrow> None | Some v \<Rightarrow> fail_when (v > 1000000) e) = None \<longleftrightarrow>
     (case c of None \<Rightarrow> True | Some v \<Rightarrow> unat (v :: u64) \<le> 1000000)"
  by (cases c) (simp_all add: word_le_nat_alt not_less)

lemma claim_values_None:
  "claim_values f has_source p c = None \<longleftrightarrow> i_object_ok (cm_Object c) \<and>
     (case cm_ConfidencePPM c of None \<Rightarrow> True | Some v \<Rightarrow> unat v \<le> 1000000) \<and>
     length (cm_Evidence c) \<le> MaxEvidence \<and> list_all evidence_ok (cm_Evidence c) \<and>
     (cm_Evidence c \<noteq> [] \<longrightarrow> has_source)"
proof -
  have e: "for_range (validate_evidence p) 0 (cm_Evidence c) = None \<longleftrightarrow> list_all evidence_ok (cm_Evidence c)"
    by (rule for_range_None) (rule validate_evidence_None)
  show ?thesis
    unfolding claim_values_def first_err_None confidence_None e fail_when_None
      object_None [symmetric, of _ f "p @ ''.object''" "p @ ''.object.entity''"]
    by auto
qed

lemma claim_loop:
  "(\<exists>t. for_state (validate_claim f h) 0 [] cs = Inr t) \<longleftrightarrow>
     list_all (claim_ok h) cs \<and> distinct (map cm_ExternalID cs)"
proof -
  have body: "\<And>s i x s'. validate_claim f h s i x = Inr s' \<longleftrightarrow> claim_ok h x \<and>
      (case Some (cm_ExternalID x) of None \<Rightarrow> s' = s | Some k \<Rightarrow> seen_held s k = None \<and> s' = seen_claim k () s)"
    unfolding validate_claim_def Let_def check_then_Inr claim_labels_None claim_values_None claim_ok_def
      fail_when_None by (auto simp: seen_held_def)
  have keys: "List.map_filter (\<lambda>x. Some (cm_ExternalID x)) xs = map cm_ExternalID xs" for xs
    by (induction xs) simp_all
  show ?thesis using seen.claiming_loop [OF body, where i = 0 and s = "[]" and xs = cs] by (simp add: keys)
qed

lemma uniqueness_None:
  "validateSemanticClaimUniqueness f b = None \<longleftrightarrow> distinct (map (claim_entity b) (ib_Claims b))"
proof -
  have body: "\<And>s i x s'. unique_claim f b s i x = Inr s' \<longleftrightarrow> (\<lambda>_. True) x \<and>
      (case (\<lambda>x. Some (claim_entity b x)) x of None \<Rightarrow> s' = s | Some k \<Rightarrow> seen_held s k = None \<and> s' = seen_claim k () s)"
    unfolding unique_claim_def check_then_Inr by (auto simp: seen_held_def)
  have keys: "List.map_filter (\<lambda>x. Some (claim_entity b x)) xs = map (claim_entity b) xs" for xs
    by (induction xs) simp_all
  have "(\<exists>t. for_state (unique_claim f b) 0 [] (ib_Claims b) = Inr t) \<longleftrightarrow>
      list_all (\<lambda>_. True) (ib_Claims b) \<and> distinct (List.map_filter (\<lambda>x. Some (claim_entity b x)) (ib_Claims b)) \<and>
      set (List.map_filter (\<lambda>x. Some (claim_entity b x)) (ib_Claims b)) \<inter> dom (seen_held []) = {}"
    by (rule seen.claiming_loop [where f = "unique_claim f b"]) (rule body)
  then show ?thesis by (simp add: keys validateSemanticClaimUniqueness_def err_of_None list.pred_True)
qed

section \<open>UTF-8\<close>

lemma claim_utf8_None: "claim_utf8 i c = None \<longleftrightarrow> list_all valid_utf8 (claim_strings c)"
proof -
  have e: "for_range (\<lambda>j e. first_err (map check_utf8
         [(evidence_path (claim_path i) j @ ''.locator'', ev_Locator e),
          (evidence_path (claim_path i) j @ ''.quote'', ev_Quote e)])) 0 (cm_Evidence c) = None \<longleftrightarrow>
      list_all (\<lambda>e. list_all valid_utf8 (evidence_strings e)) (cm_Evidence c)"
    by (rule for_range_None) (simp add: evidence_strings_def)
  have cc: "list_all valid_utf8 (concat (map evidence_strings xs)) \<longleftrightarrow>
      list_all (\<lambda>e. list_all valid_utf8 (evidence_strings e)) xs" for xs
    by (induction xs) simp_all
  show ?thesis
    unfolding claim_utf8_def claim_strings_def first_err_append list_all_append first_err_None e cc by simp
qed

lemma validateUTF8Strings_None: "validateUTF8Strings b = None \<longleftrightarrow> list_all valid_utf8 (batch_strings b)"
proof -
  have c: "for_range claim_utf8 0 (ib_Claims b) = None \<longleftrightarrow>
      list_all (\<lambda>c. list_all valid_utf8 (claim_strings c)) (ib_Claims b)"
    by (rule for_range_None) (rule claim_utf8_None)
  have cc: "list_all valid_utf8 (concat (map claim_strings xs)) \<longleftrightarrow>
      list_all (\<lambda>c. list_all valid_utf8 (claim_strings c)) xs" for xs
    by (induction xs) simp_all
  show ?thesis
    by (cases "ib_Source b")
      (simp_all add: validateUTF8Strings_def batch_strings_def producer_strings_def source_strings_def Let_def
        first_err_append c cc)
qed

section \<open>Validation decides the contract\<close>

lemma IngestValidate_None: "IngestValidate f b = None \<longleftrightarrow> batch_ok b"
proof -
  have s: "(case ib_Source b of None \<Rightarrow> None | Some s \<Rightarrow> validate_source f s) = None \<longleftrightarrow>
      (case ib_Source b of None \<Rightarrow> True | Some s \<Rightarrow> source_ok s)"
    by (cases "ib_Source b") (simp_all add: validate_source_None)
  show ?thesis
    unfolding IngestValidate_def batch_ok_def first_err_None validateUTF8Strings_None validate_producer_None s
      err_of_None claim_loop uniqueness_None fail_when_None
    by auto
qed

end
