(* ===== verification/Ingest_Compile.thy ===== *)
theory Ingest_Compile
  imports Ingest_Contract
begin

text \<open>
  The deterministic compilation of a batch (\<open>Compile\<close>, \<open>compileValidated\<close>, \<open>compile\<close> and
  \<open>typedBatchExceedsInputLimit\<close> of \<open>ingest/ingest.go\<close>): the canonical document of the batch, its
  digest, and the write request that records the batch, its producer, its source and its claims.
  The records the compiler appends are the state of its loop; \<open>json.Marshal\<close> of these structs
  cannot fail, so its error branches are absent.
\<close>

section \<open>The canonical batch\<close>

definition producer_json :: "i_producer \<Rightarrow> json" where
  "producer_json p = struct_json
     [(''name'', req (JStr (ip_Name p))), (''version'', req (JStr (ip_Version p))),
      (''run_id'', req (JStr (ip_RunID p))), (''schema_identity'', req (JStr (ip_SchemaIdentity p)))]"

definition artifact_json :: "i_artifact \<Rightarrow> json" where
  "artifact_json a = struct_json [(''mode'', req (JStr (ia_Mode a))), (''uri'', omit_str (ia_URI a))]"

definition source_json :: "i_source \<Rightarrow> json" where
  "source_json s = struct_json
     [(''digest'', req (JStr (iu_Digest s))), (''media_type'', req (JStr (iu_MediaType s))),
      (''artifact'', req (artifact_json (iu_Artifact s)))]"

definition claim_json :: "i_claim \<Rightarrow> json" where
  "claim_json c = struct_json
     [(''external_id'', req (JStr (cm_ExternalID c))), (''subject'', req (JStr (cm_Subject c))),
      (''predicate'', req (JStr (cm_Predicate c))), (''object'', req (object_json (cm_Object c))),
      (''confidence_ppm'', confidence_json (cm_ConfidencePPM c)),
      (''evidence'', omit_list (map evidence_json (cm_Evidence c)))]"

definition batch_json :: "i_batch \<Rightarrow> json" where
  "batch_json b = struct_json
     [(''schema'', req (JStr (ib_Schema b))), (''profile'', req (JStr (ib_Profile b))),
      (''producer'', req (producer_json (ib_Producer b))), (''source'', map_option source_json (ib_Source b)),
      (''claims'', req (JArr (map claim_json (ib_Claims b))))]"

section \<open>The early size check\<close>

text \<open>The sizes the function consumes, in its order; it stops at the first one that does not fit.\<close>

definition evidence_sizes :: "i_evidence \<Rightarrow> nat list" where
  "evidence_sizes e = 1 # map length (evidence_strings e)"

definition claim_sizes :: "i_claim \<Rightarrow> nat list" where
  "claim_sizes c = 1 # map length [cm_ExternalID c, cm_Subject c, cm_Predicate c, io_Entity (cm_Object c),
     io_U64 (cm_Object c)] @ concat (map evidence_sizes (cm_Evidence c))"

definition batch_sizes :: "i_batch \<Rightarrow> nat list" where
  "batch_sizes b = map length ([ib_Schema b, ib_Profile b] @ producer_strings (ib_Producer b)) @
     (case ib_Source b of None \<Rightarrow> [] | Some s \<Rightarrow> 1 # map length (source_strings (Some s))) @
     concat (map claim_sizes (ib_Claims b))"

fun consume_all :: "int \<Rightarrow> nat list \<Rightarrow> bool" where
  "consume_all remaining [] = False"
| "consume_all remaining (n # sizes) =
     (if int n > remaining then True else consume_all (remaining - int n) sizes)"

definition typedBatchExceedsInputLimit :: "i_batch \<Rightarrow> bool" where
  "typedBatchExceedsInputLimit b = consume_all (int MaxInputBytes) (batch_sizes b)"

section \<open>Write records\<close>

text \<open>The Go field \<open>Object any\<close> holds a string or a \<open>uint64\<close>.\<close>

datatype any_value = AnyString string | AnyUint64 u64

record write_rec =
  wr_Subject :: string
  wr_Predicate :: string
  wr_Object :: any_value
  wr_RawText :: string
  wr_Mode :: string

fun any_json :: "any_value \<Rightarrow> json" where
  "any_json (AnyString s) = JStr s"
| "any_json (AnyUint64 n) = JNum (format_uint (unat n))"

definition writeRecord_json :: "write_rec \<Rightarrow> json" where
  "writeRecord_json r = struct_json
     [(''subject'', req (JStr (wr_Subject r))), (''predicate'', req (JStr (wr_Predicate r))),
      (''object'', req (any_json (wr_Object r))), (''raw_text'', omit_str (wr_RawText r)),
      (''mode'', omit_str (wr_Mode r))]"

definition writeRequest_json :: "write_rec list \<Rightarrow> json" where
  "writeRequest_json records = struct_json
     [(''write'', req (JStr ''facts'')), (''record'', req (JArr (map writeRecord_json records))),
      (''vocabulary'', req (struct_json [(''on_unknown'', req (JStr ''create''))]))]"

text \<open>The closures \<open>add\<close> and \<open>addRaw\<close>.\<close>

definition add_rec :: "string \<Rightarrow> string \<Rightarrow> any_value \<Rightarrow> write_rec list \<Rightarrow> write_rec list" where
  "add_rec s p x records = records @ [\<lparr>wr_Subject = s, wr_Predicate = p, wr_Object = x, wr_RawText = '''',
     wr_Mode = ''ensure''\<rparr>]"

definition add_raw :: "string \<Rightarrow> string \<Rightarrow> any_value \<Rightarrow> string \<Rightarrow> write_rec list \<Rightarrow> write_rec list" where
  "add_raw s p x raw records = records @ [\<lparr>wr_Subject = s, wr_Predicate = p, wr_Object = x, wr_RawText = raw,
     wr_Mode = ''''\<rparr>]"

text \<open>\<open>strconv.ParseUint\<close> with its error dropped: zero, or the largest value when out of range.\<close>

definition parse_uint_value :: "string \<Rightarrow> u64" where
  "parse_uint_value s = (case parse_uint64 s of Some v \<Rightarrow> of_nat v
     | None \<Rightarrow> if s \<noteq> '''' \<and> parse_uint_reason 0 s = ''value out of range'' then - 1 else 0)"

definition objectValue :: "i_object \<Rightarrow> any_value" where
  "objectValue x = (if io_Entity x \<noteq> '''' then AnyString (io_Entity x) else AnyUint64 (parse_uint_value (io_U64 x)))"

definition ingest_digest :: "bytes \<Rightarrow> string" where
  "ingest_digest data = ''sha256:'' @ hex_encode (sha256 data)"

section \<open>compile\<close>

definition batch_records :: "i_batch \<Rightarrow> bytes \<Rightarrow> string \<Rightarrow> write_rec list \<Rightarrow> write_rec list" where
  "batch_records b canonical batchEntity =
     add_raw batchEntity ''ingest:manifest'' (AnyString batchEntity) canonical \<circ>
     add_rec batchEntity ''ingest:profile'' (AnyString (''ingest:profile:'' @ ib_Profile b)) \<circ>
     add_rec batchEntity ''ingest:is_a'' (AnyString ''ingest:batch'')"

definition producer_records :: "i_batch \<Rightarrow> string \<Rightarrow> string \<Rightarrow> write_rec list \<Rightarrow> write_rec list" where
  "producer_records b batchEntity producerEntity =
     add_rec producerEntity ''ingest:schema_identity'' (AnyString (ip_SchemaIdentity (ib_Producer b))) \<circ>
     add_rec producerEntity ''ingest:is_a'' (AnyString ''ingest:producer'') \<circ>
     add_rec batchEntity ''ingest:producer'' (AnyString producerEntity)"

definition source_entity :: "i_batch \<Rightarrow> string" where
  "source_entity b = (case ib_Source b of None \<Rightarrow> '''' | Some s \<Rightarrow> sourceEntityPrefix @ iu_Digest s)"

definition source_records :: "i_batch \<Rightarrow> string \<Rightarrow> string \<Rightarrow> write_rec list \<Rightarrow> write_rec list" where
  "source_records b batchEntity sourceEntity records = (case ib_Source b of None \<Rightarrow> records
     | Some s \<Rightarrow> (add_rec sourceEntity ''ingest:media_type'' (AnyString (''media-type:'' @ iu_MediaType s)) \<circ>
         add_rec sourceEntity ''ingest:is_a'' (AnyString ''ingest:source'') \<circ>
         add_rec batchEntity ''ingest:artifact_mode'' (AnyString (''ingest:artifact:'' @ ia_Mode (iu_Artifact s))) \<circ>
         add_rec batchEntity ''ingest:source'' (AnyString sourceEntity)) records)"

definition claim_status :: "i_batch \<Rightarrow> string" where
  "claim_status b = (if ib_Profile b = ProfileTrustedFacts then ''ingest:accepted'' else ''ingest:proposed'')"

definition claim_records :: "i_batch \<Rightarrow> string \<Rightarrow> string \<Rightarrow> string \<Rightarrow> i_claim \<Rightarrow> write_rec list \<Rightarrow> write_rec list" where
  "claim_records b batchEntity sourceEntity claimEntity c =
     (if ib_Profile b = ProfileTrustedFacts then add_rec (cm_Subject c) (cm_Predicate c) (objectValue (cm_Object c)) else id) \<circ>
     (if sourceEntity \<noteq> '''' then add_rec claimEntity ''ingest:supports'' (AnyString sourceEntity) else id) \<circ>
     (case cm_ConfidencePPM c of None \<Rightarrow> id
      | Some v \<Rightarrow> add_rec claimEntity ''ingest:confidence_ppm'' (AnyUint64 v)) \<circ>
     add_rec claimEntity ''ingest:candidate_object'' (objectValue (cm_Object c)) \<circ>
     add_rec claimEntity ''ingest:candidate_predicate'' (AnyString (cm_Predicate c)) \<circ>
     add_rec claimEntity ''ingest:candidate_subject'' (AnyString (cm_Subject c)) \<circ>
     add_rec claimEntity ''ingest:initial_status'' (AnyString (claim_status b)) \<circ>
     add_rec claimEntity ''ingest:is_a'' (AnyString ''ingest:claim'') \<circ>
     add_rec batchEntity ''ingest:produced'' (AnyString claimEntity)"

text \<open>The loop over the claims, on the records, the claims seen and the claim entities.\<close>

type_synonym compile_state = "write_rec list \<times> string list \<times> string list"

definition compile_claim :: "go_fmt \<Rightarrow> i_batch \<Rightarrow> string \<Rightarrow> string \<Rightarrow> compile_state \<Rightarrow> nat \<Rightarrow> i_claim \<Rightarrow>
    go_error + compile_state" where
  "compile_claim f b batchEntity sourceEntity st i c =
     (let (records, seen, entities) = st; claimEntity = claim_entity b c in
      if claimEntity \<in> set seen
      then Inl (GoError (''duplicate semantic claim '' @ fmt_q f (cm_ExternalID c)))
      else Inr (claim_records b batchEntity sourceEntity claimEntity c records, claimEntity # seen,
                entities @ [claimEntity]))"

definition compile_batch :: "go_fmt \<Rightarrow> i_batch \<Rightarrow> bytes \<Rightarrow> string \<Rightarrow>
    go_error + (bytes \<times> string \<times> string \<times> string list \<times> nat)" where
  "compile_batch f b canonical batchDigest =
     (let batchEntity = batchEntityPrefix @ batchDigest; producerEntity = producer_entity (ib_Producer b);
          sourceEntity = source_entity b;
          records = source_records b batchEntity sourceEntity (producer_records b batchEntity producerEntity
            (batch_records b canonical batchEntity []))
      in bind_r (for_state (compile_claim f b batchEntity sourceEntity) 0 (records, [], []) (ib_Claims b))
         (\<lambda>(records, _, claimEntities).
           Inr (render (writeRequest_json records), producerEntity, sourceEntity, claimEntities, length records)))"

section \<open>Compile\<close>

record compiled =
  cp_BatchDigest :: string
  cp_WriteDigest :: string
  cp_RecordCount :: nat
  cp_BatchEntity :: string
  cp_ProducerEntity :: string
  cp_SourceEntity :: string
  cp_ClaimEntities :: "string list"
  cp_canonical :: bytes
  cp_write :: bytes

definition canonical_too_large :: go_error where
  "canonical_too_large = ingest_invalid IngestCanonicalTooLarge ''input''
     (''canonical ingestion batch exceeds the '' @ format_uint MaxInputBytes @ ''-byte input limit'')"

definition compileValidated :: "go_fmt \<Rightarrow> i_batch \<Rightarrow> bool \<Rightarrow> go_error + compiled" where
  "compileValidated f b enforceCanonicalLimit =
     (let canonical = render (batch_json b) in
      if enforceCanonicalLimit \<and> length canonical > MaxInputBytes then Inl canonical_too_large
      else let batchDigest = ingest_digest canonical in
        bind_r (compile_batch f b canonical batchDigest)
        (\<lambda>(writeBody, producerEntity, sourceEntity, claimEntities, recordCount).
          Inr \<lparr>cp_BatchDigest = batchDigest, cp_WriteDigest = ingest_digest writeBody,
            cp_RecordCount = recordCount, cp_BatchEntity = batchEntityPrefix @ batchDigest,
            cp_ProducerEntity = producerEntity, cp_SourceEntity = sourceEntity,
            cp_ClaimEntities = claimEntities, cp_canonical = canonical, cp_write = writeBody\<rparr>))"

definition ingest_Compile :: "go_fmt \<Rightarrow> i_batch \<Rightarrow> go_error + compiled" where
  "ingest_Compile f b =
     (if typedBatchExceedsInputLimit b then Inl canonical_too_large
      else case IngestValidate f b of Some e \<Rightarrow> Inl e | None \<Rightarrow> compileValidated f b True)"

text \<open>\<open>CanonicalBytes\<close>, \<open>WriteBytes\<close> and \<open>WriteSize\<close>.\<close>

definition cp_CanonicalBytes :: "compiled \<Rightarrow> bytes" where "cp_CanonicalBytes c = cp_canonical c"
definition cp_WriteBytes :: "compiled \<Rightarrow> bytes" where "cp_WriteBytes c = cp_write c"
definition cp_WriteSize :: "compiled \<Rightarrow> int" where "cp_WriteSize c = int (length (cp_write c))"

end
