(* ===== verification/Ingest_Compile_Laws.thy ===== *)
theory Ingest_Compile_Laws
  imports Ingest_Compile Write_Contract
begin

text \<open>
  What the compiler does with a valid batch. The early size check never refuses a batch whose
  canonical document fits. The records the compiler appends are those of a typed write request,
  and its body is the document of that request; so compilation succeeds exactly on valid batches
  whose canonical document fits, and the typed writer accepts the compiled request exactly when
  no triple is ensured twice.
\<close>

section \<open>The early size check\<close>

lemma consume_all_sum: "0 \<le> n \<Longrightarrow> consume_all n xs \<longleftrightarrow> n < int (sum_list xs)"
proof (induction xs arbitrary: n)
  case (Cons x xs)
  then show ?case using Cons.IH [of "n - int x"] by auto
qed simp

lemma escape_ascii_grows: "1 \<le> length (escape_ascii c)"
  by (simp add: escape_ascii_def esc_def Let_def)

lemma escape_grows: "length s \<le> length (escape_string s)"
proof (induction s rule: escape_string.induct)
  case (2 c s)
  show ?case
  proof (cases "byte c < 128")
    case True
    with 2 escape_ascii_grows [of c] show ?thesis by simp
  next
    case False
    show ?thesis
    proof (cases "rune_len (c # s)")
      case None
      with 2 False show ?thesis by (simp add: esc_def)
    next
      case (Some n)
      from "2.IH"(3) [OF False Some] have IH: "length s - (n - 1) \<le> length (escape_string (drop (n - 1) s))" by simp
      show ?thesis
      proof (cases "line_sep (take n (c # s))")
        case True
        then have "length (take n (c # s)) = 3" by (auto simp: line_sep_def dest: arg_cong [where f = length])
        then have "length s - (n - 1) \<ge> length s - 2" by simp
        with True False Some IH show ?thesis by (simp add: esc_def)
      next
        case plain: False
        have "2 \<le> n" by (rule rune_len_multi [OF Some]) (use False in simp)
        with plain False Some IH show ?thesis by simp
      qed
    qed
  qed
qed simp

fun weight :: "json \<Rightarrow> nat" where
  "weight (JStr s) = length s"
| "weight (JArr xs) = sum_list (map weight xs)"
| "weight (JObj ms) = 1 + sum_list (map (\<lambda>m. weight (snd m)) ms)"
| "weight _ = 0"

lemma weight_render:
  "weight j \<le> length (render j)"
  "sum_list (map weight xs) \<le> length (render_elems xs)"
  "sum_list (map (\<lambda>m. weight (snd m)) ms) \<le> length (render_members ms)"
proof (induction j and xs and ms rule: render_render_elems_render_members.induct)
  case (4 s)
  then show ?case using escape_grows [of s] by (simp add: quote_def)
qed auto

definition opt_weight :: "json option \<Rightarrow> nat" where
  "opt_weight v = (case v of None \<Rightarrow> 0 | Some j \<Rightarrow> weight j)"

lemma opt_weight_simps [simp]: "opt_weight (req j) = weight j" "opt_weight (omit_str s) = length s"
  "opt_weight (omit_list xs) = sum_list (map weight xs)" "opt_weight None = 0" "opt_weight (Some j) = weight j"
  by (simp_all add: opt_weight_def req_def omit_str_def omit_list_def)

lemma weight_struct: "weight (struct_json fs) = 1 + sum_list (map (\<lambda>f. opt_weight (snd f)) fs)"
proof -
  have "sum_list (map (\<lambda>m. weight (snd m)) (present fs)) = sum_list (map (\<lambda>f. opt_weight (snd f)) fs)"
    by (induction fs) (auto simp: opt_weight_def split: option.split)
  then show ?thesis by (simp add: struct_json_def present_def)
qed

lemma sum_list_mono_map: "(\<And>x. f x \<le> g x) \<Longrightarrow> sum_list (map f xs) \<le> (sum_list (map g xs) :: nat)"
  by (induction xs) (auto intro: add_mono)

lemma sum_list_concat_map: "sum_list (concat (map f xs)) = (\<Sum>x\<leftarrow>xs. sum_list (f x))" for f :: "_ \<Rightarrow> nat list"
  by (induction xs) simp_all

lemma evidence_weight: "sum_list (evidence_sizes e) \<le> weight (evidence_json e)"
  by (simp add: evidence_sizes_def evidence_strings_def evidence_json_def weight_struct)

lemma claim_weight: "sum_list (claim_sizes c) \<le> weight (claim_json c)"
proof -
  have "sum_list (map (\<lambda>e. sum_list (evidence_sizes e)) (cm_Evidence c)) \<le>
      sum_list (map (\<lambda>e. weight (evidence_json e)) (cm_Evidence c))"
    by (rule sum_list_mono_map) (rule evidence_weight)
  then show ?thesis
    by (simp add: claim_sizes_def claim_json_def weight_struct object_json_def sum_list_concat_map comp_def)
qed

lemma batch_weight: "sum_list (batch_sizes b) \<le> weight (batch_json b)"
proof -
  have "sum_list (map (\<lambda>c. sum_list (claim_sizes c)) (ib_Claims b)) \<le>
      sum_list (map (\<lambda>c. weight (claim_json c)) (ib_Claims b))"
    by (rule sum_list_mono_map) (rule claim_weight)
  then show ?thesis
    by (cases "ib_Source b")
      (simp_all add: batch_sizes_def batch_json_def weight_struct producer_strings_def producer_json_def
        sum_list_concat_map comp_def source_strings_def source_json_def artifact_json_def)
qed

lemma early_refusal_sound: "typedBatchExceedsInputLimit b \<Longrightarrow> MaxInputBytes < length (render (batch_json b))"
  using batch_weight [of b] weight_render(1) [of "batch_json b"]
  by (simp add: typedBatchExceedsInputLimit_def consume_all_sum)

section \<open>The loop over the claims\<close>

lemma compile_claims:
  "for_state (compile_claim f b be se) i (records, seen, entities) cs = Inr t \<longleftrightarrow>
     distinct (map (claim_entity b) cs) \<and> set (map (claim_entity b) cs) \<inter> set seen = {} \<and>
     t = (fold (\<lambda>c. claim_records b be se (claim_entity b c) c) cs records,
          rev (map (claim_entity b) cs) @ seen, entities @ map (claim_entity b) cs)"
proof (induction cs arbitrary: i records seen entities)
  case (Cons c cs)
  then show ?case by (auto simp: compile_claim_def Let_def)
qed auto

definition compiled_records :: "i_batch \<Rightarrow> bytes \<Rightarrow> string \<Rightarrow> write_rec list" where
  "compiled_records b canonical be = fold (\<lambda>c. claim_records b be (source_entity b) (claim_entity b c) c) (ib_Claims b)
     (source_records b be (source_entity b) (producer_records b be (producer_entity (ib_Producer b))
       (batch_records b canonical be [])))"

lemma compile_batch_ok:
  assumes "distinct (map (claim_entity b) (ib_Claims b))"
  shows "compile_batch f b canonical d = Inr
    (render (writeRequest_json (compiled_records b canonical (batchEntityPrefix @ d))), producer_entity (ib_Producer b),
     source_entity b, map (claim_entity b) (ib_Claims b), length (compiled_records b canonical (batchEntityPrefix @ d)))"
proof -
  let ?be = "batchEntityPrefix @ d"
  let ?rs = "source_records b ?be (source_entity b) (producer_records b ?be (producer_entity (ib_Producer b))
       (batch_records b canonical ?be []))"
  have "for_state (compile_claim f b ?be (source_entity b)) 0 (?rs, [], []) (ib_Claims b) =
      Inr (compiled_records b canonical ?be, rev (map (claim_entity b) (ib_Claims b)) @ [],
           [] @ map (claim_entity b) (ib_Claims b))"
    using assms unfolding compile_claims compiled_records_def by simp
  then show ?thesis unfolding compile_batch_def Let_def by simp
qed

section \<open>When compilation succeeds\<close>

definition fits_input :: "i_batch \<Rightarrow> bool" where
  "fits_input b \<longleftrightarrow> length (render (batch_json b)) \<le> MaxInputBytes"

definition batch_entity :: "i_batch \<Rightarrow> string" where
  "batch_entity b = batchEntityPrefix @ ingest_digest (render (batch_json b))"

definition compiled_of :: "i_batch \<Rightarrow> compiled" where
  "compiled_of b = (let canonical = render (batch_json b); records = compiled_records b canonical (batch_entity b);
       body = render (writeRequest_json records) in
     \<lparr>cp_BatchDigest = ingest_digest canonical, cp_WriteDigest = ingest_digest body,
      cp_RecordCount = length records, cp_BatchEntity = batch_entity b,
      cp_ProducerEntity = producer_entity (ib_Producer b), cp_SourceEntity = source_entity b,
      cp_ClaimEntities = map (claim_entity b) (ib_Claims b), cp_canonical = canonical, cp_write = body\<rparr>)"

lemma compileValidated_ok:
  assumes "batch_ok b"
  shows "compileValidated f b limit = (if limit \<and> \<not> fits_input b then Inl canonical_too_large else Inr (compiled_of b))"
proof -
  have "distinct (map (claim_entity b) (ib_Claims b))" using assms by (simp add: batch_ok_def)
  from compile_batch_ok [OF this] show ?thesis
    by (auto simp: compileValidated_def compiled_of_def fits_input_def batch_entity_def Let_def)
qed

lemma Compile_ok: "ingest_Compile f b = Inr c \<longleftrightarrow> batch_ok b \<and> fits_input b \<and> c = compiled_of b"
proof (cases "batch_ok b")
  case True
  then have "IngestValidate f b = None" by (simp add: IngestValidate_None)
  moreover have "typedBatchExceedsInputLimit b \<Longrightarrow> \<not> fits_input b"
    using early_refusal_sound [of b] by (simp add: fits_input_def)
  ultimately show ?thesis using True by (auto simp: ingest_Compile_def compileValidated_ok)
next
  case False
  then obtain e where "IngestValidate f b = Some e" using IngestValidate_None [of f b] by auto
  with False show ?thesis by (simp add: ingest_Compile_def)
qed

end
