(* ===== verification/Ingest_Canonical.thy ===== *)
theory Ingest_Canonical
  imports Ingest_Compile_Laws
begin

text \<open>
  The canonical document of a batch: rendered documents are valid UTF-8, the canonical bytes
  read back to the document, and the document determines the batch.
\<close>

declare fits_struct [simp del] valid_utf8.simps(2) [simp del]

section \<open>Rendered text is UTF-8\<close>

lemma valid_utf8_ascii_Cons: "byte c < 128 \<Longrightarrow> valid_utf8 (c # s) = valid_utf8 s"
  using valid_utf8_append_ascii [of "[c]" s] by simp

lemma hex_digit_ascii: "n < 16 \<Longrightarrow> byte (hex_digit n) < 128"
  by (simp add: hex_digit_def byte_chr)

lemma escape_ascii_ascii: "byte c < 128 \<Longrightarrow> list_all (\<lambda>c. byte c < 128) (escape_ascii c)"
  by (simp add: escape_ascii_def esc_def Let_def hex_digit_ascii char_literals)

lemma valid_utf8_escape [simp]: "valid_utf8 (escape_string s)"
proof (induction s rule: escape_string.induct)
  case (2 c s)
  show ?case
  proof (cases "byte c < 128")
    case True
    with 2 show ?thesis by (simp add: valid_utf8_append_ascii escape_ascii_ascii)
  next
    case False
    show ?thesis
    proof (cases "rune_len (c # s)")
      case None
      with 2 False show ?thesis
        by (simp add: esc_def valid_utf8_ascii_Cons) (simp add: valid_utf8_ascii_Cons byte_def)
    next
      case (Some n)
      note IH = "2.IH"(3) [OF False Some]
      have run: "valid_utf8 (take n (c # s))"
      proof -
        have "rune_len (take n (c # s)) = Some n" using rune_len_take_append [OF Some, of "[]"] by simp
        moreover have "0 < n" using rune_len_bounds [OF Some] by simp
        then have "\<exists>r. take n (c # s) = c # r" by (cases n) simp_all
        moreover have "drop n (take n (c # s)) = []" by simp
        ultimately show ?thesis by (metis valid_utf8.simps(1) valid_utf8_Cons)
      qed
      have "valid_utf8 (esc (''u202'' @ [hex_digit (k mod 16)]) @ t) = valid_utf8 t" for k t
        by (simp add: esc_def valid_utf8_ascii_Cons hex_digit_ascii char_literals)
      with IH run False Some show ?thesis by (simp add: valid_utf8_append)
    qed
  qed
qed simp

lemma valid_utf8_join: "valid_utf8 s \<Longrightarrow> valid_utf8 t \<Longrightarrow> valid_utf8 (s @ t)"
  by (simp add: valid_utf8_append)

lemma valid_utf8_quote: "valid_utf8 (quote s)"
  by (simp add: quote_def valid_utf8_ascii_Cons valid_utf8_append)

lemma valid_utf8_render:
  "wf_json j \<Longrightarrow> valid_utf8 (render j)"
  "wf_elems xs \<Longrightarrow> valid_utf8 (render_elems xs)"
  "wf_members ms \<Longrightarrow> valid_utf8 (render_members ms)"
proof (induction j and xs and ms rule: render_render_elems_render_members.induct)
  case (3 n)
  then have "list_all is_digit n" by (simp add: canonical_decimal_def)
  then show ?case using valid_utf8_ascii digits_ascii by simp
qed (auto simp: valid_utf8_quote valid_utf8_ascii_Cons byte_def intro!: valid_utf8_join)

section \<open>The canonical document reads back\<close>

lemma decimal_digits [simp]: "canonical_decimal (format_uint n)"
  by (auto simp: canonical_decimal_iff)

lemma fits_confidence [simp]: "opt_fits d (confidence_json c)"
  by (cases c) (simp_all add: confidence_json_def)

lemma fits_object: "valid_utf8 (io_Entity x) \<Longrightarrow> valid_utf8 (io_U64 x) \<Longrightarrow> fits (Suc d) (object_json x)"
  unfolding object_json_def by (rule fits_fields) (simp add: valid_utf8_ascii_Cons byte_def)

lemma fits_evidence: "list_all valid_utf8 (evidence_strings e) \<Longrightarrow> fits (Suc d) (evidence_json e)"
  unfolding evidence_json_def by (rule fits_fields) (simp add: valid_utf8_ascii_Cons byte_def evidence_strings_def)

lemma list_all_concat_map: "list_all P (concat (map f xs)) \<longleftrightarrow> list_all (\<lambda>x. list_all P (f x)) xs"
  by (induction xs) simp_all

lemma fits_evidences:
  "list_all valid_utf8 (claim_strings c) \<Longrightarrow> list_all (fits (Suc d)) (map evidence_json (cm_Evidence c))"
  by (rule list_all_map_imp [where P = "\<lambda>e. list_all valid_utf8 (evidence_strings e)"])
    (simp_all add: claim_strings_def list_all_concat_map fits_evidence)

lemma fits_claim: "list_all valid_utf8 (claim_strings c) \<Longrightarrow> fits (Suc (Suc (Suc d))) (claim_json c)"
  unfolding claim_json_def
  by (rule fits_fields) (use fits_evidences [of c] fits_object [of "cm_Object c"] in
    \<open>simp add: valid_utf8_ascii_Cons byte_def claim_strings_def\<close>)

lemma fits_producer: "list_all valid_utf8 (producer_strings p) \<Longrightarrow> fits (Suc d) (producer_json p)"
  unfolding producer_json_def by (rule fits_fields) (simp add: valid_utf8_ascii_Cons byte_def producer_strings_def)

lemma fits_artifact: "valid_utf8 (ia_Mode a) \<Longrightarrow> valid_utf8 (ia_URI a) \<Longrightarrow> fits (Suc d) (artifact_json a)"
  unfolding artifact_json_def by (rule fits_fields) (simp add: valid_utf8_ascii_Cons byte_def)

lemma fits_source: "list_all valid_utf8 (source_strings (Some s)) \<Longrightarrow> fits (Suc (Suc d)) (source_json s)"
  unfolding source_json_def
  by (rule fits_fields) (simp add: valid_utf8_ascii_Cons byte_def source_strings_def fits_artifact)

lemma fits_batch:
  assumes "list_all valid_utf8 (batch_strings b)"
  shows "fits (Suc (Suc (Suc (Suc (Suc d))))) (batch_json b)"
proof -
  have c: "list_all (fits (Suc (Suc (Suc d)))) (map claim_json (ib_Claims b))"
    by (rule list_all_map_imp [where P = "\<lambda>c. list_all valid_utf8 (claim_strings c)"])
      (use assms in \<open>simp_all add: batch_strings_def list_all_concat_map fits_claim\<close>)
  have s: "opt_fits (Suc (Suc (Suc (Suc d)))) (map_option source_json (ib_Source b))"
    using assms fits_source by (cases "ib_Source b") (simp_all add: batch_strings_def)
  have p: "fits (Suc (Suc (Suc (Suc d)))) (producer_json (ib_Producer b))"
    using assms fits_producer by (simp add: batch_strings_def)
  have v: "valid_utf8 (ib_Schema b)" "valid_utf8 (ib_Profile b)" using assms by (simp_all add: batch_strings_def)
  show ?thesis
    unfolding batch_json_def by (rule fits_fields) (simp add: valid_utf8_ascii_Cons byte_def c s p v)
qed

section \<open>The canonical document determines the batch\<close>

lemma object_json_inject [simp]: "object_json x = object_json y \<longleftrightarrow> x = y"
  by (auto simp: object_json_def struct_json_inject)

lemma evidence_json_inject [simp]: "evidence_json x = evidence_json y \<longleftrightarrow> x = y"
  by (auto simp: evidence_json_def struct_json_inject)

lemma confidence_json_inject [simp]: "confidence_json x = confidence_json y \<longleftrightarrow> x = y"
  by (cases x; cases y) (auto simp: confidence_json_def format_uint_inj word_unat_eq_iff)

lemma inj_maps [simp]: "map evidence_json xs = map evidence_json ys \<longleftrightarrow> xs = ys"
  by (rule inj_map_eq_map) (simp add: inj_def)

lemma claim_json_inject [simp]: "claim_json x = claim_json y \<longleftrightarrow> x = y"
  by (auto simp: claim_json_def struct_json_inject)

lemma producer_json_inject [simp]: "producer_json x = producer_json y \<longleftrightarrow> x = y"
  by (auto simp: producer_json_def struct_json_inject)

lemma artifact_json_inject [simp]: "artifact_json x = artifact_json y \<longleftrightarrow> x = y"
  by (auto simp: artifact_json_def struct_json_inject)

lemma source_json_inject [simp]: "source_json x = source_json y \<longleftrightarrow> x = y"
  by (auto simp: source_json_def struct_json_inject)

lemma batch_json_inject: "batch_json x = batch_json y \<longleftrightarrow> x = y"
proof
  assume "batch_json x = batch_json y"
  then have "map claim_json (ib_Claims x) = map claim_json (ib_Claims y)"
    "map_option source_json (ib_Source x) = map_option source_json (ib_Source y)"
    "ib_Schema x = ib_Schema y" "ib_Profile x = ib_Profile y" "ib_Producer x = ib_Producer y"
    by (auto simp: batch_json_def struct_json_inject)
  moreover have "inj claim_json" "inj source_json" by (simp_all add: inj_def)
  moreover have "inj (map_option source_json)" by (rule option.inj_map) fact
  ultimately show "x = y" using \<open>inj claim_json\<close> by (simp add: inj_map_eq_map inj_eq)
qed simp

interpretation batch_wire: wire_format "\<lambda>b. list_all valid_utf8 (batch_strings b)" batch_json "\<lambda>b. b"
proof unfold_locales
  fix b :: i_batch
  assume "list_all valid_utf8 (batch_strings b)"
  from fits_batch [OF this, of 0] show "fits max_nesting (batch_json b)"
    by (rule fits_mono) (simp add: max_nesting_def)
qed (simp add: batch_json_inject)

end
