(* ===== verification/Ingest_Request.thy ===== *)
theory Ingest_Request
  imports Ingest_Canonical
begin

text \<open>
  The compiled write as a typed request of the \<open>write\<close> package. \<open>typed_request\<close> says which facts
  a batch stands for: its own description, its manifest, its producer, its source, and for each
  claim a description and, in the trusted profile, the claimed triple. The compiler's body is the
  document of that request, and the typed writer encodes the same bytes exactly when no two claims
  of a trusted batch name the same triple.
\<close>

section \<open>What a batch stands for\<close>

definition ensured :: "string \<Rightarrow> string \<Rightarrow> w_object \<Rightarrow> w_record" where
  "ensured s p x = \<lparr>r_Subject = s, r_Predicate = p, r_Object = x, r_Tense = '''', r_RawText = '''',
     r_Mode = Ensure, r_Expiration = no_deadline\<rparr>"

definition claimed_object :: "i_object \<Rightarrow> w_object" where
  "claimed_object x = (if io_Entity x \<noteq> '''' then Entity (io_Entity x) else Number (of_nat (digits_val (io_U64 x))))"

definition claimed_triple :: "i_claim \<Rightarrow> w_record" where
  "claimed_triple c = ensured (cm_Subject c) (cm_Predicate c) (claimed_object (cm_Object c))"

definition manifest_record :: "i_batch \<Rightarrow> w_record" where
  "manifest_record b = (ensured (batch_entity b) ''ingest:manifest'' (Entity (batch_entity b)))
     \<lparr>r_RawText := render (batch_json b), r_Mode := Append\<rparr>"

definition batch_facts :: "i_batch \<Rightarrow> w_record list" where
  "batch_facts b = [ensured (batch_entity b) ''ingest:is_a'' (Entity ''ingest:batch''),
     ensured (batch_entity b) ''ingest:profile'' (Entity (''ingest:profile:'' @ ib_Profile b)),
     manifest_record b]"

definition producer_facts :: "i_batch \<Rightarrow> w_record list" where
  "producer_facts b = (let producer = producer_entity (ib_Producer b) in
    [ensured (batch_entity b) ''ingest:producer'' (Entity producer),
     ensured producer ''ingest:is_a'' (Entity ''ingest:producer''),
     ensured producer ''ingest:schema_identity'' (Entity (ip_SchemaIdentity (ib_Producer b)))])"

definition source_facts :: "i_batch \<Rightarrow> w_record list" where
  "source_facts b = (case ib_Source b of None \<Rightarrow> [] | Some s \<Rightarrow>
    [ensured (batch_entity b) ''ingest:source'' (Entity (''source:'' @ iu_Digest s)),
     ensured (batch_entity b) ''ingest:artifact_mode'' (Entity (''ingest:artifact:'' @ ia_Mode (iu_Artifact s))),
     ensured (''source:'' @ iu_Digest s) ''ingest:is_a'' (Entity ''ingest:source''),
     ensured (''source:'' @ iu_Digest s) ''ingest:media_type'' (Entity (''media-type:'' @ iu_MediaType s))])"

definition claim_facts :: "i_batch \<Rightarrow> i_claim \<Rightarrow> w_record list" where
  "claim_facts b c = (let claim = claim_entity b c in
    [ensured (batch_entity b) ''ingest:produced'' (Entity claim),
     ensured claim ''ingest:is_a'' (Entity ''ingest:claim''),
     ensured claim ''ingest:initial_status'' (Entity (claim_status b)),
     ensured claim ''ingest:candidate_subject'' (Entity (cm_Subject c)),
     ensured claim ''ingest:candidate_predicate'' (Entity (cm_Predicate c)),
     ensured claim ''ingest:candidate_object'' (claimed_object (cm_Object c))] @
    (case cm_ConfidencePPM c of None \<Rightarrow> [] | Some v \<Rightarrow> [ensured claim ''ingest:confidence_ppm'' (Number v)]) @
    (case ib_Source b of None \<Rightarrow> []
     | Some s \<Rightarrow> [ensured claim ''ingest:supports'' (Entity (''source:'' @ iu_Digest s))]) @
    (if ib_Profile b = ProfileTrustedFacts then [claimed_triple c] else []))"

definition typed_records :: "i_batch \<Rightarrow> w_record list" where
  "typed_records b = batch_facts b @ producer_facts b @ source_facts b @ concat (map (claim_facts b) (ib_Claims b))"

definition typed_request :: "i_batch \<Rightarrow> w_request" where
  "typed_request b = \<lparr>Records = typed_records b, Retractions = [], Corrections = [], Expirations = [],
     Persistences = [], Vocabulary = CreateUnknown, TransactionTime = no_tx_time\<rparr>"

section \<open>The compiler's records are those of the typed request\<close>

fun typed_any :: "any_value \<Rightarrow> w_object" where
  "typed_any (AnyString s) = Entity s"
| "typed_any (AnyUint64 n) = Number n"

definition typed_rec :: "write_rec \<Rightarrow> w_record" where
  "typed_rec r = (ensured (wr_Subject r) (wr_Predicate r) (typed_any (wr_Object r)))
     \<lparr>r_RawText := wr_RawText r, r_Mode := wr_Mode r\<rparr>"

lemma typed_add [simp]:
  "map typed_rec (add_rec s p x rs) = map typed_rec rs @ [ensured s p (typed_any x)]"
  "map typed_rec (add_raw s p x raw rs) =
     map typed_rec rs @ [(ensured s p (typed_any x))\<lparr>r_RawText := raw, r_Mode := Append\<rparr>]"
  by (simp_all add: add_rec_def add_raw_def typed_rec_def ensured_def Ensure_def Append_def)

lemma typed_objectValue: "i_object_ok x \<Longrightarrow> typed_any (objectValue x) = claimed_object x"
proof (cases "io_Entity x = ''''")
  case True
  assume "i_object_ok x"
  with True obtain n where n: "n < 2 ^ 53" "io_U64 x = format_uint n" by (auto simp: i_object_ok_def)
  then have "parse_uint64 (format_uint n) = Some n" by (intro parse_format_uint) simp
  with True n show ?thesis by (simp add: objectValue_def claimed_object_def parse_uint_value_def)
qed (simp add: objectValue_def claimed_object_def)

lemma typed_claim:
  assumes "i_object_ok (cm_Object c)"
  shows "map typed_rec (claim_records b (batch_entity b) (source_entity b) (claim_entity b c) c rs) =
    map typed_rec rs @ claim_facts b c"
proof -
  note x = typed_objectValue [OF assms]
  show ?thesis
    by (cases "ib_Source b"; cases "cm_ConfidencePPM c")
      (simp_all add: claim_records_def claim_facts_def Let_def source_entity_def sourceEntityPrefix_def x
        claimed_triple_def)
qed

lemma typed_claims:
  "list_all (\<lambda>c. i_object_ok (cm_Object c)) cs \<Longrightarrow>
   map typed_rec (fold (\<lambda>c. claim_records b (batch_entity b) (source_entity b) (claim_entity b c) c) cs rs) =
     map typed_rec rs @ concat (map (claim_facts b) cs)"
  by (induction cs arbitrary: rs) (simp_all add: typed_claim)

lemma typed_compiled:
  assumes "list_all (\<lambda>c. i_object_ok (cm_Object c)) (ib_Claims b)"
  shows "map typed_rec (compiled_records b (render (batch_json b)) (batch_entity b)) = typed_records b"
proof -
  have p: "map typed_rec (producer_records b (batch_entity b) (producer_entity (ib_Producer b))
        (batch_records b (render (batch_json b)) (batch_entity b) [])) = batch_facts b @ producer_facts b"
    by (simp add: producer_records_def batch_records_def batch_facts_def producer_facts_def manifest_record_def Let_def)
  have s: "map typed_rec (source_records b (batch_entity b) (source_entity b) rs) = map typed_rec rs @ source_facts b" for rs
    by (cases "ib_Source b") (simp_all add: source_records_def source_facts_def source_entity_def sourceEntityPrefix_def)
  show ?thesis unfolding compiled_records_def typed_claims [OF assms] s p typed_records_def by simp
qed

section \<open>The compiled body is the document of the typed request\<close>

lemma any_json_doc: "any_json x = doc_object (abs_object (typed_any x))"
  by (cases x) (simp_all add: abs_object_def Entity_def Number_def)

lemma writeRecord_doc: "writeRecord_json r = doc_record (abs_record (typed_rec r))"
  by (simp add: writeRecord_json_def abs_record_def typed_rec_def ensured_def any_json_doc abs_deadline_def
      no_deadline_def struct_json_def omit_str_def req_def)

lemma writeRequest_doc:
  "rs \<noteq> [] \<Longrightarrow> map typed_rec rs = Records q \<Longrightarrow> Retractions q = [] \<Longrightarrow> Corrections q = [] \<Longrightarrow> Expirations q = [] \<Longrightarrow>
     Persistences q = [] \<Longrightarrow> Vocabulary q = CreateUnknown \<Longrightarrow> TransactionTime q = no_tx_time \<Longrightarrow>
     writeRequest_json rs = doc_request (abs_request q)"
proof -
  assume rs: "rs \<noteq> []" and m: "map typed_rec rs = Records q"
    and q: "Retractions q = []" "Corrections q = []" "Expirations q = []" "Persistences q = []"
      "Vocabulary q = CreateUnknown" "TransactionTime q = no_tx_time"
  have "map writeRecord_json rs = map doc_record (map abs_record (Records q))"
    unfolding m [symmetric] by (simp add: writeRecord_doc)
  moreover have "Records q \<noteq> []" using rs m by auto
  ultimately show ?thesis using q
    by (simp add: writeRequest_json_def doc_request_def abs_request_def struct_json_def omit_list_def
        encodeVocabulary_def CreateUnknown_def abs_tx_time_def no_tx_time_def req_def)
qed

lemma batch_ok_objects: "batch_ok b \<Longrightarrow> list_all (\<lambda>c. i_object_ok (cm_Object c)) (ib_Claims b)"
  by (auto simp: batch_ok_def claim_ok_def list_all_iff)

lemma compiled_document:
  assumes "batch_ok b"
  shows "cp_write (compiled_of b) = render (doc_request (abs_request (typed_request b)))"
    "cp_RecordCount (compiled_of b) = length (typed_records b)"
proof -
  let ?rs = "compiled_records b (render (batch_json b)) (batch_entity b)"
  have m: "map typed_rec ?rs = typed_records b" by (rule typed_compiled) (rule batch_ok_objects [OF assms])
  then have "map typed_rec ?rs \<noteq> []" by (simp add: typed_records_def batch_facts_def)
  then have n: "?rs \<noteq> []" by blast
  have "writeRequest_json ?rs = doc_request (abs_request (typed_request b))"
    by (rule writeRequest_doc [OF n]) (simp_all add: typed_request_def m)
  then show "cp_write (compiled_of b) = render (doc_request (abs_request (typed_request b)))"
    by (simp add: compiled_of_def Let_def)
  show "cp_RecordCount (compiled_of b) = length (typed_records b)"
    using arg_cong [OF m, of length] by (simp add: compiled_of_def Let_def)
qed

end
