(* ===== verification/Ingest_Refinement.thy ===== *)
theory Ingest_Refinement
  imports Ingest_Request
begin

text \<open>
  The compiled write against the contract of the typed writer. Every record of a valid batch is a
  valid record, and the reserved namespaces keep the two kinds of records apart: the compiler's own
  facts have predicates under \<open>ingest:\<close>, claimed triples have not. So the request is valid exactly
  when no claimed triple is ensured twice, and then the writer encodes the compiler's bytes.
\<close>

section \<open>Provenance and claims are kept apart\<close>

definition own_predicate :: "w_record \<Rightarrow> bool" where
  "own_predicate r \<longleftrightarrow> prefix ''ingest:'' (r_Predicate r)"

definition asserted :: "i_batch \<Rightarrow> w_record list" where
  "asserted b = (if ib_Profile b = ProfileTrustedFacts then map claimed_triple (ib_Claims b) else [])"

lemma own_ensured [simp]: "own_predicate (ensured s p x) = prefix ''ingest:'' p"
  "own_predicate (r\<lparr>r_RawText := u, r_Mode := m\<rparr>) = own_predicate r"
  by (simp_all add: own_predicate_def ensured_def)

lemma user_predicate: "user_label p \<Longrightarrow> \<not> prefix ''ingest:'' p"
  by (simp add: user_label_def reserved_prefixes_def)

lemma own_head: "list_all own_predicate (batch_facts b @ producer_facts b @ source_facts b)"
  by (cases "ib_Source b")
    (simp_all add: batch_facts_def producer_facts_def source_facts_def manifest_record_def Let_def)

text \<open>The facts about a claim, without the claimed triple.\<close>

definition claim_own :: "i_batch \<Rightarrow> i_claim \<Rightarrow> w_record list" where
  "claim_own b c = filter own_predicate (claim_facts b c)"

lemma claim_facts_split:
  assumes "user_label (cm_Predicate c)"
  shows "filter (\<lambda>r. \<not> own_predicate r) (claim_facts b c) =
      (if ib_Profile b = ProfileTrustedFacts then [claimed_triple c] else [])"
    "claim_own b c = (let claim = claim_entity b c in
    [ensured (batch_entity b) ''ingest:produced'' (Entity claim),
     ensured claim ''ingest:is_a'' (Entity ''ingest:claim''),
     ensured claim ''ingest:initial_status'' (Entity (claim_status b)),
     ensured claim ''ingest:candidate_subject'' (Entity (cm_Subject c)),
     ensured claim ''ingest:candidate_predicate'' (Entity (cm_Predicate c)),
     ensured claim ''ingest:candidate_object'' (claimed_object (cm_Object c))] @
    (case cm_ConfidencePPM c of None \<Rightarrow> [] | Some v \<Rightarrow> [ensured claim ''ingest:confidence_ppm'' (Number v)]) @
    (case ib_Source b of None \<Rightarrow> []
     | Some s \<Rightarrow> [ensured claim ''ingest:supports'' (Entity (''source:'' @ iu_Digest s))]))"
  using user_predicate [OF assms]
  by (cases "cm_ConfidencePPM c"; cases "ib_Source b";
      simp add: claim_own_def claim_facts_def Let_def claimed_triple_def)+

lemma filter_list_all: "list_all P xs \<Longrightarrow> filter P xs = xs" "list_all P xs \<Longrightarrow> filter (\<lambda>x. \<not> P x) xs = []"
  by (induction xs) simp_all

lemma asserted_records:
  assumes "list_all (\<lambda>c. user_label (cm_Predicate c)) (ib_Claims b)"
  shows "filter (\<lambda>r. \<not> own_predicate r) (typed_records b) = asserted b"
    "filter own_predicate (typed_records b) = batch_facts b @ producer_facts b @ source_facts b @
       concat (map (claim_own b) (ib_Claims b))"
proof -
  have "filter (\<lambda>r. \<not> own_predicate r) (concat (map (claim_facts b) cs)) =
      (if ib_Profile b = ProfileTrustedFacts then map claimed_triple cs else [])"
    if "list_all (\<lambda>c. user_label (cm_Predicate c)) cs" for cs
    using that by (induction cs) (simp_all add: claim_facts_split)
  with assms filter_list_all(2) [OF own_head [of b]] show
    "filter (\<lambda>r. \<not> own_predicate r) (typed_records b) = asserted b"
    by (simp add: typed_records_def asserted_def)
  have "filter own_predicate (concat (map (claim_facts b) cs)) = concat (map (claim_own b) cs)" for cs
    by (induction cs) (simp_all add: claim_own_def)
  with filter_list_all(1) [OF own_head [of b]] show "filter own_predicate (typed_records b) =
      batch_facts b @ producer_facts b @ source_facts b @ concat (map (claim_own b) (ib_Claims b))"
    by (simp add: typed_records_def)
qed

section \<open>Every record is valid\<close>

lemma label_ok_Cons: "byte c < 128 \<Longrightarrow> label_ok (c # s) = valid_utf8 s"
  by (simp add: label_ok_def valid_utf8_ascii_Cons)

lemma valid_utf8_hex [simp]: "valid_utf8 (hex_encode s)"
proof -
  have "list_all (\<lambda>c. byte c < 128) (hex_encode s)"
    using hex_encode_lower [of s] by (auto simp: list_all_iff is_lower_hex_def)
  then show ?thesis by (rule valid_utf8_ascii)
qed

lemma label_ok_append: "label_ok s \<Longrightarrow> valid_utf8 t \<Longrightarrow> label_ok (s @ t)"
  by (simp add: label_ok_def valid_utf8_append)

lemma label_ok_literals [simp]:
  "label_ok ''sha256:''" "label_ok ''ingestion:''" "label_ok ''producer:sha256:''" "label_ok ''claim:sha256:''"
  by (simp_all add: label_ok_Cons valid_utf8_ascii_Cons byte_def)

lemma entities_ok [simp]: "label_ok (batch_entity b)" "label_ok (producer_entity p)" "label_ok (claim_entity b c)"
proof -
  have d: "label_ok (ingest_digest x)" for x unfolding ingest_digest_def by (rule label_ok_append) simp_all
  show "label_ok (batch_entity b)" unfolding batch_entity_def batchEntityPrefix_def
    by (rule label_ok_append [OF _ conjunct2 [OF d [unfolded label_ok_def]]]) simp
  show "label_ok (producer_entity p)" unfolding producer_entity_def by (rule label_ok_append) simp_all
  show "label_ok (claim_entity b c)" unfolding claim_entity_def claimEntityPrefix_def by (rule label_ok_append) simp_all
qed

lemma ensured_ok: "label_ok s \<Longrightarrow> label_ok p \<Longrightarrow> object_ok x \<Longrightarrow> record_ok (ensured s p x)"
  by (simp add: record_ok_def ensured_def deadline_ok_def no_deadline_def)

lemma Entity_ok [simp]: "object_ok (Entity s) = label_ok s"
  by (simp add: object_ok_def Entity_def)

lemma Number_ok [simp]: "object_ok (Number n) \<longleftrightarrow> unat n < 2 ^ 53"
  by (simp add: object_ok_def Number_def)

lemma claimed_object_ok: "i_object_ok x \<Longrightarrow> valid_utf8 (io_Entity x) \<Longrightarrow> object_ok (claimed_object x)"
proof (cases "io_Entity x = ''''")
  case True
  assume "i_object_ok x"
  with True obtain n where n: "n < 2 ^ 53" "io_U64 x = format_uint n" by (auto simp: i_object_ok_def)
  then have "unat (of_nat n :: u64) = n" by (simp add: unat_of_nat take_bit_nat_eq_self)
  with True n show ?thesis by (simp add: claimed_object_def)
qed (simp add: claimed_object_def label_ok_def)

lemmas label_literals = label_ok_Cons valid_utf8_ascii_Cons byte_def

lemma claim_facts_ok:
  assumes "claim_ok h c" "list_all valid_utf8 (claim_strings c)" "list_all valid_utf8 (source_strings (ib_Source b))"
  shows "list_all record_ok (claim_facts b c)"
proof -
  have l: "label_ok (cm_Subject c)" "label_ok (cm_Predicate c)" "object_ok (claimed_object (cm_Object c))"
    using assms(1,2) claimed_object_ok by (simp_all add: claim_ok_def claim_strings_def label_ok_def)
  have s: "label_ok (claim_status b)" by (simp add: claim_status_def label_literals)
  have v: "list_all record_ok (case cm_ConfidencePPM c of None \<Rightarrow> []
      | Some v \<Rightarrow> [ensured (claim_entity b c) ''ingest:confidence_ppm'' (Number v)])"
    using assms(1) by (auto simp: claim_ok_def label_literals intro!: ensured_ok split: option.splits)
  have u: "list_all record_ok (case ib_Source b of None \<Rightarrow> []
      | Some s \<Rightarrow> [ensured (claim_entity b c) ''ingest:supports'' (Entity (''source:'' @ iu_Digest s))])"
    using assms(3) by (auto simp: source_strings_def label_literals intro!: ensured_ok split: option.splits)
  show ?thesis
    unfolding claim_facts_def Let_def list_all_append
    using l s v u by (auto simp: claimed_triple_def label_literals intro!: ensured_ok)
qed

lemma typed_records_ok:
  assumes "batch_ok b"
  shows "list_all record_ok (typed_records b)"
proof -
  have u: "list_all valid_utf8 (batch_strings b)" using assms by (simp add: batch_ok_def)
  then have utf8: "valid_utf8 (ib_Profile b)" "valid_utf8 (ip_SchemaIdentity (ib_Producer b))"
    "list_all valid_utf8 (source_strings (ib_Source b))"
    "list_all (\<lambda>c. list_all valid_utf8 (claim_strings c)) (ib_Claims b)"
    by (simp_all add: batch_strings_def producer_strings_def list_all_concat_map)
  have "digest_ok (ip_SchemaIdentity (ib_Producer b))" using assms by (simp add: batch_ok_def producer_ok_def)
  then have d: "label_ok (ip_SchemaIdentity (ib_Producer b))" using utf8 by (auto simp: label_ok_def digest_ok_def)
  have r: "valid_utf8 (render (batch_json b))" by (rule valid_utf8_render) (rule batch_wire.readable [OF u])
  have m: "record_ok (manifest_record b)"
    using r by (simp add: manifest_record_def record_ok_def ensured_def Append_def deadline_ok_def
        no_deadline_def label_literals)
  have h: "list_all record_ok (batch_facts b @ producer_facts b)"
    using m d utf8 by (auto simp: batch_facts_def producer_facts_def Let_def label_literals intro!: ensured_ok)
  have s: "list_all record_ok (source_facts b)"
    using utf8(3) by (auto simp: source_facts_def source_strings_def label_literals intro!: ensured_ok split: option.splits)
  have "list_all (\<lambda>c. list_all record_ok (claim_facts b c)) (ib_Claims b)"
    using assms utf8(3,4) claim_facts_ok unfolding batch_ok_def list_all_iff by blast
  with h s show ?thesis by (simp add: typed_records_def list_all_concat_map)
qed

end
