(* ===== verification/Ingest_Ownership.thy ===== *)
theory Ingest_Ownership
  imports Ingest_Refinement
begin

text \<open>
  When the typed request of a valid batch keeps the ownership rule of the writer. The compiler's
  own facts never target a triple twice: their predicates tell them apart, and the facts about two
  claims are about two claim entities. So only the claimed triples of a trusted batch can collide.
\<close>

section \<open>Targets\<close>

lemma record_claim_simps [simp]:
  "record_claim (ensured s p x) = Some (ClaimExact (s, p) x)" "record_claim (manifest_record b) = None"
  "record_claim (claimed_triple c) = Some (ClaimExact (cm_Subject c, cm_Predicate c) (claimed_object (cm_Object c)))"
  by (simp_all add: record_claim_def ensured_def manifest_record_def claimed_triple_def Ensure_def Append_def Replace_def)

definition targets :: "w_record list \<Rightarrow> own_claim list" where
  "targets rs = List.map_filter record_claim rs"

lemma targets_simps [simp]: "targets [] = []" "targets (r # rs) = (case record_claim r of None \<Rightarrow> targets rs | Some c \<Rightarrow> c # targets rs)"
  "targets (rs @ us) = targets rs @ targets us"
  by (simp_all add: targets_def map_filter_def split: option.split)

fun is_exact :: "own_claim \<Rightarrow> bool" where
  "is_exact (ClaimExact s q) = True" | "is_exact (ClaimSlot s) = False"

lemma conflict_exact: "is_exact c \<Longrightarrow> is_exact d \<Longrightarrow> conflict c d \<longleftrightarrow> c = d"
  by (cases c; cases d) auto

lemma sorted_exact: "list_all is_exact cs \<Longrightarrow> sorted_wrt (\<lambda>c d. \<not> conflict c d) cs \<longleftrightarrow> distinct cs"
proof (induction cs)
  case (Cons c cs)
  then have "(\<forall>d \<in> set cs. \<not> conflict c d) \<longleftrightarrow> c \<notin> set cs" by (auto simp: list_all_iff conflict_exact)
  with Cons show ?case by auto
qed simp

text \<open>The predicate of a target, and the object it is about.\<close>

fun target_predicate :: "own_claim \<Rightarrow> string" where
  "target_predicate (ClaimExact s q) = snd s" | "target_predicate (ClaimSlot s) = snd s"

fun about_claim :: "own_claim \<Rightarrow> w_object" where
  "about_claim (ClaimExact s q) = (if snd s = ''ingest:produced'' then q else Entity (fst s))"
| "about_claim (ClaimSlot s) = Entity (fst s)"

lemma record_claim_predicate: "record_claim r = Some c \<Longrightarrow> target_predicate c = r_Predicate r"
  by (auto simp: record_claim_def split: if_splits)

lemma map_filter_filter:
  assumes "\<And>x c. f x = Some c \<Longrightarrow> Q c = P x"
  shows "List.map_filter f (filter P xs) = filter Q (List.map_filter f xs)"
proof (induction xs)
  case (Cons x xs)
  then show ?case using assms [of x] by (cases "f x") simp_all
qed simp

lemma targets_filter:
  "targets (filter own_predicate rs) = filter (\<lambda>c. prefix ''ingest:'' (target_predicate c)) (targets rs)"
  "targets (filter (\<lambda>r. \<not> own_predicate r) rs) = filter (\<lambda>c. \<not> prefix ''ingest:'' (target_predicate c)) (targets rs)"
proof -
  have p: "record_claim r = Some c \<Longrightarrow> prefix ''ingest:'' (target_predicate c) = own_predicate r" for r c
    using record_claim_predicate [of r c] by (simp only: own_predicate_def)
  show "targets (filter own_predicate rs) = filter (\<lambda>c. prefix ''ingest:'' (target_predicate c)) (targets rs)"
    unfolding targets_def by (rule map_filter_filter) (rule p)
  have n: "record_claim r = Some c \<Longrightarrow> (\<not> prefix ''ingest:'' (target_predicate c)) = (\<not> own_predicate r)" for r c
    using p [of r c] by blast
  show "targets (filter (\<lambda>r. \<not> own_predicate r) rs) = filter (\<lambda>c. \<not> prefix ''ingest:'' (target_predicate c)) (targets rs)"
    unfolding targets_def by (rule map_filter_filter) (rule n)
qed

lemma distinct_filters: "distinct xs \<longleftrightarrow> distinct (filter P xs) \<and> distinct (filter (\<lambda>x. \<not> P x) xs)"
proof
  assume "distinct (filter P xs) \<and> distinct (filter (\<lambda>x. \<not> P x) xs)"
  then show "distinct xs" by (induction xs) (auto simp del: distinct_filter split: if_splits)
qed simp

section \<open>The compiler's own facts\<close>

lemma Entity_inject [simp]: "Entity a = Entity b \<longleftrightarrow> a = b" "Entity a \<noteq> Number n" "Number n \<noteq> Entity a"
  by (simp_all add: Entity_def Number_def)

definition claim_predicates :: "string set" where
  "claim_predicates = {''ingest:produced'', ''ingest:initial_status'', ''ingest:candidate_subject'',
     ''ingest:candidate_predicate'', ''ingest:candidate_object'', ''ingest:confidence_ppm'', ''ingest:supports''}"

definition claim_target :: "own_claim \<Rightarrow> bool" where
  "claim_target c \<longleftrightarrow> target_predicate c \<in> claim_predicates \<or>
     (\<exists>s. c = ClaimExact (s, ''ingest:is_a'') (Entity ''ingest:claim''))"

lemma claim_own_targets:
  assumes "user_label (cm_Predicate c)"
  shows "distinct (targets (claim_own b c))"
    "\<forall>t \<in> set (targets (claim_own b c)). about_claim t = Entity (claim_entity b c) \<and> claim_target t"
  unfolding claim_facts_split(2) [OF assms]
  by (cases "cm_ConfidencePPM c"; cases "ib_Source b"; simp add: Let_def claim_target_def claim_predicates_def)+

lemma targets_concat: "targets (concat rss) = concat (map targets rss)"
  by (induction rss) simp_all

lemma distinct_concat_about:
  assumes "distinct (map k cs)" "\<forall>c \<in> set cs. distinct (g c)"
    and "\<forall>c \<in> set cs. \<forall>t \<in> set (g c). about t = e (k c)" and "inj e"
  shows "distinct (concat (map g cs))"
  using assms(1-3)
proof (induction cs)
  case (Cons c cs)
  have "set (g c) \<inter> set (g d) = {}" if "d \<in> set cs" for d
  proof -
    have "k c \<noteq> k d" using Cons.prems(1) that by auto
    then have "e (k c) \<noteq> e (k d)" using assms(4) by (simp add: inj_eq)
    then show ?thesis using Cons.prems(3) that by fastforce
  qed
  with Cons show ?case by auto
qed simp

lemma head_targets:
  "distinct (targets (batch_facts b @ producer_facts b @ source_facts b))"
  "\<forall>t \<in> set (targets (batch_facts b @ producer_facts b @ source_facts b)). \<not> claim_target t"
  by (cases "ib_Source b"; simp add: batch_facts_def producer_facts_def source_facts_def Let_def claim_target_def
      claim_predicates_def)+

lemma own_targets_distinct:
  assumes "list_all (\<lambda>c. user_label (cm_Predicate c)) (ib_Claims b)" "distinct (map (claim_entity b) (ib_Claims b))"
  shows "distinct (targets (filter own_predicate (typed_records b)))"
proof -
  let ?g = "\<lambda>c. targets (claim_own b c)"
  let ?A = "targets (batch_facts b @ producer_facts b @ source_facts b)" and ?B = "concat (map ?g (ib_Claims b))"
  have g: "distinct (?g c)" "\<forall>t \<in> set (?g c). about_claim t = Entity (claim_entity b c) \<and> claim_target t"
    if "c \<in> set (ib_Claims b)" for c
    using claim_own_targets [of c b] assms(1) that by (auto simp: list_all_iff)
  have "distinct (concat (map ?g (ib_Claims b)))"
    by (rule distinct_concat_about [where k = "claim_entity b" and about = about_claim and e = Entity])
      (use assms(2) g in \<open>auto simp: inj_def\<close>)
  moreover have "\<forall>t \<in> set (concat (map ?g (ib_Claims b))). claim_target t" using g(2) by auto
  then have "set ?A \<inter> set ?B = {}"
    using head_targets(2) [of b] by blast
  ultimately have "distinct (?A @ ?B)" using head_targets(1) [of b] unfolding distinct_append [of ?A ?B] by blast
  moreover have "targets (filter own_predicate (typed_records b)) = ?A @ ?B"
    unfolding asserted_records(2) [OF assms(1)] by (simp add: targets_concat comp_def)
  ultimately show ?thesis by (simp only:)
qed

section \<open>Ownership\<close>

lemma distinct_map_iff:
  "(\<And>x y. x \<in> set xs \<Longrightarrow> y \<in> set xs \<Longrightarrow> f x = f y \<longleftrightarrow> g x = g y) \<Longrightarrow> distinct (map f xs) \<longleftrightarrow> distinct (map g xs)"
  unfolding distinct_map inj_on_def by blast

lemma asserted_targets: "distinct (targets (asserted b)) \<longleftrightarrow> distinct (asserted b)"
proof -
  have t: "targets (map claimed_triple cs) =
      map (\<lambda>c. ClaimExact (cm_Subject c, cm_Predicate c) (claimed_object (cm_Object c))) cs" for cs
    by (induction cs) simp_all
  have "distinct (map claimed_triple cs) \<longleftrightarrow>
      distinct (map (\<lambda>c. ClaimExact (cm_Subject c, cm_Predicate c) (claimed_object (cm_Object c))) cs)" for cs
    by (rule distinct_map_iff) (auto simp: claimed_triple_def ensured_def)
  then show ?thesis by (simp add: asserted_def t)
qed

lemma ensured_fields [simp]: "r_Mode (ensured s p x) = Ensure" "r_Subject (ensured s p x) = s"
  "r_Predicate (ensured s p x) = p" "r_Object (ensured s p x) = x" "r_Expiration (ensured s p x) = no_deadline"
  by (simp_all add: ensured_def)

lemma typed_modes:
  "list_all (\<lambda>r. r_Mode r = Ensure) (producer_facts b @ source_facts b @ concat (map (claim_facts b) cs))"
proof -
  have "list_all (\<lambda>r. r_Mode r = Ensure) (claim_facts b c)" for c
    by (cases "ib_Source b"; cases "cm_ConfidencePPM c") (simp_all add: claim_facts_def Let_def claimed_triple_def)
  then have "list_all (\<lambda>r. r_Mode r = Ensure) (concat (map (claim_facts b) cs))"
    unfolding list_all_concat_map by (simp add: list_all_iff)
  then show ?thesis by (cases "ib_Source b") (simp_all add: producer_facts_def source_facts_def Let_def)
qed

lemma appended_records: "filter (\<lambda>r. r_Mode r = Append) (typed_records b) = [manifest_record b]"
proof -
  have none: "list_all (\<lambda>r. r_Mode r = Ensure) rs \<Longrightarrow> filter (\<lambda>r. r_Mode r = Append) rs = []" for rs :: "w_record list"
    by (induction rs) (simp_all add: Ensure_def Append_def)
  have "filter (\<lambda>r. r_Mode r = Append) (batch_facts b) = [manifest_record b]"
    by (simp add: batch_facts_def manifest_record_def Ensure_def Append_def)
  then show ?thesis unfolding typed_records_def filter_append none [OF typed_modes, unfolded filter_append] by simp
qed

lemma targets_exact: "list_all is_exact (targets (typed_records b))"
proof -
  have "\<forall>r \<in> set (typed_records b). \<forall>c. record_claim r = Some c \<longrightarrow> is_exact c"
  proof -
    have "list_all (\<lambda>r. r_Mode r \<noteq> Replace) (typed_records b)"
    proof -
      have "list_all (\<lambda>r. r_Mode r \<noteq> Replace) (producer_facts b @ source_facts b @ concat (map (claim_facts b) (ib_Claims b)))"
        by (rule list.pred_mono_strong [OF typed_modes]) (simp add: Ensure_def Replace_def)
      then show ?thesis
        by (simp add: typed_records_def batch_facts_def manifest_record_def Ensure_def Append_def Replace_def)
    qed
    then show ?thesis by (auto simp: record_claim_def list_all_iff split: if_splits)
  qed
  then show ?thesis by (auto simp: targets_def list_all_iff map_filter_def)
qed

lemma manifest_free:
  assumes "list_all (\<lambda>c. user_label (cm_Predicate c)) (ib_Claims b)"
  shows "\<forall>c \<in> set (targets (typed_records b)). target_predicate c \<noteq> ''ingest:manifest''"
proof
  fix c assume c: "c \<in> set (targets (typed_records b))"
  have "target_predicate t \<noteq> ''ingest:manifest''" if "t \<in> set (targets (filter own_predicate (typed_records b)))" for t
  proof -
    have "\<forall>t \<in> set (targets (batch_facts b @ producer_facts b @ source_facts b)). target_predicate t \<noteq> ''ingest:manifest''"
      by (cases "ib_Source b") (simp_all add: batch_facts_def producer_facts_def source_facts_def Let_def)
    moreover have "claim_target t \<Longrightarrow> target_predicate t \<noteq> ''ingest:manifest''"
      by (auto simp: claim_target_def claim_predicates_def)
    moreover have "\<forall>t \<in> set (concat (map (\<lambda>c. targets (claim_own b c)) (ib_Claims b))). claim_target t"
      using claim_own_targets(2) assms by (auto simp: list_all_iff)
    ultimately show ?thesis using that unfolding asserted_records(2) [OF assms] by (auto simp: targets_concat)
  qed
  then show "target_predicate c \<noteq> ''ingest:manifest''"
    using c unfolding targets_filter(1) by (cases "prefix ''ingest:'' (target_predicate c)") auto
qed

lemma typed_ownership:
  assumes "batch_ok b"
  shows "ownership_ok (typed_request b) \<longleftrightarrow> distinct (asserted b)"
proof -
  have u: "list_all (\<lambda>c. user_label (cm_Predicate c)) (ib_Claims b)" and d: "distinct (map (claim_entity b) (ib_Claims b))"
    using assms by (auto simp: batch_ok_def claim_ok_def list_all_iff)
  have claims: "request_claims (typed_request b) = targets (typed_records b)"
    by (simp add: request_claims_def typed_request_def targets_def)
  have dest: "destinations (typed_request b) = [destination (manifest_record b)]"
    by (simp add: destinations_def typed_request_def appended_records)
  have free: "\<forall>c \<in> set (targets (typed_records b)). \<not> conflict c (destination (manifest_record b))"
  proof
    fix c assume c: "c \<in> set (targets (typed_records b))"
    then have "is_exact c" "target_predicate c \<noteq> ''ingest:manifest''"
      using targets_exact [of b] manifest_free [OF u] by (auto simp: list_all_iff)
    then show "\<not> conflict c (destination (manifest_record b))"
      by (cases c) (auto simp: destination_def manifest_record_def)
  qed
  have "distinct (targets (typed_records b)) \<longleftrightarrow>
      distinct (targets (filter own_predicate (typed_records b))) \<and> distinct (targets (asserted b))"
    unfolding asserted_records(1) [OF u, symmetric] targets_filter
    by (rule distinct_filters)
  then show ?thesis
    using free unfolding ownership_ok_def claims dest sorted_exact [OF targets_exact]
    by (simp add: own_targets_distinct [OF u d] asserted_targets)
qed

section \<open>Refinement of the typed writer\<close>

lemma typed_write_ok:
  assumes "batch_ok b"
  shows "write_ok (typed_request b) \<longleftrightarrow> distinct (asserted b)"
  using typed_ownership [OF assms] typed_records_ok [OF assms]
  by (simp add: write_ok_def) (simp add: typed_request_def vocabulary_ok_def targeted_facts_def tx_time_ok_def
      no_tx_time_def typed_records_def batch_facts_def)

lemma typed_times: "wf_times (typed_request b)"
proof -
  have t: "wf_time zero_time" by (simp add: zero_time_def wf_time_def)
  have "list_all (\<lambda>r. r_Expiration r = no_deadline) (typed_records b)"
    by (cases "ib_Source b")
      (auto simp: typed_records_def batch_facts_def producer_facts_def source_facts_def claim_facts_def Let_def
        manifest_record_def claimed_triple_def list_all_iff split: option.splits if_splits)
  then have "list_all (\<lambda>r. wf_deadline (r_Expiration r)) (typed_records b)"
    using t by (auto simp: list_all_iff wf_deadline_def no_deadline_def)
  then show ?thesis using t by (simp add: wf_times_def typed_request_def no_tx_time_def)
qed

lemma typed_encode:
  assumes "batch_ok b"
  shows "Encode (typed_request b) = Inr (cp_write (compiled_of b)) \<longleftrightarrow> distinct (asserted b)"
  using Encode_write_ok [OF typed_times] typed_write_ok [OF assms] compiled_document(1) [OF assms] by simp

lemma compiled_parses:
  assumes "batch_ok b"
  shows "json_parse (cp_write (compiled_of b)) = Some (doc_request (abs_request (typed_request b)))"
proof -
  have r: "list_all clean_record (A_records (abs_request (typed_request b)))"
    using typed_records_ok [OF assms] by (auto simp: abs_request_def typed_request_def list_all_iff clean_abs_record)
  then have "clean_request (abs_request (typed_request b))"
    by (simp add: clean_request_def abs_request_def typed_request_def CreateUnknown_def valid_utf8_ascii_Cons byte_def)
  then have "fits max_nesting (doc_request (abs_request (typed_request b)))"
    by (rule fits_mono [OF clean_doc_request [of _ 0]]) (simp add: max_nesting_def)
  then show ?thesis unfolding compiled_document(1) [OF assms] by (intro json_parse_render) (simp_all add: fits_def)
qed

end
