(* ===== verification/Ingest_Strict.thy ===== *)
theory Ingest_Strict
  imports Ingest_Compile Client_Decode
begin

text \<open>
  The strict reader of ingestion batches (\<open>ingest/strict.go\<close>, \<open>Parse\<close> and \<open>ParseAndCompile\<close> of
  \<open>ingest/ingest.go\<close>): the scan for unpaired surrogates, the walk over the token stream of
  \<open>json.Decoder\<close> that finds duplicate keys, deep nesting and nulls, and the decoding with
  \<open>DisallowUnknownFields\<close>. The decoder's token stream is a state machine over the text not yet
  read; its error texts are the parameter \<open>json_text\<close>. The walk has a bound on its recursion, and
  no result when the bound is too small; the laws show that the bound used is never too small.
\<close>

section \<open>Surrogates\<close>

text \<open>\<open>parseJSONHex4\<close>, on a 16-bit word.\<close>

definition hex4_step :: "16 word option \<Rightarrow> char \<Rightarrow> 16 word option" where
  "hex4_step acc c = (case acc of None \<Rightarrow> None | Some value \<Rightarrow> (let value = push_bit 4 value; b = byte c in
     if 48 \<le> b \<and> b \<le> 57 then Some (or value (of_nat (b - 48)))
     else if 97 \<le> b \<and> b \<le> 102 then Some (or value (of_nat (b - 97) + 10))
     else if 65 \<le> b \<and> b \<le> 70 then Some (or value (of_nat (b - 65) + 10))
     else None))"

definition parseJSONHex4 :: "string \<Rightarrow> 16 word option" where
  "parseJSONHex4 s = (if length s \<noteq> 4 then None else foldl hex4_step (Some 0) s)"

definition high_surrogate :: "16 word \<Rightarrow> bool" where "high_surrogate v \<longleftrightarrow> 0xD800 \<le> v \<and> v \<le> 0xDBFF"
definition low_surrogate :: "16 word \<Rightarrow> bool" where "low_surrogate v \<longleftrightarrow> 0xDC00 \<le> v \<and> v \<le> 0xDFFF"

definition unpaired_high :: go_error where
  "unpaired_high = ingest_invalid IngestInvalidUnicode ''input'' ''JSON string contains an unpaired high surrogate''"

definition unpaired_low :: go_error where
  "unpaired_low = ingest_invalid IngestInvalidUnicode ''input'' ''JSON string contains an unpaired low surrogate''"

text \<open>The loop, on the bytes from the index on.\<close>

function reject_surrogates :: "bool \<Rightarrow> bytes \<Rightarrow> go_error option" where
  "reject_surrogates inString [] = None"
| "reject_surrogates inString (c # s) =
     (if c = Quote then reject_surrogates (\<not> inString) s
      else if c = Backslash then
        (if \<not> inString \<or> s = [] then reject_surrogates inString s
         else let e = hd s; r = tl s in
           if e \<noteq> CHR ''u'' \<or> length r < 4 then reject_surrogates inString r
           else case parseJSONHex4 (take 4 r) of
             None \<Rightarrow> reject_surrogates inString r
           | Some value \<Rightarrow> (let q = drop 4 r in
               if high_surrogate value then
                 (if length q < 6 \<or> take 2 q \<noteq> esc ''u'' then Some unpaired_high
                  else case parseJSONHex4 (take 4 (drop 2 q)) of
                    None \<Rightarrow> Some unpaired_high
                  | Some low \<Rightarrow> if \<not> low_surrogate low then Some unpaired_high
                      else reject_surrogates inString (drop 6 q))
               else if low_surrogate value then Some unpaired_low
               else reject_surrogates inString q))
      else reject_surrogates inString s)"
  by pat_completeness auto
termination by (relation "measure (\<lambda>(i, s). length s)") (auto simp: less_Suc_eq_le)

definition rejectUnpairedJSONSurrogates :: "bytes \<Rightarrow> go_error option" where
  "rejectUnpairedJSONSurrogates data = reject_surrogates False data"

section \<open>The token stream of json.Decoder\<close>

datatype token_state = TopValue | ArrayStart | ArrayValue | ArrayComma | ObjectStart | ObjectKey
  | ObjectColon | ObjectValue | ObjectComma

record decoder =
  dc_rest :: string
  dc_state :: token_state
  dc_stack :: "token_state list"

datatype token = Delim char | Scalar json

fun token_value_end :: "token_state \<Rightarrow> token_state" where
  "token_value_end ArrayStart = ArrayComma" | "token_value_end ArrayValue = ArrayComma"
| "token_value_end ObjectValue = ObjectComma" | "token_value_end st = st"

definition token_value_allowed :: "token_state \<Rightarrow> bool" where
  "token_value_allowed st \<longleftrightarrow> st \<in> {TopValue, ArrayStart, ArrayValue, ObjectValue}"

definition read_scalar :: "string \<Rightarrow> (json \<times> string) option" where
  "read_scalar s = (case s of [] \<Rightarrow> None | c # r \<Rightarrow>
     if c = Quote then (case unquote r of None \<Rightarrow> None | Some (t, q) \<Rightarrow> Some (JStr t, q))
     else if c = CHR ''n'' then literal ''null'' JNull s
     else if c = CHR ''t'' then literal ''true'' (JBool True) s
     else if c = CHR ''f'' then literal ''false'' (JBool False) s
     else (case scan_number s of None \<Rightarrow> None | Some (n, q) \<Rightarrow> Some (JNum n, q)))"

definition token_error :: "string \<Rightarrow> go_error" where
  "token_error rest = (if rest = '''' then LibError ''EOF'' else JsonError ''token'' rest)"

definition dec_open :: "char \<Rightarrow> token_state \<Rightarrow> string \<Rightarrow> decoder \<Rightarrow> go_error + (token \<times> decoder)" where
  "dec_open c start r d =
     (if token_value_allowed (dc_state d)
      then Inr (Delim c, \<lparr>dc_rest = r, dc_state = start, dc_stack = dc_state d # dc_stack d\<rparr>)
      else Inl (token_error (c # r)))"

definition dec_close :: "char \<Rightarrow> bool \<Rightarrow> string \<Rightarrow> decoder \<Rightarrow> go_error + (token \<times> decoder)" where
  "dec_close c expected r d =
     (if expected
      then Inr (Delim c, \<lparr>dc_rest = r, dc_state = token_value_end (hd (dc_stack d)), dc_stack = tl (dc_stack d)\<rparr>)
      else Inl (token_error (c # r)))"

definition dec_scalar :: "string \<Rightarrow> decoder \<Rightarrow> go_error + (token \<times> decoder)" where
  "dec_scalar s d =
     (if token_value_allowed (dc_state d) then
        (case read_scalar s of None \<Rightarrow> Inl (JsonError ''value'' s)
         | Some (j, q) \<Rightarrow> Inr (Scalar j, d\<lparr>dc_rest := q, dc_state := token_value_end (dc_state d)\<rparr>))
      else Inl (token_error s))"

definition dec_key :: "string \<Rightarrow> decoder \<Rightarrow> go_error + (token \<times> decoder)" where
  "dec_key r d = (case unquote r of None \<Rightarrow> Inl (JsonError ''key'' r)
     | Some (k, q) \<Rightarrow> Inr (Scalar (JStr k), d\<lparr>dc_rest := q, dc_state := ObjectColon\<rparr>))"

lemma skip_ws_shorter: "skip_ws s = c # r \<Longrightarrow> length r < length s"
  using length_dropWhile_le [of is_space s] by (simp add: skip_ws_def)

text \<open>\<open>Decoder.Token\<close>: a colon or a comma in its place is passed over.\<close>

function dec_token :: "decoder \<Rightarrow> go_error + (token \<times> decoder)" where
  "dec_token d = (case skip_ws (dc_rest d) of
     [] \<Rightarrow> Inl (token_error '''')
   | c # r \<Rightarrow>
       if c = CHR ''['' then dec_open c ArrayStart r d
       else if c = CHR '']'' then dec_close c (dc_state d = ArrayStart \<or> dc_state d = ArrayComma) r d
       else if c = CHR ''{'' then dec_open c ObjectStart r d
       else if c = CHR ''}'' then dec_close c (dc_state d = ObjectStart \<or> dc_state d = ObjectComma) r d
       else if c = CHR '':'' then
         (if dc_state d = ObjectColon then dec_token (d\<lparr>dc_rest := r, dc_state := ObjectValue\<rparr>)
          else Inl (token_error (c # r)))
       else if c = CHR '','' then
         (if dc_state d = ArrayComma then dec_token (d\<lparr>dc_rest := r, dc_state := ArrayValue\<rparr>)
          else if dc_state d = ObjectComma then dec_token (d\<lparr>dc_rest := r, dc_state := ObjectKey\<rparr>)
          else Inl (token_error (c # r)))
       else if c = Quote \<and> (dc_state d = ObjectStart \<or> dc_state d = ObjectKey) then dec_key r d
       else dec_scalar (c # r) d)"
  by pat_completeness auto
termination by (relation "measure (\<lambda>d. length (dc_rest d))") (auto dest: skip_ws_shorter)

declare dec_token.simps [simp del]

text \<open>\<open>Decoder.More\<close>.\<close>

definition dec_more :: "decoder \<Rightarrow> bool" where
  "dec_more d = (case skip_ws (dc_rest d) of [] \<Rightarrow> False | c # r \<Rightarrow> c \<noteq> CHR '']'' \<and> c \<noteq> CHR ''}'')"

section \<open>The walk\<close>

definition appendJSONField :: "string \<Rightarrow> string \<Rightarrow> string" where
  "appendJSONField path k = (if path = '''' then k else path @ ''.'' @ k)"

definition jsonPath :: "string \<Rightarrow> string" where
  "jsonPath path = (if path = '''' then ''input'' else path)"

definition index_path :: "string \<Rightarrow> nat \<Rightarrow> string" where
  "index_path path i = path @ ''['' @ format_uint i @ '']''"

definition invalid_token :: "go_fmt \<Rightarrow> string \<Rightarrow> go_error \<Rightarrow> go_error" where
  "invalid_token f path e = ingest_invalidCause IngestInvalidJSON (jsonPath path) (error_text f e) e"

definition too_deep :: "string \<Rightarrow> go_error" where
  "too_deep path = ingest_invalid IngestMaxDepth (jsonPath path)
     (''JSON nesting exceeds '' @ format_uint MaxJSONDepth @ '' levels'')"

definition duplicate_field :: "go_fmt \<Rightarrow> string \<Rightarrow> string \<Rightarrow> go_error" where
  "duplicate_field f path key = ingest_invalid IngestDuplicateField path (''duplicate field '' @ fmt_q f key)"

definition close_token :: "go_fmt \<Rightarrow> string \<Rightarrow> string \<Rightarrow> decoder \<Rightarrow> go_error + (string \<times> decoder)" where
  "close_token f path np d = (case dec_token d of
     Inl e \<Rightarrow> Inl (invalid_token f path e) | Inr (_, d) \<Rightarrow> Inr (np, d))"

text \<open>\<open>np\<close> is the path of the first null met so far.\<close>

fun walk :: "go_fmt \<Rightarrow> nat \<Rightarrow> nat \<Rightarrow> string \<Rightarrow> string \<Rightarrow> decoder \<Rightarrow> (go_error + (string \<times> decoder)) option"
  and walk_members :: "go_fmt \<Rightarrow> nat \<Rightarrow> nat \<Rightarrow> string \<Rightarrow> string list \<Rightarrow> string \<Rightarrow> decoder \<Rightarrow>
    (go_error + (string \<times> decoder)) option"
  and walk_elems :: "go_fmt \<Rightarrow> nat \<Rightarrow> nat \<Rightarrow> string \<Rightarrow> nat \<Rightarrow> string \<Rightarrow> decoder \<Rightarrow>
    (go_error + (string \<times> decoder)) option" where
  "walk f 0 depth path np d = None"
| "walk f (Suc g) depth path np d =
     (if depth > MaxJSONDepth then Some (Inl (too_deep path))
      else case dec_token d of
        Inl e \<Rightarrow> Some (Inl (invalid_token f path e))
      | Inr (Scalar j, d) \<Rightarrow> Some (Inr (if j = JNull \<and> np = '''' then jsonPath path else np, d))
      | Inr (Delim c, d) \<Rightarrow>
          if c = CHR ''{'' then walk_members f g depth path [] np d
          else if c = CHR ''['' then walk_elems f g depth path 0 np d
          else Some (Inl (ingest_invalid IngestInvalidJSON (jsonPath path)
            (''unexpected delimiter '' @ fmt_q f [c]))))"
| "walk_members f 0 depth path seen np d = None"
| "walk_members f (Suc g) depth path seen np d =
     (if dec_more d then
        (case dec_token d of
           Inl e \<Rightarrow> Some (Inl (invalid_token f path e))
         | Inr (Scalar (JStr key), d) \<Rightarrow>
             (let childPath = appendJSONField path key in
              if key \<in> set seen then Some (Inl (duplicate_field f childPath key))
              else case walk f g (depth + 1) childPath np d of
                None \<Rightarrow> None
              | Some (Inl e) \<Rightarrow> Some (Inl e)
              | Some (Inr (np, d)) \<Rightarrow> walk_members f g depth path (key # seen) np d)
         | Inr (_, d) \<Rightarrow> Some (Inl (ingest_invalid IngestInvalidJSON (jsonPath path) ''object key is not a string'')))
      else Some (close_token f path np d))"
| "walk_elems f 0 depth path i np d = None"
| "walk_elems f (Suc g) depth path i np d =
     (if dec_more d then
        (case walk f g (depth + 1) (index_path path i) np d of
           None \<Rightarrow> None
         | Some (Inl e) \<Rightarrow> Some (Inl e)
         | Some (Inr (np, d)) \<Rightarrow> walk_elems f g depth path (i + 1) np d)
      else Some (close_token f path np d))"

definition new_decoder :: "bytes \<Rightarrow> decoder" where
  "new_decoder data = \<lparr>dc_rest = data, dc_state = TopValue, dc_stack = []\<rparr>"

definition walk_bound :: "bytes \<Rightarrow> nat" where
  "walk_bound data = 2 * length data + 2"

definition inspect_walk :: "go_fmt \<Rightarrow> bytes \<Rightarrow> (go_error + (string \<times> decoder)) option" where
  "inspect_walk f data = walk f (walk_bound data) 1 '''' '''' (new_decoder data)"

definition inspectJSON :: "go_fmt \<Rightarrow> bytes \<Rightarrow> go_error + string" where
  "inspectJSON f data = (case the (inspect_walk f data) of Inl e \<Rightarrow> Inl e | Inr (np, _) \<Rightarrow> Inr np)"

end
