(* ===== verification/Ingest_Parse.thy ===== *)
theory Ingest_Parse
  imports Ingest_Strict
begin

text \<open>
  Decoding with \<open>DisallowUnknownFields\<close> into the batch, and what is built on it: \<open>decodeStrict\<close>,
  \<open>Parse\<close> and \<open>ParseAndCompile\<close>. \<open>encoding/json\<close> goes on after a mismatch and reports the first
  one; a mismatch names the struct fields on the way to it, an unknown member its key.
\<close>

section \<open>Strict decoders\<close>

datatype strict_error = TypeMismatch "string list" | UnknownField string

type_synonym 's sdec = "string list \<Rightarrow> json \<Rightarrow> 's \<Rightarrow> 's \<times> strict_error option"
type_synonym 's sfields = "(string \<times> 's sdec) list"

definition or_error :: "strict_error option \<Rightarrow> strict_error option \<Rightarrow> strict_error option" where
  "or_error e e' = (case e of None \<Rightarrow> e' | Some _ \<Rightarrow> e)"

definition sdec_string :: "string sdec" where
  "sdec_string stack j s = (case j of JStr t \<Rightarrow> (t, None) | JNull \<Rightarrow> (s, None) | _ \<Rightarrow> (s, Some (TypeMismatch stack)))"

definition sdec_uint64 :: "u64 sdec" where
  "sdec_uint64 stack j s = (case j of
     JNum n \<Rightarrow> (if all_digits n \<and> digits_val n < 2 ^ 64 then (of_nat (digits_val n), None)
       else (s, Some (TypeMismatch stack)))
   | JNull \<Rightarrow> (s, None) | _ \<Rightarrow> (s, Some (TypeMismatch stack)))"

definition sdec_ptr :: "'a sdec \<Rightarrow> 'a \<Rightarrow> 'a option sdec" where
  "sdec_ptr d zero stack j s = (if j = JNull then (None, None)
     else let (v, e) = d stack j (case s of None \<Rightarrow> zero | Some v \<Rightarrow> v) in (Some v, e))"

text \<open>
  A slice with its memory: the visible elements are the first \<open>gs_Len\<close> cells, and the cells after
  them, the spare capacity, hold what was decoded there before the slice was shortened. Memory that
  a growing slice gets is zero, so the cells listed are enough. \<open>encoding/json\<close> decodes the elements of
  an array over the cells the slice has, visible or spare, and sets the length to the elements read;
  an empty array and a null give a slice without memory.
\<close>

record 'a go_slice =
  gs_Len :: nat
  gs_Mem :: "'a list"

definition gs_Elems :: "'a go_slice \<Rightarrow> 'a list" where
  "gs_Elems s = take (gs_Len s) (gs_Mem s)"

definition gs_nil :: "'a go_slice" where
  "gs_nil = \<lparr>gs_Len = 0, gs_Mem = []\<rparr>"

fun sdec_cells :: "'a sdec \<Rightarrow> 'a \<Rightarrow> string list \<Rightarrow> json list \<Rightarrow> 'a list \<Rightarrow> 'a list \<times> strict_error option" where
  "sdec_cells d zero stack [] xs = (xs, None)"
| "sdec_cells d zero stack (j # js) xs =
     (let (v, e) = d stack j (case xs of [] \<Rightarrow> zero | x # _ \<Rightarrow> x);
          (vs, es) = sdec_cells d zero stack js (tl xs)
      in (v # vs, or_error e es))"

definition sdec_slice :: "'a sdec \<Rightarrow> 'a \<Rightarrow> 'a go_slice sdec" where
  "sdec_slice d zero stack j s = (case j of
     JArr js \<Rightarrow> (if js = [] then (gs_nil, None)
       else let (xs, e) = sdec_cells d zero stack js (gs_Mem s) in (\<lparr>gs_Len = length js, gs_Mem = xs\<rparr>, e))
   | JNull \<Rightarrow> (gs_nil, None) | _ \<Rightarrow> (s, Some (TypeMismatch stack)))"

definition sfield :: "string \<Rightarrow> ('s \<Rightarrow> 'a) \<Rightarrow> (('a \<Rightarrow> 'a) \<Rightarrow> 's \<Rightarrow> 's) \<Rightarrow> 'a sdec \<Rightarrow> string \<times> 's sdec" where
  "sfield name get upd d = (name, \<lambda>stack j s. let (x, e) = d (stack @ [name]) j (get s) in (upd (\<lambda>_. x) s, e))"

definition find_sfield :: "'s sfields \<Rightarrow> string \<Rightarrow> 's sdec option" where
  "find_sfield fs k = (case map_of fs k of
     Some d \<Rightarrow> Some d
   | None \<Rightarrow> map_option snd (find (\<lambda>f. fold_name (fst f) = fold_name k) fs))"

fun sdec_members :: "'s sfields \<Rightarrow> string list \<Rightarrow> (string \<times> json) list \<Rightarrow> 's \<Rightarrow> 's \<times> strict_error option" where
  "sdec_members fs stack [] s = (s, None)"
| "sdec_members fs stack ((k, j) # ms) s =
     (let (s', e) = (case find_sfield fs k of None \<Rightarrow> (s, Some (UnknownField k)) | Some d \<Rightarrow> d stack j s);
          (s'', es) = sdec_members fs stack ms s'
      in (s'', or_error e es))"

definition sdec_struct :: "'s sfields \<Rightarrow> 's sdec" where
  "sdec_struct fs stack j s = (case j of JObj ms \<Rightarrow> sdec_members fs stack ms s | JNull \<Rightarrow> (s, None)
     | _ \<Rightarrow> (s, Some (TypeMismatch stack)))"

section \<open>The batch\<close>

definition object_fields :: "i_object sfields" where
  "object_fields = [sfield ''entity'' io_Entity io_Entity_update sdec_string, sfield ''u64'' io_U64 io_U64_update sdec_string]"

definition zero_i_object :: i_object where "zero_i_object = \<lparr>io_Entity = '''', io_U64 = ''''\<rparr>"

definition evidence_fields :: "i_evidence sfields" where
  "evidence_fields = [sfield ''locator'' ev_Locator ev_Locator_update sdec_string,
     sfield ''quote'' ev_Quote ev_Quote_update sdec_string]"

definition zero_evidence :: i_evidence where "zero_evidence = \<lparr>ev_Locator = '''', ev_Quote = ''''\<rparr>"

text \<open>A claim and a batch while they are decoded: as \<open>i_claim\<close> and \<open>i_batch\<close>, their slices with memory.\<close>

record claim_cell =
  cc_ExternalID :: string
  cc_Subject :: string
  cc_Predicate :: string
  cc_Object :: i_object
  cc_ConfidencePPM :: "u64 option"
  cc_Evidence :: "i_evidence go_slice"

definition claim_fields :: "claim_cell sfields" where
  "claim_fields =
    [sfield ''external_id'' cc_ExternalID cc_ExternalID_update sdec_string,
     sfield ''subject'' cc_Subject cc_Subject_update sdec_string,
     sfield ''predicate'' cc_Predicate cc_Predicate_update sdec_string,
     sfield ''object'' cc_Object cc_Object_update (sdec_struct object_fields),
     sfield ''confidence_ppm'' cc_ConfidencePPM cc_ConfidencePPM_update (sdec_ptr sdec_uint64 0),
     sfield ''evidence'' cc_Evidence cc_Evidence_update (sdec_slice (sdec_struct evidence_fields) zero_evidence)]"

definition zero_claim :: claim_cell where
  "zero_claim = \<lparr>cc_ExternalID = '''', cc_Subject = '''', cc_Predicate = '''', cc_Object = zero_i_object,
     cc_ConfidencePPM = None, cc_Evidence = gs_nil\<rparr>"

definition claim_of :: "claim_cell \<Rightarrow> i_claim" where
  "claim_of c = \<lparr>cm_ExternalID = cc_ExternalID c, cm_Subject = cc_Subject c, cm_Predicate = cc_Predicate c,
     cm_Object = cc_Object c, cm_ConfidencePPM = cc_ConfidencePPM c, cm_Evidence = gs_Elems (cc_Evidence c)\<rparr>"

definition producer_fields :: "i_producer sfields" where
  "producer_fields =
    [sfield ''name'' ip_Name ip_Name_update sdec_string, sfield ''version'' ip_Version ip_Version_update sdec_string,
     sfield ''run_id'' ip_RunID ip_RunID_update sdec_string,
     sfield ''schema_identity'' ip_SchemaIdentity ip_SchemaIdentity_update sdec_string]"

definition zero_producer :: i_producer where
  "zero_producer = \<lparr>ip_Name = '''', ip_Version = '''', ip_RunID = '''', ip_SchemaIdentity = ''''\<rparr>"

definition artifact_fields :: "i_artifact sfields" where
  "artifact_fields = [sfield ''mode'' ia_Mode ia_Mode_update sdec_string, sfield ''uri'' ia_URI ia_URI_update sdec_string]"

definition source_fields :: "i_source sfields" where
  "source_fields =
    [sfield ''digest'' iu_Digest iu_Digest_update sdec_string,
     sfield ''media_type'' iu_MediaType iu_MediaType_update sdec_string,
     sfield ''artifact'' iu_Artifact iu_Artifact_update (sdec_struct artifact_fields)]"

definition zero_source :: i_source where
  "zero_source = \<lparr>iu_Digest = '''', iu_MediaType = '''', iu_Artifact = \<lparr>ia_Mode = '''', ia_URI = ''''\<rparr>\<rparr>"

record batch_cell =
  bc_Schema :: string
  bc_Profile :: string
  bc_Producer :: i_producer
  bc_Source :: "i_source option"
  bc_Claims :: "claim_cell go_slice"

definition batch_fields :: "batch_cell sfields" where
  "batch_fields =
    [sfield ''schema'' bc_Schema bc_Schema_update sdec_string,
     sfield ''profile'' bc_Profile bc_Profile_update sdec_string,
     sfield ''producer'' bc_Producer bc_Producer_update (sdec_struct producer_fields),
     sfield ''source'' bc_Source bc_Source_update (sdec_ptr (sdec_struct source_fields) zero_source),
     sfield ''claims'' bc_Claims bc_Claims_update (sdec_slice (sdec_struct claim_fields) zero_claim)]"

definition zero_batch :: batch_cell where
  "zero_batch = \<lparr>bc_Schema = '''', bc_Profile = '''', bc_Producer = zero_producer, bc_Source = None, bc_Claims = gs_nil\<rparr>"

definition batch_of :: "batch_cell \<Rightarrow> i_batch" where
  "batch_of c = \<lparr>ib_Schema = bc_Schema c, ib_Profile = bc_Profile c, ib_Producer = bc_Producer c,
     ib_Source = bc_Source c, ib_Claims = map claim_of (gs_Elems (bc_Claims c))\<rparr>"

text \<open>The value decoded into a zero batch.\<close>

definition decode_batch :: "json \<Rightarrow> i_batch \<times> strict_error option" where
  "decode_batch j = map_prod batch_of id (sdec_struct batch_fields [] j zero_batch)"

section \<open>decodeStrict\<close>

text \<open>\<open>bytes.TrimSpace\<close> leaves nothing: every rune is Unicode white space.\<close>

definition space_runes :: "nat list list" where
  "space_runes = map (\<lambda>b. [b]) [9, 10, 11, 12, 13, 32] @ [[0xC2, 0x85], [0xC2, 0xA0], [0xE1, 0x9A, 0x80]] @
     map (\<lambda>b. [0xE2, 0x80, b]) ([0x80..<0x8B] @ [0xA8, 0xA9, 0xAF]) @ [[0xE2, 0x81, 0x9F], [0xE3, 0x80, 0x80]]"

function blank :: "bytes \<Rightarrow> bool" where
  "blank [] = True"
| "blank (c # s) = (case rune_len (c # s) of None \<Rightarrow> False
     | Some n \<Rightarrow> map byte (take n (c # s)) \<in> set space_runes \<and> blank (drop (n - 1) s))"
  by pat_completeness auto
termination by (relation "measure length") auto

definition join_path :: "string list \<Rightarrow> string" where
  "join_path xs = (case xs of [] \<Rightarrow> '''' | x # xs \<Rightarrow> x @ concat (map (\<lambda>y. CHR ''.'' # y) xs))"

definition unknown_prefix :: string where
  "unknown_prefix = ''json: unknown field '' @ [Quote]"

definition trim_prefix :: "string \<Rightarrow> string \<Rightarrow> string" where
  "trim_prefix p s = (if prefix p s then drop (length p) s else s)"

definition trim_suffix :: "string \<Rightarrow> string \<Rightarrow> string" where
  "trim_suffix p s = (if suffix p s then take (length s - length p) s else s)"

definition decode_failure :: "go_fmt \<Rightarrow> bytes \<Rightarrow> strict_error \<Rightarrow> go_error" where
  "decode_failure f data e = (case e of
     TypeMismatch stack \<Rightarrow> (let err = JsonError (join_path stack) data; path = join_path stack in
       ingest_invalidCause IngestInvalidJSON (if path = '''' then ''input'' else path) (error_text f err) err)
   | UnknownField key \<Rightarrow> (let text = ''json: unknown field '' @ fmt_q f key; err = LibError text in
       if prefix unknown_prefix text \<and> suffix [Quote] text
       then let field' = trim_suffix [Quote] (trim_prefix unknown_prefix text) in
         ingest_invalidCause IngestUnknownField field'
           (''unknown field '' @ fmt_q f field' @ '' is not part of joeydb.ingestion/v1'') err
       else ingest_invalidCause IngestInvalidJSON ''input'' text err))"

text \<open>One value of the decoder's input, and what follows it.\<close>

definition decode_value :: "bytes \<Rightarrow> (json \<times> string) option" where
  "decode_value data = parse_value (2 * length data + 1) max_nesting data"

text \<open>The second \<open>Decode\<close> fails with \<open>io.EOF\<close> exactly when only white space is left.\<close>

definition trailing_content :: "string \<Rightarrow> go_error option" where
  "trailing_content rest = (if skip_ws rest = '''' then None else Some (IngestValidationError
     (ingest_code_string IngestTrailingContent) ''input'' ''trailing content after object''
     (case decode_value rest of Some _ \<Rightarrow> None | None \<Rightarrow> Some (JsonError ''trailing'' rest))))"

definition decodeStrict :: "go_fmt \<Rightarrow> bytes \<Rightarrow> go_error + i_batch" where
  "decodeStrict f data =
     check_then (fail_when (blank data) (ingest_invalid IngestInvalidJSON ''input'' ''body must not be empty''))
     (check_then (fail_when (\<not> valid_utf8 data)
        (ingest_invalid IngestInvalidUTF8 ''input'' ''input must contain valid UTF-8''))
     (check_then (rejectUnpairedJSONSurrogates data)
     (bind_r (inspectJSON f data) (\<lambda>nullPath.
       case decode_value data of
         None \<Rightarrow> Inl (ingest_invalidCause IngestInvalidJSON ''input'' (error_text f (JsonError ''batch'' data)) (JsonError ''batch'' data))
       | Some (j, rest) \<Rightarrow> (let (batch, e) = decode_batch j in
           check_then (map_option (decode_failure f data) e)
           (check_then (trailing_content rest)
           (check_then (fail_when (nullPath \<noteq> '''') (ingest_invalid IngestExplicitNull nullPath ''explicit null is not allowed''))
           (Inr batch))))))))"

section \<open>Parse\<close>

definition input_too_large :: go_error where
  "input_too_large = ingest_invalid IngestInputTooLarge ''input''
     (''ingestion batch exceeds the '' @ format_uint MaxInputBytes @ ''-byte input limit'')"

definition ingest_Parse :: "go_fmt \<Rightarrow> bytes \<Rightarrow> go_error + i_batch" where
  "ingest_Parse f data =
     check_then (fail_when (length data > MaxInputBytes) input_too_large)
     (bind_r (decodeStrict f data) (\<lambda>batch.
      check_then (IngestValidate f batch) (Inr batch)))"

definition ParseAndCompile :: "go_fmt \<Rightarrow> bytes \<Rightarrow> go_error + (i_batch \<times> compiled)" where
  "ParseAndCompile f data = bind_r (ingest_Parse f data) (\<lambda>batch.
     bind_r (compileValidated f batch False) (\<lambda>compiled. Inr (batch, compiled)))"

end
