(* ===== verification/Client_Ingestion.thy ===== *)
theory Client_Ingestion
  imports Client_Preflight_Laws Client_Receipt Ingest_Ownership Ingest_Parse
begin

text \<open>
  Ingestion through a session (\<open>ingestion.go\<close>): \<open>Ingest\<close> compiles before any mutation and submits
  the compiled bytes under a key derived from the digest of the canonical batch. The receipt's
  decoder is the one of the session's own check with one more field, so a decoded receipt is the
  receipt the session checked.
\<close>

section \<open>The receipt\<close>

definition IngestionReceiptSchemaV1 :: string where
  "IngestionReceiptSchemaV1 = ''joeydb.ingestion-receipt/v1''"

record ingestion_receipt =
  ir_Schema :: string
  ir_BatchDigest :: string
  ir_Profile :: string
  ir_Committed :: bool
  ir_Replayed :: bool
  ir_LogIdentity :: string
  ir_Watermark :: int
  ir_RecordsRequested :: nat
  ir_CompiledWriteDigest :: string
  ir_AdvertisedDurability :: string
  ir_AdvertisedSyncLevel :: string
  ir_IdempotencyKey :: string
  ir_RequestID :: string

record write_response =
  wp_Committed :: bool
  wp_Watermark :: int
  wp_LogIdentity :: string

definition write_response_fields :: "write_response fields" where
  "write_response_fields =
    [field ''committed'' wp_Committed wp_Committed_update dec_bool,
     field ''watermark'' wp_Watermark wp_Watermark_update (dec_uint 64),
     field ''log_identity'' wp_LogIdentity wp_LogIdentity_update dec_string]"

definition zero_write_response :: write_response where
  "zero_write_response = \<lparr>wp_Committed = False, wp_Watermark = 0, wp_LogIdentity = ''''\<rparr>"

definition decode_write_response :: "bytes \<Rightarrow> write_response \<times> bool" where
  "decode_write_response body = unmarshal (dec_struct write_response_fields) zero_write_response body"

definition write_response_dest :: out_dest where
  "write_response_dest = Some (\<lambda>body. if snd (decode_write_response body) then Some (JsonError ''receipt'' body) else None)"

section \<open>Submission\<close>

definition trim_sha256 :: "string \<Rightarrow> string" where
  "trim_sha256 s = (if prefix ''sha256:'' s then drop 7 s else s)"

definition ingestion_key :: "'w session \<Rightarrow> compiled \<Rightarrow> string" where
  "ingestion_key s c = i_RequiredKeyPrefix (w_Idempotency (c_Write (se_capabilities s))) @ ''ingest:'' @
     trim_sha256 (cp_BatchDigest c)"

definition ingestion_receipt_of :: "'w session \<Rightarrow> string \<Rightarrow> compiled \<Rightarrow> response \<Rightarrow> ingestion_receipt" where
  "ingestion_receipt_of s profile c r = (let w = fst (decode_write_response (resp_Body r)); node = c_Node (se_capabilities s) in
     \<lparr>ir_Schema = IngestionReceiptSchemaV1, ir_BatchDigest = cp_BatchDigest c, ir_Profile = profile,
      ir_Committed = wp_Committed w, ir_Replayed = resp_Replayed r, ir_LogIdentity = wp_LogIdentity w,
      ir_Watermark = wp_Watermark w, ir_RecordsRequested = cp_RecordCount c,
      ir_CompiledWriteDigest = cp_WriteDigest c, ir_AdvertisedDurability = n_Durability node,
      ir_AdvertisedSyncLevel = n_SyncLevel node, ir_IdempotencyKey = ingestion_key s c,
      ir_RequestID = resp_RequestID r\<rparr>)"

text \<open>The result \<open>Inr None\<close> is a panic: the code would dereference a nil response. The retry loop
  has one without an error only when no attempt is allowed, and a session allows at least one.\<close>

definition submitIngestion :: "go_fmt \<Rightarrow> 'w session \<Rightarrow> 'w ctx \<Rightarrow> string \<Rightarrow> compiled \<Rightarrow> request_option option list \<Rightarrow>
    'w net \<Rightarrow> (go_error + ingestion_receipt option) \<times> 'w net" where
  "submitIngestion f s ctx profile c opts n =
     (let limit = l_MaxJSONRequestBytes (c_Limits (se_capabilities s));
          idem = w_Idempotency (c_Write (se_capabilities s)); key = ingestion_key s c
      in if cp_WriteSize c > limit then (Inl (RequestTooLargeError (cp_WriteSize c) limit), n)
         else case validateKeySyntax f key (i_MaxKeyBytes idem) (i_RequiredKeyPrefix idem) of
           Some e \<Rightarrow> (Inl (GoWrap ''joeydb: derived ingestion key'' e), n)
         | None \<Rightarrow> (case writeExact f s ctx (Some (cp_WriteBytes c)) key write_response_dest False opts n of
             ((_, Some e), n) \<Rightarrow> (Inl e, n)
           | ((r, None), n) \<Rightarrow> (Inr (map_option (ingestion_receipt_of s profile c) r), n)))"

definition not_preflighted_ingestion :: go_error where
  "not_preflighted_ingestion = CapabilityError ''session was not preflighted for ingestion''"

definition Ingest :: "go_fmt \<Rightarrow> 'w session \<Rightarrow> 'w ctx \<Rightarrow> i_batch \<Rightarrow> request_option option list \<Rightarrow>
    'w net \<Rightarrow> (go_error + ingestion_receipt option) \<times> 'w net" where
  "Ingest f s ctx b opts n =
     (if \<not> rq_Ingestion (se_requirements s) then (Inl not_preflighted_ingestion, n)
      else case ingest_Compile f b of
        Inl e \<Rightarrow> (Inl (GoWrap ''joeydb: invalid ingestion batch'' e), n)
      | Inr compiled \<Rightarrow> submitIngestion f s ctx (ib_Profile b) compiled opts n)"

definition IngestJSON :: "go_fmt \<Rightarrow> 'w session \<Rightarrow> 'w ctx \<Rightarrow> bytes \<Rightarrow> request_option option list \<Rightarrow>
    'w net \<Rightarrow> (go_error + ingestion_receipt option) \<times> 'w net" where
  "IngestJSON f s ctx data opts n =
     (if \<not> rq_Ingestion (se_requirements s) then (Inl not_preflighted_ingestion, n)
      else case ParseAndCompile f data of
        Inl e \<Rightarrow> (Inl (GoWrap ''joeydb: invalid ingestion batch'' e), n)
      | Inr (b, compiled) \<Rightarrow> submitIngestion f s ctx (ib_Profile b) compiled opts n)"

section \<open>The decoded receipt is the checked one\<close>

definition as_receipt :: "write_response \<Rightarrow> receipt" where
  "as_receipt w = \<lparr>rc_Committed = wp_Committed w, rc_LogIdentity = wp_LogIdentity w\<rparr>"

lemma ingestion_agree: "agrees as_receipt write_response_fields receipt_fields"
proof -
  have "distinct (map (\<lambda>f. fold_name (fst f)) write_response_fields)" by code_simp
  then show ?thesis
    unfolding agrees_def
    by (simp add: write_response_fields_def receipt_fields_def field_def as_receipt_def split_beta)
qed

lemma receipt_agrees:
  "fst (unmarshal (dec_struct receipt_fields) zero_receipt body) = as_receipt (fst (decode_write_response body))"
proof -
  have z: "zero_receipt = as_receipt zero_write_response"
    by (simp add: zero_receipt_def zero_write_response_def as_receipt_def)
  show ?thesis unfolding z decode_write_response_def by (rule agrees_unmarshal [OF ingestion_agree])
qed

end
