(* ===== verification/Client_Ingestion_Laws.thy ===== *)
theory Client_Ingestion_Laws
  imports Client_Ingestion
begin

text \<open>
  What an ingestion does with the keyed write under it: either it is refused before any I/O, or it
  is the keyed write of the compiled bytes under the derived key.
\<close>

section \<open>Refused, or one keyed write\<close>

definition ingestion_admitted :: "go_fmt \<Rightarrow> 'w session \<Rightarrow> i_batch \<Rightarrow> compiled \<Rightarrow> bool" where
  "ingestion_admitted f s b c \<longleftrightarrow> rq_Ingestion (se_requirements s) \<and> ingest_Compile f b = Inr c \<and>
     cp_WriteSize c \<le> l_MaxJSONRequestBytes (c_Limits (se_capabilities s)) \<and>
     wire_key (w_Idempotency (c_Write (se_capabilities s))) (ingestion_key s c)"

definition ingestion_write :: "go_fmt \<Rightarrow> 'w session \<Rightarrow> 'w ctx \<Rightarrow> compiled \<Rightarrow> request_option option list \<Rightarrow> 'w net \<Rightarrow>
    (response option \<times> go_error option) \<times> 'w net" where
  "ingestion_write f s ctx c opts n =
     writeExact f s ctx (Some (cp_WriteBytes c)) (ingestion_key s c) write_response_dest False opts n"

lemma Ingest_refused:
  assumes "\<forall>c. \<not> ingestion_admitted f s b c"
  shows "\<exists>e. Ingest f s ctx b opts n = (Inl e, n)"
proof (cases "rq_Ingestion (se_requirements s)")
  case True
  show ?thesis
  proof (cases "ingest_Compile f b")
    case (Inr c)
    then have "\<not> ingestion_admitted f s b c" using assms by blast
    with True Inr show ?thesis
      by (auto simp: Ingest_def submitIngestion_def ingestion_admitted_def Let_def wire_key_syntax [symmetric, where f = f]
          split: option.split)
  qed (simp add: Ingest_def)
qed (simp add: Ingest_def)

lemma Ingest_admitted:
  assumes "ingestion_admitted f s b c"
  shows "Ingest f s ctx b opts n = (case ingestion_write f s ctx c opts n of
      ((_, Some e), n) \<Rightarrow> (Inl e, n)
    | ((r, None), n) \<Rightarrow> (Inr (map_option (ingestion_receipt_of s (ib_Profile b) c) r), n))"
  using assms by (simp add: Ingest_def submitIngestion_def ingestion_admitted_def Let_def
      wire_key_syntax [symmetric, where f = f] ingestion_write_def)

section \<open>The derived key\<close>

lemma trim_ingest_digest [simp]: "trim_sha256 (ingest_digest x) = hex_encode (sha256 x)"
  by (simp add: trim_sha256_def ingest_digest_def)

lemma ingestion_key_of:
  "ingestion_key s (compiled_of b) = i_RequiredKeyPrefix (w_Idempotency (c_Write (se_capabilities s))) @ ''ingest:'' @
     hex_encode (sha256 (render (batch_json b)))"
  by (simp add: ingestion_key_def compiled_of_def Let_def)

lemma ingest_literal_wire: "list_all wire_char ''ingest:''"
  by (simp add: wire_char_def)

lemma derived_key_room:
  assumes "session_ok s" "rq_Ingestion (se_requirements s)"
  shows "wire_key (w_Idempotency (c_Write (se_capabilities s))) (ingestion_key s (compiled_of b)) \<longleftrightarrow>
    int (length (i_RequiredKeyPrefix (w_Idempotency (c_Write (se_capabilities s))))) + 71 \<le>
      i_MaxKeyBytes (w_Idempotency (c_Write (se_capabilities s)))"
proof -
  let ?i = "w_Idempotency (c_Write (se_capabilities s))"
  have w: "writable_ok (cl_MaxResponseBytes (se_client s)) (se_capabilities s)"
    using assms by (auto simp: session_ok_def Let_def)
  then have p: "list_all wire_char (i_RequiredKeyPrefix ?i)" "i_MaxKeyBytes ?i \<le> 128"
    by (auto simp: writable_ok_def Let_def)
  have l: "length (ingestion_key s (compiled_of b)) = length (i_RequiredKeyPrefix ?i) + 71"
    by (simp add: ingestion_key_of)
  have c: "list_all wire_char (ingestion_key s (compiled_of b))"
    using p(1) hex_wire_all ingest_literal_wire by (simp add: ingestion_key_of)
  have x: "strict_prefix (i_RequiredKeyPrefix ?i) (ingestion_key s (compiled_of b))"
    by (simp add: ingestion_key_of strict_prefix_def)
  show ?thesis using l c x p(2) by (auto simp: wire_key_def validWireToken_def)
qed

end
