(* ===== verification/Ingest_Properties.thy ===== *)
theory Ingest_Properties
  imports Ingest_Ownership
begin

text \<open>
  The properties of the \<open>ingest\<close> package. The witnesses compile a batch of one claim; no digest
  is evaluated in them.
\<close>

section \<open>A batch of one claim\<close>

definition demo_producer :: i_producer where
  "demo_producer = \<lparr>ip_Name = ''extractor'', ip_Version = ''1.2.0'', ip_RunID = ''run-7'',
     ip_SchemaIdentity = ''sha256:0123456789abcdef0123456789abcdef0123456789abcdef0123456789abcdef''\<rparr>"

definition demo_claim :: i_claim where
  "demo_claim = \<lparr>cm_ExternalID = ''c-1'', cm_Subject = ''joey'', cm_Predicate = ''likes'',
     cm_Object = ingest_Entity ''eucalyptus'', cm_ConfidencePPM = ConfidencePPM 900000, cm_Evidence = []\<rparr>"

definition demo_batch :: i_batch where
  "demo_batch = NewTrustedFacts demo_producer [demo_claim]"

lemmas demo_defs = demo_batch_def demo_producer_def demo_claim_def NewTrustedFacts_def newBatch_def
  ingest_Entity_def ConfidencePPM_def

definition demo_proposals :: i_batch where
  "demo_proposals = NewKnowledgeProposals demo_producer [demo_claim]"

lemma demo_producer_ok: "producer_ok demo_producer"
proof -
  have "ValidSHA256Identity (ip_SchemaIdentity demo_producer)" by code_simp
  moreover have "bounded MaxLabelBytes (ip_Name demo_producer) \<and> bounded MaxLabelBytes (ip_Version demo_producer) \<and>
      bounded MaxLabelBytes (ip_RunID demo_producer)" by code_simp
  ultimately show ?thesis by (simp add: producer_ok_def ValidSHA256Identity_iff)
qed

lemma demo_claim_ok: "claim_ok False demo_claim"
proof -
  have "user_label ''eucalyptus''" "user_label ''joey''" "user_label ''likes''" "bounded MaxLabelBytes ''c-1''"
    by code_simp+
  then show ?thesis
    by (simp add: claim_ok_def demo_claim_def i_object_ok_def ingest_Entity_def ConfidencePPM_def)
qed

lemma demo_batches_ok: "batch_ok demo_batch" "batch_ok demo_proposals"
proof -
  have u: "list_all valid_utf8 (batch_strings demo_batch)" "list_all valid_utf8 (batch_strings demo_proposals)"
    by code_simp+
  show "batch_ok demo_batch"
    using u(1) demo_producer_ok demo_claim_ok
    by (simp add: batch_ok_def) (simp add: demo_batch_def NewTrustedFacts_def newBatch_def MaxClaims_def)
  show "batch_ok demo_proposals"
    using u(2) demo_producer_ok demo_claim_ok
    by (simp add: batch_ok_def) (simp add: demo_proposals_def NewKnowledgeProposals_def newBatch_def MaxClaims_def)
qed

lemma demo_fits: "fits_input demo_batch" "fits_input demo_proposals"
  by code_simp+

lemma demo_compiles: "ingest_Compile f demo_batch = Inr (compiled_of demo_batch)"
  "ingest_Compile f demo_proposals = Inr (compiled_of demo_proposals)"
  by (simp_all add: Compile_ok demo_batches_ok demo_fits)

section \<open>Validation and compilation\<close>

text \<open>C25. \<open>Validate\<close> accepts exactly the batches of the declarative contract: valid UTF-8, the schema
  and a known profile, a complete producer, an optional well-formed source, between one and
  4096 valid claims, no external identifier twice and no claim twice.\<close>

theorem ingest_validate_exact: "IngestValidate f b = None \<longleftrightarrow> batch_ok b"
  by (rule IngestValidate_None)

text \<open>C26. \<open>Compile\<close> succeeds exactly on the valid batches whose canonical document fits the input
  limit. The early size check, which sums field lengths before anything is validated, never
  refuses a batch that would fit, and the compiler's own duplicate check never fires.\<close>

theorem ingest_compile_exact:
  "(\<exists>c. ingest_Compile f b = Inr c) \<longleftrightarrow> batch_ok b \<and> length (render (batch_json b)) \<le> MaxInputBytes"
  by (auto simp: Compile_ok fits_input_def)

text \<open>C22. The compiled body is the typed writer's: it is the document of the request that lists the
  facts the batch stands for, with one record for each, and \<open>write.Request.Encode\<close> gives the
  same bytes for that request exactly when no claimed triple is ensured twice.\<close>

theorem compile_refines_writer:
  assumes "ingest_Compile f b = Inr c"
  shows "cp_WriteBytes c = render (doc_request (abs_request (typed_request b))) \<and>
    cp_RecordCount c = length (Records (typed_request b)) \<and>
    (Encode (typed_request b) = Inr (cp_WriteBytes c) \<longleftrightarrow> distinct (asserted b))"
proof -
  have b: "batch_ok b" "c = compiled_of b" using assms by (simp_all add: Compile_ok)
  show ?thesis
    using compiled_document [OF b(1)] typed_encode [OF b(1)] b(2)
    by (simp add: cp_WriteBytes_def) (simp add: typed_request_def)
qed

theorem compile_refines_writer_witness:
  "Encode (typed_request demo_batch) = Inr (cp_WriteBytes (compiled_of demo_batch))"
proof -
  have "distinct (asserted demo_batch)" by (simp add: asserted_def demo_batch_def NewTrustedFacts_def newBatch_def)
  then show ?thesis using compile_refines_writer [OF demo_compiles(1)] by blast
qed

text \<open>C23. A batch of proposals asserts no claim. The server reads the compiled body back as a request
  whose records outside the compiler's namespace are exactly the claimed triples, in order, for
  the trusted profile, and none for proposals; it retracts, corrects, expires and persists
  nothing. A claim cannot forge the compiler's own facts.\<close>

theorem compile_asserts_only_claims:
  assumes "ingest_Compile f b = Inr c"
  shows "\<exists>a. json_parse (cp_WriteBytes c) = Some (doc_request a) \<and>
    filter (\<lambda>r. \<not> prefix ''ingest:'' (a_predicate r)) (A_records a) =
      (if ib_Profile b = ProfileTrustedFacts then map (\<lambda>c. abs_record (claimed_triple c)) (ib_Claims b) else []) \<and>
    A_retractions a = [] \<and> A_corrections a = [] \<and> A_expirations a = [] \<and> A_persistences a = []"
proof -
  have b: "batch_ok b" "c = compiled_of b" using assms by (simp_all add: Compile_ok)
  then have u: "list_all (\<lambda>c. user_label (cm_Predicate c)) (ib_Claims b)"
    by (auto simp: batch_ok_def claim_ok_def list_all_iff)
  let ?a = "abs_request (typed_request b)"
  have "filter (\<lambda>r. \<not> prefix ''ingest:'' (a_predicate r)) (map abs_record rs) = map abs_record (filter (\<lambda>r. \<not> own_predicate r) rs)" for rs
    by (induction rs) (simp_all add: own_predicate_def abs_record_def)
  then have "filter (\<lambda>r. \<not> prefix ''ingest:'' (a_predicate r)) (A_records ?a) = map abs_record (asserted b)"
    using asserted_records(1) [OF u] by (simp add: abs_request_def typed_request_def)
  then have "filter (\<lambda>r. \<not> prefix ''ingest:'' (a_predicate r)) (A_records ?a) =
      (if ib_Profile b = ProfileTrustedFacts then map (\<lambda>c. abs_record (claimed_triple c)) (ib_Claims b) else [])"
    by (simp add: asserted_def)
  moreover have "json_parse (cp_WriteBytes c) = Some (doc_request ?a)"
    using compiled_parses [OF b(1)] b(2) by (simp add: cp_WriteBytes_def)
  moreover have "A_retractions ?a = []" "A_corrections ?a = []" "A_expirations ?a = []" "A_persistences ?a = []"
    by (simp_all add: abs_request_def typed_request_def)
  ultimately show ?thesis by blast
qed

theorem compile_asserts_only_claims_witness:
  "\<exists>a. json_parse (cp_WriteBytes (compiled_of demo_batch)) = Some (doc_request a) \<and>
    filter (\<lambda>r. \<not> prefix ''ingest:'' (a_predicate r)) (A_records a) =
      [ARecord ''joey'' ''likes'' (AEntity ''eucalyptus'') '''' '''' ''ensure'' ANever]"
proof -
  have "map (\<lambda>c. abs_record (claimed_triple c)) (ib_Claims demo_batch) =
      [ARecord ''joey'' ''likes'' (AEntity ''eucalyptus'') '''' '''' ''ensure'' ANever]"
    by code_simp
  moreover have "ib_Profile demo_batch = ProfileTrustedFacts" by (simp add: demo_defs)
  ultimately show ?thesis using compile_asserts_only_claims [OF demo_compiles(1)] by auto
qed

text \<open>C32. The canonical bytes of a compiled batch read back to its document and determine the batch, so
  two compiled batches have the same digest exactly when they are the same batch or their
  canonical bytes are a SHA-256 collision.\<close>

theorem canonical_determines_batch:
  assumes "ingest_Compile f a = Inr c" "ingest_Compile f b = Inr d"
  shows "json_parse (cp_CanonicalBytes c) = Some (batch_json a) \<and>
    (cp_CanonicalBytes c = cp_CanonicalBytes d \<longleftrightarrow> a = b) \<and>
    (cp_BatchDigest c = cp_BatchDigest d \<longleftrightarrow> sha256 (cp_CanonicalBytes c) = sha256 (cp_CanonicalBytes d))"
proof -
  have ok: "batch_ok a" "c = compiled_of a" "batch_ok b" "d = compiled_of b" using assms by (simp_all add: Compile_ok)
  then have u: "list_all valid_utf8 (batch_strings a)" "list_all valid_utf8 (batch_strings b)"
    by (simp_all add: batch_ok_def)
  show ?thesis
    using batch_wire.reads_back [OF u(1)] batch_wire.determines [OF u] ok
    by (simp add: cp_CanonicalBytes_def compiled_of_def Let_def ingest_digest_def hex_encode_inj)
qed

theorem canonical_determines_batch_witness:
  "json_parse (cp_CanonicalBytes (compiled_of demo_batch)) = Some (batch_json demo_batch) \<and>
   cp_CanonicalBytes (compiled_of demo_batch) \<noteq> cp_CanonicalBytes (compiled_of demo_proposals)"
proof -
  have "demo_batch \<noteq> demo_proposals"
    by (simp add: demo_batch_def demo_proposals_def NewTrustedFacts_def NewKnowledgeProposals_def newBatch_def
        ProfileTrustedFacts_def ProfileKnowledgeProposals_def)
  then show ?thesis using canonical_determines_batch [OF demo_compiles] by blast
qed

end
