(* ===== verification/Client_Preflight_Properties.thy ===== *)
theory Client_Preflight_Properties
  imports Client_Fixtures Client_Ingestion_Laws Ingest_Properties
begin

text \<open>
  The properties of the preflight, of the refusals before any I/O, and of one attempt. The
  witnesses run the preflight against a scripted server with a full capability document.
\<close>

section \<open>A capability document\<close>

definition demo_manifest :: http_outcome where
  "demo_manifest = answer 200 [] (''{\"schema_version\":1,\"protocol\":\"joeydb-agent-http\",\"protocol_version\":\"3\",''
     @ ''\"node\":{\"role\":\"primary\",\"writes_allowed\":true,\"durability\":\"commit\",\"sync_level\":\"os\"},''
     @ ''\"limits\":{\"max_json_request_bytes\":1000},''
     @ ''\"query\":{\"find\":[\"facts\"],\"consistency\":[\"strict\"],\"optimize_modes\":[\"auto\"]},''
     @ ''\"write\":{\"write\":[\"facts\"],\"operations\":[\"record\"],\"record_modes\":[\"ensure\"],''
     @ ''\"vocabulary_modes\":[\"create\"],\"idempotency\":{\"supported\":true,\"key_header\":\"Idempotency-Key\",''
     @ ''\"replay_header\":\"Idempotency-Replayed\",\"body_identity\":\"sha256_exact_body_bytes\",''
     @ ''\"required_key_prefix\":\"e1:\",\"max_key_bytes\":64,\"response_max_bytes\":500}},''
     @ ''\"errors\":{\"schema_version\":1,\"request_id_header\":\"X-Request-ID\",''
     @ ''\"body_fields\":[\"code\",\"error\",\"request_id\",\"retryable\"]},''
     @ ''\"safety\":{\"machine_error_codes\":true,\"request_correlation\":true,\"write_idempotency\":true}}'')"

definition big_client :: "script client" where
  "big_client = demo_client\<lparr>cl_MaxResponseBytes := 2000\<rparr>"

definition ingest_requirements :: "script requirements" where
  "ingest_requirements = \<lparr>rq_Writable = False, rq_Ingestion = True, rq_Retry = ConservativeRetryPolicy\<rparr>"

definition demo_require :: "script \<Rightarrow> (go_error + script session) \<times> script net" where
  "demo_require w = Require demo_fmt big_client (Some demo_ctx) ingest_requirements [] (demo_net w)"

lemma demo_require_ok:
  "\<exists>s n'. demo_require [demo_manifest, demo_identity] = (Inr s, n') \<and>
    i_RequiredKeyPrefix (w_Idempotency (c_Write (se_capabilities s))) = ''e1:'' \<and>
    i_MaxKeyBytes (w_Idempotency (c_Write (se_capabilities s))) = 64"
proof -
  have "case fst (demo_require [demo_manifest, demo_identity]) of Inl e \<Rightarrow> False
    | Inr s \<Rightarrow> i_RequiredKeyPrefix (w_Idempotency (c_Write (se_capabilities s))) = ''e1:'' \<and>
        i_MaxKeyBytes (w_Idempotency (c_Write (se_capabilities s))) = 64"
    by code_simp
  then show ?thesis by (cases "demo_require [demo_manifest, demo_identity]") (auto split: sum.splits)
qed

section \<open>Preflight\<close>

text \<open>C10. The preflight establishes the invariant of a session: an accepted node, the write and
  ingestion contracts it asked for, a well-formed pinned log identity and between one and ten
  attempts; it keeps the client and the requirements it was given and costs at most two
  requests, none of them a POST.\<close>

theorem require_establishes_session:
  assumes "Require f cl ctx rq opts n = (Inr s, n')"
  shows "session_ok s \<and> se_client s = cl \<and> se_requirements s = rq \<and>
    (\<exists>evs. nt_trace n' = nt_trace n @ evs \<and> length evs \<le> 2 \<and> (\<forall>ev \<in> set evs. \<not> is_post ev))"
  using Require_session [OF assms] Require_events [of f cl ctx rq opts n] assms by simp

theorem require_establishes_session_witness:
  "\<exists>s. fst (demo_require [demo_manifest, demo_identity]) = Inr s \<and> session_ok s"
proof -
  obtain s n' where "demo_require [demo_manifest, demo_identity] = (Inr s, n')"
    using demo_require_ok by blast
  then show ?thesis
    using require_establishes_session [of demo_fmt big_client "Some demo_ctx" ingest_requirements "[]"
      "demo_net [demo_manifest, demo_identity]" s n']
    by (auto simp: demo_require_def)
qed

text \<open>C11. A session that was preflighted for writes has room for keys: some one-character suffix
  resolves to a key of the advertised contract, so its writes are never all refused.\<close>

theorem session_has_key:
  assumes "session_ok s" "rq_Writable (se_requirements s) \<or> rq_Ingestion (se_requirements s)"
  shows "\<exists>v. resolveWriteKey f (w_Idempotency (c_Write (se_capabilities s))) (KeySuffix v) =
    Inr (i_RequiredKeyPrefix (w_Idempotency (c_Write (se_capabilities s))) @ v)"
  using assms usable_key by (auto simp: session_ok_def Let_def)

theorem session_has_key_witness:
  "\<exists>s v. fst (demo_require [demo_manifest, demo_identity]) = Inr s \<and>
    resolveWriteKey demo_fmt (w_Idempotency (c_Write (se_capabilities s))) (KeySuffix v) =
    Inr (i_RequiredKeyPrefix (w_Idempotency (c_Write (se_capabilities s))) @ v)"
proof -
  obtain s n' where s: "demo_require [demo_manifest, demo_identity] = (Inr s, n')"
    using demo_require_ok by blast
  have "session_ok s" "rq_Ingestion (se_requirements s)"
    using Require_session [OF s [unfolded demo_require_def]] by (simp_all add: ingest_requirements_def)
  then show ?thesis using session_has_key [of s demo_fmt] s by auto
qed

text \<open>C34. A session preflighted for ingestion has room for the derived keys exactly when the advertised
  key limit leaves 71 bytes after the required prefix. The preflight does not check this: the
  witness is a session it accepts for ingestion in which every batch is refused.\<close>

theorem ingestion_key_room:
  assumes "session_ok s" "rq_Ingestion (se_requirements s)" "ingest_Compile f b = Inr c"
  shows "wire_key (w_Idempotency (c_Write (se_capabilities s))) (ingestion_key s c) \<longleftrightarrow>
    int (length (i_RequiredKeyPrefix (w_Idempotency (c_Write (se_capabilities s))))) + 71 \<le>
      i_MaxKeyBytes (w_Idempotency (c_Write (se_capabilities s)))"
  using derived_key_room [OF assms(1,2)] assms(3) by (auto simp: Compile_ok)

theorem ingestion_key_room_witness:
  "\<exists>s. fst (demo_require [demo_manifest, demo_identity]) = Inr s \<and>
    \<not> wire_key (w_Idempotency (c_Write (se_capabilities s))) (ingestion_key s (compiled_of demo_batch))"
proof -
  obtain s n' where s: "demo_require [demo_manifest, demo_identity] = (Inr s, n')"
    and k: "i_RequiredKeyPrefix (w_Idempotency (c_Write (se_capabilities s))) = ''e1:''"
      "i_MaxKeyBytes (w_Idempotency (c_Write (se_capabilities s))) = 64"
    using demo_require_ok by blast
  have "session_ok s" "rq_Ingestion (se_requirements s)"
    using Require_session [OF s [unfolded demo_require_def]] by (simp_all add: ingest_requirements_def)
  then show ?thesis
    using ingestion_key_room [of s demo_fmt demo_batch "compiled_of demo_batch"] demo_compiles(1) s k by simp
qed

section \<open>Refusals before any I/O\<close>

text \<open>C12. A keyed write on a session that was not preflighted for writes, under a key that is no wire
  key of the contract, or with a body above the advertised limit is refused without touching
  the outside, with an error that is not reported as a possible commit.\<close>

theorem write_exact_refused:
  assumes "\<not> rq_Writable (se_requirements s) \<and> \<not> rq_Ingestion (se_requirements s) \<or>
    \<not> wire_key (w_Idempotency (c_Write (se_capabilities s))) key \<or>
    l_MaxJSONRequestBytes (c_Limits (se_capabilities s)) < int (length (body_bytes body))"
  shows "\<exists>e. WriteExact f s ctx body key out opts n = ((None, Some e), n) \<and>
    ei_Kind (Classify f (Some e)) \<in> {KindCapability, KindInvalidKey, KindRequestTooLarge} \<and>
    \<not> ei_MayHaveCommitted (Classify f (Some e))"
  using writeExact_refused [OF assms, of f ctx out True opts n] refusal_kind
  unfolding WriteExact_def by blast

theorem write_exact_refused_witness:
  "\<exists>e. WriteExact demo_fmt demo_session demo_ctx (Some ''{}'') ''k'' None [] (demo_net [demo_receipt])
      = ((None, Some e), demo_net [demo_receipt]) \<and>
    ei_Kind (Classify demo_fmt (Some e)) \<in> {KindCapability, KindInvalidKey, KindRequestTooLarge}"
proof -
  have "\<not> wire_key (w_Idempotency (c_Write (se_capabilities demo_session))) ''k''" by code_simp
  then show ?thesis
    using write_exact_refused [of demo_session "''k''" "Some ''{}''" demo_fmt demo_ctx None "[]"
      "demo_net [demo_receipt]"] by blast
qed

section \<open>One attempt\<close>

text \<open>C13. One attempt sends at most one request, with the given body within the local limit and a
  request identifier that is a wire token, and the body it keeps of an answer is a prefix of
  what the server sent, within the limit for that status.\<close>

theorem client_do_bounded:
  assumes "client_do f c ctx m path body key opts n = (a, n')"
    and "0 \<le> cl_MaxResponseBytes c" "0 \<le> cl_MaxErrorBodyBytes c"
  shows "nt_trace n' = nt_trace n \<and> attempt_response a = None \<or>
    (\<exists>rq res. nt_trace n' = nt_trace n @ [Sent rq res] \<and> hq_Body rq = body \<and>
       int (length (body_bytes body)) \<le> cl_MaxRequestBytes c \<and>
       validWireToken (header_Get RequestIDHeader (hq_Header rq)) \<and>
       (\<forall>r. attempt_response a = Some r \<longrightarrow> (\<exists>b. res = HttpAnswered b \<and> prefix (resp_Body r) (ha_Body b) \<and>
          int (length (resp_Body r)) \<le> read_limit c (resp_Status r))))"
  using client_do_request [OF assms(1)] receive_bounded [OF assms(2,3)] by metis

theorem client_do_bounded_witness:
  "\<exists>rq res. nt_trace (snd (client_do demo_fmt demo_client (Some demo_ctx) ''POST'' ''/write'' (Some ''{}'') ''''
      [] (demo_net [demo_receipt]))) = [Sent rq res] \<and>
    validWireToken (header_Get RequestIDHeader (hq_Header rq))"
proof -
  let ?d = "client_do demo_fmt demo_client (Some demo_ctx) ''POST'' ''/write'' (Some ''{}'') '''' [] (demo_net [demo_receipt])"
  have l: "length (nt_trace (snd ?d)) = 1" and b: "0 \<le> cl_MaxResponseBytes demo_client"
    "0 \<le> cl_MaxErrorBodyBytes demo_client"
    by code_simp+
  then show ?thesis
    using client_do_bounded [of demo_fmt demo_client "Some demo_ctx" "''POST''" "''/write''" "Some ''{}''" "''''"
      "[]" "demo_net [demo_receipt]" "fst ?d" "snd ?d"]
    by (auto simp: demo_net_def)
qed


end
