(* ===== verification/Query_Types.thy ===== *)
theory Query_Types
  imports Go_Strings
begin

text \<open>
  The types of the \<open>query\<close> package (\<open>query/types.go\<close>, \<open>query/errors.go\<close>): the positions and
  numeric bounds of a filter, the returns, and the request with its validation error. String
  types of the source are strings, so that a caller's arbitrary value is in the model; private
  tags are datatypes with one constructor for every undeclared value. Go's \<open>int\<close> and \<open>uint64\<close>
  are 64-bit words, read signed or unsigned.
\<close>

section \<open>Validation errors\<close>

datatype query_code =
    QueryDuplicateValue | QueryIncompatibleFields | QueryInvalidIdentity | QueryInvalidLimit
  | QueryInvalidOffset | QueryInvalidOrder | QueryInvalidUTF8 | QueryMissingField
  | QueryResultShapeMismatch | QueryUnsafeMatchAll | QueryUnsupportedValue

fun query_code_string :: "query_code \<Rightarrow> string" where
  "query_code_string QueryDuplicateValue = ''duplicate_value''"
| "query_code_string QueryIncompatibleFields = ''incompatible_fields''"
| "query_code_string QueryInvalidIdentity = ''invalid_identity''"
| "query_code_string QueryInvalidLimit = ''invalid_limit''"
| "query_code_string QueryInvalidOffset = ''invalid_offset''"
| "query_code_string QueryInvalidOrder = ''invalid_order''"
| "query_code_string QueryInvalidUTF8 = ''invalid_utf8''"
| "query_code_string QueryMissingField = ''missing_field''"
| "query_code_string QueryResultShapeMismatch = ''result_shape_mismatch''"
| "query_code_string QueryUnsafeMatchAll = ''unsafe_match_all''"
| "query_code_string QueryUnsupportedValue = ''unsupported_value''"

record query_error =
  qe_Code :: query_code
  qe_Path :: string
  qe_Detail :: string

definition query_invalid :: "query_code \<Rightarrow> string \<Rightarrow> string \<Rightarrow> query_error" where
  "query_invalid code path detail = \<lparr>qe_Code = code, qe_Path = path, qe_Detail = detail\<rparr>"

definition query_error_text :: "query_error \<Rightarrow> string" where
  "query_error_text e = ''query: validation failed path='' @ qe_Path e @ '' code='' @
     query_code_string (qe_Code e) @ '': '' @ qe_Detail e"

section \<open>Filters\<close>

record label_set =
  ls_set :: bool
  ls_values :: "string list"

definition Labels :: "string list \<Rightarrow> label_set" where
  "Labels values = \<lparr>ls_set = True, ls_values = values\<rparr>"

definition no_labels :: label_set where
  "no_labels = \<lparr>ls_set = False, ls_values = []\<rparr>"

record numeric_bound =
  nb_set :: bool
  nb_value :: u64

definition Bound :: "u64 \<Rightarrow> numeric_bound" where
  "Bound value = \<lparr>nb_set = True, nb_value = value\<rparr>"

definition no_bound :: numeric_bound where
  "no_bound = \<lparr>nb_set = False, nb_value = 0\<rparr>"

record numeric_range =
  nr_GT :: numeric_bound
  nr_GTE :: numeric_bound
  nr_LT :: numeric_bound
  nr_LTE :: numeric_bound

record q_where =
  wh_Subject :: label_set
  wh_Predicate :: label_set
  wh_Object :: label_set
  wh_ObjectNumber :: "numeric_range option"
  wh_all :: bool

definition zero_where :: q_where where
  "zero_where = \<lparr>wh_Subject = no_labels, wh_Predicate = no_labels, wh_Object = no_labels,
     wh_ObjectNumber = None, wh_all = False\<rparr>"

definition All :: q_where where "All = zero_where\<lparr>wh_all := True\<rparr>"

section \<open>Returns\<close>

type_synonym fact_inclusion = "8 word"

definition DefaultFacts :: fact_inclusion where "DefaultFacts = 0"
definition IncludeFacts :: fact_inclusion where "IncludeFacts = 1"
definition ExcludeFacts :: fact_inclusion where "ExcludeFacts = 2"

type_synonym shape = string

definition ShapeColumnar :: shape where "ShapeColumnar = ''columnar''"
definition ShapeDocument :: shape where "ShapeDocument = ''document''"
definition ShapeGraph :: shape where "ShapeGraph = ''graph''"
definition ShapeKV :: shape where "ShapeKV = ''kv''"
definition ShapeTable :: shape where "ShapeTable = ''table''"

lemmas shape_defs [code_defs] = ShapeColumnar_def ShapeDocument_def ShapeGraph_def ShapeKV_def ShapeTable_def
lemmas inclusion_defs [code_defs] = DefaultFacts_def IncludeFacts_def ExcludeFacts_def

record q_return =
  qr_shape :: shape
  qr_inclusion :: fact_inclusion
  qr_invalid :: bool

definition makeReturn :: "shape \<Rightarrow> fact_inclusion list \<Rightarrow> q_return" where
  "makeReturn shape inclusion = (case inclusion of
     [] \<Rightarrow> \<lparr>qr_shape = shape, qr_inclusion = DefaultFacts, qr_invalid = False\<rparr>
   | [i] \<Rightarrow> \<lparr>qr_shape = shape, qr_inclusion = i, qr_invalid = False\<rparr>
   | _ \<Rightarrow> \<lparr>qr_shape = shape, qr_inclusion = DefaultFacts, qr_invalid = True\<rparr>)"

definition Table :: "fact_inclusion list \<Rightarrow> q_return" where "Table i = makeReturn ShapeTable i"
definition Graph :: "fact_inclusion list \<Rightarrow> q_return" where "Graph i = makeReturn ShapeGraph i"
definition Document :: "fact_inclusion list \<Rightarrow> q_return" where "Document i = makeReturn ShapeDocument i"
definition KV :: "fact_inclusion list \<Rightarrow> q_return" where "KV i = makeReturn ShapeKV i"
definition Columnar :: "fact_inclusion list \<Rightarrow> q_return" where "Columnar i = makeReturn ShapeColumnar i"

section \<open>Execution options\<close>

type_synonym consistency = string

definition Strict :: consistency where "Strict = ''strict''"
definition Fresh :: consistency where "Fresh = ''fresh''"
definition AllowStale :: consistency where "AllowStale = ''allow_stale''"

lemmas consistency_defs [code_defs] = Strict_def Fresh_def AllowStale_def

type_synonym representation = string

definition PrimitiveScan :: representation where "PrimitiveScan = ''primitive_scan''"
definition GraphView :: representation where "GraphView = ''graph''"
definition TableView :: representation where "TableView = ''table''"
definition DocumentView :: representation where "DocumentView = ''document''"
definition KVView :: representation where "KVView = ''kv''"
definition ColumnarView :: representation where "ColumnarView = ''columnar''"

lemmas representation_defs [code_defs] = PrimitiveScan_def GraphView_def TableView_def DocumentView_def
  KVView_def ColumnarView_def

datatype optimization_tag = optimizationAuto | optimizationForce | optimizationOther

record optimization =
  op_tag :: optimization_tag
  op_representation :: representation

definition Automatic :: optimization where
  "Automatic = \<lparr>op_tag = optimizationAuto, op_representation = ''''\<rparr>"

definition Force :: "representation \<Rightarrow> optimization" where
  "Force representation = \<lparr>op_tag = optimizationForce, op_representation = representation\<rparr>"

definition ForcedRepresentation :: "optimization \<Rightarrow> representation \<times> bool" where
  "ForcedRepresentation x = (op_representation x, op_tag x = optimizationForce)"

datatype read_constraint_tag = readConstraintUnset | readConstraintAfter | readConstraintLog | readConstraintOther

record read_constraint =
  rd_tag :: read_constraint_tag
  rd_watermark :: u64
  rd_logIdentity :: string

definition ReadAfter :: "u64 \<Rightarrow> string \<Rightarrow> read_constraint" where
  "ReadAfter watermark logIdentity =
     \<lparr>rd_tag = readConstraintAfter, rd_watermark = watermark, rd_logIdentity = logIdentity\<rparr>"

definition OnLog :: "string \<Rightarrow> read_constraint" where
  "OnLog logIdentity = \<lparr>rd_tag = readConstraintLog, rd_watermark = 0, rd_logIdentity = logIdentity\<rparr>"

definition no_constraint :: read_constraint where
  "no_constraint = \<lparr>rd_tag = readConstraintUnset, rd_watermark = 0, rd_logIdentity = ''''\<rparr>"

record result_limit =
  lm_set :: bool
  lm_value :: u64

definition MaxResults :: "u64 \<Rightarrow> result_limit" where
  "MaxResults value = \<lparr>lm_set = True, lm_value = value\<rparr>"

definition no_limit :: result_limit where "no_limit = \<lparr>lm_set = False, lm_value = 0\<rparr>"

type_synonym order_field = string

definition ByID :: order_field where "ByID = ''id''"
definition ByObject :: order_field where "ByObject = ''object''"
definition ByObjectNumber :: order_field where "ByObjectNumber = ''object_number''"
definition ByPredicate :: order_field where "ByPredicate = ''predicate''"
definition BySubject :: order_field where "BySubject = ''subject''"

lemmas order_field_defs [code_defs] = ByID_def ByObject_def ByObjectNumber_def ByPredicate_def BySubject_def

type_synonym direction = string

definition Ascending :: direction where "Ascending = ''asc''"
definition Descending :: direction where "Descending = ''desc''"

lemmas direction_defs [code_defs] = Ascending_def Descending_def

record order_key =
  od_By :: order_field
  od_Direction :: direction

record q_request =
  qy_Where :: q_where
  qy_Return :: q_return
  qy_Consistency :: consistency
  qy_Optimization :: optimization
  qy_ReadConstraint :: read_constraint
  qy_Limit :: result_limit
  qy_Order :: "order_key list"
  qy_Offset :: u64

end
