(* ===== verification/Query_Validate.thy ===== *)
theory Query_Validate
  imports Query_Types Go_Utf8
begin

text \<open>
  Validation of a query (\<open>query/validate.go\<close>), statement by statement, and the declarative
  contract \<open>query_ok\<close> it decides.
\<close>

section \<open>Labels\<close>

definition label_path :: "string \<Rightarrow> nat \<Rightarrow> nat \<Rightarrow> string" where
  "label_path path n i = (if n > 1 then path @ ''['' @ format_uint i @ '']'' else path)"

definition validate_label_item :: "string \<Rightarrow> nat \<Rightarrow> string list \<Rightarrow> nat \<Rightarrow> string \<Rightarrow> query_error + string list" where
  "validate_label_item path n seen i value = (let itemPath = label_path path n i in
     check_then (fail_when (value = '''') (query_invalid QueryMissingField itemPath ''label must not be empty''))
     (check_then (fail_when (\<not> valid_utf8 value)
        (query_invalid QueryInvalidUTF8 itemPath ''label must contain valid UTF-8''))
     (check_then (fail_when (seen_held seen value \<noteq> None)
        (query_invalid QueryDuplicateValue itemPath ''label is duplicated''))
     (Inr (seen_claim value () seen)))))"

definition validateLabels :: "label_set \<Rightarrow> string \<Rightarrow> query_error option" where
  "validateLabels labels path =
     (if \<not> ls_set labels then None
      else if ls_values labels = []
      then Some (query_invalid QueryMissingField path ''membership list must not be empty'')
      else err_of (for_state (validate_label_item path (length (ls_values labels))) 0 [] (ls_values labels)))"

section \<open>Filter and return\<close>

definition hasPosition :: "q_where \<Rightarrow> bool" where
  "hasPosition w \<longleftrightarrow> ls_set (wh_Subject w) \<or> ls_set (wh_Predicate w) \<or> ls_set (wh_Object w) \<or>
     wh_ObjectNumber w \<noteq> None"

definition validate_range :: "numeric_range \<Rightarrow> query_error option" where
  "validate_range r = first_err
     [fail_when (nb_set (nr_GT r) \<and> nb_set (nr_GTE r))
        (query_invalid QueryIncompatibleFields ''where.object_number'' ''gt and gte are mutually exclusive''),
      fail_when (nb_set (nr_LT r) \<and> nb_set (nr_LTE r))
        (query_invalid QueryIncompatibleFields ''where.object_number'' ''lt and lte are mutually exclusive'')]"

definition validateWhere :: "q_where \<Rightarrow> query_error option" where
  "validateWhere w =
     (if wh_all w
      then fail_when (hasPosition w) (query_invalid QueryIncompatibleFields ''where''
        ''query.All cannot be combined with filters'')
      else first_err
       [fail_when (\<not> hasPosition w) (query_invalid QueryUnsafeMatchAll ''where''
          ''use query.All for an intentional match-all query''),
        validateLabels (wh_Subject w) ''where.subject'',
        validateLabels (wh_Predicate w) ''where.predicate'',
        validateLabels (wh_Object w) ''where.object'',
        fail_when (ls_set (wh_Object w) \<and> wh_ObjectNumber w \<noteq> None)
          (query_invalid QueryIncompatibleFields ''where.object_number''
             ''entity object labels and numeric bounds are mutually exclusive''),
        (case wh_ObjectNumber w of None \<Rightarrow> None | Some r \<Rightarrow> validate_range r)])"

definition validateReturn :: "q_return \<Rightarrow> query_error option" where
  "validateReturn r = first_err
     [fail_when (qr_invalid r) (query_invalid QueryIncompatibleFields ''return.include_facts''
        ''at most one fact-inclusion choice is allowed''),
      fail_when (qr_shape r \<notin> set [ShapeTable, ShapeGraph, ShapeDocument, ShapeKV, ShapeColumnar])
        (query_invalid QueryMissingField ''return'' ''use a typed return constructor''),
      fail_when (qr_inclusion r \<notin> set [DefaultFacts, IncludeFacts, ExcludeFacts])
        (query_invalid QueryUnsupportedValue ''return.include_facts'' ''fact inclusion is unsupported'')]"

section \<open>Execution options\<close>

definition validateOptimization :: "optimization \<Rightarrow> query_error option" where
  "validateOptimization x = (case op_tag x of
     optimizationAuto \<Rightarrow> fail_when (op_representation x \<noteq> '''')
       (query_invalid QueryIncompatibleFields ''optimize.representation''
          ''automatic optimization does not accept a representation'')
   | optimizationForce \<Rightarrow> fail_when (op_representation x \<notin>
         set [PrimitiveScan, GraphView, TableView, DocumentView, KVView, ColumnarView])
       (query_invalid QueryUnsupportedValue ''optimize.representation''
          ''forced representation is unsupported'')
   | optimizationOther \<Rightarrow> Some (query_invalid QueryUnsupportedValue ''optimize.mode''
       ''optimization mode is unsupported''))"

definition query_validLogIdentity :: "string \<Rightarrow> bool" where
  "query_validLogIdentity value \<longleftrightarrow> length value = 32 \<and>
     (case hex_decode value of None \<Rightarrow> False | Some decoded \<Rightarrow> hex_encode decoded = value)"

definition validate_constraint_log :: "read_constraint \<Rightarrow> query_error option" where
  "validate_constraint_log c = fail_when (\<not> query_validLogIdentity (rd_logIdentity c))
     (query_invalid QueryInvalidIdentity ''log_identity'' ''must be 32 lowercase hexadecimal characters'')"

definition validateReadConstraint :: "read_constraint \<Rightarrow> query_error option" where
  "validateReadConstraint c = (case rd_tag c of
     readConstraintUnset \<Rightarrow> None
   | readConstraintAfter \<Rightarrow> first_err
       [fail_when (rd_watermark c = 0) (query_invalid QueryMissingField ''required_watermark''
          ''read-after watermark must be nonzero''),
        validate_constraint_log c]
   | readConstraintLog \<Rightarrow> first_err
       [fail_when (rd_watermark c \<noteq> 0) (query_invalid QueryIncompatibleFields ''required_watermark''
          ''log-only constraint cannot carry a watermark''),
        validate_constraint_log c]
   | readConstraintOther \<Rightarrow> Some (query_invalid QueryUnsupportedValue ''read_constraint''
       ''read constraint variant is unsupported''))"

section \<open>Order\<close>

text \<open>The state of the loop: the fields seen, and whether one of them was numeric.\<close>

type_synonym order_state = "order_field list \<times> bool"

definition order_held :: "order_state \<Rightarrow> order_field \<Rightarrow> unit option" where
  "order_held s k = seen_held (fst s) k"

definition order_claim :: "order_field \<Rightarrow> unit \<Rightarrow> order_state \<Rightarrow> order_state" where
  "order_claim k p s = (seen_claim k p (fst s), snd s \<or> k = ByObjectNumber)"

interpretation orders: registry order_held order_claim
  by unfold_locales (auto simp: order_held_def order_claim_def seen_held_def seen_claim_def)

definition validate_order_item :: "q_where \<Rightarrow> order_state \<Rightarrow> nat \<Rightarrow> order_key \<Rightarrow> query_error + order_state" where
  "validate_order_item w s i x = (let path = ''order['' @ format_uint i @ '']''; s' = order_claim (od_By x) () s in
     check_then (fail_when (od_Direction x \<notin> set ['''', Ascending, Descending])
       (query_invalid QueryInvalidOrder (path @ ''.direction'') ''must be asc or desc''))
     (check_then (fail_when (order_held s (od_By x) \<noteq> None)
       (query_invalid QueryDuplicateValue (path @ ''.by'') ''order field is duplicated''))
     (if od_By x \<in> set [ByID, BySubject, ByPredicate, ByObject] then Inr s'
      else if od_By x = ByObjectNumber then
        check_then (fail_when (wh_ObjectNumber w = None)
          (query_invalid QueryIncompatibleFields (path @ ''.by'')
             ''object_number order requires where.object_number''))
        (Inr s')
      else Inl (query_invalid QueryInvalidOrder (path @ ''.by'') ''order field is unsupported''))))"

definition validateOrder :: "q_request \<Rightarrow> query_error option" where
  "validateOrder q = err_of
     (check_then (fail_when ((qy_Order q \<noteq> [] \<or> sint (qy_Offset q) > 0) \<and>
         (qr_shape (qy_Return q) = ShapeGraph \<or> qr_shape (qy_Return q) = ShapeKV))
       (query_invalid QueryIncompatibleFields ''order''
          ''order and offset are not defined for graph or kv returns''))
     (bind_r (for_state (validate_order_item (qy_Where q)) 0 ([], False) (qy_Order q)) (\<lambda>s.
      check_then (fail_when (snd s \<and> length (qy_Order q) \<noteq> 1)
        (query_invalid QueryIncompatibleFields ''order'' ''object_number must be the only order field''))
      (Inr ()))))"

section \<open>Validate\<close>

definition QueryValidate :: "q_request \<Rightarrow> query_error option" where
  "QueryValidate q = first_err
     [validateWhere (qy_Where q),
      validateReturn (qy_Return q),
      fail_when (wh_ObjectNumber (qy_Where q) \<noteq> None \<and>
          qr_shape (qy_Return q) \<notin> set [ShapeTable, ShapeDocument, ShapeColumnar])
        (query_invalid QueryIncompatibleFields ''where.object_number''
           ''numeric ranges require a table, document, or columnar return''),
      fail_when (qy_Consistency q \<notin> set ['''', Strict, Fresh, AllowStale])
        (query_invalid QueryUnsupportedValue ''consistency'' ''must be strict, fresh, or allow_stale''),
      validateOptimization (qy_Optimization q),
      validateReadConstraint (qy_ReadConstraint q),
      fail_when (lm_set (qy_Limit q) \<and> sint (lm_value (qy_Limit q)) < 1)
        (query_invalid QueryInvalidLimit ''limit'' ''must be at least 1''),
      fail_when (sint (qy_Offset q) < 0) (query_invalid QueryInvalidOffset ''offset'' ''must be at least 0''),
      validateOrder q]"

section \<open>The contract\<close>

definition labels_ok :: "label_set \<Rightarrow> bool" where
  "labels_ok l \<longleftrightarrow> (ls_set l \<longrightarrow> ls_values l \<noteq> [] \<and> distinct (ls_values l) \<and>
     list_all (\<lambda>v. v \<noteq> '''' \<and> valid_utf8 v) (ls_values l))"

definition range_ok :: "numeric_range \<Rightarrow> bool" where
  "range_ok r \<longleftrightarrow> \<not> (nb_set (nr_GT r) \<and> nb_set (nr_GTE r)) \<and> \<not> (nb_set (nr_LT r) \<and> nb_set (nr_LTE r))"

definition where_ok :: "q_where \<Rightarrow> bool" where
  "where_ok w \<longleftrightarrow> wh_all w \<noteq> hasPosition w \<and> (\<not> wh_all w \<longrightarrow>
     labels_ok (wh_Subject w) \<and> labels_ok (wh_Predicate w) \<and> labels_ok (wh_Object w) \<and>
     \<not> (ls_set (wh_Object w) \<and> wh_ObjectNumber w \<noteq> None) \<and>
     (case wh_ObjectNumber w of None \<Rightarrow> True | Some r \<Rightarrow> range_ok r))"

definition return_ok :: "q_return \<Rightarrow> bool" where
  "return_ok r \<longleftrightarrow> \<not> qr_invalid r \<and>
     qr_shape r \<in> {ShapeTable, ShapeGraph, ShapeDocument, ShapeKV, ShapeColumnar} \<and>
     qr_inclusion r \<in> {DefaultFacts, IncludeFacts, ExcludeFacts}"

definition optimization_ok :: "optimization \<Rightarrow> bool" where
  "optimization_ok x \<longleftrightarrow> op_tag x = optimizationAuto \<and> op_representation x = '''' \<or>
     op_tag x = optimizationForce \<and>
     op_representation x \<in> {PrimitiveScan, GraphView, TableView, DocumentView, KVView, ColumnarView}"

definition constraint_ok :: "read_constraint \<Rightarrow> bool" where
  "constraint_ok c \<longleftrightarrow> rd_tag c = readConstraintUnset \<or>
     (rd_tag c = readConstraintAfter \<and> rd_watermark c \<noteq> 0 \<or> rd_tag c = readConstraintLog \<and> rd_watermark c = 0) \<and>
     length (rd_logIdentity c) = 32 \<and> list_all is_lower_hex (rd_logIdentity c)"

definition order_ok :: "q_request \<Rightarrow> bool" where
  "order_ok q \<longleftrightarrow>
     ((qy_Order q \<noteq> [] \<or> 0 < sint (qy_Offset q)) \<longrightarrow> qr_shape (qy_Return q) \<notin> {ShapeGraph, ShapeKV}) \<and>
     distinct (map od_By (qy_Order q)) \<and>
     list_all (\<lambda>x. od_Direction x \<in> {'''', Ascending, Descending} \<and>
       od_By x \<in> {ByID, BySubject, ByPredicate, ByObject, ByObjectNumber}) (qy_Order q) \<and>
     (ByObjectNumber \<in> od_By ` set (qy_Order q) \<longrightarrow>
       length (qy_Order q) = 1 \<and> wh_ObjectNumber (qy_Where q) \<noteq> None)"

definition query_ok :: "q_request \<Rightarrow> bool" where
  "query_ok q \<longleftrightarrow> where_ok (qy_Where q) \<and> return_ok (qy_Return q) \<and>
     (wh_ObjectNumber (qy_Where q) \<noteq> None \<longrightarrow>
        qr_shape (qy_Return q) \<in> {ShapeTable, ShapeDocument, ShapeColumnar}) \<and>
     qy_Consistency q \<in> {'''', Strict, Fresh, AllowStale} \<and> optimization_ok (qy_Optimization q) \<and>
     constraint_ok (qy_ReadConstraint q) \<and>
     (lm_set (qy_Limit q) \<longrightarrow> 1 \<le> sint (lm_value (qy_Limit q))) \<and> 0 \<le> sint (qy_Offset q) \<and> order_ok q"

section \<open>Validation decides the contract\<close>

lemma unit_option [simp]: "(x :: unit option) \<noteq> Some () \<longleftrightarrow> x = None"
  by (cases x) simp_all

lemma validateLabels_None: "validateLabels l path = None \<longleftrightarrow> labels_ok l"
proof -
  let ?n = "length (ls_values l)"
  have body: "\<And>s i x s'. validate_label_item path ?n s i x = Inr s' \<longleftrightarrow> (x \<noteq> '''' \<and> valid_utf8 x) \<and>
      (case Some x of None \<Rightarrow> s' = s | Some k \<Rightarrow> seen_held s k = None \<and> s' = seen_claim k () s)"
    by (auto simp: validate_label_item_def Let_def check_then_Inr)
  have keys: "List.map_filter Some xs = xs" for xs :: "string list"
    by (induction xs) simp_all
  show ?thesis
    using seen.claiming_loop [OF body, where i = 0 and s = "[]" and xs = "ls_values l"]
    by (auto simp: validateLabels_def labels_ok_def err_of_None keys)
qed

lemma validate_range_None: "validate_range r = None \<longleftrightarrow> range_ok r"
  by (simp add: validate_range_def range_ok_def)

lemma validateWhere_None: "validateWhere w = None \<longleftrightarrow> where_ok w"
  by (auto simp: validateWhere_def where_ok_def validateLabels_None validate_range_None split: option.split)

lemma validateReturn_None: "validateReturn r = None \<longleftrightarrow> return_ok r"
  by (auto simp: validateReturn_def return_ok_def)

lemma validateOptimization_None: "validateOptimization x = None \<longleftrightarrow> optimization_ok x"
  by (cases "op_tag x") (auto simp: validateOptimization_def optimization_ok_def)

lemma query_validLogIdentity_iff:
  "query_validLogIdentity s \<longleftrightarrow> length s = 32 \<and> list_all is_lower_hex s"
proof -
  have "query_validLogIdentity s \<longleftrightarrow> length s = 32 \<and> (\<exists>d. hex_decode s = Some d \<and> hex_encode d = s)"
    by (auto simp: query_validLogIdentity_def split: option.splits)
  then show ?thesis unfolding hex_canonical_iff by auto
qed

lemma validateReadConstraint_None: "validateReadConstraint c = None \<longleftrightarrow> constraint_ok c"
  by (cases "rd_tag c") (auto simp: validateReadConstraint_def constraint_ok_def validate_constraint_log_def
      query_validLogIdentity_iff)

lemma order_item_Inr:
  "validate_order_item w s i x = Inr s' \<longleftrightarrow>
     (od_Direction x \<in> {'''', Ascending, Descending} \<and>
      od_By x \<in> {ByID, BySubject, ByPredicate, ByObject, ByObjectNumber} \<and>
      (od_By x = ByObjectNumber \<longrightarrow> wh_ObjectNumber w \<noteq> None)) \<and>
     (case Some (od_By x) of None \<Rightarrow> s' = s | Some k \<Rightarrow> order_held s k = None \<and> s' = order_claim k () s)"
  by (auto simp: validate_order_item_def Let_def check_then_Inr order_field_defs)

lemma order_loop_numeric:
  "for_state (validate_order_item w) i s xs = Inr t \<Longrightarrow> snd t \<longleftrightarrow> snd s \<or> ByObjectNumber \<in> od_By ` set xs"
proof (induction xs arbitrary: i s)
  case (Cons x xs)
  then obtain s' where "validate_order_item w s i x = Inr s'" "for_state (validate_order_item w) (Suc i) s' xs = Inr t"
    unfolding for_state_Inr_Cons by blast
  then show ?case using Cons.IH by (auto simp: order_item_Inr order_claim_def)
qed simp

lemma validateOrder_None: "validateOrder q = None \<longleftrightarrow> order_ok q"
proof -
  let ?loop = "for_state (validate_order_item (qy_Where q)) 0 ([], False) (qy_Order q)"
  have keys: "List.map_filter (\<lambda>x. Some (od_By x)) xs = map od_By xs" for xs
    by (induction xs) simp_all
  have body: "\<And>s i x s'. validate_order_item (qy_Where q) s i x = Inr s' \<longleftrightarrow>
      (od_Direction x \<in> {'''', Ascending, Descending} \<and>
       od_By x \<in> {ByID, BySubject, ByPredicate, ByObject, ByObjectNumber} \<and>
       (od_By x = ByObjectNumber \<longrightarrow> wh_ObjectNumber (qy_Where q) \<noteq> None)) \<and>
      (case Some (od_By x) of None \<Rightarrow> s' = s | Some k \<Rightarrow> order_held s k = None \<and> s' = order_claim k () s)"
    by (rule order_item_Inr)
  have "dom (order_held ([], False)) = {}" by (auto simp: order_held_def seen_held_def)
  then have pass: "(\<exists>t. ?loop = Inr t) \<longleftrightarrow>
      list_all (\<lambda>x. od_Direction x \<in> {'''', Ascending, Descending} \<and>
        od_By x \<in> {ByID, BySubject, ByPredicate, ByObject, ByObjectNumber} \<and>
        (od_By x = ByObjectNumber \<longrightarrow> wh_ObjectNumber (qy_Where q) \<noteq> None)) (qy_Order q) \<and>
      distinct (map od_By (qy_Order q))"
    using orders.claiming_loop [OF body, where i = 0 and s = "([], False)" and xs = "qy_Order q"]
    by (simp add: keys)
  have num: "snd t = (ByObjectNumber \<in> od_By ` set (qy_Order q))" if "?loop = Inr t" for t
    using order_loop_numeric [OF that] by simp
  have "validateOrder q = None \<longleftrightarrow>
      \<not> ((qy_Order q \<noteq> [] \<or> sint (qy_Offset q) > 0) \<and>
         (qr_shape (qy_Return q) = ShapeGraph \<or> qr_shape (qy_Return q) = ShapeKV)) \<and>
      (\<exists>t. ?loop = Inr t) \<and> (ByObjectNumber \<in> od_By ` set (qy_Order q) \<longrightarrow> length (qy_Order q) = 1)"
    unfolding validateOrder_def err_of_None check_then_Inr bind_r_Inr fail_when_None using num by blast
  then show ?thesis unfolding pass order_ok_def list_all_iff
    by (auto simp: image_iff eq_commute [of ByObjectNumber])
qed

lemma QueryValidate_None: "QueryValidate q = None \<longleftrightarrow> query_ok q"
  unfolding QueryValidate_def query_ok_def first_err_None validateWhere_None validateReturn_None
    validateOptimization_None validateReadConstraint_None validateOrder_None fail_when_None
  by auto

end
