(* ===== verification/Query_Encode.thy ===== *)
theory Query_Encode
  imports Query_Validate Go_Json_Struct Go_Time
begin

text \<open>
  The encoder of a query (\<open>query/encode.go\<close>): the wire structs, rendered as \<open>encoding/json\<close>
  renders them, and the abstract query a valid request stands for.
\<close>

section \<open>Wire structs\<close>

definition escapeLabel :: "string \<Rightarrow> string" where
  "escapeLabel label = (if prefix ''?'' label then ''?'' @ label else label)"

definition labelsWire :: "label_set \<Rightarrow> json option" where
  "labelsWire labels =
     (if \<not> ls_set labels then None
      else if length (ls_values labels) = 1 then Some (JStr (escapeLabel (ls_values labels ! 0)))
      else Some (JArr (map (\<lambda>label. JStr (escapeLabel label)) (ls_values labels))))"

text \<open>\<open>decimalUint64.MarshalJSON\<close>: a decimal in a string.\<close>

definition bound_json :: "numeric_bound \<Rightarrow> json option" where
  "bound_json b = (if nb_set b then Some (JStr (format_uint (unat (nb_value b)))) else None)"

definition numericRangeWire :: "numeric_range \<Rightarrow> json" where
  "numericRangeWire r = struct_json
     [(''gt'', bound_json (nr_GT r)), (''gte'', bound_json (nr_GTE r)),
      (''lt'', bound_json (nr_LT r)), (''lte'', bound_json (nr_LTE r))]"

definition wireWhere_json :: "q_where \<Rightarrow> json" where
  "wireWhere_json w = struct_json
     [(''subject'', labelsWire (wh_Subject w)),
      (''predicate'', labelsWire (wh_Predicate w)),
      (''object'', labelsWire (wh_Object w)),
      (''object_number'', map_option numericRangeWire (wh_ObjectNumber w))]"

definition wireReturn_json :: "q_return \<Rightarrow> json" where
  "wireReturn_json r = struct_json
     [(''shape'', req (JStr (qr_shape r))),
      (''include_facts'',
        if qr_inclusion r = IncludeFacts then Some (JBool True)
        else if qr_inclusion r = ExcludeFacts then Some (JBool False) else None)]"

definition wireOptimization_json :: "optimization \<Rightarrow> json" where
  "wireOptimization_json x = (let (representation, forced) = ForcedRepresentation x in struct_json
     [(''mode'', req (JStr (if forced then ''force'' else ''auto''))),
      (''representation'', omit_str (if forced then representation else ''''))])"

definition wireOrder_json :: "order_key \<Rightarrow> json" where
  "wireOrder_json x = struct_json [(''by'', req (JStr (od_By x))), (''dir'', omit_str (od_Direction x))]"

definition omit_uint :: "u64 \<Rightarrow> json option" where
  "omit_uint n = (if n = 0 then None else Some (JNum (format_uint (unat n))))"

definition omit_int :: "u64 \<Rightarrow> json option" where
  "omit_int n = (if sint n = 0 then None else Some (JNum (format_int (sint n))))"

text \<open>The read constraint fills two fields of the request.\<close>

definition required_watermark :: "read_constraint \<Rightarrow> u64" where
  "required_watermark c = (case rd_tag c of readConstraintAfter \<Rightarrow> rd_watermark c | _ \<Rightarrow> 0)"

definition constraint_log :: "read_constraint \<Rightarrow> string" where
  "constraint_log c = (case rd_tag c of readConstraintAfter \<Rightarrow> rd_logIdentity c
     | readConstraintLog \<Rightarrow> rd_logIdentity c | _ \<Rightarrow> '''')"

definition wireQuery_json :: "q_request \<Rightarrow> json" where
  "wireQuery_json q = struct_json
     [(''find'', req (JStr ''facts'')),
      (''where'', req (wireWhere_json (qy_Where q))),
      (''return'', req (wireReturn_json (qy_Return q))),
      (''consistency'', req (JStr (if qy_Consistency q = '''' then Strict else qy_Consistency q))),
      (''optimize'', req (wireOptimization_json (qy_Optimization q))),
      (''required_watermark'', omit_uint (required_watermark (qy_ReadConstraint q))),
      (''log_identity'', omit_str (constraint_log (qy_ReadConstraint q))),
      (''limit'', if lm_set (qy_Limit q) then Some (JNum (format_int (sint (lm_value (qy_Limit q))))) else None),
      (''order'', omit_list (map wireOrder_json (qy_Order q))),
      (''offset'', omit_int (qy_Offset q))]"

definition QueryEncode :: "q_request \<Rightarrow> query_error + string" where
  "QueryEncode q = (case QueryValidate q of Some e \<Rightarrow> Inl e | None \<Rightarrow> Inr (render (wireQuery_json q)))"

section \<open>The abstract query\<close>

record a_query =
  aq_subject :: "string list option"
  aq_predicate :: "string list option"
  aq_object :: "string list option"
  aq_number :: "nat option list option"
  aq_shape :: string
  aq_facts :: "bool option"
  aq_consistency :: string
  aq_forced :: string
  aq_watermark :: nat
  aq_log :: string
  aq_limit :: "int option"
  aq_order :: "(string \<times> string) list"
  aq_offset :: int

definition abs_labels :: "label_set \<Rightarrow> string list option" where
  "abs_labels l = (if ls_set l then Some (ls_values l) else None)"

definition abs_bound :: "numeric_bound \<Rightarrow> nat option" where
  "abs_bound b = (if nb_set b then Some (unat (nb_value b)) else None)"

definition abs_range :: "numeric_range \<Rightarrow> nat option list" where
  "abs_range r = map abs_bound [nr_GT r, nr_GTE r, nr_LT r, nr_LTE r]"

definition abs_query :: "q_request \<Rightarrow> a_query" where
  "abs_query q = \<lparr>aq_subject = abs_labels (wh_Subject (qy_Where q)),
     aq_predicate = abs_labels (wh_Predicate (qy_Where q)), aq_object = abs_labels (wh_Object (qy_Where q)),
     aq_number = map_option abs_range (wh_ObjectNumber (qy_Where q)),
     aq_shape = qr_shape (qy_Return q),
     aq_facts = (if qr_inclusion (qy_Return q) = IncludeFacts then Some True
       else if qr_inclusion (qy_Return q) = ExcludeFacts then Some False else None),
     aq_consistency = (if qy_Consistency q = '''' then Strict else qy_Consistency q),
     aq_forced = (if op_tag (qy_Optimization q) = optimizationForce then op_representation (qy_Optimization q) else ''''),
     aq_watermark = unat (required_watermark (qy_ReadConstraint q)), aq_log = constraint_log (qy_ReadConstraint q),
     aq_limit = (if lm_set (qy_Limit q) then Some (sint (lm_value (qy_Limit q))) else None),
     aq_order = map (\<lambda>x. (od_By x, od_Direction x)) (qy_Order q), aq_offset = sint (qy_Offset q)\<rparr>"

text \<open>Its document.\<close>

definition doc_labels :: "string list \<Rightarrow> json" where
  "doc_labels vs = (case vs of [v] \<Rightarrow> JStr (escapeLabel v) | _ \<Rightarrow> JArr (map (\<lambda>v. JStr (escapeLabel v)) vs))"

definition doc_bounds :: "nat option list \<Rightarrow> json" where
  "doc_bounds bs = struct_json (zip [''gt'', ''gte'', ''lt'', ''lte''] (map (map_option (\<lambda>n. JStr (format_uint n))) bs))"

definition doc_query :: "a_query \<Rightarrow> json" where
  "doc_query a = struct_json
     [(''find'', req (JStr ''facts'')),
      (''where'', req (struct_json
        [(''subject'', map_option doc_labels (aq_subject a)), (''predicate'', map_option doc_labels (aq_predicate a)),
         (''object'', map_option doc_labels (aq_object a)), (''object_number'', map_option doc_bounds (aq_number a))])),
      (''return'', req (struct_json
        [(''shape'', req (JStr (aq_shape a))), (''include_facts'', map_option JBool (aq_facts a))])),
      (''consistency'', req (JStr (aq_consistency a))),
      (''optimize'', req (struct_json
        [(''mode'', req (JStr (if aq_forced a = '''' then ''auto'' else ''force''))), (''representation'', omit_str (aq_forced a))])),
      (''required_watermark'', if aq_watermark a = 0 then None else Some (JNum (format_uint (aq_watermark a)))),
      (''log_identity'', omit_str (aq_log a)),
      (''limit'', map_option (\<lambda>n. JNum (format_int n)) (aq_limit a)),
      (''order'', omit_list (map (\<lambda>(by, dir). struct_json [(''by'', req (JStr by)), (''dir'', omit_str dir)]) (aq_order a))),
      (''offset'', if aq_offset a = 0 then None else Some (JNum (format_int (aq_offset a))))]"

section \<open>The encoder computes the document\<close>

lemma labelsWire_doc: "labelsWire l = map_option doc_labels (abs_labels l)"
proof (cases "ls_values l")
  case (Cons v vs)
  then show ?thesis by (cases vs) (simp_all add: labelsWire_def abs_labels_def doc_labels_def)
qed (simp add: labelsWire_def abs_labels_def doc_labels_def)

lemma numericRangeWire_doc: "map_option numericRangeWire r = map_option doc_bounds (map_option abs_range r)"
  by (cases r) (simp_all add: numericRangeWire_def doc_bounds_def abs_range_def abs_bound_def bound_json_def)

lemma if_Some: "map_option f (if b then Some x else None) = (if b then Some (f x) else None)"
  "map_option f (if b then Some x else if c then Some y else None) = (if b then Some (f x) else if c then Some (f y) else None)"
  by simp_all

lemma order_docs: "map wireOrder_json xs = map (\<lambda>(by, dir). struct_json
    [(''by'', req (JStr by)), (''dir'', omit_str dir)]) (map (\<lambda>x. (od_By x, od_Direction x)) xs)"
  by (simp add: wireOrder_json_def)

lemma wireQuery_doc:
  assumes "optimization_ok (qy_Optimization q)"
  shows "wireQuery_json q = doc_query (abs_query q)"
proof -
  have o: "wireOptimization_json (qy_Optimization q) = struct_json
      [(''mode'', req (JStr (if aq_forced (abs_query q) = '''' then ''auto'' else ''force''))),
       (''representation'', omit_str (aq_forced (abs_query q)))]"
    using assms by (auto simp: wireOptimization_json_def ForcedRepresentation_def abs_query_def optimization_ok_def
        representation_defs)
  show ?thesis
    unfolding wireQuery_json_def doc_query_def o
    unfolding wireWhere_json_def wireReturn_json_def labelsWire_doc numericRangeWire_doc order_docs
      abs_query_def a_query.simps if_Some omit_uint_def omit_int_def unat_eq_0 ..
qed

section \<open>Labels stay literal\<close>

lemma escapeLabel_inject [simp]: "escapeLabel s = escapeLabel t \<longleftrightarrow> s = t"
  by (cases s; cases t) (auto simp: escapeLabel_def)

end
