(* ===== verification/Query_Contract.thy ===== *)
theory Query_Contract
  imports Query_Encode
begin

text \<open>
  The contract of the \<open>query\<close> package: \<open>Validate\<close> decides \<open>query_ok\<close>, \<open>Encode\<close> succeeds on
  exactly the valid queries, its bytes read back as the document of the abstract query, and two
  valid queries have the same bytes exactly when they ask for the same thing.
\<close>

section \<open>Documents determine queries\<close>

lemma doc_labels_if: "doc_labels xs =
    (if length xs = 1 then JStr (escapeLabel (hd xs)) else JArr (map (\<lambda>v. JStr (escapeLabel v)) xs))"
  by (cases xs; cases "tl xs") (auto simp: doc_labels_def split: list.split)

lemma doc_labels_inject [simp]: "doc_labels vs = doc_labels ws \<longleftrightarrow> vs = ws"
proof -
  have inj: "inj (\<lambda>v. JStr (escapeLabel v))" by (auto simp: inj_def)
  have m: "map (\<lambda>v. JStr (escapeLabel v)) xs = map (\<lambda>v. JStr (escapeLabel v)) ys \<longleftrightarrow> xs = ys" for xs ys
    using inj_map_eq_map [OF inj] .
  show ?thesis unfolding doc_labels_if using m by (auto simp: length_Suc_conv)
qed

lemma map_option_inject: "(\<And>x y. f x = f y \<Longrightarrow> x = y) \<Longrightarrow> map_option f a = map_option f b \<Longrightarrow> a = b"
  by (cases a; cases b) auto

lemma doc_bounds_inject:
  assumes "length bs = 4" "length cs = 4" "doc_bounds bs = doc_bounds cs"
  shows "bs = cs"
proof -
  let ?f = "map_option (\<lambda>n. JStr (format_uint n))"
  have f: "?f x = ?f y \<Longrightarrow> x = y" for x y by (rule map_option_inject) (simp_all add: format_uint_inj)
  obtain a b c d where b: "bs = [a, b, c, d]"
    using assms(1) by (auto simp: length_Suc_conv eval_nat_numeral)
  obtain a' b' c' d' where c: "cs = [a', b', c', d']"
    using assms(2) by (auto simp: length_Suc_conv eval_nat_numeral)
  show ?thesis using assms(3) f unfolding b c doc_bounds_def by (simp add: struct_json_inject)
qed

definition bounds_sized :: "a_query \<Rightarrow> bool" where
  "bounds_sized a \<longleftrightarrow> (case aq_number a of None \<Rightarrow> True | Some bs \<Rightarrow> length bs = 4)"

lemma bounds_sized_abs: "bounds_sized (abs_query q)"
  by (simp add: bounds_sized_def abs_query_def abs_range_def split: option.split)

lemma doc_number_inject:
  assumes "bounds_sized a" "bounds_sized b" "map_option doc_bounds (aq_number a) = map_option doc_bounds (aq_number b)"
  shows "aq_number a = aq_number b"
  using assms by (cases "aq_number a"; cases "aq_number b") (auto simp: bounds_sized_def dest: doc_bounds_inject)

lemma order_docs_inject:
  "map (\<lambda>(by, dir). struct_json [(''by'', req (JStr by)), (''dir'', omit_str dir)]) xs =
   map (\<lambda>(by, dir). struct_json [(''by'', req (JStr by)), (''dir'', omit_str dir)]) ys \<Longrightarrow> xs = ys"
proof (induction xs arbitrary: ys)
  case (Cons x xs)
  then obtain y ys' where "ys = y # ys'" by (cases ys) auto
  with Cons show ?case by (cases x; cases y) (simp add: struct_json_inject)
qed simp

lemma doc_query_inject:
  assumes "bounds_sized a" "bounds_sized b" "doc_query a = doc_query b"
  shows "a = b"
proof -
  let ?w = "\<lambda>a. [(''subject'', map_option doc_labels (aq_subject a)), (''predicate'', map_option doc_labels (aq_predicate a)),
      (''object'', map_option doc_labels (aq_object a)), (''object_number'', map_option doc_bounds (aq_number a))]"
  have fields: "struct_json (?w a) = struct_json (?w b)"
    "struct_json [(''shape'', req (JStr (aq_shape a))), (''include_facts'', map_option JBool (aq_facts a))] =
     struct_json [(''shape'', req (JStr (aq_shape b))), (''include_facts'', map_option JBool (aq_facts b))]"
    "aq_consistency a = aq_consistency b"
    "struct_json [(''mode'', req (JStr (if aq_forced a = '''' then ''auto'' else ''force''))), (''representation'', omit_str (aq_forced a))] =
     struct_json [(''mode'', req (JStr (if aq_forced b = '''' then ''auto'' else ''force''))), (''representation'', omit_str (aq_forced b))]"
    "aq_watermark a = aq_watermark b" "aq_log a = aq_log b"
    "map_option (\<lambda>n. JNum (format_int n)) (aq_limit a) = map_option (\<lambda>n. JNum (format_int n)) (aq_limit b)"
    "aq_order a = aq_order b" "aq_offset a = aq_offset b"
    using assms(3) order_docs_inject unfolding doc_query_def
    by (simp_all add: struct_json_inject format_uint_inj format_int_inj split: if_splits)
  have "aq_limit a = aq_limit b"
    by (rule map_option_inject [OF _ fields(7)]) (simp add: format_int_inj)
  moreover have "aq_facts a = aq_facts b" "aq_shape a = aq_shape b"
    using fields(2) map_option_inject [of JBool "aq_facts a" "aq_facts b"] by (simp_all add: struct_json_inject)
  moreover have "aq_forced a = aq_forced b" using fields(4) by (simp add: struct_json_inject)
  moreover have w: "?w a = ?w b" using fields(1) by (subst (asm) struct_json_inject) simp_all
  moreover have "aq_number a = aq_number b" using w doc_number_inject [OF assms(1,2)] by simp
  moreover have "aq_subject a = aq_subject b" "aq_predicate a = aq_predicate b" "aq_object a = aq_object b"
    using w by (simp_all; blast intro: map_option_inject [of doc_labels] doc_labels_inject [THEN iffD1])+
  ultimately show ?thesis using fields by simp
qed

section \<open>Documents of valid queries read back\<close>

lemma query_tags [simp]:
  "valid_utf8 ''find''" "valid_utf8 ''facts''" "valid_utf8 ''where''" "valid_utf8 ''return''" "valid_utf8 ''consistency''"
  "valid_utf8 ''optimize''" "valid_utf8 ''required_watermark''" "valid_utf8 ''log_identity''" "valid_utf8 ''limit''"
  "valid_utf8 ''order''" "valid_utf8 ''offset''" "valid_utf8 ''subject''" "valid_utf8 ''predicate''"
  "valid_utf8 ''object''" "valid_utf8 ''object_number''" "valid_utf8 ''shape''" "valid_utf8 ''include_facts''"
  "valid_utf8 ''mode''" "valid_utf8 ''auto''" "valid_utf8 ''force''" "valid_utf8 ''representation''" "valid_utf8 ''by''"
  "valid_utf8 ''dir''" "valid_utf8 ''gt''" "valid_utf8 ''gte''" "valid_utf8 ''lt''" "valid_utf8 ''lte''"
  "valid_utf8 ''table''" "valid_utf8 ''graph''" "valid_utf8 ''document''" "valid_utf8 ''kv''" "valid_utf8 ''columnar''"
  "valid_utf8 ''primitive_scan''" "valid_utf8 ''strict''" "valid_utf8 ''fresh''" "valid_utf8 ''allow_stale''"
  "valid_utf8 ''id''" "valid_utf8 ''asc''" "valid_utf8 ''desc''"
  by (rule valid_tag; simp add: byte_def)+

lemma lower_hex_utf8: "list_all is_lower_hex s \<Longrightarrow> valid_utf8 s"
  by (rule valid_tag) (auto simp: list_all_iff is_lower_hex_def)

declare valid_utf8.simps(2) [simp del]

lemma escape_utf8: "valid_utf8 s \<Longrightarrow> valid_utf8 (escapeLabel s)"
proof -
  have "valid_utf8 ''?''" by (rule valid_tag) (simp add: byte_def)
  then show "valid_utf8 s \<Longrightarrow> valid_utf8 (escapeLabel s)"
    using valid_utf8_append [of "''?''" s] by (simp add: escapeLabel_def)
qed

declare fits_struct [simp del]

lemma fits_labels: "list_all valid_utf8 vs \<Longrightarrow> fits (Suc d) (doc_labels vs)"
proof -
  assume v: "list_all valid_utf8 vs"
  have a: "fits (Suc d) (JArr (map (\<lambda>v. JStr (escapeLabel v)) vs))"
    unfolding fits_JArr by (rule list_all_map_imp [OF v]) (simp add: escape_utf8)
  have "valid_utf8 (escapeLabel (hd vs))" if "length vs = 1"
    using v that by (intro escape_utf8) (cases vs, simp_all)
  then show ?thesis using a unfolding doc_labels_if by (simp del: fits_JArr)
qed

definition clean_query :: "a_query \<Rightarrow> bool" where
  "clean_query a \<longleftrightarrow> (\<forall>l \<in> {aq_subject a, aq_predicate a, aq_object a}.
       case l of None \<Rightarrow> True | Some vs \<Rightarrow> list_all valid_utf8 vs) \<and>
     valid_utf8 (aq_shape a) \<and> valid_utf8 (aq_consistency a) \<and> valid_utf8 (aq_forced a) \<and> valid_utf8 (aq_log a) \<and>
     list_all (\<lambda>(x, d). valid_utf8 x \<and> valid_utf8 d) (aq_order a)  \<and> bounds_sized a \<and> 0 \<le> aq_offset a \<and>
     (case aq_limit a of None \<Rightarrow> True | Some n \<Rightarrow> 0 \<le> n)"

lemma fits_bounds: "length bs = 4 \<Longrightarrow> fits (Suc d) (doc_bounds bs)"
proof -
  assume "length bs = 4"
  then obtain a b c e where b: "bs = [a, b, c, e]" by (auto simp: length_Suc_conv eval_nat_numeral)
  have o: "opt_fits d (map_option (\<lambda>n. JStr (format_uint n)) x)" for x by (cases x) simp_all
  show ?thesis unfolding b doc_bounds_def by (rule fits_fields) (simp add: o)
qed

lemma clean_doc_query:
  assumes "clean_query a"
  shows "fits (Suc (Suc (Suc d))) (doc_query a)"
proof -
  have l: "opt_fits (Suc d) (map_option doc_labels x)" if "x \<in> {aq_subject a, aq_predicate a, aq_object a}" for x d
  proof (cases x)
    case (Some vs)
    have "case x of None \<Rightarrow> True | Some vs \<Rightarrow> list_all valid_utf8 vs"
      using assms that unfolding clean_query_def by blast
    with Some show ?thesis by (simp add: fits_labels)
  qed simp
  have n: "opt_fits (Suc d) (map_option doc_bounds (aq_number a))" for d
    using assms fits_bounds by (cases "aq_number a") (auto simp: clean_query_def bounds_sized_def)
  have o: "list_all (fits (Suc d)) (map (\<lambda>(by, dir). struct_json [(''by'', req (JStr by)), (''dir'', omit_str dir)]) (aq_order a))" for d
    by (rule list_all_map_imp [where P = "\<lambda>(x, d). valid_utf8 x \<and> valid_utf8 d"])
      (use assms in \<open>auto simp: clean_query_def intro!: fits_fields\<close>)
  have f: "opt_fits d (map_option JBool (aq_facts a))" for d
    by (cases "aq_facts a") (simp_all add: fits_def)
  have p: "0 \<le> i \<Longrightarrow> canonical_decimal (format_int i)" for i
    by (auto simp: format_int_def canonical_decimal_iff)
  have u: "canonical_decimal (format_uint k)" for k by (auto simp: canonical_decimal_iff)

  have m: "opt_fits d (map_option (\<lambda>n. JNum (format_int n)) (aq_limit a))" for d
    using assms p by (cases "aq_limit a") (auto simp: clean_query_def)
  have c: "valid_utf8 (aq_shape a)" "valid_utf8 (aq_consistency a)" "valid_utf8 (aq_forced a)" "valid_utf8 (aq_log a)"
    "0 \<le> aq_offset a"
    using assms by (simp_all add: clean_query_def)
  have w: "fits (Suc (Suc d)) (struct_json
        [(''subject'', map_option doc_labels (aq_subject a)), (''predicate'', map_option doc_labels (aq_predicate a)),
         (''object'', map_option doc_labels (aq_object a)), (''object_number'', map_option doc_bounds (aq_number a))])" for d
    by (rule fits_fields) (simp add: l n)
  have r: "fits (Suc d) (struct_json [(''shape'', req (JStr (aq_shape a))), (''include_facts'', map_option JBool (aq_facts a))])" for d
    by (rule fits_fields) (simp add: f c)
  have x: "fits (Suc d) (struct_json [(''mode'', req (JStr (if aq_forced a = '''' then ''auto'' else ''force''))),
      (''representation'', omit_str (aq_forced a))])" for d
    by (rule fits_fields) (simp add: c)
  show ?thesis
    unfolding doc_query_def by (rule fits_fields) (simp add: w r x c m o u p)
qed

section \<open>Valid queries are clean\<close>

lemma clean_labels: "labels_ok l \<Longrightarrow> case abs_labels l of None \<Rightarrow> True | Some vs \<Rightarrow> list_all valid_utf8 vs"
  by (auto simp: labels_ok_def abs_labels_def list_all_iff)

lemma where_labels:
  assumes "where_ok w"
  shows "labels_ok (wh_Subject w)" "labels_ok (wh_Predicate w)" "labels_ok (wh_Object w)"
  using assms by (cases "wh_all w"; simp add: where_ok_def hasPosition_def labels_ok_def)+

lemma order_utf8:
  assumes "order_ok q" "x \<in> set (qy_Order q)"
  shows "valid_utf8 (od_By x) \<and> valid_utf8 (od_Direction x)"
proof -
  have "\<forall>f \<in> {ByID, BySubject, ByPredicate, ByObject, ByObjectNumber}. valid_utf8 f"
    "\<forall>d \<in> {'''', Ascending, Descending}. valid_utf8 d"
    by (simp_all add: order_field_defs direction_defs)
  then show ?thesis using assms unfolding order_ok_def list_all_iff by blast
qed

lemma query_ok_clean:
  assumes "query_ok q"
  shows "clean_query (abs_query q)"
proof -
  note ok = assms [unfolded query_ok_def]
  have "valid_utf8 (qr_shape (qy_Return q))" using ok by (auto simp: return_ok_def shape_defs)
  moreover have "valid_utf8 (aq_consistency (abs_query q))" using ok by (auto simp: abs_query_def consistency_defs)
  moreover have "valid_utf8 (aq_forced (abs_query q))"
    using ok by (auto simp: abs_query_def optimization_ok_def representation_defs)
  moreover have "valid_utf8 (constraint_log (qy_ReadConstraint q))"
    using ok lower_hex_utf8 by (auto simp: constraint_log_def constraint_ok_def split: read_constraint_tag.splits)
  moreover have "list_all (\<lambda>(x, d). valid_utf8 x \<and> valid_utf8 d) (aq_order (abs_query q))"
  proof -
    have "order_ok q" using ok by blast
    then show ?thesis by (simp add: abs_query_def list_all_iff order_utf8)
  qed
  moreover have "\<forall>l \<in> {aq_subject (abs_query q), aq_predicate (abs_query q), aq_object (abs_query q)}.
      case l of None \<Rightarrow> True | Some vs \<Rightarrow> list_all valid_utf8 vs"
    using where_labels [of "qy_Where q"] clean_labels ok by (simp add: abs_query_def)
  moreover have "0 \<le> sint (qy_Offset q)" "lm_set (qy_Limit q) \<Longrightarrow> 0 \<le> sint (lm_value (qy_Limit q))"
    using ok by linarith+
  ultimately show ?thesis
    using bounds_sized_abs [of q] by (simp add: clean_query_def abs_query_def)
qed

section \<open>The contract\<close>

lemma QueryEncode_ok: "QueryEncode q = Inr b \<longleftrightarrow> query_ok q \<and> b = render (doc_query (abs_query q))"
proof (cases "query_ok q")
  case True
  then have "optimization_ok (qy_Optimization q)" by (simp add: query_ok_def)
  with True QueryValidate_None [of q] show ?thesis by (simp add: QueryEncode_def wireQuery_doc eq_commute)
next
  case False
  with QueryValidate_None [of q] obtain e where "QueryValidate q = Some e" by auto
  with False show ?thesis by (simp add: QueryEncode_def)
qed

lemma doc_query_fits:
  assumes "query_ok q"
  shows "fits max_nesting (doc_query (abs_query q))"
proof -
  have "fits (Suc (Suc (Suc 0))) (doc_query (abs_query q))"
    by (rule clean_doc_query) (rule query_ok_clean [OF assms])
  then show ?thesis by (rule fits_mono) (simp add: max_nesting_def)
qed

interpretation query_wire: wire_format query_ok "\<lambda>q. doc_query (abs_query q)" abs_query
  using doc_query_fits doc_query_inject [OF bounds_sized_abs bounds_sized_abs] by unfold_locales auto

lemma QueryEncode_parses: "QueryEncode q = Inr b \<Longrightarrow> json_parse b = Some (doc_query (abs_query q))"
  by (simp add: QueryEncode_ok query_wire.reads_back)

lemma QueryEncode_inject:
  assumes "QueryEncode p = Inr a" "QueryEncode q = Inr b"
  shows "a = b \<longleftrightarrow> abs_query p = abs_query q"
  using assms by (simp add: QueryEncode_ok query_wire.determines)

end
