(* ===== verification/Query_Results.thy ===== *)
theory Query_Results
  imports Query_Types Go_Json_Decode
begin

text \<open>
  The results of a query (\<open>query/results.go\<close>): the structs and, from their tags, how
  \<open>json.Unmarshal\<close> fills them from their zero values. The fields that every shape embeds are
  promoted, so a shape's record extends \<open>query_result\<close> and its decoder extends that of the common
  fields. \<open>Facts\<close> keeps Go's difference between a nil and an empty slice.
\<close>

definition dec_nil_slice :: "'a dec \<Rightarrow> 'a \<Rightarrow> 'a list option dec" where
  "dec_nil_slice d zero j old = (case j of
     JArr js \<Rightarrow> (let (xs, e) = dec_elems d zero js (case old of None \<Rightarrow> [] | Some ys \<Rightarrow> ys) in (Some xs, e))
   | JNull \<Rightarrow> (None, False)
   | _ \<Rightarrow> (old, True))"

definition ObjectEntity :: string where "ObjectEntity = ''entity''"
definition ObjectNumber :: string where "ObjectNumber = ''number''"

section \<open>Facts, plans, metadata\<close>

record query_fact =
  qf_ID :: string
  qf_SubjectID :: string
  qf_Subject :: string
  qf_PredicateID :: string
  qf_Predicate :: string
  qf_ObjectID :: string
  qf_Object :: string
  qf_ObjectKind :: string
  qf_Tense :: string
  qf_RawText :: string

definition query_fact_fields :: "query_fact fields" where
  "query_fact_fields =
    [field ''id'' qf_ID qf_ID_update dec_string,
     field ''subject_id'' qf_SubjectID qf_SubjectID_update dec_string,
     field ''subject'' qf_Subject qf_Subject_update dec_string,
     field ''predicate_id'' qf_PredicateID qf_PredicateID_update dec_string,
     field ''predicate'' qf_Predicate qf_Predicate_update dec_string,
     field ''object_id'' qf_ObjectID qf_ObjectID_update dec_string,
     field ''object'' qf_Object qf_Object_update dec_string,
     field ''object_kind'' qf_ObjectKind qf_ObjectKind_update dec_string,
     field ''tense'' qf_Tense qf_Tense_update dec_string,
     field ''raw_text'' qf_RawText qf_RawText_update dec_string]"

definition zero_query_fact :: query_fact where
  "zero_query_fact = \<lparr>qf_ID = '''', qf_SubjectID = '''', qf_Subject = '''', qf_PredicateID = '''',
     qf_Predicate = '''', qf_ObjectID = '''', qf_Object = '''', qf_ObjectKind = '''',
     qf_Tense = '''', qf_RawText = ''''\<rparr>"

record applied_order =
  ao_By :: string
  ao_Dir :: string

definition applied_order_fields :: "applied_order fields" where
  "applied_order_fields =
    [field ''by'' ao_By ao_By_update dec_string,
     field ''dir'' ao_Dir ao_Dir_update dec_string]"

definition zero_applied_order :: applied_order where
  "zero_applied_order = \<lparr>ao_By = '''', ao_Dir = ''''\<rparr>"

record page_info =
  pg_Offset :: int
  pg_ReturnedFactCount :: "int option"
  pg_ReturnedBindingCount :: "int option"
  pg_ReturnedGroupCount :: "int option"
  pg_NextCursor :: string

definition page_info_fields :: "page_info fields" where
  "page_info_fields =
    [field ''offset'' pg_Offset pg_Offset_update dec_int,
     field ''returned_fact_count'' pg_ReturnedFactCount pg_ReturnedFactCount_update (dec_ptr dec_int 0),
     field ''returned_binding_count'' pg_ReturnedBindingCount pg_ReturnedBindingCount_update (dec_ptr dec_int 0),
     field ''returned_group_count'' pg_ReturnedGroupCount pg_ReturnedGroupCount_update (dec_ptr dec_int 0),
     field ''next_cursor'' pg_NextCursor pg_NextCursor_update dec_string]"

definition zero_page_info :: page_info where
  "zero_page_info = \<lparr>pg_Offset = 0, pg_ReturnedFactCount = None, pg_ReturnedBindingCount = None,
     pg_ReturnedGroupCount = None, pg_NextCursor = ''''\<rparr>"

record plan_candidate =
  pn_Route :: string
  pn_Fresh :: bool
  pn_Eligible :: bool
  pn_EstimatedFacts :: int
  pn_Watermark :: int
  pn_IneligibleReason :: string

definition plan_candidate_fields :: "plan_candidate fields" where
  "plan_candidate_fields =
    [field ''route'' pn_Route pn_Route_update dec_string,
     field ''fresh'' pn_Fresh pn_Fresh_update dec_bool,
     field ''eligible'' pn_Eligible pn_Eligible_update dec_bool,
     field ''estimated_facts'' pn_EstimatedFacts pn_EstimatedFacts_update dec_int,
     field ''watermark'' pn_Watermark pn_Watermark_update (dec_uint 64),
     field ''ineligible_reason'' pn_IneligibleReason pn_IneligibleReason_update dec_string]"

definition zero_plan_candidate :: plan_candidate where
  "zero_plan_candidate = \<lparr>pn_Route = '''', pn_Fresh = False, pn_Eligible = False, pn_EstimatedFacts = 0,
     pn_Watermark = 0, pn_IneligibleReason = ''''\<rparr>"

record plan_stage =
  ps_Pattern :: "int option"
  ps_Operator :: string
  ps_Representation :: string
  ps_AccessPath :: string
  ps_FactsConsidered :: "int option"
  ps_AssignmentsOut :: "int option"
  ps_StaleSkipped :: int
  ps_RescuedLive :: int
  ps_Direction :: string
  ps_MinDepth :: "int option"
  ps_MaxDepth :: "int option"
  ps_Uniqueness :: string
  ps_StartCount :: "int option"
  ps_PostingsExamined :: "int option"
  ps_EdgesConsidered :: "int option"
  ps_EdgesAdmitted :: "int option"
  ps_PathsPruned :: "int option"
  ps_FrontierPeak :: "int option"
  ps_ArenaBytesPeak :: "int option"
  ps_PathsEmitted :: "int option"

definition plan_stage_fields :: "plan_stage fields" where
  "plan_stage_fields =
    [field ''pattern'' ps_Pattern ps_Pattern_update (dec_ptr dec_int 0),
     field ''operator'' ps_Operator ps_Operator_update dec_string,
     field ''representation'' ps_Representation ps_Representation_update dec_string,
     field ''access_path'' ps_AccessPath ps_AccessPath_update dec_string,
     field ''facts_considered'' ps_FactsConsidered ps_FactsConsidered_update (dec_ptr dec_int 0),
     field ''assignments_out'' ps_AssignmentsOut ps_AssignmentsOut_update (dec_ptr dec_int 0),
     field ''stale_skipped'' ps_StaleSkipped ps_StaleSkipped_update dec_int,
     field ''rescued_live'' ps_RescuedLive ps_RescuedLive_update dec_int,
     field ''direction'' ps_Direction ps_Direction_update dec_string,
     field ''min_depth'' ps_MinDepth ps_MinDepth_update (dec_ptr dec_int 0),
     field ''max_depth'' ps_MaxDepth ps_MaxDepth_update (dec_ptr dec_int 0),
     field ''uniqueness'' ps_Uniqueness ps_Uniqueness_update dec_string,
     field ''start_count'' ps_StartCount ps_StartCount_update (dec_ptr dec_int 0),
     field ''postings_examined'' ps_PostingsExamined ps_PostingsExamined_update (dec_ptr dec_int 0),
     field ''edges_considered'' ps_EdgesConsidered ps_EdgesConsidered_update (dec_ptr dec_int 0),
     field ''edges_admitted'' ps_EdgesAdmitted ps_EdgesAdmitted_update (dec_ptr dec_int 0),
     field ''paths_pruned'' ps_PathsPruned ps_PathsPruned_update (dec_ptr dec_int 0),
     field ''frontier_peak'' ps_FrontierPeak ps_FrontierPeak_update (dec_ptr dec_int 0),
     field ''arena_bytes_peak'' ps_ArenaBytesPeak ps_ArenaBytesPeak_update (dec_ptr dec_int 0),
     field ''paths_emitted'' ps_PathsEmitted ps_PathsEmitted_update (dec_ptr dec_int 0)]"

definition zero_plan_stage :: plan_stage where
  "zero_plan_stage = \<lparr>ps_Pattern = None, ps_Operator = '''', ps_Representation = '''', ps_AccessPath = '''',
     ps_FactsConsidered = None, ps_AssignmentsOut = None, ps_StaleSkipped = 0, ps_RescuedLive = 0,
     ps_Direction = '''', ps_MinDepth = None, ps_MaxDepth = None, ps_Uniqueness = '''',
     ps_StartCount = None, ps_PostingsExamined = None, ps_EdgesConsidered = None,
     ps_EdgesAdmitted = None, ps_PathsPruned = None, ps_FrontierPeak = None,
     ps_ArenaBytesPeak = None, ps_PathsEmitted = None\<rparr>"

record query_plan =
  pl_Chosen :: string
  pl_Reason :: string
  pl_Candidates :: "plan_candidate list"
  pl_RequiredWatermark :: int
  pl_Stages :: "plan_stage list"
  pl_ExecutionOrder :: "int list"
  pl_OrderFallback :: bool
  pl_Built :: "string list"
  pl_Materialization :: string

definition query_plan_fields :: "query_plan fields" where
  "query_plan_fields =
    [field ''chosen'' pl_Chosen pl_Chosen_update dec_string,
     field ''reason'' pl_Reason pl_Reason_update dec_string,
     field ''candidates'' pl_Candidates pl_Candidates_update (dec_slice (dec_struct plan_candidate_fields) zero_plan_candidate),
     field ''required_watermark'' pl_RequiredWatermark pl_RequiredWatermark_update (dec_uint 64),
     field ''stages'' pl_Stages pl_Stages_update (dec_slice (dec_struct plan_stage_fields) zero_plan_stage),
     field ''execution_order'' pl_ExecutionOrder pl_ExecutionOrder_update (dec_slice dec_int 0),
     field ''order_fallback'' pl_OrderFallback pl_OrderFallback_update dec_bool,
     field ''built'' pl_Built pl_Built_update dec_strings,
     field ''materialization'' pl_Materialization pl_Materialization_update dec_string]"

definition zero_query_plan :: query_plan where
  "zero_query_plan = \<lparr>pl_Chosen = '''', pl_Reason = '''', pl_Candidates = [], pl_RequiredWatermark = 0,
     pl_Stages = [], pl_ExecutionOrder = [], pl_OrderFallback = False, pl_Built = [],
     pl_Materialization = ''''\<rparr>"

record metadata =
  md_ServedBy :: string
  md_RequestedRepresentation :: string
  md_OptimizeMode :: string
  md_RequestedConsistency :: string
  md_ServedConsistency :: string
  md_Source :: string
  md_FactCount :: int
  md_Folded :: bool
  md_Truncated :: bool
  md_ReturnedFactCount :: int
  md_ReturnedBindingCount :: int
  md_ReturnedPathCount :: int
  md_Order :: "applied_order list"
  md_Page :: "page_info option"
  md_AccessPath :: string
  md_Watermark :: int
  md_StoreVersion :: int
  md_Plan :: "query_plan option"

definition metadata_fields :: "metadata fields" where
  "metadata_fields =
    [field ''served_by'' md_ServedBy md_ServedBy_update dec_string,
     field ''requested_representation'' md_RequestedRepresentation md_RequestedRepresentation_update dec_string,
     field ''optimize_mode'' md_OptimizeMode md_OptimizeMode_update dec_string,
     field ''requested_consistency'' md_RequestedConsistency md_RequestedConsistency_update dec_string,
     field ''served_consistency'' md_ServedConsistency md_ServedConsistency_update dec_string,
     field ''source'' md_Source md_Source_update dec_string,
     field ''fact_count'' md_FactCount md_FactCount_update dec_int,
     field ''folded'' md_Folded md_Folded_update dec_bool,
     field ''truncated'' md_Truncated md_Truncated_update dec_bool,
     field ''returned_fact_count'' md_ReturnedFactCount md_ReturnedFactCount_update dec_int,
     field ''returned_binding_count'' md_ReturnedBindingCount md_ReturnedBindingCount_update dec_int,
     field ''returned_path_count'' md_ReturnedPathCount md_ReturnedPathCount_update dec_int,
     field ''order'' md_Order md_Order_update (dec_slice (dec_struct applied_order_fields) zero_applied_order),
     field ''page'' md_Page md_Page_update (dec_ptr (dec_struct page_info_fields) zero_page_info),
     field ''access_path'' md_AccessPath md_AccessPath_update dec_string,
     field ''watermark'' md_Watermark md_Watermark_update (dec_uint 64),
     field ''store_version'' md_StoreVersion md_StoreVersion_update (dec_uint 64),
     field ''plan'' md_Plan md_Plan_update (dec_ptr (dec_struct query_plan_fields) zero_query_plan)]"

definition zero_metadata :: metadata where
  "zero_metadata = \<lparr>md_ServedBy = '''', md_RequestedRepresentation = '''', md_OptimizeMode = '''',
     md_RequestedConsistency = '''', md_ServedConsistency = '''', md_Source = '''',
     md_FactCount = 0, md_Folded = False, md_Truncated = False, md_ReturnedFactCount = 0,
     md_ReturnedBindingCount = 0, md_ReturnedPathCount = 0, md_Order = [], md_Page = None,
     md_AccessPath = '''', md_Watermark = 0, md_StoreVersion = 0, md_Plan = None\<rparr>"

record query_timing =
  tm_PlanNS :: int
  tm_BuildNS :: int
  tm_AdaptationNS :: int
  tm_ExecuteNS :: int
  tm_TotalNS :: int

definition query_timing_fields :: "query_timing fields" where
  "query_timing_fields =
    [field ''plan_ns'' tm_PlanNS tm_PlanNS_update dec_int,
     field ''build_ns'' tm_BuildNS tm_BuildNS_update dec_int,
     field ''adaptation_ns'' tm_AdaptationNS tm_AdaptationNS_update dec_int,
     field ''execute_ns'' tm_ExecuteNS tm_ExecuteNS_update dec_int,
     field ''total_ns'' tm_TotalNS tm_TotalNS_update dec_int]"

definition zero_query_timing :: query_timing where
  "zero_query_timing = \<lparr>tm_PlanNS = 0, tm_BuildNS = 0, tm_AdaptationNS = 0, tm_ExecuteNS = 0, tm_TotalNS = 0\<rparr>"

record query_result =
  qs_Shape :: string
  qs_Facts :: "query_fact list option"
  qs_Metadata :: metadata
  qs_Timing :: "query_timing option"

definition query_result_fields :: "'a query_result_scheme fields" where
  "query_result_fields =
    [field ''shape'' qs_Shape qs_Shape_update dec_string,
     field ''facts'' qs_Facts qs_Facts_update (dec_nil_slice (dec_struct query_fact_fields) zero_query_fact),
     field ''metadata'' qs_Metadata qs_Metadata_update (dec_struct metadata_fields),
     field ''timing'' qs_Timing qs_Timing_update (dec_ptr (dec_struct query_timing_fields) zero_query_timing)]"

section \<open>The five result shapes\<close>

record graph_node =
  gn_ID :: string
  gn_Label :: string

definition graph_node_fields :: "graph_node fields" where
  "graph_node_fields =
    [field ''id'' gn_ID gn_ID_update dec_string,
     field ''label'' gn_Label gn_Label_update dec_string]"

definition zero_graph_node :: graph_node where
  "zero_graph_node = \<lparr>gn_ID = '''', gn_Label = ''''\<rparr>"

record graph_edge =
  ge_FactID :: string
  ge_From :: string
  ge_To :: string
  ge_PredicateID :: string
  ge_Predicate :: string
  ge_Tense :: string
  ge_RawText :: string

definition graph_edge_fields :: "graph_edge fields" where
  "graph_edge_fields =
    [field ''fact_id'' ge_FactID ge_FactID_update dec_string,
     field ''from'' ge_From ge_From_update dec_string,
     field ''to'' ge_To ge_To_update dec_string,
     field ''predicate_id'' ge_PredicateID ge_PredicateID_update dec_string,
     field ''predicate'' ge_Predicate ge_Predicate_update dec_string,
     field ''tense'' ge_Tense ge_Tense_update dec_string,
     field ''raw_text'' ge_RawText ge_RawText_update dec_string]"

definition zero_graph_edge :: graph_edge where
  "zero_graph_edge = \<lparr>ge_FactID = '''', ge_From = '''', ge_To = '''', ge_PredicateID = '''', ge_Predicate = '''',
     ge_Tense = '''', ge_RawText = ''''\<rparr>"

record graph_payload =
  gp_Nodes :: "graph_node list"
  gp_Edges :: "graph_edge list"

definition graph_payload_fields :: "graph_payload fields" where
  "graph_payload_fields =
    [field ''nodes'' gp_Nodes gp_Nodes_update (dec_slice (dec_struct graph_node_fields) zero_graph_node),
     field ''edges'' gp_Edges gp_Edges_update (dec_slice (dec_struct graph_edge_fields) zero_graph_edge)]"

definition zero_graph_payload :: graph_payload where
  "zero_graph_payload = \<lparr>gp_Nodes = [], gp_Edges = []\<rparr>"

record graph_result = query_result +
  gr_Graph :: "graph_payload option"

definition graph_result_fields :: "graph_result fields" where
  "graph_result_fields = query_result_fields @
    [field ''graph'' gr_Graph gr_Graph_update (dec_ptr (dec_struct graph_payload_fields) zero_graph_payload)]"

definition zero_graph_result :: graph_result where
  "zero_graph_result = \<lparr>qs_Shape = '''', qs_Facts = None, qs_Metadata = zero_metadata, qs_Timing = None,
     gr_Graph = None\<rparr>"

record table_row =
  tw_FactID :: string
  tw_Actor :: string
  tw_Action :: string
  tw_Target :: string
  tw_Tense :: string
  tw_RawText :: string
  tw_ActorID :: string
  tw_TargetID :: string
  tw_ActionID :: string

definition table_row_fields :: "table_row fields" where
  "table_row_fields =
    [field ''fact_id'' tw_FactID tw_FactID_update dec_string,
     field ''actor'' tw_Actor tw_Actor_update dec_string,
     field ''action'' tw_Action tw_Action_update dec_string,
     field ''target'' tw_Target tw_Target_update dec_string,
     field ''tense'' tw_Tense tw_Tense_update dec_string,
     field ''raw_text'' tw_RawText tw_RawText_update dec_string,
     field ''actor_id'' tw_ActorID tw_ActorID_update dec_string,
     field ''target_id'' tw_TargetID tw_TargetID_update dec_string,
     field ''action_id'' tw_ActionID tw_ActionID_update dec_string]"

definition zero_table_row :: table_row where
  "zero_table_row = \<lparr>tw_FactID = '''', tw_Actor = '''', tw_Action = '''', tw_Target = '''', tw_Tense = '''',
     tw_RawText = '''', tw_ActorID = '''', tw_TargetID = '''', tw_ActionID = ''''\<rparr>"

record table_payload =
  tp_Rows :: "table_row list"

definition table_payload_fields :: "table_payload fields" where
  "table_payload_fields =
    [field ''rows'' tp_Rows tp_Rows_update (dec_slice (dec_struct table_row_fields) zero_table_row)]"

definition zero_table_payload :: table_payload where
  "zero_table_payload = \<lparr>tp_Rows = []\<rparr>"

record table_result = query_result +
  tr_Table :: "table_payload option"

definition table_result_fields :: "table_result fields" where
  "table_result_fields = query_result_fields @
    [field ''table'' tr_Table tr_Table_update (dec_ptr (dec_struct table_payload_fields) zero_table_payload)]"

definition zero_table_result :: table_result where
  "zero_table_result = \<lparr>qs_Shape = '''', qs_Facts = None, qs_Metadata = zero_metadata, qs_Timing = None,
     tr_Table = None\<rparr>"

record document_entity =
  dn_ID :: string
  dn_Label :: string

definition document_entity_fields :: "document_entity fields" where
  "document_entity_fields =
    [field ''id'' dn_ID dn_ID_update dec_string,
     field ''label'' dn_Label dn_Label_update dec_string]"

definition zero_document_entity :: document_entity where
  "zero_document_entity = \<lparr>dn_ID = '''', dn_Label = ''''\<rparr>"

record document_attribute =
  da_Key :: string
  da_Value :: string

definition document_attribute_fields :: "document_attribute fields" where
  "document_attribute_fields =
    [field ''key'' da_Key da_Key_update dec_string,
     field ''value'' da_Value da_Value_update dec_string]"

definition zero_document_attribute :: document_attribute where
  "zero_document_attribute = \<lparr>da_Key = '''', da_Value = ''''\<rparr>"

record document_fact =
  df_ID :: string
  df_Actor :: document_entity
  df_Action :: document_entity
  df_Target :: document_entity
  df_Attrs :: "document_attribute list"
  df_Raw :: "document_attribute list"

definition document_fact_fields :: "document_fact fields" where
  "document_fact_fields =
    [field ''id'' df_ID df_ID_update dec_string,
     field ''actor'' df_Actor df_Actor_update (dec_struct document_entity_fields),
     field ''action'' df_Action df_Action_update (dec_struct document_entity_fields),
     field ''target'' df_Target df_Target_update (dec_struct document_entity_fields),
     field ''attrs'' df_Attrs df_Attrs_update (dec_slice (dec_struct document_attribute_fields) zero_document_attribute),
     field ''raw'' df_Raw df_Raw_update (dec_slice (dec_struct document_attribute_fields) zero_document_attribute)]"

definition zero_document_fact :: document_fact where
  "zero_document_fact = \<lparr>df_ID = '''', df_Actor = zero_document_entity, df_Action = zero_document_entity,
     df_Target = zero_document_entity, df_Attrs = [], df_Raw = []\<rparr>"

record document_payload =
  dp_Facts :: "document_fact list"

definition document_payload_fields :: "document_payload fields" where
  "document_payload_fields =
    [field ''facts'' dp_Facts dp_Facts_update (dec_slice (dec_struct document_fact_fields) zero_document_fact)]"

definition zero_document_payload :: document_payload where
  "zero_document_payload = \<lparr>dp_Facts = []\<rparr>"

record document_result = query_result +
  dr_Document :: "document_payload option"

definition document_result_fields :: "document_result fields" where
  "document_result_fields = query_result_fields @
    [field ''document'' dr_Document dr_Document_update (dec_ptr (dec_struct document_payload_fields) zero_document_payload)]"

definition zero_document_result :: document_result where
  "zero_document_result = \<lparr>qs_Shape = '''', qs_Facts = None, qs_Metadata = zero_metadata, qs_Timing = None,
     dr_Document = None\<rparr>"

record kv_fact_entry =
  kf_Key :: string
  kf_Fact :: query_fact

definition kv_fact_entry_fields :: "kv_fact_entry fields" where
  "kv_fact_entry_fields =
    [field ''key'' kf_Key kf_Key_update dec_string,
     field ''fact'' kf_Fact kf_Fact_update (dec_struct query_fact_fields)]"

definition zero_kv_fact_entry :: kv_fact_entry where
  "zero_kv_fact_entry = \<lparr>kf_Key = '''', kf_Fact = zero_query_fact\<rparr>"

record kv_index_entry =
  ki_Key :: string
  ki_Facts :: "query_fact list"

definition kv_index_entry_fields :: "kv_index_entry fields" where
  "kv_index_entry_fields =
    [field ''key'' ki_Key ki_Key_update dec_string,
     field ''facts'' ki_Facts ki_Facts_update (dec_slice (dec_struct query_fact_fields) zero_query_fact)]"

definition zero_kv_index_entry :: kv_index_entry where
  "zero_kv_index_entry = \<lparr>ki_Key = '''', ki_Facts = []\<rparr>"

record kv_payload =
  kp_ByFact :: "kv_fact_entry list"
  kp_BySubject :: "kv_index_entry list"
  kp_ByPredicate :: "kv_index_entry list"
  kp_ByObject :: "kv_index_entry list"

definition kv_payload_fields :: "kv_payload fields" where
  "kv_payload_fields =
    [field ''by_fact'' kp_ByFact kp_ByFact_update (dec_slice (dec_struct kv_fact_entry_fields) zero_kv_fact_entry),
     field ''by_subject'' kp_BySubject kp_BySubject_update (dec_slice (dec_struct kv_index_entry_fields) zero_kv_index_entry),
     field ''by_predicate'' kp_ByPredicate kp_ByPredicate_update (dec_slice (dec_struct kv_index_entry_fields) zero_kv_index_entry),
     field ''by_object'' kp_ByObject kp_ByObject_update (dec_slice (dec_struct kv_index_entry_fields) zero_kv_index_entry)]"

definition zero_kv_payload :: kv_payload where
  "zero_kv_payload = \<lparr>kp_ByFact = [], kp_BySubject = [], kp_ByPredicate = [], kp_ByObject = []\<rparr>"

record kv_result = query_result +
  kr_KV :: "kv_payload option"

definition kv_result_fields :: "kv_result fields" where
  "kv_result_fields = query_result_fields @
    [field ''kv'' kr_KV kr_KV_update (dec_ptr (dec_struct kv_payload_fields) zero_kv_payload)]"

definition zero_kv_result :: kv_result where
  "zero_kv_result = \<lparr>qs_Shape = '''', qs_Facts = None, qs_Metadata = zero_metadata, qs_Timing = None, kr_KV = None\<rparr>"

record columnar_payload =
  cp_FactIDs :: "string list"
  cp_Subjects :: "string list"
  cp_Predicates :: "string list"
  cp_Objects :: "string list"
  cp_Tenses :: "string list"
  cp_RawTexts :: "string list"
  cp_SubjectIDs :: "string list"
  cp_PredicateIDs :: "string list"
  cp_ObjectIDs :: "string list"

definition columnar_payload_fields :: "columnar_payload fields" where
  "columnar_payload_fields =
    [field ''fact_ids'' cp_FactIDs cp_FactIDs_update dec_strings,
     field ''subjects'' cp_Subjects cp_Subjects_update dec_strings,
     field ''predicates'' cp_Predicates cp_Predicates_update dec_strings,
     field ''objects'' cp_Objects cp_Objects_update dec_strings,
     field ''tenses'' cp_Tenses cp_Tenses_update dec_strings,
     field ''raw_texts'' cp_RawTexts cp_RawTexts_update dec_strings,
     field ''subject_ids'' cp_SubjectIDs cp_SubjectIDs_update dec_strings,
     field ''predicate_ids'' cp_PredicateIDs cp_PredicateIDs_update dec_strings,
     field ''object_ids'' cp_ObjectIDs cp_ObjectIDs_update dec_strings]"

definition zero_columnar_payload :: columnar_payload where
  "zero_columnar_payload = \<lparr>cp_FactIDs = [], cp_Subjects = [], cp_Predicates = [], cp_Objects = [], cp_Tenses = [],
     cp_RawTexts = [], cp_SubjectIDs = [], cp_PredicateIDs = [], cp_ObjectIDs = []\<rparr>"

record columnar_result = query_result +
  cr_Columnar :: "columnar_payload option"

definition columnar_result_fields :: "columnar_result fields" where
  "columnar_result_fields = query_result_fields @
    [field ''columnar'' cr_Columnar cr_Columnar_update (dec_ptr (dec_struct columnar_payload_fields) zero_columnar_payload)]"

definition zero_columnar_result :: columnar_result where
  "zero_columnar_result = \<lparr>qs_Shape = '''', qs_Facts = None, qs_Metadata = zero_metadata, qs_Timing = None,
     cr_Columnar = None\<rparr>"

end
