(* ===== verification/Client_Query.thy ===== *)
theory Client_Query
  imports Client_Preflight_Laws Query_Contract Query_Results
begin

text \<open>
  Typed queries (\<open>QueryRequest\<close> of \<open>authoring.go\<close>, \<open>query_results.go\<close>). The five typed
  operations share one body, \<open>typed_query\<close>, over the shape, the result's decoder and the two
  things the code reads back from the result: its shape and whether the payload is present.
\<close>

section \<open>Operations\<close>

definition query_failure :: "query_error \<Rightarrow> go_error" where
  "query_failure e = QueryValidationError (query_code_string (qe_Code e)) (qe_Path e) (qe_Detail e)"

definition client_QueryRequest :: "go_fmt \<Rightarrow> 'w client \<Rightarrow> 'w ctx option \<Rightarrow> q_request \<Rightarrow> out_dest \<Rightarrow>
    request_option option list \<Rightarrow> 'w net \<Rightarrow> attempt \<times> 'w net" where
  "client_QueryRequest f c ctx q out opts n = (case QueryEncode q of
     Inl e \<Rightarrow> (AttemptFailed None (query_failure e), n)
   | Inr body \<Rightarrow> client_Query f c ctx (Some body) out opts n)"

definition shapeName :: "shape \<Rightarrow> string" where
  "shapeName s = (if s = ShapeTable then ''Table'' else if s = ShapeGraph then ''Graph''
     else if s = ShapeDocument then ''Document'' else if s = ShapeKV then ''KV''
     else if s = ShapeColumnar then ''Columnar'' else ''Typed'')"

definition validateTypedQueryShape :: "go_fmt \<Rightarrow> q_request \<Rightarrow> shape \<Rightarrow> go_error option" where
  "validateTypedQueryShape f q expected = (let actual = qr_shape (qy_Return q) in
     if actual = expected then None
     else case QueryValidate q of
       Some e \<Rightarrow> Some (query_failure e)
     | None \<Rightarrow> Some (query_failure (query_invalid QueryResultShapeMismatch ''return.shape''
         (''Query'' @ shapeName expected @ '' requires '' @ fmt_q f expected
          @ '', but the request selects '' @ fmt_q f actual))))"

definition validateTypedQueryResult :: "go_fmt \<Rightarrow> response option \<Rightarrow> shape \<Rightarrow> shape \<Rightarrow> bool \<Rightarrow> go_error option" where
  "validateTypedQueryResult f r actual expected payloadPresent =
     (let requestID = (case r of None \<Rightarrow> '''' | Some r \<Rightarrow> resp_RequestID r) in
      if actual \<noteq> expected then Some (ProtocolError requestID
        (''typed '' @ expected @ '' query received response shape '' @ fmt_q f actual) None)
      else if \<not> payloadPresent then Some (ProtocolError requestID
        (''typed '' @ expected @ '' query response omitted the '' @ expected @ '' payload'') None)
      else None)"

text \<open>
  The caller's result variable: zero until the response is decoded into it, which happens only
  after an attempt without an error of its own.
\<close>

definition result_dest :: "string \<Rightarrow> 'r dec \<Rightarrow> 'r \<Rightarrow> out_dest" where
  "result_dest target d zero = Some (\<lambda>body. if snd (unmarshal d zero body) then Some (JsonError target body) else None)"

definition result_after :: "'r dec \<Rightarrow> 'r \<Rightarrow> attempt \<Rightarrow> 'r" where
  "result_after d zero a = (case a of
     AttemptOk r \<Rightarrow> fst (unmarshal d zero (resp_Body r))
   | AttemptFailed (Some r) e \<Rightarrow> (if is_DecodeError e then fst (unmarshal d zero (resp_Body r)) else zero)
   | AttemptFailed None e \<Rightarrow> zero)"

definition typed_query :: "go_fmt \<Rightarrow> 'w client \<Rightarrow> 'w ctx option \<Rightarrow> shape \<Rightarrow> string \<Rightarrow> 'r dec \<Rightarrow> 'r \<Rightarrow>
    ('r \<Rightarrow> shape) \<Rightarrow> ('r \<Rightarrow> bool) \<Rightarrow> q_request \<Rightarrow> request_option option list \<Rightarrow> 'w net \<Rightarrow>
    ('r \<times> response option \<times> go_error option) \<times> 'w net" where
  "typed_query f c ctx expected target d zero shape_of payload q opts n =
     (case validateTypedQueryShape f q expected of
        Some e \<Rightarrow> ((zero, None, Some e), n)
      | None \<Rightarrow> (let (a, n') = client_QueryRequest f c ctx q (result_dest target d zero) opts n;
            result = result_after d zero a
          in case a of
               AttemptFailed r e \<Rightarrow> ((result, r, Some e), n')
             | AttemptOk r \<Rightarrow> ((result, Some r,
                 validateTypedQueryResult f (Some r) (shape_of result) expected (payload result)), n')))"

definition QueryTable :: "go_fmt \<Rightarrow> 'w client \<Rightarrow> 'w ctx option \<Rightarrow> q_request \<Rightarrow> request_option option list \<Rightarrow>
    'w net \<Rightarrow> (table_result \<times> response option \<times> go_error option) \<times> 'w net" where
  "QueryTable f c ctx q opts n = typed_query f c ctx ShapeTable ''TableResult''
     (dec_struct table_result_fields) zero_table_result qs_Shape (\<lambda>v. tr_Table v \<noteq> None) q opts n"

definition QueryGraph :: "go_fmt \<Rightarrow> 'w client \<Rightarrow> 'w ctx option \<Rightarrow> q_request \<Rightarrow> request_option option list \<Rightarrow>
    'w net \<Rightarrow> (graph_result \<times> response option \<times> go_error option) \<times> 'w net" where
  "QueryGraph f c ctx q opts n = typed_query f c ctx ShapeGraph ''GraphResult''
     (dec_struct graph_result_fields) zero_graph_result qs_Shape (\<lambda>v. gr_Graph v \<noteq> None) q opts n"

definition QueryDocument :: "go_fmt \<Rightarrow> 'w client \<Rightarrow> 'w ctx option \<Rightarrow> q_request \<Rightarrow> request_option option list \<Rightarrow>
    'w net \<Rightarrow> (document_result \<times> response option \<times> go_error option) \<times> 'w net" where
  "QueryDocument f c ctx q opts n = typed_query f c ctx ShapeDocument ''DocumentResult''
     (dec_struct document_result_fields) zero_document_result qs_Shape (\<lambda>v. dr_Document v \<noteq> None) q opts n"

definition QueryKV :: "go_fmt \<Rightarrow> 'w client \<Rightarrow> 'w ctx option \<Rightarrow> q_request \<Rightarrow> request_option option list \<Rightarrow>
    'w net \<Rightarrow> (kv_result \<times> response option \<times> go_error option) \<times> 'w net" where
  "QueryKV f c ctx q opts n = typed_query f c ctx ShapeKV ''KVResult''
     (dec_struct kv_result_fields) zero_kv_result qs_Shape (\<lambda>v. kr_KV v \<noteq> None) q opts n"

definition QueryColumnar :: "go_fmt \<Rightarrow> 'w client \<Rightarrow> 'w ctx option \<Rightarrow> q_request \<Rightarrow> request_option option list \<Rightarrow>
    'w net \<Rightarrow> (columnar_result \<times> response option \<times> go_error option) \<times> 'w net" where
  "QueryColumnar f c ctx q opts n = typed_query f c ctx ShapeColumnar ''ColumnarResult''
     (dec_struct columnar_result_fields) zero_columnar_result qs_Shape (\<lambda>v. cr_Columnar v \<noteq> None) q opts n"

section \<open>What they return\<close>

lemma validateTypedQueryShape_None: "validateTypedQueryShape f q s = None \<longleftrightarrow> qr_shape (qy_Return q) = s"
  by (auto simp: validateTypedQueryShape_def Let_def split: option.split)

lemma validateTypedQueryShape_Some: "validateTypedQueryShape f q s = Some e \<Longrightarrow> is_QueryValidationError e"
  by (auto simp: validateTypedQueryShape_def Let_def query_failure_def split: if_splits option.splits)

lemma validateTypedQueryResult_None: "validateTypedQueryResult f r a s p = None \<longleftrightarrow> a = s \<and> p"
  by (simp add: validateTypedQueryResult_def Let_def)

lemma client_Query_Ok:
  assumes "client_Query f c ctx body out opts n = (AttemptOk r, n')"
  shows "status_ok (resp_Status r) \<and> decodeResponse r out = None \<and>
    (\<exists>rq res. nt_trace n' = nt_trace n @ [Sent rq res] \<and> hq_Method rq = ''POST'' \<and>
       hq_URL rq = cl_BaseURL c @ ''/query'' \<and> hq_Body rq = body \<and> header_Get IdempotencyKeyHeader (hq_Header rq) = '''')"
proof -
  obtain a where d: "client_do f c ctx ''POST'' ''/query'' body '''' opts n = (a, n')" "decode_attempt a out = AttemptOk r"
    using assms by (auto simp: client_Query_def split: prod.splits)
  have a: "a = AttemptOk r" "decodeResponse r out = None"
    using d(2) by (auto simp: decode_attempt_def split: attempt.splits option.splits)
  show ?thesis
  proof (cases rule: client_do_cases [OF d(1)])
    case (1 e)
    then show ?thesis using a(1) by simp
  next
    case (2 rq rid res)
    have "status_ok (resp_Status r)" using 2(1) a(1) by (metis answer_response_sel(1) receive_Ok)
    then show ?thesis using 2 a(2) by blast
  qed
qed

lemma typed_query_Ok:
  assumes "typed_query f c ctx s target d zero shape_of payload q opts n = ((v, r, None), n')"
  shows "qr_shape (qy_Return q) = s \<and> shape_of v = s \<and> payload v \<and>
    (\<exists>x b. r = Some x \<and> unmarshal d zero (resp_Body x) = (v, False) \<and> QueryEncode q = Inr b \<and>
       client_Query f c ctx (Some b) (result_dest target d zero) opts n = (AttemptOk x, n'))"
proof -
  obtain a where a: "client_QueryRequest f c ctx q (result_dest target d zero) opts n = (a, n')"
    and s: "validateTypedQueryShape f q s = None"
    using assms by (auto simp: typed_query_def Let_def split: option.splits prod.splits attempt.splits)
  then obtain x where x: "a = AttemptOk x" "r = Some x" "v = fst (unmarshal d zero (resp_Body x))"
    "shape_of v = s" "payload v"
    using assms by (auto simp: typed_query_def Let_def result_after_def validateTypedQueryResult_None split: attempt.splits)
  obtain b where b: "QueryEncode q = Inr b" "client_Query f c ctx (Some b) (result_dest target d zero) opts n = (AttemptOk x, n')"
    using a x(1) by (auto simp: client_QueryRequest_def split: sum.splits)
  have "\<not> snd (unmarshal d zero (resp_Body x))"
    using client_Query_Ok [OF b(2)] by (auto simp: decodeResponse_def result_dest_def)
  then have "unmarshal d zero (resp_Body x) = (v, False)" using x(3) by (metis prod.collapse)
  then show ?thesis using x b s validateTypedQueryShape_None by metis
qed

lemma typed_query_refused:
  assumes "qr_shape (qy_Return q) \<noteq> s \<or> \<not> query_ok q"
  shows "\<exists>e. typed_query f c ctx s target d zero shape_of payload q opts n = ((zero, None, Some e), n) \<and>
    is_QueryValidationError e"
proof (cases "validateTypedQueryShape f q s")
  case (Some e)
  then show ?thesis using validateTypedQueryShape_Some [OF Some] by (simp add: typed_query_def)
next
  case None
  then have "\<not> query_ok q" using assms validateTypedQueryShape_None by blast
  then obtain e where "QueryValidate q = Some e" using QueryValidate_None [of q] by auto
  then have "QueryEncode q = Inl e" by (simp add: QueryEncode_def)
  with None show ?thesis
    by (simp add: typed_query_def client_QueryRequest_def result_after_def query_failure_def)
qed

end
