(* ===== verification/Query_Properties.thy ===== *)
theory Query_Properties
  imports Query_Contract
begin

text \<open>
  The published example queries with their bytes (\<open>query/testdata\<close>), and the properties of the
  \<open>query\<close> package.
\<close>

section \<open>Example queries\<close>

definition sample_log :: string where "sample_log = replicate 32 (CHR ''a'')"

definition base_query :: "q_where \<Rightarrow> q_return \<Rightarrow> q_request" where
  "base_query w r = \<lparr>qy_Where = w, qy_Return = r, qy_Consistency = '''', qy_Optimization = Automatic,
     qy_ReadConstraint = no_constraint, qy_Limit = no_limit, qy_Order = [], qy_Offset = 0\<rparr>"

definition query_table :: q_request where
  "query_table = base_query (zero_where\<lparr>wh_Predicate := Labels [''obs:status'']\<rparr>) (Table [IncludeFacts])"

definition query_graph :: q_request where
  "query_graph = (base_query (zero_where\<lparr>wh_Predicate := Labels [''obs:belongs_to_project''],
       wh_Object := Labels [''project:1'', ''project:2'']\<rparr>) (Graph [ExcludeFacts]))\<lparr>qy_Limit := MaxResults 200\<rparr>"

definition query_numeric :: q_request where
  "query_numeric = (base_query (zero_where\<lparr>wh_Subject := Labels [''sensor:1''],
       wh_ObjectNumber := Some \<lparr>nr_GT = no_bound, nr_GTE = Bound 20, nr_LT = Bound 10, nr_LTE = no_bound\<rparr>\<rparr>)
       (Columnar []))
     \<lparr>qy_Consistency := AllowStale, qy_Optimization := Force ColumnarView,
      qy_ReadConstraint := ReadAfter 7 sample_log, qy_Limit := MaxResults 25,
      qy_Order := [\<lparr>od_By = ByObjectNumber, od_Direction = Descending\<rparr>], qy_Offset := 2\<rparr>"

definition query_escaped :: q_request where
  "query_escaped = (base_query (zero_where\<lparr>wh_Subject := Labels [''?literal'']\<rparr>) (Document []))
     \<lparr>qy_Consistency := Fresh, qy_Optimization := Force PrimitiveScan, qy_ReadConstraint := OnLog sample_log\<rparr>"

definition query_match_all :: q_request where
  "query_match_all = base_query All (KV [])"

lemma query_table_bytes: "QueryEncode query_table =
    Inr ''{\"find\":\"facts\",\"where\":{\"predicate\":\"obs:status\"},\"return\":{\"shape\":\"table\",\"include_facts\":true},\"consistency\":\"strict\",\"optimize\":{\"mode\":\"auto\"}}''"
  by code_simp

lemma query_graph_bytes: "QueryEncode query_graph =
    Inr ''{\"find\":\"facts\",\"where\":{\"predicate\":\"obs:belongs_to_project\",\"object\":[\"project:1\",\"project:2\"]},\"return\":{\"shape\":\"graph\",\"include_facts\":false},\"consistency\":\"strict\",\"optimize\":{\"mode\":\"auto\"},\"limit\":200}''"
  by code_simp

lemma query_numeric_valid: "QueryValidate query_numeric = None"
  by code_simp

lemma query_escaped_valid: "QueryValidate query_escaped = None"
  by code_simp

lemma query_match_all_bytes: "QueryEncode query_match_all =
    Inr ''{\"find\":\"facts\",\"where\":{},\"return\":{\"shape\":\"kv\"},\"consistency\":\"strict\",\"optimize\":{\"mode\":\"auto\"}}''"
  by code_simp

section \<open>Labels in the document\<close>

definition json_member :: "string \<Rightarrow> json \<Rightarrow> json option" where
  "json_member k j = (case j of JObj ms \<Rightarrow> map_of ms k | _ \<Rightarrow> None)"

fun wire_strings :: "json \<Rightarrow> string list" where
  "wire_strings (JStr s) = [s]"
| "wire_strings (JArr xs) = concat (map wire_strings xs)"
| "wire_strings j = []"

text \<open>The string \<open>x\<close> of the document stands for the label: a leading question mark doubled, and
  never a single one (\<open>docs/TYPED-AUTHORING-DESIGN.md\<close>).\<close>

definition literal_on_wire :: "string \<Rightarrow> string \<Rightarrow> bool" where
  "literal_on_wire label x \<longleftrightarrow>
     (case label of [] \<Rightarrow> x = [] | c # s \<Rightarrow> x = (if c = CHR ''?'' then CHR ''?'' # CHR ''?'' # s else c # s)) \<and>
     (take 1 x = ''?'' \<longrightarrow> take 2 x = ''??'')"

lemma escaped_literal: "literal_on_wire s (escapeLabel s)"
  by (cases s) (auto simp: literal_on_wire_def escapeLabel_def)

lemma strings_of_labels: "wire_strings (JArr (map (\<lambda>s. JStr (f s)) xs)) = map f xs"
  by (induction xs) simp_all

lemma labelsWire_strings:
  "if ls_set l then \<exists>v. labelsWire l = Some v \<and> list_all2 literal_on_wire (ls_values l) (wire_strings v) \<and>
     ((\<exists>x. v = JStr x) \<longleftrightarrow> length (ls_values l) = 1) else labelsWire l = None"
proof (cases "length (ls_values l) = 1")
  case True
  then obtain s where "ls_values l = [s]" by (auto simp: length_Suc_conv)
  then show ?thesis by (simp add: labelsWire_def escaped_literal)
next
  case False
  have "list_all2 literal_on_wire (ls_values l) (map escapeLabel (ls_values l))"
    by (simp add: list_all2_map2 escaped_literal list.rel_refl)
  with False show ?thesis by (simp add: labelsWire_def strings_of_labels del: wire_strings.simps)
qed

lemma where_member: "json_member ''where'' (wireQuery_json q) = Some (wireWhere_json (qy_Where q))"
  by (simp add: json_member_def wireQuery_json_def struct_json_def map_filter_simps req_def)

lemma label_member:
  "json_member ''subject'' (wireWhere_json w) = labelsWire (wh_Subject w)"
  "json_member ''predicate'' (wireWhere_json w) = labelsWire (wh_Predicate w)"
  "json_member ''object'' (wireWhere_json w) = labelsWire (wh_Object w)"
  by (cases "labelsWire (wh_Subject w)"; cases "labelsWire (wh_Predicate w)"; cases "labelsWire (wh_Object w)";
      cases "wh_ObjectNumber w"; simp add: json_member_def wireWhere_json_def struct_json_def map_filter_simps)+

lemma QueryEncode_parses_wire:
  assumes "QueryEncode q = Inr b"
  shows "b = render (wireQuery_json q) \<and> json_parse b = Some (wireQuery_json q)"
proof -
  have "b = render (wireQuery_json q)" "query_ok q" using assms QueryEncode_ok [of q b]
    by (auto simp: QueryEncode_def split: option.splits)
  then show ?thesis using QueryEncode_parses [OF assms] wireQuery_doc [of q] by (simp add: query_ok_def)
qed

section \<open>Properties\<close>

text \<open>C16. \<open>Request.Validate\<close> accepts exactly the queries of the declarative contract \<open>query_ok\<close>: a
  filter or an explicit match-all but not both, distinct non-empty UTF-8 labels, consistent
  numeric bounds only with a return that supports them, declared enumeration values, a scoped
  watermark, a positive limit, and an order the return shape defines.\<close>

theorem query_validate_exact: "QueryValidate q = None \<longleftrightarrow> query_ok q"
  by (rule QueryValidate_None)

text \<open>C17. \<open>Request.Encode\<close> of a query succeeds exactly on the valid ones, and its bytes are JSON
  that reads back as the document of the abstract query.\<close>

theorem query_encode_reads_back:
  "QueryEncode q = Inr b \<longleftrightarrow>
     query_ok q \<and> b = render (doc_query (abs_query q)) \<and> json_parse b = Some (doc_query (abs_query q))"
  using QueryEncode_ok [of q b] QueryEncode_parses [of q b] by blast

text \<open>C18. Two queries that encode have the same bytes exactly when they ask for the same thing.\<close>

theorem query_encode_injective:
  assumes "QueryEncode p = Inr a" "QueryEncode q = Inr b"
  shows "a = b \<longleftrightarrow> abs_query p = abs_query q"
  using assms by (rule QueryEncode_inject)

theorem query_encode_injective_witness: "abs_query query_table \<noteq> abs_query query_graph"
  using query_encode_injective [OF query_table_bytes query_graph_bytes] by simp

text \<open>C19. The labels of a filter on the wire: in the document the server parses, a position without
  labels is absent, and one with labels carries them in their order, a single label as a string and
  several as an array; a label that starts with a question mark has it doubled, every other label is
  unchanged, so no label comes out as a string with a single leading question mark.\<close>

theorem query_label_literal:
  assumes "QueryEncode q = Inr b"
    and "(k, labels) \<in> {(''subject'', wh_Subject (qy_Where q)), (''predicate'', wh_Predicate (qy_Where q)),
      (''object'', wh_Object (qy_Where q))}"
  shows "\<exists>doc filter. json_parse b = Some doc \<and> json_member ''where'' doc = Some filter \<and>
    (if ls_set labels
     then \<exists>v. json_member k filter = Some v \<and> list_all2 literal_on_wire (ls_values labels) (wire_strings v) \<and>
       ((\<exists>x. v = JStr x) \<longleftrightarrow> length (ls_values labels) = 1)
     else json_member k filter = None)"
proof -
  let ?w = "wireWhere_json (qy_Where q)"
  from assms(1) have "b = render (wireQuery_json q)" "json_parse b = Some (wireQuery_json q)"
    using QueryEncode_parses_wire by blast+
  moreover have "json_member ''where'' (wireQuery_json q) = Some ?w" by (rule where_member)
  moreover from assms(2) have "json_member k ?w = labelsWire labels" by (auto simp: label_member)
  ultimately show ?thesis using labelsWire_strings [of labels] by (auto split: option.splits)
qed

theorem query_label_literal_witness:
  "\<exists>b doc filter v. QueryEncode query_escaped = Inr b \<and> json_parse b = Some doc \<and>
     json_member ''where'' doc = Some filter \<and> json_member ''subject'' filter = Some v \<and>
     list_all2 literal_on_wire [''?literal''] (wire_strings v) \<and> json_member ''object'' filter = None"
proof -
  obtain b where b: "QueryEncode query_escaped = Inr b" using query_escaped_valid by (simp add: QueryEncode_def)
  have w: "ls_set (wh_Subject (qy_Where query_escaped))" "ls_values (wh_Subject (qy_Where query_escaped)) = [''?literal'']"
    "\<not> ls_set (wh_Object (qy_Where query_escaped))" by code_simp+
  show ?thesis
    using query_label_literal [OF b, of "''subject''" "wh_Subject (qy_Where query_escaped)"]
      query_label_literal [OF b, of "''object''" "wh_Object (qy_Where query_escaped)"] b w by auto
qed

end
