(* ===== verification/Client_Query_Properties.thy ===== *)
theory Client_Query_Properties
  imports Client_Fixtures Client_Query Query_Properties
begin

text \<open>
  The properties of typed queries through the client, with witnesses on the scripted server.
\<close>

definition demo_table_answer :: http_outcome where
  "demo_table_answer = answer 200 []
     ''{\"shape\":\"table\",\"facts\":[],\"metadata\":{},\"table\":{\"rows\":[{\"fact_id\":\"7\"}]}}''"

definition demo_table :: "script \<Rightarrow> (table_result \<times> response option \<times> go_error option) \<times> script net" where
  "demo_table w = QueryTable demo_fmt demo_client (Some demo_ctx) query_table [] (demo_net w)"

text \<open>C20. A typed query without an error is shape-safe: the request is valid and selects the shape,
  the one request sent is a POST of its encoding to \<open>/query\<close> without an idempotency key, and the
  result is the decoded body of a 2xx answer with that shape and with its payload.\<close>

theorem typed_query_sound:
  assumes "typed_query f c ctx s target d zero shape_of payload q opts n = ((v, r, None), n')"
  shows "qr_shape (qy_Return q) = s \<and> shape_of v = s \<and> payload v \<and>
    (\<exists>x b rq res. r = Some x \<and> status_ok (resp_Status x) \<and> unmarshal d zero (resp_Body x) = (v, False) \<and>
       QueryEncode q = Inr b \<and> nt_trace n' = nt_trace n @ [Sent rq res] \<and> hq_Method rq = ''POST'' \<and>
       hq_URL rq = cl_BaseURL c @ ''/query'' \<and> hq_Body rq = Some b \<and>
       header_Get IdempotencyKeyHeader (hq_Header rq) = '''')"
  using typed_query_Ok [OF assms] client_Query_Ok by blast

theorem typed_query_sound_witness:
  "\<exists>v r n'. demo_table [demo_table_answer] = ((v, r, None), n') \<and> qs_Shape v = ShapeTable \<and> tr_Table v \<noteq> None"
proof -
  have "snd (snd (fst (demo_table [demo_table_answer]))) = None" by code_simp
  then obtain v r n' where v: "demo_table [demo_table_answer] = ((v, r, None), n')"
    by (metis prod.collapse)
  from typed_query_sound [OF v [unfolded demo_table_def QueryTable_def]] v show ?thesis by blast
qed

text \<open>C21. A typed query of the wrong shape, or one that is invalid, is refused before any I/O with a
  query validation error and a zero result.\<close>

theorem query_shape_refused:
  assumes "qr_shape (qy_Return q) \<noteq> s \<or> \<not> query_ok q"
  shows "\<exists>e. typed_query f c ctx s target d zero shape_of payload q opts n = ((zero, None, Some e), n) \<and>
    is_QueryValidationError e"
  using assms by (rule typed_query_refused)

theorem query_shape_refused_witness:
  "\<exists>e. QueryKV demo_fmt demo_client (Some demo_ctx) query_table [] (demo_net [demo_table_answer]) =
    ((zero_kv_result, None, Some e), demo_net [demo_table_answer]) \<and> is_QueryValidationError e"
proof -
  have "qr_shape (qy_Return query_table) \<noteq> ShapeKV" by code_simp
  then show ?thesis
    using query_shape_refused [of query_table ShapeKV demo_fmt demo_client "Some demo_ctx" "''KVResult''"
      "dec_struct kv_result_fields" zero_kv_result qs_Shape "\<lambda>v. kr_KV v \<noteq> None" "[]" "demo_net [demo_table_answer]"]
    unfolding QueryKV_def by blast
qed

end
