(* ===== verification/Ingest_Surrogates.thy ===== *)
theory Ingest_Surrogates
  imports Ingest_Strict Go_Json_Laws Go_Json_Bound
begin

text \<open>
  What the scan for unpaired surrogates decides. The string literals of a JSON text are cut into
  units: plain bytes, simple escapes and \<open>\u\<close> escapes. On a text that is one JSON value the scan
  finds nothing exactly when, in every literal, a high surrogate escape is directly followed by a low
  one and a low one directly preceded by a high one.
\<close>

section \<open>The units of a string literal\<close>

datatype string_unit = Plain char | Simple char | Code nat

definition unit_high :: "string_unit \<Rightarrow> bool" where
  "unit_high u \<longleftrightarrow> (case u of Code v \<Rightarrow> 0xD800 \<le> v \<and> v \<le> 0xDBFF | _ \<Rightarrow> False)"

definition unit_low :: "string_unit \<Rightarrow> bool" where
  "unit_low u \<longleftrightarrow> (case u of Code v \<Rightarrow> 0xDC00 \<le> v \<and> v \<le> 0xDFFF | _ \<Rightarrow> False)"

definition paired :: "string_unit list \<Rightarrow> bool" where
  "paired us \<longleftrightarrow> successively (\<lambda>x y. unit_high x \<longleftrightarrow> unit_low y) us \<and>
     (us \<noteq> [] \<longrightarrow> \<not> unit_low (hd us) \<and> \<not> unit_high (last us))"

definition add_unit :: "'u \<Rightarrow> ('u list \<times> string) option \<Rightarrow> ('u list \<times> string) option" where
  "add_unit u m = map_option (\<lambda>(us, r). (u # us, r)) m"

text \<open>The units up to the closing quote, and what follows it.\<close>

fun lex_string :: "string \<Rightarrow> (string_unit list \<times> string) option" where
  "lex_string [] = None"
| "lex_string (c # s) =
     (if c = Quote then Some ([], s)
      else if c = Backslash then
        (case s of [] \<Rightarrow> None
         | e # r \<Rightarrow> if e = CHR ''u''
             then (case hex4 r of None \<Rightarrow> None | Some v \<Rightarrow> add_unit (Code v) (lex_string (drop 4 r)))
             else add_unit (Simple e) (lex_string r))
      else add_unit (Plain c) (lex_string s))"

lemma add_unit_Some: "add_unit u m = Some (us, r) \<longleftrightarrow> (\<exists>vs. m = Some (vs, r) \<and> us = u # vs)"
  by (auto simp: add_unit_def)

lemma lex_string_shorter: "lex_string s = Some (us, r) \<Longrightarrow> length r < length s"
  by (induction s arbitrary: us rule: lex_string.induct)
    (fastforce simp: add_unit_Some split: if_splits list.splits option.splits)+

text \<open>The literals of a text; none when one of them cannot be cut into units.\<close>

function text_strings :: "string \<Rightarrow> string_unit list list option" where
  "text_strings [] = Some []"
| "text_strings (c # s) =
     (if c = Quote
      then (case lex_string s of None \<Rightarrow> None | Some (us, r) \<Rightarrow> map_option ((#) us) (text_strings r))
      else text_strings s)"
  by pat_completeness auto
termination by (relation "measure length") (auto dest: lex_string_shorter)

definition paired_surrogates :: "string \<Rightarrow> bool" where
  "paired_surrogates s \<longleftrightarrow> (case text_strings s of None \<Rightarrow> False | Some ls \<Rightarrow> list_all paired ls)"

section \<open>The scan of one literal\<close>

lemma high_not_low: "unit_high u \<Longrightarrow> \<not> unit_low u"
  by (auto simp: unit_high_def unit_low_def split: string_unit.splits)

lemma paired_Nil [simp]: "paired []"
  by (simp add: paired_def)

lemma paired_Cons: "\<not> unit_high u \<Longrightarrow> paired (u # us) \<longleftrightarrow> \<not> unit_low u \<and> paired us"
  by (cases us) (auto simp: paired_def)

lemma paired_high: "unit_high u \<Longrightarrow> paired (u # us) \<longleftrightarrow> (\<exists>w ws. us = w # ws \<and> unit_low w \<and> paired ws)"
proof (cases us)
  case (Cons w ws)
  assume "unit_high u"
  with Cons high_not_low show ?thesis by (cases ws) (auto simp: paired_def)
qed (simp add: paired_def)

text \<open>\<open>parseJSONHex4\<close> on a 16-bit word is the number the decoder reads.\<close>

lemma hex_digit_step:
  "hex4_step (Some v) c = map_option (\<lambda>d. or (push_bit 4 v) (of_nat d)) (hex_val c)"
  by (auto simp: hex4_step_def hex_val_def Let_def)

lemma or_digit:
  assumes "d < 16"
  shows "or (push_bit 4 (of_nat v)) (of_nat d) = (of_nat (v * 16 + d) :: 16 word)"
proof -
  have "take_bit 4 d = d" using assms by (simp add: take_bit_nat_eq_self_iff)
  then have "(of_nat d :: 16 word) = take_bit 4 (of_nat d)" by (metis take_bit_of_nat)
  moreover have "and (push_bit 4 x) (take_bit 4 y) = 0" for x y :: "16 word"
    by (rule bit_eqI) (auto simp: bit_simps)
  ultimately have "and (push_bit 4 (of_nat v)) (of_nat d :: 16 word) = 0" by metis
  then have "or (push_bit 4 (of_nat v)) (of_nat d) = push_bit 4 (of_nat v) + (of_nat d :: 16 word)"
    by (simp add: disjunctive_add_eq_or)
  then show ?thesis by (simp add: push_bit_eq_mult)
qed

lemma hex4_steps:
  "hex4_step None c = None"
  "hex_val c = None \<Longrightarrow> hex4_step (Some v) c = None"
  "hex_val c = Some d \<Longrightarrow> hex4_step (Some (of_nat n)) c = Some (of_nat (n * 16 + d))"
  by (simp_all only: hex_digit_step option.map or_digit hex_val_less) (simp add: hex4_step_def)

lemma hex4_fold: "foldl hex4_step (Some (0 :: 16 word)) [a, b, c, d] = map_option of_nat (hex4 (a # b # c # d # r))"
proof -
  have "foldl hex4_step (Some (of_nat 0 :: 16 word)) [a, b, c, d] = map_option of_nat (hex4 (a # b # c # d # r))"
    by (cases "hex_val a"; cases "hex_val b"; cases "hex_val c"; cases "hex_val d")
      (simp_all only: foldl.simps hex4_steps hex4_def list.case prod.case option.case option.map mult_0 add_0)
  then show ?thesis by simp
qed

lemma parseJSONHex4_hex4: "parseJSONHex4 (take 4 s) = map_option of_nat (hex4 s)"
proof (cases "\<exists>a b c d r. s = a # b # c # d # r")
  case True
  then obtain a b c d r where s: "s = a # b # c # d # r" by blast
  then have "take 4 s = [a, b, c, d]" by simp
  then show ?thesis using hex4_fold [of a b c d r] s by (simp add: parseJSONHex4_def del: foldl.simps)
next
  case False
  then have "length s < 4" by (cases s; cases "tl s"; cases "tl (tl s)"; cases "tl (tl (tl s))") auto
  moreover have "hex4 s = None" using False by (auto simp: hex4_def split: list.split)
  ultimately show ?thesis by (simp add: parseJSONHex4_def)
qed

lemma hex4_less: "hex4 s = Some v \<Longrightarrow> v < 2 ^ 16"
  by (auto simp: hex4_def dest!: hex_val_less split: list.splits option.splits)

lemma surrogate_units:
  assumes "hex4 s = Some v"
  shows "high_surrogate (of_nat v) \<longleftrightarrow> unit_high (Code v)" "low_surrogate (of_nat v) \<longleftrightarrow> unit_low (Code v)"
proof -
  have "unat (of_nat v :: 16 word) = v" using hex4_less [OF assms] by (simp add: unat_of_nat)
  then show "high_surrogate (of_nat v) \<longleftrightarrow> unit_high (Code v)" "low_surrogate (of_nat v) \<longleftrightarrow> unit_low (Code v)"
    by (simp_all add: high_surrogate_def low_surrogate_def unit_high_def unit_low_def word_le_nat_alt)
qed

lemma hex4_long: "hex4 s = Some v \<Longrightarrow> 4 \<le> length s"
  by (auto simp: hex4_def split: list.splits)

lemma unit_simps [simp]: "\<not> unit_high (Plain c)" "\<not> unit_low (Plain c)" "\<not> unit_high (Simple c)" "\<not> unit_low (Simple c)"
  by (simp_all add: unit_high_def unit_low_def)

lemma unit_low_Code: "unit_low u \<Longrightarrow> \<exists>w. u = Code w"
  by (cases u) simp_all

lemma lex_code:
  assumes "lex_string s = Some (Code w # ws, r)"
  shows "\<exists>y. s = Backslash # CHR ''u'' # y \<and> hex4 y = Some w \<and> lex_string (drop 4 y) = Some (ws, r)"
  using assms by (cases s) (auto simp: add_unit_Some split: if_splits list.splits option.splits)

lemma lex_escape:
  "lex_string s = Some (vs, r) \<Longrightarrow> take 2 s = esc ''u'' \<Longrightarrow> hex4 (drop 2 s) = Some w \<Longrightarrow> \<exists>ws. vs = Code w # ws"
  by (cases s; cases "tl s")
    (auto simp: esc_def add_unit_Some eq_Quote eq_Backslash eval_nat_numeral split: if_splits)

text \<open>The scan after a \<open>\u\<close> escape, the shorter scans given.\<close>

definition scan_agrees :: "string \<Rightarrow> bool" where
  "scan_agrees s \<longleftrightarrow> (\<forall>us r. lex_string s = Some (us, r) \<longrightarrow>
     (if paired us then reject_surrogates True s = reject_surrogates False r else reject_surrogates True s \<noteq> None))"

lemma scan_code:
  assumes shorter: "\<And>t. length t < length (Backslash # CHR ''u'' # q) \<Longrightarrow> scan_agrees t"
    and v: "hex4 q = Some v" and vs: "lex_string (drop 4 q) = Some (vs, r)"
  shows "if paired (Code v # vs) then reject_surrogates True (Backslash # CHR ''u'' # q) = reject_surrogates False r
    else reject_surrogates True (Backslash # CHR ''u'' # q) \<noteq> None"
proof -
  let ?p = "drop 4 q"
  have len: "\<not> length q < 4" using hex4_long [OF v] by simp
  have p4: "parseJSONHex4 (take 4 q) = Some (of_nat v)" using v by (simp add: parseJSONHex4_hex4)
  have scan: "reject_surrogates True (Backslash # CHR ''u'' # q) =
      (if unit_high (Code v) then
         (if length ?p < 6 \<or> take 2 ?p \<noteq> esc ''u'' then Some unpaired_high
          else case hex4 (drop 2 ?p) of None \<Rightarrow> Some unpaired_high
            | Some w \<Rightarrow> if \<not> unit_low (Code w) then Some unpaired_high else reject_surrogates True (drop 6 ?p))
       else if unit_low (Code v) then Some unpaired_low else reject_surrogates True ?p)"
  proof -
    have "Backslash \<noteq> Quote" "CHR ''u'' \<noteq> Quote" by (simp_all add: eq_Quote eq_Backslash char_literals)
    then have "reject_surrogates True (Backslash # CHR ''u'' # q) =
      (if high_surrogate (of_nat v) then
         (if length ?p < 6 \<or> take 2 ?p \<noteq> esc ''u'' then Some unpaired_high
          else case parseJSONHex4 (take 4 (drop 2 ?p)) of None \<Rightarrow> Some unpaired_high
            | Some low \<Rightarrow> if \<not> low_surrogate low then Some unpaired_high else reject_surrogates True (drop 6 ?p))
       else if low_surrogate (of_nat v) then Some unpaired_low else reject_surrogates True ?p)"
      using len p4 by (simp only: reject_surrogates.simps(2) [of True Backslash] list.sel if_False if_True Let_def option.case
          simp_thms list.simps(3))
    then show ?thesis
      unfolding surrogate_units [OF v] parseJSONHex4_hex4
      by (cases "hex4 (drop 2 ?p)") (simp_all only: option.map option.case surrogate_units)
  qed
  have agree: "scan_agrees ?p" by (rule shorter) simp
  show ?thesis
  proof (cases "unit_high (Code v)")
    case False
    with scan agree vs show ?thesis by (auto simp: paired_Cons scan_agrees_def)
  next
    case high: True
    show ?thesis
    proof (cases "\<exists>w ws. vs = Code w # ws \<and> unit_low (Code w)")
      case True
      then obtain w ws where w: "vs = Code w # ws" "unit_low (Code w)" by blast
      obtain y where y: "?p = Backslash # CHR ''u'' # y" "hex4 y = Some w" "lex_string (drop 4 y) = Some (ws, r)"
        using lex_code [OF vs [unfolded w(1)]] by blast
      have "scan_agrees (drop 4 y)" using arg_cong [OF y(1), of length] by (intro shorter) simp
      with y w scan high hex4_long [OF y(2)] show ?thesis
        by (auto simp: paired_high scan_agrees_def esc_def eval_nat_numeral)
    next
      case False
      have "\<not> unit_low (Code w)" if "take 2 ?p = esc ''u''" "hex4 (drop 2 ?p) = Some w" for w
        using lex_escape [OF vs that] False by blast
      then have "reject_surrogates True (Backslash # CHR ''u'' # q) \<noteq> None"
        unfolding scan using high by (simp del: drop_drop split: option.split)
      moreover have "\<not> paired (Code v # vs)" using False high unit_low_Code unfolding paired_high [OF high] by metis
      ultimately show ?thesis by simp
    qed
  qed
qed

lemma scan_units: "scan_agrees s"
proof (induction "length s" arbitrary: s rule: less_induct)
  case less
  show ?case
    unfolding scan_agrees_def
  proof (intro allI impI)
    fix us r
    assume lex: "lex_string s = Some (us, r)"
    then obtain c t where s: "s = c # t" by (cases s) auto
    consider (quote) "c = Quote" | (plain) "c \<noteq> Quote" "c \<noteq> Backslash"
      | (simple) e q where "c \<noteq> Quote" "c = Backslash" "t = e # q" "e \<noteq> CHR ''u''"
      | (code) q where "c \<noteq> Quote" "c = Backslash" "t = CHR ''u'' # q"
      using lex s by (cases "c = Quote"; cases "c = Backslash"; cases t) auto
    then show "if paired us then reject_surrogates True s = reject_surrogates False r else reject_surrogates True s \<noteq> None"
    proof cases
      case quote
      with lex s show ?thesis by auto
    next
      case plain
      with lex s obtain vs where "lex_string t = Some (vs, r)" "us = Plain c # vs" by (auto simp: add_unit_Some)
      with less [of t] plain s show ?thesis by (simp add: paired_Cons scan_agrees_def)
    next
      case simple
      with lex s obtain vs where "lex_string q = Some (vs, r)" "us = Simple e # vs" by (auto simp: add_unit_Some)
      with less [of q] simple s show ?thesis by (simp add: paired_Cons scan_agrees_def)
    next
      case code
      with lex s obtain v vs where v: "hex4 q = Some v" "lex_string (drop 4 q) = Some (vs, r)" "us = Code v # vs"
        by (auto simp: add_unit_Some split: option.splits)
      have s': "s = Backslash # CHR ''u'' # q" using s code by simp
      show ?thesis unfolding s' v(3)
        by (rule scan_code [OF _ v(1,2)]) (rule less, simp only: s')
    qed
  qed
qed

lemma scan_text: "text_strings s = Some ls \<Longrightarrow> reject_surrogates False s = None \<longleftrightarrow> list_all paired ls"
proof (induction s arbitrary: ls rule: text_strings.induct)
  case (2 c s)
  show ?case
  proof (cases "c = Quote")
    case True
    with "2.prems" obtain us r ls' where "lex_string s = Some (us, r)" "text_strings r = Some ls'" "ls = us # ls'"
      by (auto split: option.splits)
    with True "2.IH"(1) [of "(us, r)" us r ls'] scan_units [of s] show ?thesis by (auto simp: scan_agrees_def split: if_splits)
  next
    case False
    with "2.IH"(2) [of ls] "2.prems" show ?thesis by auto
  qed
qed simp

section \<open>Every literal of a JSON text has units\<close>

lemma rune_bytes_high:
  assumes "rune_len (a # s) = Some n" "128 \<le> byte a"
  shows "list_all (\<lambda>c. 128 \<le> byte c) (take n (a # s))"
proof -
  from assms have w: "n = 2 \<or> n = 3 \<or> n = 4"
    using rune_len_multi [OF assms] rune_len_bounds [OF assms(1)] by linarith
  with assms obtain b q where r: "s = b # q" and ok: "second_ok a b" "n - 2 \<le> length q" "list_all cont (take (n - 2) q)"
    by (auto simp: rune_len_def Let_def split: if_splits list.splits)
  from w have "take n (a # s) = a # b # take (n - 2) q" by (auto simp: r)
  moreover from ok(1) have "128 \<le> byte b" by (auto simp: second_ok_def cont_def split: if_splits)
  moreover from ok(3) have "list_all (\<lambda>c. 128 \<le> byte c) (take (n - 2) q)" by (rule list.pred_mono_strong) (simp add: cont_def)
  ultimately show ?thesis using assms(2) by simp
qed

text \<open>What is read from \<open>s\<close> up to \<open>r\<close> are whole literals and text without a quote.\<close>

definition whole :: "string \<Rightarrow> string \<Rightarrow> bool" where
  "whole s r \<longleftrightarrow> (text_strings r \<noteq> None \<longrightarrow> text_strings s \<noteq> None)"

lemma whole_trans: "whole s t \<Longrightarrow> whole t r \<Longrightarrow> whole s r"
  by (simp add: whole_def)

lemma whole_Cons: "c \<noteq> Quote \<Longrightarrow> whole s r \<Longrightarrow> whole (c # s) r"
  by (simp add: whole_def)

lemma whole_append: "Quote \<notin> set u \<Longrightarrow> whole (u @ r) r"
  by (induction u) (auto simp: whole_def)

lemma whole_skip: "whole (skip_ws s) r \<Longrightarrow> whole s r"
proof -
  have "Quote \<notin> set (takeWhile is_space s)"
    using set_takeWhileD [of Quote is_space s] by (auto simp: is_space_def)
  from whole_append [OF this, of "skip_ws s"] show "whole (skip_ws s) r \<Longrightarrow> whole s r"
    by (auto simp: skip_ws_def intro: whole_trans)
qed

lemma lex_plain:
  "list_all (\<lambda>c. c \<noteq> Quote \<and> c \<noteq> Backslash) u \<Longrightarrow> lex_string s = Some (us, r) \<Longrightarrow> \<exists>vs. lex_string (u @ s) = Some (vs, r)"
  by (induction u) (auto simp: add_unit_def)

lemma lex_skip_pair:
  assumes "hex4 q = Some v" "lex_string (drop (4 + snd (escaped_rune v (drop 4 q))) q) = Some (us, r)"
  shows "\<exists>vs. lex_string (drop 4 q) = Some (vs, r)"
proof (cases "snd (escaped_rune v (drop 4 q)) = 0")
  case False
  let ?p = "drop 4 q"
  from False have s: "snd (escaped_rune v ?p) = 6" "take 2 ?p = esc ''u''" "hex4 (drop 2 ?p) \<noteq> None"
    by (auto simp: escaped_rune_def split: if_splits option.splits)
  then obtain y w where y: "?p = Backslash # CHR ''u'' # y" "hex4 y = Some w"
    by (cases ?p; cases "tl ?p") (auto simp: esc_def eval_nat_numeral simp del: drop_Suc)
  have "drop 4 y = drop 6 ?p" using y(1) by simp
  then have "lex_string (drop 4 y) = Some (us, r)" using assms(2) s(1) by simp
  with y show ?thesis by (auto simp: add_unit_def eq_Quote eq_Backslash)
qed (use assms(2) in simp)

lemma unquote_lexes: "unquote s = Some (t, r) \<Longrightarrow> \<exists>us. lex_string s = Some (us, r)"
proof (induction s arbitrary: t rule: unquote.induct)
  case (2 c s)
  consider (quote) "c = Quote" | (simple) e q where "c \<noteq> Quote" "c = Backslash" "s = e # q" "e \<noteq> CHR ''u''"
    | (code) q where "c \<noteq> Quote" "c = Backslash" "s = CHR ''u'' # q" | (ascii) "c \<noteq> Quote" "c \<noteq> Backslash" "byte c < 128"
    | (multi) "c \<noteq> Quote" "c \<noteq> Backslash" "128 \<le> byte c"
    using "2.prems" by (cases "c = Quote"; cases "c = Backslash"; cases s; cases "byte c < 128") auto
  then show ?case
  proof cases
    case quote
    with "2.prems" show ?thesis by simp
  next
    case simple
    with "2.prems" obtain t' where "simple_escape e \<noteq> None" "unquote q = Some (t', r)"
      by (auto simp: prepend_def split: option.splits)
    with "2.IH"(2) [OF simple(1-4)] simple show ?thesis by (fastforce simp: add_unit_def)
  next
    case code
    with "2.prems" obtain v t' where v: "hex4 q = Some v"
      "unquote (drop (4 + snd (escaped_rune v (drop 4 q))) q) = Some (t', r)"
      by (auto simp: prepend_def split: option.splits)
    from "2.IH"(1) [OF code(1-3) refl v] obtain us where
      "lex_string (drop (4 + snd (escaped_rune v (drop 4 q))) q) = Some (us, r)" by blast
    from lex_skip_pair [OF v(1) this] v code show ?thesis by (auto simp: add_unit_def)
  next
    case ascii
    with "2.prems" obtain t' where "\<not> byte c < 32" "unquote s = Some (t', r)" by (auto simp: prepend_def split: if_splits option.splits)
    with "2.IH"(3) [OF ascii(1,2)] ascii show ?thesis by (fastforce simp: add_unit_def)
  next
    case multi
    then have g: "\<not> byte c < 32" "\<not> byte c < 128" by simp_all
    show ?thesis
    proof (cases "rune_len (c # s)")
      case None
      with "2.prems" multi g obtain t' where "unquote s = Some (t', r)" by (auto simp: prepend_def split: option.splits)
      with "2.IH"(4) [OF multi(1,2) g None] multi show ?thesis by (fastforce simp: add_unit_def)
    next
      case (Some n)
      with "2.prems" multi g obtain t' where "unquote (drop (n - 1) s) = Some (t', r)" by (auto simp: prepend_def split: option.splits)
      from "2.IH"(5) [OF multi(1,2) g Some this] obtain us where us: "lex_string (drop (n - 1) s) = Some (us, r)" by blast
      have "list_all (\<lambda>c. c \<noteq> Quote \<and> c \<noteq> Backslash) (take n (c # s))"
        by (rule list.pred_mono_strong [OF rune_bytes_high [OF Some multi(3)]]) (auto simp: eq_Quote eq_Backslash)
      from lex_plain [OF this us] have "\<exists>vs. lex_string (take n (c # s) @ drop (n - 1) s) = Some (vs, r)" .
      moreover have "take n (c # s) @ drop (n - 1) s = c # s" using rune_len_bounds [OF Some] by (cases n) simp_all
      ultimately show ?thesis by (simp del: lex_string.simps)
    qed
  qed
qed simp

lemma whole_string: "unquote s = Some (t, r) \<Longrightarrow> whole r q \<Longrightarrow> whole (Quote # s) q"
  using unquote_lexes by (fastforce simp: whole_def split: option.splits)

lemma whole_refl [simp]: "whole r r"
  by (simp add: whole_def)

lemma whole_literal: "literal w v s = Some (j, r) \<Longrightarrow> Quote \<notin> set w \<Longrightarrow> whole s r"
  using whole_append [of w r] by (auto simp: literal_def prefix_def split: if_splits)

lemma prepend_Some_iff: "prepend u m = Some (t, r) \<longleftrightarrow> (\<exists>t'. m = Some (t', r) \<and> t = u @ t')"
  by (auto simp: prepend_def)

lemma digits1_whole: "digits1 s = Some (t, r) \<Longrightarrow> whole s r"
proof -
  assume "digits1 s = Some (t, r)"
  then have "s = takeWhile is_digit s @ r" by (auto simp: digits1_def split: list.splits)
  moreover have "Quote \<notin> set (takeWhile is_digit s)"
    using set_takeWhileD [of Quote is_digit s] by (auto simp: is_digit_def)
  ultimately show ?thesis using whole_append by metis
qed

lemma scan_number_whole: "scan_number s = Some (t, r) \<Longrightarrow> whole s r"
proof -
  have i: "scan_int s = Some (t, r) \<Longrightarrow> whole s r" for s t r
    by (auto simp: scan_int_def eq_Quote char_literals whole_Cons dest: digits1_whole split: list.splits if_splits)
  have f: "scan_frac s = Some (t, r) \<Longrightarrow> whole s r" for s t r
    by (auto simp: scan_frac_def prepend_Some_iff eq_Quote char_literals whole_Cons dest: digits1_whole
        split: list.splits if_splits)
  have e: "scan_exp s = Some (t, r) \<Longrightarrow> whole s r" for s t r
    by (auto simp: scan_exp_def prepend_Some_iff eq_Quote char_literals whole_Cons dest: digits1_whole
        split: list.splits if_splits)
  have tail: "whole s r" if "scan_tail s = Some (t, r)" for s t r
  proof -
    from that obtain a b x y z where "scan_int s = Some (x, a)" "scan_frac a = Some (y, b)" "scan_exp b = Some (z, r)"
      by (auto simp: scan_tail_def prepend_Some_iff split: option.splits)
    from i [OF this(1)] f [OF this(2)] e [OF this(3)] show ?thesis by (blast intro: whole_trans)
  qed
  show "scan_number s = Some (t, r) \<Longrightarrow> whole s r"
    by (auto simp: scan_number_def prepend_Some_iff eq_Quote char_literals whole_Cons dest: tail
        split: list.splits if_splits)
qed

lemma whole_head: "skip_ws s = c # t \<Longrightarrow> c \<noteq> Quote \<Longrightarrow> whole t r \<Longrightarrow> whole s r"
  by (rule whole_skip) (simp add: whole_Cons)

lemma whole_next: "take 1 (skip_ws s) = [c] \<Longrightarrow> c \<noteq> Quote \<Longrightarrow> whole (drop 1 (skip_ws s)) r \<Longrightarrow> whole s r"
  by (cases "skip_ws s") (auto intro: whole_head)

lemma punctuation: "CHR ''{'' \<noteq> Quote" "CHR ''}'' \<noteq> Quote" "CHR ''['' \<noteq> Quote" "CHR '']'' \<noteq> Quote" "CHR '','' \<noteq> Quote"
  "CHR '':'' \<noteq> Quote"
  by (simp_all add: eq_Quote eq_literals char_literals)

lemma literals_unquoted: "Quote \<notin> set ''null''" "Quote \<notin> set ''true''" "Quote \<notin> set ''false''"
  by code_simp+

lemma value_whole_step:
  assumes e: "\<And>d s xs r. parse_elems f d s = Some (xs, r) \<Longrightarrow> whole s r"
    and m: "\<And>d s ms r. parse_members f d s = Some (ms, r) \<Longrightarrow> whole s r"
    and p: "parse_value (Suc f) d s = Some (j, r)"
  shows "whole s r"
proof -
  from p obtain c q where s: "skip_ws s = c # q" by (auto split: list.splits)
  note h = whole_head [OF s]
  consider (object) "c = CHR ''{''" | (array) "c = CHR ''[''" | (quote) "c = Quote"
    | (scalar) "c \<noteq> CHR ''{''" "c \<noteq> CHR ''[''" "c \<noteq> Quote" by blast
  then show ?thesis
  proof cases
    case object
    with p s show ?thesis using whole_next [of q "CHR ''}''" r]
      by (auto intro!: h simp: punctuation dest: m simp del: drop_Suc split: if_splits option.splits)
  next
    case array
    with p s show ?thesis using whole_next [of q "CHR '']''" r]
      by (auto intro!: h simp: punctuation dest: e simp del: drop_Suc split: if_splits option.splits)
  next
    case quote
    with p s have "\<exists>t. unquote q = Some (t, r)" by (auto simp: eq_literals eq_Quote char_literals split: if_splits option.splits)
    with quote s show ?thesis by (auto intro!: whole_skip [of s] whole_string)
  next
    case scalar
    with p s have "whole (c # q) r"
      by (auto dest!: whole_literal [OF _ literals_unquoted(1)] whole_literal [OF _ literals_unquoted(2)]
          whole_literal [OF _ literals_unquoted(3)] scan_number_whole split: if_splits option.splits)
    with s show ?thesis by (auto intro: whole_skip)
  qed
qed

lemma elems_whole_step:
  assumes v: "\<And>d s j r. parse_value f d s = Some (j, r) \<Longrightarrow> whole s r"
    and e: "\<And>d s xs r. parse_elems f d s = Some (xs, r) \<Longrightarrow> whole s r"
    and p: "parse_elems (Suc f) d s = Some (xs, r)"
  shows "whole s r"
proof -
  from p obtain x q c t where x: "parse_value f d s = Some (x, q)" "skip_ws q = c # t"
    by (auto split: option.splits list.splits)
  have "whole q r" using p x
    by (auto intro!: whole_head [OF x(2)] simp: punctuation dest: e split: if_splits option.splits)
  with v [OF x(1)] show ?thesis by (rule whole_trans)
qed

lemma members_whole_step:
  assumes v: "\<And>d s j r. parse_value f d s = Some (j, r) \<Longrightarrow> whole s r"
    and m: "\<And>d s ms r. parse_members f d s = Some (ms, r) \<Longrightarrow> whole s r"
    and p: "parse_members (Suc f) d s = Some (ms, r)"
  shows "whole s r"
proof -
  from p obtain u where u: "skip_ws s = Quote # u" by (auto split: list.splits if_splits)
  with p obtain k a where a: "unquote u = Some (k, a)" by (auto split: option.splits)
  from p u a have colon: "take 1 (skip_ws a) = '':''" by (auto split: if_splits)
  with p u a obtain x q c t where x: "parse_value f d (drop 1 (skip_ws a)) = Some (x, q)" "skip_ws q = c # t"
    by (auto simp del: drop_Suc split: option.splits list.splits)
  have "whole q r" using p u a colon x
    by (auto intro!: whole_head [OF x(2)] simp: punctuation dest: m simp del: drop_Suc One_nat_def split: if_splits option.splits)
  with v [OF x(1)] have "whole (drop 1 (skip_ws a)) r" by (rule whole_trans)
  then have "whole a r" by (rule whole_next [OF colon punctuation(6)])
  with a u show ?thesis by (auto intro!: whole_skip [of s] whole_string)
qed

lemma parse_whole:
  shows "parse_value f d s = Some (j, r) \<Longrightarrow> whole s r"
    and "parse_elems f d s = Some (xs, r) \<Longrightarrow> whole s r"
    and "parse_members f d s = Some (ms, r) \<Longrightarrow> whole s r"
proof (induction f arbitrary: d s j xs ms r)
  case (Suc f)
  { case 1 show ?case by (rule value_whole_step [OF _ _ 1]) (erule Suc.IH)+ }
  { case 2 show ?case by (rule elems_whole_step [OF _ _ 2]) (erule Suc.IH)+ }
  { case 3 show ?case by (rule members_whole_step [OF _ _ 3]) (erule Suc.IH)+ }
qed simp_all

section \<open>The scan decides\<close>

theorem surrogates_iff:
  assumes "json_parse s = Some j"
  shows "rejectUnpairedJSONSurrogates s = None \<longleftrightarrow> paired_surrogates s"
proof -
  from assms obtain r where r: "parse_value (2 * length s + 1) max_nesting s = Some (j, r)" "skip_ws r = []"
    by (auto simp: json_parse_def split: option.splits if_splits)
  from parse_whole(1) [OF r(1)] r(2) have "whole s []" using whole_skip [of r "[]"] by (auto intro: whole_trans)
  then obtain ls where "text_strings s = Some ls" by (auto simp: whole_def)
  with scan_text [OF this] show ?thesis by (simp add: rejectUnpairedJSONSurrogates_def paired_surrogates_def)
qed

end
