(* ===== verification/Ingest_Walk_Laws.thy ===== *)
theory Ingest_Walk_Laws
  imports Ingest_Strict Go_Json_Laws Go_Json_Bound
begin

text \<open>
  The walk over the token stream. It ends on every input within its bound, because every token
  consumes a byte. On a text whose first value can be read, it does what a recursion over the value
  does, \<open>tree_walk\<close>: the token stream and the reader agree on what a value is and where it ends.
\<close>

section \<open>The walk ends\<close>

lemma read_scalar_consumes: "read_scalar s = Some (j, r) \<Longrightarrow> length r < length s"
  by (auto simp: read_scalar_def literal_def dest: unquote_consumes scan_number_consumes
      split: list.splits if_splits option.splits)

lemma dec_token_consumes: "dec_token d = Inr (t, d') \<Longrightarrow> length (dc_rest d') < length (dc_rest d)"
proof (induction d rule: dec_token.induct)
  case (1 d)
  show ?case
  proof (cases "skip_ws (dc_rest d)")
    case Nil
    with "1.prems" show ?thesis by (simp add: dec_token.simps [of d])
  next
    case (Cons c r)
    have less: "length r < length (dc_rest d)" using skip_ws_shorter [OF Cons] .
    consider "c = CHR '':''" "dc_state d = ObjectColon" | "c = CHR '',''" "dc_state d = ArrayComma"
      | "c = CHR '',''" "dc_state d = ObjectComma"
      | "\<not> (c = CHR '':'' \<and> dc_state d = ObjectColon)" "\<not> (c = CHR '','' \<and> dc_state d \<in> {ArrayComma, ObjectComma})"
      by blast
    then show ?thesis
    proof cases
      case 4
      then show ?thesis using "1.prems" less Cons
        by (auto simp: dec_token.simps [of d] dec_open_def dec_close_def dec_key_def dec_scalar_def
            dest!: unquote_consumes read_scalar_consumes split: if_splits option.splits)
    qed (use 1 Cons less in \<open>simp_all add: dec_token.simps [of d]\<close>)
  qed
qed

lemma close_token_consumes: "close_token f p np d = Inr (np', d') \<Longrightarrow> length (dc_rest d') < length (dc_rest d)"
  by (auto simp: close_token_def dest!: dec_token_consumes split: sum.splits)

lemma walk_consumes_step:
  assumes v: "\<And>depth path np d np' d'. walk f g depth path np d = Some (Inr (np', d')) \<Longrightarrow> length (dc_rest d') < length (dc_rest d)"
    and m: "\<And>depth path seen np d np' d'. walk_members f g depth path seen np d = Some (Inr (np', d')) \<Longrightarrow> length (dc_rest d') < length (dc_rest d)"
    and e: "\<And>depth path i np d np' d'. walk_elems f g depth path i np d = Some (Inr (np', d')) \<Longrightarrow> length (dc_rest d') < length (dc_rest d)"
  shows "walk f (Suc g) depth path np d = Some (Inr (np', d')) \<Longrightarrow> length (dc_rest d') < length (dc_rest d)"
    and "walk_members f (Suc g) depth path seen np d = Some (Inr (np', d')) \<Longrightarrow> length (dc_rest d') < length (dc_rest d)"
    and "walk_elems f (Suc g) depth path i np d = Some (Inr (np', d')) \<Longrightarrow> length (dc_rest d') < length (dc_rest d)"
  by (auto simp: Let_def dest!: dec_token_consumes close_token_consumes v m e
      split: if_splits sum.splits option.splits token.splits json.splits)

lemma walk_consumes:
  "walk f g depth path np d = Some (Inr (np', d')) \<Longrightarrow> length (dc_rest d') < length (dc_rest d)"
  "walk_members f g depth path seen np d = Some (Inr (np', d')) \<Longrightarrow> length (dc_rest d') < length (dc_rest d)"
  "walk_elems f g depth path i np d = Some (Inr (np', d')) \<Longrightarrow> length (dc_rest d') < length (dc_rest d)"
proof (induction g arbitrary: depth path seen i np d np' d')
  case (Suc g)
  { case 1 show ?case by (rule walk_consumes_step(1) [OF _ _ _ 1]) (erule Suc.IH)+ }
  { case 2 show ?case by (rule walk_consumes_step(2) [OF _ _ _ 2]) (erule Suc.IH)+ }
  { case 3 show ?case by (rule walk_consumes_step(3) [OF _ _ _ 3]) (erule Suc.IH)+ }
qed simp_all

text \<open>The bound is enough: twice the length, and one more for a list of members or elements.\<close>

lemma walk_ends_step:
  assumes v: "\<And>depth path np d. 2 * length (dc_rest d) < g \<Longrightarrow> walk f g depth path np d \<noteq> None"
    and m: "\<And>depth path seen np d. 2 * length (dc_rest d) + 1 < g \<Longrightarrow> walk_members f g depth path seen np d \<noteq> None"
    and e: "\<And>depth path i np d. 2 * length (dc_rest d) + 1 < g \<Longrightarrow> walk_elems f g depth path i np d \<noteq> None"
  shows "2 * length (dc_rest d) < Suc g \<Longrightarrow> walk f (Suc g) depth path np d \<noteq> None"
    and "2 * length (dc_rest d) + 1 < Suc g \<Longrightarrow> walk_members f (Suc g) depth path seen np d \<noteq> None"
    and "2 * length (dc_rest d) + 1 < Suc g \<Longrightarrow> walk_elems f (Suc g) depth path i np d \<noteq> None"
proof -
  note token = dec_token_consumes [of d]
  have v': "walk f g depth path np d' = None \<Longrightarrow> g \<le> 2 * length (dc_rest d')" for depth path np d'
    by (rule leI) (use v in blast)
  have m': "walk_members f g depth path seen np d' = None \<Longrightarrow> g \<le> 2 * length (dc_rest d') + 1" for depth path seen np d'
    by (rule leI) (use m in blast)
  have e': "walk_elems f g depth path i np d' = None \<Longrightarrow> g \<le> 2 * length (dc_rest d') + 1" for depth path i np d'
    by (rule leI) (use e in blast)
  show "2 * length (dc_rest d) < Suc g \<Longrightarrow> walk f (Suc g) depth path np d \<noteq> None"
    by (auto iff del: not_None_eq dest!: m' e' token split: sum.splits token.splits if_splits)
  show "2 * length (dc_rest d) + 1 < Suc g \<Longrightarrow> walk_members f (Suc g) depth path seen np d \<noteq> None"
    by (auto simp: Let_def iff del: not_None_eq dest!: v' m' token walk_consumes(1)
        split: sum.splits token.splits json.splits option.splits if_splits)
  show "2 * length (dc_rest d) + 1 < Suc g \<Longrightarrow> walk_elems f (Suc g) depth path i np d \<noteq> None"
    by (auto iff del: not_None_eq dest!: v' e' walk_consumes(1) split: sum.splits option.splits if_splits)
qed

lemma walk_ends:
  "2 * length (dc_rest d) < g \<Longrightarrow> walk f g depth path np d \<noteq> None"
  "2 * length (dc_rest d) + 1 < g \<Longrightarrow> walk_members f g depth path seen np d \<noteq> None"
  "2 * length (dc_rest d) + 1 < g \<Longrightarrow> walk_elems f g depth path i np d \<noteq> None"
proof (induction g arbitrary: depth path seen i np d)
  case (Suc g)
  { case 1 show ?case by (rule walk_ends_step(1) [OF _ _ _ 1]) (erule Suc.IH)+ }
  { case 2 show ?case by (rule walk_ends_step(2) [OF _ _ _ 2]) (erule Suc.IH)+ }
  { case 3 show ?case by (rule walk_ends_step(3) [OF _ _ _ 3]) (erule Suc.IH)+ }
qed simp_all

lemma inspect_walk_ends: "inspect_walk f data \<noteq> None"
  unfolding inspect_walk_def by (rule walk_ends(1)) (simp add: new_decoder_def walk_bound_def)

text \<open>More fuel does not change a result.\<close>

lemma walk_mono_step:
  assumes v: "\<And>depth path np d res. walk f g depth path np d = Some res \<Longrightarrow> walk f h depth path np d = Some res"
    and m: "\<And>depth path seen np d res. walk_members f g depth path seen np d = Some res \<Longrightarrow> walk_members f h depth path seen np d = Some res"
    and e: "\<And>depth path i np d res. walk_elems f g depth path i np d = Some res \<Longrightarrow> walk_elems f h depth path i np d = Some res"
  shows "walk f (Suc g) depth path np d = Some res \<Longrightarrow> walk f (Suc h) depth path np d = Some res"
    and "walk_members f (Suc g) depth path seen np d = Some res \<Longrightarrow> walk_members f (Suc h) depth path seen np d = Some res"
    and "walk_elems f (Suc g) depth path i np d = Some res \<Longrightarrow> walk_elems f (Suc h) depth path i np d = Some res"
  by (auto simp: Let_def dest!: v m e split: if_splits sum.splits option.splits prod.splits token.splits json.splits)

lemma walk_mono:
  "walk f g depth path np d = Some res \<Longrightarrow> g \<le> h \<Longrightarrow> walk f h depth path np d = Some res"
  "walk_members f g depth path seen np d = Some res \<Longrightarrow> g \<le> h \<Longrightarrow> walk_members f h depth path seen np d = Some res"
  "walk_elems f g depth path i np d = Some res \<Longrightarrow> g \<le> h \<Longrightarrow> walk_elems f h depth path i np d = Some res"
proof (induction g arbitrary: h depth path seen i np d res)
  case (Suc g)
  { case 1
    then obtain h' where "h = Suc h'" "g \<le> h'" by (cases h) auto
    with 1 walk_mono_step(1) [OF Suc.IH(1-3)] show ?case by blast }
  { case 2
    then obtain h' where "h = Suc h'" "g \<le> h'" by (cases h) auto
    with 2 walk_mono_step(2) [OF Suc.IH(1-3)] show ?case by blast }
  { case 3
    then obtain h' where "h = Suc h'" "g \<le> h'" by (cases h) auto
    with 3 walk_mono_step(3) [OF Suc.IH(1-3)] show ?case by blast }
qed simp_all

end
