(* ===== verification/Ingest_Tree_Walk.thy ===== *)
theory Ingest_Tree_Walk
  imports Ingest_Walk_Laws Ingest_Parse
begin

text \<open>
  The walk over the token stream and the reader agree. On a text that starts with a value, the walk
  does what the recursion \<open>tree_walk\<close> over that value does, and stops where the reader stops. So the
  strict reader's refusals are statements about the value alone: its depth, its repeated keys, its
  nulls.
\<close>

section \<open>The recursion over the value\<close>

fun tree_walk :: "go_fmt \<Rightarrow> nat \<Rightarrow> string \<Rightarrow> string \<Rightarrow> json \<Rightarrow> go_error + string"
  and tree_members :: "go_fmt \<Rightarrow> nat \<Rightarrow> string \<Rightarrow> string list \<Rightarrow> string \<Rightarrow> (string \<times> json) list \<Rightarrow> go_error + string"
  and tree_elems :: "go_fmt \<Rightarrow> nat \<Rightarrow> string \<Rightarrow> nat \<Rightarrow> string \<Rightarrow> json list \<Rightarrow> go_error + string" where
  "tree_walk f depth path np (JObj ms) = (if depth > MaxJSONDepth then Inl (too_deep path)
     else tree_members f depth path [] np ms)"
| "tree_walk f depth path np (JArr xs) = (if depth > MaxJSONDepth then Inl (too_deep path)
     else tree_elems f depth path 0 np xs)"
| "tree_walk f depth path np j = (if depth > MaxJSONDepth then Inl (too_deep path)
     else Inr (if j = JNull \<and> np = '''' then jsonPath path else np))"
| "tree_members f depth path seen np [] = Inr np"
| "tree_members f depth path seen np (m # ms) =
     (let childPath = appendJSONField path (fst m) in
      if fst m \<in> set seen then Inl (duplicate_field f childPath (fst m))
      else case tree_walk f (depth + 1) childPath np (snd m) of
        Inl e \<Rightarrow> Inl e | Inr np \<Rightarrow> tree_members f depth path (fst m # seen) np ms)"
| "tree_elems f depth path i np [] = Inr np"
| "tree_elems f depth path i np (x # xs) =
     (case tree_walk f (depth + 1) (index_path path i) np x of
        Inl e \<Rightarrow> Inl e | Inr np \<Rightarrow> tree_elems f depth path (i + 1) np xs)"

definition walked :: "decoder \<Rightarrow> go_error + string \<Rightarrow> go_error + (string \<times> decoder)" where
  "walked d r = (case r of Inl e \<Rightarrow> Inl e | Inr np \<Rightarrow> Inr (np, d))"

lemma walked_simps [simp]: "walked d (Inl e) = Inl e" "walked d (Inr np) = Inr (np, d)"
  by (simp_all add: walked_def)

section \<open>Tokens and values\<close>

lemma skip_ws_head: "skip_ws s = c # r \<Longrightarrow> \<not> is_space c \<and> skip_ws (c # r) = c # r"
  using hd_dropWhile [of is_space s] by (simp add: skip_ws_def)

lemma literal_head: "w = x # w' \<Longrightarrow> literal w v s = Some p \<Longrightarrow> \<exists>s'. s = x # s'"
  by (auto simp: literal_def prefix_def split: if_splits)

lemma scan_number_head: "scan_number (c # r) = Some p \<Longrightarrow> c = CHR ''-'' \<or> is_digit c"
  by (auto simp: scan_number_def scan_tail_def scan_int_def digits1_def is_digit_def char_literals
      split: if_splits option.splits list.splits)

lemma read_scalar_head:
  assumes "read_scalar (c # r) = Some p"
  shows "c \<noteq> CHR ''['' \<and> c \<noteq> CHR '']'' \<and> c \<noteq> CHR ''{'' \<and> c \<noteq> CHR ''}'' \<and> c \<noteq> CHR '':'' \<and> c \<noteq> CHR '',''"
proof -
  have "c = Quote \<or> c = CHR ''n'' \<or> c = CHR ''t'' \<or> c = CHR ''f'' \<or> c = CHR ''-'' \<or> is_digit c"
    using assms scan_number_head [of c r] by (auto simp: read_scalar_def split: if_splits option.splits)
  then show ?thesis by (auto simp: eq_literals is_digit_def)
qed

lemma read_scalar_scalar: "read_scalar s = Some (j, r) \<Longrightarrow> (\<forall>ms. j \<noteq> JObj ms) \<and> (\<forall>xs. j \<noteq> JArr xs)"
  by (auto simp: read_scalar_def literal_def split: list.splits if_splits option.splits)

lemma parse_scalar:
  assumes "skip_ws s = c # r" "c \<noteq> CHR ''{''" "c \<noteq> CHR ''[''"
  shows "parse_value (Suc n) l s = read_scalar (c # r)"
  using assms by (simp add: read_scalar_def)

lemma parse_value_head:
  assumes "parse_value n l s = Some p"
  shows "\<exists>c r. skip_ws s = c # r \<and> c \<noteq> CHR '']'' \<and> c \<noteq> CHR ''}'' \<and> c \<noteq> CHR '':'' \<and> c \<noteq> CHR '',''"
proof -
  from assms obtain n' c r where n: "n = Suc n'" "skip_ws s = c # r"
    by (cases n) (auto split: list.splits)
  show ?thesis
  proof (cases "c = CHR ''{'' \<or> c = CHR ''[''")
    case False
    with assms n parse_scalar [OF n(2)] have "read_scalar (c # r) = Some p" by simp
    with n show ?thesis using read_scalar_head by blast
  qed (use n in auto)
qed

lemma token_scalar:
  assumes "skip_ws s = c # r" "read_scalar (c # r) = Some (j, q)" "token_value_allowed st"
  shows "dec_token \<lparr>dc_rest = s, dc_state = st, dc_stack = k\<rparr> =
    Inr (Scalar j, \<lparr>dc_rest = q, dc_state = token_value_end st, dc_stack = k\<rparr>)"
  using assms read_scalar_head [OF assms(2)]
  by (auto simp: token_value_allowed_def dec_scalar_def
      dec_token.simps [of "\<lparr>dc_rest = s, dc_state = st', dc_stack = k'\<rparr>" for st' k'])

lemma token_open:
  assumes "token_value_allowed st"
  shows "skip_ws s = CHR ''['' # r \<Longrightarrow> dec_token \<lparr>dc_rest = s, dc_state = st, dc_stack = k\<rparr> =
      Inr (Delim (CHR ''[''), \<lparr>dc_rest = r, dc_state = ArrayStart, dc_stack = st # k\<rparr>)"
    and "skip_ws s = CHR ''{'' # r \<Longrightarrow> dec_token \<lparr>dc_rest = s, dc_state = st, dc_stack = k\<rparr> =
      Inr (Delim (CHR ''{''), \<lparr>dc_rest = r, dc_state = ObjectStart, dc_stack = st # k\<rparr>)"
  using assms by (simp_all add: dec_token.simps [of "\<lparr>dc_rest = s, dc_state = st, dc_stack = k\<rparr>"] dec_open_def)

lemma token_comma:
  assumes "skip_ws q = CHR '','' # s"
  shows "dec_token \<lparr>dc_rest = q, dc_state = ArrayComma, dc_stack = k\<rparr> = dec_token \<lparr>dc_rest = s, dc_state = ArrayValue, dc_stack = k\<rparr>"
    and "dec_token \<lparr>dc_rest = q, dc_state = ObjectComma, dc_stack = k\<rparr> = dec_token \<lparr>dc_rest = s, dc_state = ObjectKey, dc_stack = k\<rparr>"
  using assms by (simp_all add: dec_token.simps [of "\<lparr>dc_rest = q, dc_state = st, dc_stack = k\<rparr>" for st])

lemma token_colon:
  assumes "skip_ws q = CHR '':'' # s"
  shows "dec_token \<lparr>dc_rest = q, dc_state = ObjectColon, dc_stack = k\<rparr> = dec_token \<lparr>dc_rest = s, dc_state = ObjectValue, dc_stack = k\<rparr>"
  using assms by (simp add: dec_token.simps [of "\<lparr>dc_rest = q, dc_state = st, dc_stack = k\<rparr>" for st])

lemma token_key:
  assumes "skip_ws s = Quote # r" "unquote r = Some (t, q)" "st = ObjectStart \<or> st = ObjectKey"
  shows "dec_token \<lparr>dc_rest = s, dc_state = st, dc_stack = k\<rparr> =
    Inr (Scalar (JStr t), \<lparr>dc_rest = q, dc_state = ObjectColon, dc_stack = k\<rparr>)"
  using assms by (auto simp: dec_token.simps [of "\<lparr>dc_rest = s, dc_state = st, dc_stack = k\<rparr>" for st] dec_key_def eq_literals)

lemma closes:
  assumes "skip_ws q = c # r"
    and "c = CHR '']'' \<and> e \<in> {ArrayStart, ArrayComma} \<or> c = CHR ''}'' \<and> e \<in> {ObjectStart, ObjectComma}"
  shows "\<not> dec_more \<lparr>dc_rest = q, dc_state = e, dc_stack = st # k\<rparr> \<and>
    close_token f path np \<lparr>dc_rest = q, dc_state = e, dc_stack = st # k\<rparr> =
      Inr (np, \<lparr>dc_rest = r, dc_state = token_value_end st, dc_stack = k\<rparr>)"
  using assms by (auto simp: dec_more_def close_token_def dec_close_def
      dec_token.simps [of "\<lparr>dc_rest = q, dc_state = st', dc_stack = k'\<rparr>" for st' k'])

lemma walk_token: "dec_token d = dec_token d' \<Longrightarrow> walk f g depth path np d = walk f g depth path np d'"
  by (cases g) simp_all

section \<open>Agreement\<close>

text \<open>Where the decoder stands before an element or a member whose text is \<open>s\<close>.\<close>

definition at_elem :: "decoder \<Rightarrow> string \<Rightarrow> token_state \<Rightarrow> token_state list \<Rightarrow> bool" where
  "at_elem d s st k \<longleftrightarrow> d = \<lparr>dc_rest = s, dc_state = ArrayStart, dc_stack = st # k\<rparr>
     \<or> (\<exists>q. skip_ws q = CHR '','' # s \<and> d = \<lparr>dc_rest = q, dc_state = ArrayComma, dc_stack = st # k\<rparr>)"

definition at_member :: "decoder \<Rightarrow> string \<Rightarrow> token_state \<Rightarrow> token_state list \<Rightarrow> bool" where
  "at_member d s st k \<longleftrightarrow> d = \<lparr>dc_rest = s, dc_state = ObjectStart, dc_stack = st # k\<rparr>
     \<or> (\<exists>q. skip_ws q = CHR '','' # s \<and> d = \<lparr>dc_rest = q, dc_state = ObjectComma, dc_stack = st # k\<rparr>)"

lemma at_elem_token:
  assumes "at_elem d s st k" "parse_value n l s = Some p"
  shows "dec_more d \<and> (\<exists>e \<in> {ArrayStart, ArrayValue}.
    dec_token d = dec_token \<lparr>dc_rest = s, dc_state = e, dc_stack = st # k\<rparr>)"
proof -
  from parse_value_head [OF assms(2)] obtain c r where
    "skip_ws s = c # r" "c \<noteq> CHR '']''" "c \<noteq> CHR ''}''" by blast
  with assms(1) show ?thesis by (auto simp: at_elem_def dec_more_def token_comma)
qed

lemma at_member_token:
  assumes "at_member d s st k" "skip_ws s = Quote # u" "unquote u = Some (t, r)"
  shows "dec_more d \<and> dec_token d = Inr (Scalar (JStr t), \<lparr>dc_rest = r, dc_state = ObjectColon, dc_stack = st # k\<rparr>)"
proof -
  have "Quote \<noteq> CHR '']''" "Quote \<noteq> CHR ''}''" by (simp_all add: eq_literals)
  with assms show ?thesis
    by (auto simp: at_member_def dec_more_def token_comma token_key)
qed

definition value_agrees :: "go_fmt \<Rightarrow> nat \<Rightarrow> bool" where
  "value_agrees f n \<longleftrightarrow> (\<forall>l s j r st k g depth path np res.
     parse_value n l s = Some (j, r) \<longrightarrow> token_value_allowed st \<longrightarrow>
     walk f g depth path np \<lparr>dc_rest = s, dc_state = st, dc_stack = k\<rparr> = Some res \<longrightarrow>
     res = walked \<lparr>dc_rest = r, dc_state = token_value_end st, dc_stack = k\<rparr> (tree_walk f depth path np j))"

definition elems_agree :: "go_fmt \<Rightarrow> nat \<Rightarrow> bool" where
  "elems_agree f n \<longleftrightarrow> (\<forall>l s xs r d st k g depth path i np res.
     parse_elems n l s = Some (xs, r) \<longrightarrow> at_elem d s st k \<longrightarrow> depth \<le> MaxJSONDepth \<longrightarrow>
     walk_elems f g depth path i np d = Some res \<longrightarrow>
     res = walked \<lparr>dc_rest = r, dc_state = token_value_end st, dc_stack = k\<rparr> (tree_elems f depth path i np xs))"

definition members_agree :: "go_fmt \<Rightarrow> nat \<Rightarrow> bool" where
  "members_agree f n \<longleftrightarrow> (\<forall>l s ms r d st k g depth path seen np res.
     parse_members n l s = Some (ms, r) \<longrightarrow> at_member d s st k \<longrightarrow> depth \<le> MaxJSONDepth \<longrightarrow>
     walk_members f g depth path seen np d = Some res \<longrightarrow>
     res = walked \<lparr>dc_rest = r, dc_state = token_value_end st, dc_stack = k\<rparr> (tree_members f depth path seen np ms))"

lemma array_agrees:
  assumes elems: "elems_agree f n" and s: "skip_ws s = CHR ''['' # q" and p: "parse_value (Suc n) l s = Some (j, r)"
    and depth: "\<not> MaxJSONDepth < depth"
    and w: "walk_elems f g depth path 0 np \<lparr>dc_rest = q, dc_state = ArrayStart, dc_stack = st # k\<rparr> = Some res"
  shows "res = walked \<lparr>dc_rest = r, dc_state = token_value_end st, dc_stack = k\<rparr> (tree_walk f depth path np j)"
proof (cases "take 1 (skip_ws q) = '']''")
  case True
  then have e: "skip_ws q = CHR '']'' # drop 1 (skip_ws q)" by (cases "skip_ws q") auto
  from w obtain h where "g = Suc h" by (cases g) auto
  with w closes [OF e, of ArrayStart st k f path np]
  have "res = Inr (np, \<lparr>dc_rest = drop 1 (skip_ws q), dc_state = token_value_end st, dc_stack = k\<rparr>)" by simp
  moreover from p s True have "j = JArr []" "r = drop 1 (skip_ws q)" by (auto split: if_splits)
  ultimately show ?thesis using depth by simp
next
  case False
  with p s obtain xs where xs: "parse_elems n (l - 1) q = Some (xs, r)" "j = JArr xs"
    by (auto split: if_splits option.splits)
  with elems w depth show ?thesis unfolding elems_agree_def
    by (auto simp: at_elem_def not_less)
qed

lemma object_agrees:
  assumes members: "members_agree f n" and s: "skip_ws s = CHR ''{'' # q" and p: "parse_value (Suc n) l s = Some (j, r)"
    and depth: "\<not> MaxJSONDepth < depth"
    and w: "walk_members f g depth path [] np \<lparr>dc_rest = q, dc_state = ObjectStart, dc_stack = st # k\<rparr> = Some res"
  shows "res = walked \<lparr>dc_rest = r, dc_state = token_value_end st, dc_stack = k\<rparr> (tree_walk f depth path np j)"
proof (cases "take 1 (skip_ws q) = ''}''")
  case True
  then have e: "skip_ws q = CHR ''}'' # drop 1 (skip_ws q)" by (cases "skip_ws q") auto
  from w obtain h where "g = Suc h" by (cases g) auto
  with w closes [OF e, of ObjectStart st k f path np]
  have "res = Inr (np, \<lparr>dc_rest = drop 1 (skip_ws q), dc_state = token_value_end st, dc_stack = k\<rparr>)" by simp
  moreover from p s True have "j = JObj []" "r = drop 1 (skip_ws q)" by (auto split: if_splits)
  ultimately show ?thesis using depth by simp
next
  case False
  with p s obtain ms where ms: "parse_members n (l - 1) q = Some (ms, r)" "j = JObj ms"
    by (auto split: if_splits option.splits)
  with members w depth show ?thesis unfolding members_agree_def
    by (auto simp: at_member_def not_less)
qed

lemma value_step:
  assumes "elems_agree f n" "members_agree f n"
  shows "value_agrees f (Suc n)"
  unfolding value_agrees_def
proof (intro allI impI)
  fix l s j r st k g depth path np res
  assume p: "parse_value (Suc n) l s = Some (j, r)" and st: "token_value_allowed st"
    and w: "walk f g depth path np \<lparr>dc_rest = s, dc_state = st, dc_stack = k\<rparr> = Some res"
  from w obtain g' where g: "g = Suc g'" by (cases g) auto
  from p obtain c q where s: "skip_ws s = c # q" by (auto split: list.splits)
  consider "MaxJSONDepth < depth" | "\<not> MaxJSONDepth < depth" "c = CHR ''{''" | "\<not> MaxJSONDepth < depth" "c = CHR ''[''"
    | "\<not> MaxJSONDepth < depth" "c \<noteq> CHR ''{''" "c \<noteq> CHR ''[''" by blast
  then show "res = walked \<lparr>dc_rest = r, dc_state = token_value_end st, dc_stack = k\<rparr> (tree_walk f depth path np j)"
  proof cases
    case 1
    with w g show ?thesis by (cases j) simp_all
  next
    case 2
    show ?thesis
      by (rule object_agrees [OF assms(2) s [unfolded 2] p 2(1)])
        (use w g 2 token_open(2) [OF st, of s q k] s in simp)
  next
    case 3
    show ?thesis
      by (rule array_agrees [OF assms(1) s [unfolded 3] p 3(1)])
        (use w g 3 token_open(1) [OF st, of s q k] s in simp)
  next
    case 4
    with p have rs: "read_scalar (c # q) = Some (j, r)" using parse_scalar [OF s 4(2,3), of n l] by simp
    from token_scalar [OF s rs st] w g 4 read_scalar_scalar [OF rs] show ?thesis by (cases j) auto
  qed
qed

lemma elems_rest:
  assumes elems: "elems_agree f n" and q: "skip_ws q = c # t" and depth: "depth \<le> MaxJSONDepth"
    and p: "c = CHR '']'' \<and> ys = [] \<and> r = t \<or> c = CHR '','' \<and> parse_elems n l t = Some (ys, r)"
    and w: "walk_elems f g depth path i np \<lparr>dc_rest = q, dc_state = ArrayComma, dc_stack = st # k\<rparr> = Some res"
  shows "res = walked \<lparr>dc_rest = r, dc_state = token_value_end st, dc_stack = k\<rparr> (tree_elems f depth path i np ys)"
  using p
proof
  assume c: "c = CHR '']'' \<and> ys = [] \<and> r = t"
  from w obtain h where "g = Suc h" by (cases g) auto
  with c w closes [OF q, of ArrayComma st k f path np] show ?thesis by simp
next
  assume c: "c = CHR '','' \<and> parse_elems n l t = Some (ys, r)"
  with q have "at_elem \<lparr>dc_rest = q, dc_state = ArrayComma, dc_stack = st # k\<rparr> t st k" by (simp add: at_elem_def)
  with c elems depth w show ?thesis unfolding elems_agree_def by blast
qed

lemma members_rest:
  assumes members: "members_agree f n" and q: "skip_ws q = c # t" and depth: "depth \<le> MaxJSONDepth"
    and p: "c = CHR ''}'' \<and> ys = [] \<and> r = t \<or> c = CHR '','' \<and> parse_members n l t = Some (ys, r)"
    and w: "walk_members f g depth path seen np \<lparr>dc_rest = q, dc_state = ObjectComma, dc_stack = st # k\<rparr> = Some res"
  shows "res = walked \<lparr>dc_rest = r, dc_state = token_value_end st, dc_stack = k\<rparr> (tree_members f depth path seen np ys)"
  using p
proof
  assume c: "c = CHR ''}'' \<and> ys = [] \<and> r = t"
  from w obtain h where "g = Suc h" by (cases g) auto
  with c w closes [OF q, of ObjectComma st k f path np] show ?thesis by simp
next
  assume c: "c = CHR '','' \<and> parse_members n l t = Some (ys, r)"
  with q have "at_member \<lparr>dc_rest = q, dc_state = ObjectComma, dc_stack = st # k\<rparr> t st k" by (simp add: at_member_def)
  with c members depth w show ?thesis unfolding members_agree_def by blast
qed

lemma elems_step:
  assumes "value_agrees f n" "elems_agree f n"
  shows "elems_agree f (Suc n)"
  unfolding elems_agree_def
proof (intro allI impI)
  fix l s xs r d st k g depth path i np res
  assume p: "parse_elems (Suc n) l s = Some (xs, r)" and d: "at_elem d s st k" and depth: "depth \<le> MaxJSONDepth"
    and w: "walk_elems f g depth path i np d = Some res"
  from p obtain x q c t ys where v: "parse_value n l s = Some (x, q)" "skip_ws q = c # t" "xs = x # ys"
    and rest: "c = CHR '']'' \<and> ys = [] \<and> r = t \<or> c = CHR '','' \<and> parse_elems n l t = Some (ys, r)"
    by (auto split: option.splits list.splits if_splits)
  from at_elem_token [OF d v(1)] obtain e where e: "dec_more d" "e \<in> {ArrayStart, ArrayValue}"
    "dec_token d = dec_token \<lparr>dc_rest = s, dc_state = e, dc_stack = st # k\<rparr>" by blast
  from e have ev: "token_value_allowed e" "token_value_end e = ArrayComma" by (auto simp: token_value_allowed_def)
  from w obtain g' where g: "g = Suc g'" by (cases g) auto
  with w e obtain res1 where w1: "walk f g' (depth + 1) (index_path path i) np d = Some res1"
    by (auto split: option.splits)
  have "res1 = walked \<lparr>dc_rest = q, dc_state = ArrayComma, dc_stack = st # k\<rparr>
      (tree_walk f (depth + 1) (index_path path i) np x)"
    using assms(1) v(1) ev w1 [unfolded walk_token [OF e(3)]] unfolding value_agrees_def by metis
  with w1 w g e v(3) elems_rest [OF assms(2) v(2) depth rest]
  show "res = walked \<lparr>dc_rest = r, dc_state = token_value_end st, dc_stack = k\<rparr> (tree_elems f depth path i np xs)"
    by (cases "tree_walk f (depth + 1) (index_path path i) np x") simp_all
qed

lemma members_step:
  assumes "value_agrees f n" "members_agree f n"
  shows "members_agree f (Suc n)"
  unfolding members_agree_def
proof (intro allI impI)
  fix l s ms r d st k g depth path seen np res
  assume p: "parse_members (Suc n) l s = Some (ms, r)" and d: "at_member d s st k" and depth: "depth \<le> MaxJSONDepth"
    and w: "walk_members f g depth path seen np d = Some res"
  from p obtain u where u: "skip_ws s = Quote # u" by (auto split: list.splits if_splits)
  with p obtain key a where a: "unquote u = Some (key, a)" by (auto split: option.splits)
  from p u a obtain b where b: "skip_ws a = CHR '':'' # b" by (cases "skip_ws a") (auto split: if_splits)
  from p u a b obtain x q c t ys where v: "parse_value n l b = Some (x, q)" "skip_ws q = c # t" "ms = (key, x) # ys"
    and rest: "c = CHR ''}'' \<and> ys = [] \<and> r = t \<or> c = CHR '','' \<and> parse_members n l t = Some (ys, r)"
    by (auto split: option.splits list.splits if_splits)
  note e = at_member_token [OF d u a]
  from w obtain g' where g: "g = Suc g'" by (cases g) auto
  show "res = walked \<lparr>dc_rest = r, dc_state = token_value_end st, dc_stack = k\<rparr> (tree_members f depth path seen np ms)"
  proof (cases "key \<in> set seen")
    case True
    with w g e v(3) show ?thesis by (simp add: Let_def)
  next
    case False
    let ?child = "appendJSONField path key"
    from w g e False obtain res1 where
      w1: "walk f g' (depth + 1) ?child np \<lparr>dc_rest = a, dc_state = ObjectColon, dc_stack = st # k\<rparr> = Some res1"
      by (auto simp: Let_def split: option.splits)
    have "res1 = walked \<lparr>dc_rest = q, dc_state = ObjectComma, dc_stack = st # k\<rparr> (tree_walk f (depth + 1) ?child np x)"
      using assms(1) v(1) w1 [unfolded walk_token [OF token_colon [OF b]]] unfolding value_agrees_def
      by (fastforce simp: token_value_allowed_def)
    with w1 w g e v(3) False members_rest [OF assms(2) v(2) depth rest] show ?thesis
      by (cases "tree_walk f (depth + 1) ?child np x") (simp_all add: Let_def)
  qed
qed

lemma all_agree: "value_agrees f n \<and> elems_agree f n \<and> members_agree f n"
proof (induction n)
  case 0
  show ?case by (simp add: value_agrees_def elems_agree_def members_agree_def)
qed (simp add: value_step elems_step members_step)

text \<open>The walk over the text of a value is the recursion over the value, and stops where the reader
  stops.\<close>

lemma walk_agrees:
  assumes "parse_value n l s = Some (j, r)" "token_value_allowed st"
    and "walk f g depth path np \<lparr>dc_rest = s, dc_state = st, dc_stack = k\<rparr> = Some res"
  shows "res = walked \<lparr>dc_rest = r, dc_state = token_value_end st, dc_stack = k\<rparr> (tree_walk f depth path np j)"
  using all_agree [of f n] assms unfolding value_agrees_def by blast

end
