(* ===== verification/Ingest_Parse_Laws.thy ===== *)
theory Ingest_Parse_Laws
  imports Ingest_Surrogates Ingest_Tree_Walk Ingest_Canonical Ingest_Compile_Laws
begin

text \<open>
  What the strict reader accepts. Its walk finds nothing exactly when the value is \<open>strict_json\<close>: not
  too deep, no repeated key, no null. A canonical document passes every check and decodes to the
  batch it was made from.
\<close>

declare fits_struct [simp del] valid_utf8.simps(2) [simp del]

section \<open>The walk in terms of the value\<close>

lemma inspect_agrees:
  assumes "decode_value data = Some (j, r)"
  shows "inspectJSON f data = tree_walk f 1 '''' '''' j"
proof -
  from inspect_walk_ends obtain res where res: "inspect_walk f data = Some res" by blast
  then have "res = walked \<lparr>dc_rest = r, dc_state = token_value_end TopValue, dc_stack = []\<rparr> (tree_walk f 1 '''' '''' j)"
    unfolding inspect_walk_def new_decoder_def
    by (intro walk_agrees [OF assms [unfolded decode_value_def]]) (simp_all add: token_value_allowed_def)
  with res show ?thesis by (simp add: inspectJSON_def walked_def split: sum.split)
qed

fun strict_json :: "nat \<Rightarrow> json \<Rightarrow> bool"
  and strict_members :: "nat \<Rightarrow> (string \<times> json) list \<Rightarrow> bool"
  and strict_elems :: "nat \<Rightarrow> json list \<Rightarrow> bool" where
  "strict_json depth (JObj ms) = (depth \<le> MaxJSONDepth \<and> distinct (map fst ms) \<and> strict_members depth ms)"
| "strict_json depth (JArr xs) = (depth \<le> MaxJSONDepth \<and> strict_elems depth xs)"
| "strict_json depth j = (depth \<le> MaxJSONDepth \<and> j \<noteq> JNull)"
| "strict_members depth [] = True"
| "strict_members depth (m # ms) = (strict_json (depth + 1) (snd m) \<and> strict_members depth ms)"
| "strict_elems depth [] = True"
| "strict_elems depth (x # xs) = (strict_json (depth + 1) x \<and> strict_elems depth xs)"

lemma jsonPath_nonempty: "jsonPath path \<noteq> ''''"
  by (simp add: jsonPath_def)

text \<open>A null met once is remembered.\<close>

lemma null_kept:
  "np \<noteq> '''' \<Longrightarrow> tree_walk f depth path np j \<noteq> Inr ''''"
  "np \<noteq> '''' \<Longrightarrow> tree_members f depth path seen np ms \<noteq> Inr ''''"
  "np \<noteq> '''' \<Longrightarrow> tree_elems f depth path i np xs \<noteq> Inr ''''"
proof (induction f depth path np j and f depth path seen np ms and f depth path i np xs
    rule: tree_walk_tree_members_tree_elems.induct)
  case (5 f depth path seen np m ms)
  then show ?case by (cases "tree_walk f (depth + 1) (appendJSONField path (fst m)) np (snd m)") (auto simp: Let_def)
next
  case (7 f depth path i np x xs)
  then show ?case by (cases "tree_walk f (depth + 1) (index_path path i) np x") auto
qed auto

lemma tree_walk_strict:
  "np = '''' \<Longrightarrow> tree_walk f depth path np j = Inr '''' \<longleftrightarrow> strict_json depth j"
  "np = '''' \<Longrightarrow> tree_members f depth path seen np ms = Inr '''' \<longleftrightarrow>
     distinct (map fst ms) \<and> set seen \<inter> fst ` set ms = {} \<and> strict_members depth ms"
  "np = '''' \<Longrightarrow> tree_elems f depth path i np xs = Inr '''' \<longleftrightarrow> strict_elems depth xs"
proof (induction f depth path np j and f depth path seen np ms and f depth path i np xs
    rule: tree_walk_tree_members_tree_elems.induct)
  case (5 f depth path seen np m ms)
  show ?case
  proof (cases "fst m \<in> set seen")
    case fresh: False
    show ?thesis
    proof (cases "tree_walk f (depth + 1) (appendJSONField path (fst m)) np (snd m)")
      case (Inr np')
      then show ?thesis using 5 fresh null_kept(2) by (cases "np' = ''''") (auto simp: Let_def)
    qed (use 5 fresh in \<open>auto simp: Let_def\<close>)
  qed (use 5 in \<open>auto simp: Let_def\<close>)
next
  case (7 f depth path i np x xs)
  show ?case
  proof (cases "tree_walk f (depth + 1) (index_path path i) np x")
    case (Inr np')
    then show ?thesis using 7 null_kept(3) by (cases "np' = ''''") auto
  qed (use 7 in auto)
qed (auto simp: jsonPath_nonempty)

section \<open>Blank input is no value\<close>

lemma read_scalar_ascii:
  assumes "read_scalar (c # r) = Some p"
  shows "32 < byte c \<and> byte c < 128"
proof -
  have "c = Quote \<or> c = CHR ''n'' \<or> c = CHR ''t'' \<or> c = CHR ''f'' \<or> c = CHR ''-'' \<or> is_digit c"
    using assms scan_number_head [of c r] by (auto simp: read_scalar_def split: if_splits option.splits)
  then show ?thesis by (auto simp: char_literals is_digit_def)
qed

lemma parse_value_ascii:
  assumes "parse_value n l s = Some p"
  shows "\<exists>c r. skip_ws s = c # r \<and> 32 < byte c \<and> byte c < 128"
proof -
  from assms obtain n' c r where n: "n = Suc n'" "skip_ws s = c # r"
    by (cases n) (auto split: list.splits)
  show ?thesis
  proof (cases "c = CHR ''{'' \<or> c = CHR ''[''")
    case False
    with assms n parse_scalar [OF n(2)] have "read_scalar (c # r) = Some p" by simp
    with n show ?thesis using read_scalar_ascii by blast
  qed (use n in \<open>auto simp: char_literals\<close>)
qed

lemma blank_ascii: "byte c < 128 \<Longrightarrow> blank (c # s) \<longleftrightarrow> byte c \<in> {9, 10, 11, 12, 13, 32} \<and> blank s"
  by (auto simp: rune_len_ascii space_runes_def)

lemma not_blank: "skip_ws s = c # r \<Longrightarrow> 32 < byte c \<Longrightarrow> byte c < 128 \<Longrightarrow> \<not> blank s"
proof (induction s)
  case (Cons a s)
  show ?case
  proof (cases "is_space a")
    case True
    then have "byte a < 128" by (auto simp: is_space_def)
    with Cons True show ?thesis by (simp add: skip_ws_def blank_ascii del: blank.simps)
  next
    case False
    with Cons show ?thesis by (auto simp add: skip_ws_def blank_ascii simp del: blank.simps)
  qed
qed (simp add: skip_ws_def)

section \<open>Acceptance\<close>

lemma json_parse_iff: "json_parse data = Some j \<longleftrightarrow> (\<exists>r. decode_value data = Some (j, r) \<and> skip_ws r = '''')"
  by (auto simp: json_parse_def decode_value_def split: option.splits)

lemma decodeStrict_iff:
  "decodeStrict f data = Inr b \<longleftrightarrow> valid_utf8 data \<and> rejectUnpairedJSONSurrogates data = None \<and>
     (\<exists>j. json_parse data = Some j \<and> strict_json 1 j \<and> decode_batch j = (b, None))"
proof (cases "decode_value data")
  case None
  then have "json_parse data = None" by (cases "json_parse data") (auto simp: json_parse_iff)
  then show ?thesis using None by (auto simp: decodeStrict_def bind_r_Inr check_then_Inr)
next
  case (Some p)
  then obtain j r where d: "decode_value data = Some (j, r)" by (cases p) simp
  have nb: "\<not> blank data" using parse_value_ascii not_blank d unfolding decode_value_def by blast
  have jp: "json_parse data = Some j' \<longleftrightarrow> j' = j \<and> skip_ws r = ''''" for j' using d by (auto simp: json_parse_iff)
  obtain b' e where s: "decode_batch j = (b', e)" by (cases "decode_batch j")
  show ?thesis
  proof (cases "tree_walk f 1 '''' '''' j")
    case (Inl err)
    then have "\<not> strict_json 1 j" using tree_walk_strict(1) [OF refl, of f 1 "''''" j] by simp
    with Inl show ?thesis by (auto simp: decodeStrict_def inspect_agrees [OF d] jp check_then_Inr)
  next
    case (Inr np)
    then have "strict_json 1 j \<longleftrightarrow> np = ''''" using tree_walk_strict(1) [OF refl, of f 1 "''''" j] by simp
    with Inr show ?thesis
      by (auto simp: decodeStrict_def inspect_agrees [OF d] jp d s nb trailing_content_def check_then_Inr)
  qed
qed

lemma Parse_iff:
  "ingest_Parse f data = Inr b \<longleftrightarrow> length data \<le> MaxInputBytes \<and> valid_utf8 data \<and>
     rejectUnpairedJSONSurrogates data = None \<and>
     (\<exists>j. json_parse data = Some j \<and> strict_json 1 j \<and> decode_batch j = (b, None)) \<and>
     batch_ok b"
proof -
  have "ingest_Parse f data = Inr b \<longleftrightarrow> length data \<le> MaxInputBytes \<and> decodeStrict f data = Inr b \<and> IngestValidate f b = None"
    by (auto simp: ingest_Parse_def not_less check_then_Inr bind_r_Inr)
  then show ?thesis by (auto simp: decodeStrict_iff IngestValidate_None)
qed

section \<open>Surrogates in rendered text\<close>

lemma surrogates_plain:
  "list_all (\<lambda>c. c \<noteq> Quote \<and> c \<noteq> Backslash) u \<Longrightarrow> reject_surrogates i (u @ t) = reject_surrogates i t"
  by (induction u) simp_all

definition harmless_hex :: "string \<Rightarrow> bool" where
  "harmless_hex s \<longleftrightarrow> (case parseJSONHex4 s of None \<Rightarrow> False | Some v \<Rightarrow> \<not> high_surrogate v \<and> \<not> low_surrogate v)"

lemma harmless_controls: "list_all (\<lambda>n. list_all (\<lambda>m. harmless_hex (''00'' @ [hex_digit n, hex_digit m])) [0..<16]) [0..<8]"
  by code_simp

lemma harmless_separators: "list_all (\<lambda>n. harmless_hex (''202'' @ [hex_digit n])) [0..<16]"
  by code_simp

lemma harmless_replacement: "harmless_hex ''fffd''"
  by code_simp

lemma surrogates_u:
  assumes "harmless_hex h" "length h = 4"
  shows "reject_surrogates True (esc (CHR ''u'' # h) @ t) = reject_surrogates True t"
proof -
  from assms(1) obtain v where "parseJSONHex4 h = Some v" "\<not> high_surrogate v" "\<not> low_surrogate v"
    by (auto simp: harmless_hex_def split: option.splits)
  with assms(2) show ?thesis by (simp add: esc_def Let_def eq_Quote eq_Backslash char_literals)
qed

lemma surrogates_simple: "e \<noteq> CHR ''u'' \<Longrightarrow> reject_surrogates True (esc [e] @ t) = reject_surrogates True t"
  by (simp add: esc_def Let_def eq_Quote)

lemma surrogates_ascii:
  assumes "byte c < 128"
  shows "reject_surrogates True (escape_ascii c @ t) = reject_surrogates True t"
proof -
  have "harmless_hex (''00'' @ [hex_digit (byte c div 16), hex_digit (byte c mod 16)])"
    using harmless_controls assms by (simp only: list_all_iff set_upt) force
  then have u: "reject_surrogates True (esc (''u00'' @ [hex_digit (byte c div 16), hex_digit (byte c mod 16)]) @ t)
      = reject_surrogates True t"
    using surrogates_u by simp
  have p: "c \<noteq> Quote \<Longrightarrow> c \<noteq> Backslash \<Longrightarrow> reject_surrogates True ([c] @ t) = reject_surrogates True t" by simp
  have n: "byte c \<noteq> 34 \<Longrightarrow> c \<noteq> Quote" "byte c \<noteq> 92 \<Longrightarrow> c \<noteq> Backslash" "byte c = 34 \<or> byte c = 92 \<Longrightarrow> c \<noteq> CHR ''u''"
    by (auto simp: char_literals)
  show ?thesis
    using u p n surrogates_simple [where t = t] unfolding escape_ascii_def Let_def html_safe_def
    by (simp del: reject_surrogates.simps append_Cons)
qed

lemma surrogates_multi:
  assumes "rune_len (c # s) = Some n" "128 \<le> byte c"
  shows "reject_surrogates i (take n (c # s) @ t) = reject_surrogates i t"
  by (rule surrogates_plain) (use rune_bytes_high [OF assms] in \<open>auto simp: list_all_iff eq_Quote eq_Backslash\<close>)

lemma surrogates_string: "reject_surrogates True (escape_string s @ Quote # t) = reject_surrogates False t"
proof (induction s rule: escape_string.induct)
  case (2 c s)
  show ?case
  proof (cases "byte c < 128")
    case True
    with 2 show ?thesis by (simp add: surrogates_ascii del: reject_surrogates.simps)
  next
    case False
    show ?thesis
    proof (cases "rune_len (c # s)")
      case None
      with 2 False surrogates_u [OF harmless_replacement] show ?thesis by (simp del: reject_surrogates.simps)
    next
      case (Some n)
      let ?u = "take n (c # s)"
      have "harmless_hex (''202'' @ [hex_digit (byte (last ?u) mod 16)])"
        using harmless_separators by (simp only: list_all_iff set_upt) force
      from surrogates_u [OF this] surrogates_multi [OF Some] 2 False Some show ?thesis
        by (simp del: reject_surrogates.simps)
    qed
  qed
qed simp

lemma surrogates_quote: "reject_surrogates False (quote s @ t) = reject_surrogates False t"
  using surrogates_string by (simp add: quote_def)

lemma surrogates_render:
  "wf_json j \<Longrightarrow> reject_surrogates False (render j @ t) = reject_surrogates False t"
  "wf_elems xs \<Longrightarrow> reject_surrogates False (render_elems xs @ t) = reject_surrogates False t"
  "wf_members ms \<Longrightarrow> reject_surrogates False (render_members ms @ t) = reject_surrogates False t"
proof (induction j and xs and ms arbitrary: t and t and t rule: render_render_elems_render_members.induct)
  case (3 n)
  then have "list_all (\<lambda>c. c \<noteq> Quote \<and> c \<noteq> Backslash) n"
    by (auto simp: canonical_decimal_def is_digit_def list_all_iff)
  then show ?case by (simp only: render.simps surrogates_plain)
next
  case (2 b)
  show ?case by (simp add: eq_Quote eq_Backslash byte_def)
qed (auto simp: surrogates_quote eq_Quote eq_Backslash char_literals split: if_splits)

section \<open>Canonical documents\<close>

lemma strict_elems_all: "strict_elems d xs \<longleftrightarrow> list_all (strict_json (d + 1)) xs"
  by (induction xs) simp_all

definition opt_strict :: "nat \<Rightarrow> json option \<Rightarrow> bool" where
  "opt_strict d v \<longleftrightarrow> (case v of None \<Rightarrow> True | Some j \<Rightarrow> strict_json d j)"

lemma opt_strict_simps [simp]:
  "opt_strict d None" "opt_strict d (req j) = strict_json d j"
  "opt_strict d (omit_str s) = (s = '''' \<or> d \<le> MaxJSONDepth)"
  "opt_strict d (omit_list xs) = (xs = [] \<or> d \<le> MaxJSONDepth \<and> list_all (strict_json (d + 1)) xs)"
  "opt_strict d (confidence_json c) = (c = None \<or> d \<le> MaxJSONDepth)"
  by (auto simp: opt_strict_def req_def omit_str_def omit_list_def confidence_json_def strict_elems_all split: option.splits)

lemma strict_present: "list_all (\<lambda>(k, v). opt_strict (d + 1) v) fs \<Longrightarrow> strict_members d (present fs)"
  by (induction fs) (auto simp: opt_strict_def split: option.splits)

lemma distinct_present: "distinct (map fst fs) \<Longrightarrow> distinct (map fst (present fs))"
proof (induction fs)
  case (Cons m fs)
  then show ?case using present_keys [of _ _ fs] by (cases m; cases "snd m") fastforce+
qed simp

lemma strict_struct:
  "d \<le> MaxJSONDepth \<Longrightarrow> distinct (map fst fs) \<Longrightarrow> list_all (\<lambda>(k, v). opt_strict (d + 1) v) fs \<Longrightarrow>
    strict_json d (struct_json fs)"
  using strict_present [of d fs] distinct_present [of fs] by (simp add: struct_json_def present_def)

lemma strict_object: "d < MaxJSONDepth \<Longrightarrow> strict_json d (object_json x)"
  unfolding object_json_def by (rule strict_struct) simp_all

lemma strict_evidence: "d < MaxJSONDepth \<Longrightarrow> strict_json d (evidence_json x)"
  unfolding evidence_json_def by (rule strict_struct) simp_all

lemma strict_claim: "d + 3 < MaxJSONDepth \<Longrightarrow> strict_json d (claim_json x)"
  unfolding claim_json_def by (rule strict_struct) (simp_all add: strict_object strict_evidence list.pred_map list_all_iff)

lemma strict_producer: "d < MaxJSONDepth \<Longrightarrow> strict_json d (producer_json x)"
  unfolding producer_json_def by (rule strict_struct) simp_all

lemma strict_artifact: "d < MaxJSONDepth \<Longrightarrow> strict_json d (artifact_json x)"
  unfolding artifact_json_def by (rule strict_struct) simp_all

lemma strict_source: "d + 1 < MaxJSONDepth \<Longrightarrow> strict_json d (source_json x)"
  unfolding source_json_def by (rule strict_struct) (simp_all add: strict_artifact)

lemma strict_batch: "strict_json 1 (batch_json b)"
proof -
  have "opt_strict (Suc (Suc 0)) (map_option source_json (ib_Source b))"
    by (cases "ib_Source b") (simp_all add: opt_strict_def strict_source MaxJSONDepth_def)
  then show ?thesis
    unfolding batch_json_def
    by (intro strict_struct)
      (simp_all add: strict_elems_all list.pred_map list_all_iff strict_claim strict_producer MaxJSONDepth_def)
qed

section \<open>Decoding a canonical document\<close>

lemma or_error_None [simp]: "or_error None e = e" "or_error e None = e"
  by (simp_all add: or_error_def split: option.split)

lemma sdec_struct_JObj: "sdec_struct fs stack (JObj ms) s = sdec_members fs stack ms s"
  by (simp add: sdec_struct_def)

lemmas strict_decoding = sdec_struct_JObj struct_json_def sfield_def find_sfield_def map_filter_simps sdec_string_def

lemma sdec_object: "sdec_struct object_fields stack (object_json x) zero_i_object = (x, None)"
  by (cases x) (simp add: strict_decoding object_fields_def object_json_def omit_str_def zero_i_object_def)

lemma sdec_evidence: "sdec_struct evidence_fields stack (evidence_json x) zero_evidence = (x, None)"
  by (cases x) (simp add: strict_decoding evidence_fields_def evidence_json_def req_def omit_str_def zero_evidence_def)

lemma sdec_producer: "sdec_struct producer_fields stack (producer_json x) zero_producer = (x, None)"
  by (cases x) (simp add: strict_decoding producer_fields_def producer_json_def req_def zero_producer_def)

lemma sdec_artifact: "sdec_struct artifact_fields stack (artifact_json x) \<lparr>ia_Mode = '''', ia_URI = ''''\<rparr> = (x, None)"
  by (cases x) (simp add: strict_decoding artifact_fields_def artifact_json_def req_def omit_str_def)

lemma sdec_source: "sdec_struct source_fields stack (source_json x) zero_source = (x, None)"
  by (cases x) (simp add: strict_decoding source_fields_def source_json_def
      req_def zero_source_def sdec_artifact)

definition full_slice :: "'a list \<Rightarrow> 'a go_slice" where
  "full_slice xs = \<lparr>gs_Len = length xs, gs_Mem = xs\<rparr>"

lemma full_slice_elems [simp]: "gs_Elems (full_slice xs) = xs" "full_slice [] = gs_nil"
  by (simp_all add: full_slice_def gs_Elems_def gs_nil_def)

lemma sdec_cells_map:
  "(\<And>x. d stack (enc x) zero = (cell x, None)) \<Longrightarrow> sdec_cells d zero stack (map enc xs) [] = (map cell xs, None)"
  by (induction xs) simp_all

lemma sdec_slice_map:
  "(\<And>x. d stack (enc x) zero = (cell x, None)) \<Longrightarrow>
   sdec_slice d zero stack (JArr (map enc xs)) gs_nil = (full_slice (map cell xs), None)"
  by (cases "xs = []") (simp_all add: sdec_slice_def sdec_cells_map full_slice_def gs_nil_def)

text \<open>The cells a canonical document decodes to.\<close>

definition cell_of :: "i_claim \<Rightarrow> claim_cell" where
  "cell_of c = \<lparr>cc_ExternalID = cm_ExternalID c, cc_Subject = cm_Subject c, cc_Predicate = cm_Predicate c,
     cc_Object = cm_Object c, cc_ConfidencePPM = cm_ConfidencePPM c, cc_Evidence = full_slice (cm_Evidence c)\<rparr>"

definition batch_cell_of :: "i_batch \<Rightarrow> batch_cell" where
  "batch_cell_of b = \<lparr>bc_Schema = ib_Schema b, bc_Profile = ib_Profile b, bc_Producer = ib_Producer b,
     bc_Source = ib_Source b, bc_Claims = full_slice (map cell_of (ib_Claims b))\<rparr>"

lemma claim_of_cell [simp]: "claim_of (cell_of c) = c"
  by (simp add: claim_of_def cell_of_def)

lemma batch_of_cell [simp]: "batch_of (batch_cell_of b) = b"
  by (simp add: batch_of_def batch_cell_of_def comp_def)

lemma sdec_confidence: "sdec_ptr sdec_uint64 0 stack (JNum (format_uint (unat v))) None = (Some v, None)"
  using format_uint_digits [of "unat v"] unsigned_less [of v]
  by (simp add: sdec_ptr_def sdec_uint64_def all_digits_def)

lemma sdec_claim: "sdec_struct claim_fields stack (claim_json x) zero_claim = (cell_of x, None)"
proof (cases x)
  case (fields e s p obj conf ev)
  show ?thesis
    by (cases conf; cases "ev = []")
      (simp_all add: fields strict_decoding claim_fields_def claim_json_def zero_claim_def
        cell_of_def req_def omit_list_def confidence_json_def sdec_object sdec_confidence
        sdec_slice_map [where cell = "\<lambda>x. x"] sdec_evidence)
qed

lemma batch_json_not_null: "source_json s \<noteq> JNull"
  by (simp add: source_json_def struct_json_def)

lemma sdec_source_ptr:
  "sdec_ptr (sdec_struct source_fields) zero_source stack (source_json s) None = (Some s, None)"
  by (simp add: sdec_ptr_def sdec_source batch_json_not_null)

lemma sdec_batch: "sdec_struct batch_fields [] (batch_json b) zero_batch = (batch_cell_of b, None)"
proof (cases b)
  case (fields schema profile producer source claims)
  show ?thesis
    by (cases source)
      (simp_all add: fields strict_decoding batch_fields_def batch_json_def zero_batch_def req_def
        batch_cell_of_def sdec_producer sdec_source_ptr sdec_slice_map [where cell = cell_of] sdec_claim)
qed

lemma decode_canonical: "decode_batch (batch_json b) = (b, None)"
  by (simp add: decode_batch_def sdec_batch)

section \<open>Reading back\<close>

context wire_format begin

lemma clean_text:
  assumes "accepted r"
  shows "valid_utf8 (render (doc r))" "rejectUnpairedJSONSurrogates (render (doc r)) = None"
  using valid_utf8_render(1) [OF readable(1) [OF assms]] surrogates_render(1) [OF readable(1) [OF assms], of "[]"]
  by (simp_all add: rejectUnpairedJSONSurrogates_def)

end

lemma Parse_canonical:
  assumes "batch_ok b" "fits_input b"
  shows "ingest_Parse f (render (batch_json b)) = Inr b"
proof -
  have u: "list_all valid_utf8 (batch_strings b)" using assms(1) by (simp add: batch_ok_def)
  show ?thesis
    using batch_wire.reads_back [OF u] batch_wire.clean_text [OF u] assms
    by (auto simp: Parse_iff fits_input_def strict_batch [simplified] decode_canonical)
qed

lemma ParseAndCompile_iff:
  "ParseAndCompile f data = Inr (b, c) \<longleftrightarrow> ingest_Parse f data = Inr b \<and> c = compiled_of b"
  using compileValidated_ok [of b f False]
  by (auto simp: ParseAndCompile_def bind_r_Inr Parse_iff compileValidated_ok)

end
