(* ===== verification/Client_Ingestion_Properties.thy ===== *)
theory Client_Ingestion_Properties
  imports Client_Ingestion_Laws Client_Fixtures Ingest_Properties Ingest_Parse_Laws
begin

text \<open>
  The properties of ingestion through a session. The witness submits the batch of one claim to the
  scripted server; the run is unfolded symbolically, without evaluating a digest.
\<close>

section \<open>A scripted ingestion\<close>

definition body_size :: int where
  "body_size = int (length (cp_write (compiled_of demo_batch)))"

definition ingest_client :: "script client" where
  "ingest_client = demo_client\<lparr>cl_MaxRequestBytes := body_size\<rparr>"

definition ingest_session :: "script session" where
  "ingest_session = demo_session
     \<lparr>se_client := ingest_client,
      se_capabilities := demo_capabilities\<lparr>c_Limits := zero_limits\<lparr>l_MaxJSONRequestBytes := body_size\<rparr>\<rparr>,
      se_requirements := \<lparr>rq_Writable = False, rq_Ingestion = True, rq_Retry = ConservativeRetryPolicy\<rparr>\<rparr>"

definition demo_receive :: attempt where
  "demo_receive = receive demo_client ''POST'' ''/write'' ''req-1'' demo_receipt"

definition demo_terms :: write_terms where
  "demo_terms = \<lparr>wt_pinned = demo_log, wt_responseMax = 500, wt_maxAttempts = 3\<rparr>"

lemma demo_receive_ok:
  "\<exists>r. demo_receive = AttemptOk r \<and> check_success demo_terms write_response_dest r = None"
proof -
  have "case demo_receive of AttemptOk r \<Rightarrow> check_success demo_terms write_response_dest r = None
      | AttemptFailed _ _ \<Rightarrow> False"
    by code_simp
  then show ?thesis by (auto split: attempt.splits)
qed

lemma receive_request_limit: "receive (c\<lparr>cl_MaxRequestBytes := k\<rparr>) m path rid out = receive c m path rid out"
proof -
  have l: "read_limit (c\<lparr>cl_MaxRequestBytes := k\<rparr>) s = read_limit c s" for s by (simp add: read_limit_def)
  then have "answer_response (c\<lparr>cl_MaxRequestBytes := k\<rparr>) rid a = answer_response c rid a" for a
    by (simp add: answer_response_def)
  with l have "read_answer (c\<lparr>cl_MaxRequestBytes := k\<rparr>) m path rid a = read_answer c m path rid a" for a
    unfolding read_answer_def by (simp only:)
  then show ?thesis by (cases out) (simp_all add: receive_def)
qed

lemma ingest_attempt:
  assumes "int (length body) \<le> body_size"
  shows "\<exists>n'. client_do demo_fmt ingest_client (Some demo_ctx) ''POST'' ''/write'' (Some body) key [] (demo_net [demo_receipt]) =
    (demo_receive, n')"
proof -
  have t: "validWireToken ''req-1''" by code_simp
  have "receive ingest_client ''POST'' ''/write'' ''req-1'' demo_receipt = demo_receive"
    by (simp add: demo_receive_def ingest_client_def receive_request_limit)
  moreover have "\<exists>rq. prepare demo_fmt ingest_client (Some demo_ctx) ''POST'' ''/write'' (Some body) key [] [demo_receipt] =
      (Inr (rq, ''req-1''), [demo_receipt])"
    using assms t by (simp add: prepare_def ingest_client_def demo_client_def body_bytes_def choose_request_id_def demo_fmt_def)
  moreover have "cl_Do ingest_client rq [demo_receipt] = (demo_receipt, [])" for rq
    by (simp add: ingest_client_def demo_client_def demo_do_def)
  ultimately show ?thesis by (auto simp: client_do_def demo_net_def)
qed

lemma ingest_session_terms: "session_terms ingest_session = demo_terms"
  by (simp add: session_terms_def ingest_session_def demo_session_def demo_capabilities_def demo_idempotency_def demo_terms_def)

lemma demo_admitted: "ingestion_admitted demo_fmt ingest_session demo_batch (compiled_of demo_batch)"
proof -
  have l: "length (ingestion_key ingest_session (compiled_of demo_batch)) = 74"
    by (simp add: ingestion_key_of ingest_session_def demo_capabilities_def demo_idempotency_def)
  have "list_all wire_char ''e1:''" by code_simp
  then have "list_all wire_char (ingestion_key ingest_session (compiled_of demo_batch))"
    using hex_wire_all ingest_literal_wire
    by (simp add: ingestion_key_of ingest_session_def demo_capabilities_def demo_idempotency_def)
  with l have "wire_key demo_idempotency (ingestion_key ingest_session (compiled_of demo_batch))"
    by (simp add: wire_key_def validWireToken_def demo_idempotency_def)
      (simp add: ingestion_key_of ingest_session_def demo_capabilities_def demo_idempotency_def strict_prefix_def)
  then show ?thesis
    by (simp add: ingestion_admitted_def demo_compiles(1) cp_WriteSize_def)
      (simp add: ingest_session_def demo_capabilities_def body_size_def)
qed

lemma demo_ingestion:
  "\<exists>r. fst (Ingest demo_fmt ingest_session demo_ctx demo_batch [] (demo_net [demo_receipt])) = Inr (Some r)"
proof -
  let ?s = ingest_session and ?key = "ingestion_key ingest_session (compiled_of demo_batch)"
  let ?body = "Some (cp_WriteBytes (compiled_of demo_batch))"
  obtain r where r: "demo_receive = AttemptOk r" "check_success demo_terms write_response_dest r = None"
    using demo_receive_ok by blast
  obtain n' where a: "client_do demo_fmt ingest_client (Some demo_ctx) ''POST'' ''/write'' ?body ?key [] (demo_net [demo_receipt]) =
      (AttemptOk r, n')"
    using ingest_attempt [of "cp_WriteBytes (compiled_of demo_batch)" ?key] r by (auto simp: body_size_def cp_WriteBytes_def)
  have k: "validateKeySyntax demo_fmt ?key (i_MaxKeyBytes (w_Idempotency (c_Write (se_capabilities ?s))))
      (i_RequiredKeyPrefix (w_Idempotency (c_Write (se_capabilities ?s)))) = None"
    using demo_admitted by (simp add: ingestion_admitted_def wire_key_syntax)
  have post: "wc_post (session_calls demo_fmt ?s demo_ctx ?body ?key []) (demo_net [demo_receipt]) = (AttemptOk r, n')"
    and ctx: "wc_ctx_Err (session_calls demo_fmt ?s demo_ctx ?body ?key []) (demo_net [demo_receipt]) = None"
    using a by (simp_all add: session_calls_def ingest_session_def demo_ctx_def)
  have m: "nat (re_MaxAttempts (se_retry ?s)) = Suc 2" by (simp add: ingest_session_def demo_session_def)
  have lim: "\<not> int (length (body_bytes ?body)) > l_MaxJSONRequestBytes (c_Limits (se_capabilities ?s))"
    by (simp add: ingest_session_def demo_capabilities_def body_size_def cp_WriteBytes_def body_bytes_def)
  have rq: "rq_Ingestion (se_requirements ?s)" by (simp add: ingest_session_def)
  have "ingestion_write demo_fmt ?s demo_ctx (compiled_of demo_batch) [] (demo_net [demo_receipt]) = ((Some r, None), n')"
    unfolding ingestion_write_def writeExact_def Let_def m write_loop.simps(2)
    using k lim rq by (simp add: post ctx ingest_session_terms r)
  then show ?thesis unfolding Ingest_admitted [OF demo_admitted] by simp
qed

section \<open>Properties\<close>

text \<open>C24. An ingestion puts nothing on the wire unless the session was preflighted for it, the batch
  compiles, and its body and derived key are within the advertised limits; then it is one keyed
  write: only POSTs of the compiled bytes under the key derived from the batch digest, at most as
  many as the policy has attempts, and identity rechecks.\<close>

theorem ingest_on_the_wire:
  "\<exists>evs. nt_trace (snd (Ingest f s ctx b opts n)) = nt_trace n @ evs \<and>
    (evs = [] \<or> (\<exists>c. ingestion_admitted f s b c \<and> c = compiled_of b \<and>
       list_all (exact_event s (Some (cp_WriteBytes c)) (ingestion_key s c)) evs \<and>
       length (filter is_post evs) \<le> nat (re_MaxAttempts (se_retry s))))"
proof (cases "\<exists>c. ingestion_admitted f s b c")
  case True
  then obtain c where c: "ingestion_admitted f s b c" by blast
  then have cb: "c = compiled_of b" by (simp add: ingestion_admitted_def Compile_ok)
  have n: "snd (Ingest f s ctx b opts n) = snd (ingestion_write f s ctx c opts n)"
    unfolding Ingest_admitted [OF c] by (simp split: prod.split option.split)
  obtain evs where "nt_trace (snd (ingestion_write f s ctx c opts n)) = nt_trace n @ evs"
    "list_all (exact_event s (Some (cp_WriteBytes c)) (ingestion_key s c)) evs"
    "length (filter is_post evs) \<le> nat (re_MaxAttempts (se_retry s))"
    using writeExact_run [of f s ctx "Some (cp_WriteBytes c)" "ingestion_key s c" write_response_dest False opts n]
    unfolding ingestion_write_def safe_run_def list_all_iff by auto
  then show ?thesis using c cb unfolding n by blast
next
  case False
  then obtain e where "Ingest f s ctx b opts n = (Inl e, n)" using Ingest_refused by blast
  then show ?thesis by simp
qed

text \<open>C31. A receipt is returned only for a valid batch whose write was committed: the server reported
  \<open>committed\<close> and the log identity the session pins, and the receipt names the digest of the
  canonical batch, the derived key and one record for each fact the batch stands for.\<close>

theorem ingest_receipt_sound:
  assumes "fst (Ingest f s ctx b opts n) = Inr (Some r)" "0 < re_MaxAttempts (se_retry s)"
  shows "batch_ok b \<and> ir_Committed r \<and> ir_LogIdentity r = se_logIdentity s \<and> ir_Profile r = ib_Profile b \<and>
    ir_BatchDigest r = ingest_digest (render (batch_json b)) \<and>
    ir_IdempotencyKey r = i_RequiredKeyPrefix (w_Idempotency (c_Write (se_capabilities s))) @ ''ingest:'' @
      hex_encode (sha256 (render (batch_json b))) \<and>
    ir_RecordsRequested r = length (typed_records b)"
proof -
  have "\<exists>c. ingestion_admitted f s b c"
    using assms(1) Ingest_refused [of f s b ctx opts n] by fastforce
  then obtain c where c: "ingestion_admitted f s b c" by blast
  then have b: "batch_ok b" "c = compiled_of b" by (simp_all add: ingestion_admitted_def Compile_ok)
  obtain x e n' where w: "ingestion_write f s ctx c opts n = ((x, e), n')" by (metis prod.exhaust)
  have "e = None" "map_option (ingestion_receipt_of s (ib_Profile b) c) x = Some r"
    using assms(1) unfolding Ingest_admitted [OF c] w by (cases e; simp)+
  then obtain y where y: "x = Some y" "r = ingestion_receipt_of s (ib_Profile b) c y" by (cases x) auto
  have "fst (ingestion_write f s ctx c opts n) = (x, None)" using w \<open>e = None\<close> by simp
  from writeExact_success [OF this [unfolded ingestion_write_def] assms(2)] y(1)
  have "committed_receipt (se_logIdentity s) y" by auto
  then have "wp_Committed (fst (decode_write_response (resp_Body y)))"
    "wp_LogIdentity (fst (decode_write_response (resp_Body y))) = se_logIdentity s"
    using receipt_agrees [of "resp_Body y"] by (auto simp: committed_receipt_def Let_def as_receipt_def split_beta)
  then show ?thesis
    using b y(2) compiled_document(2) [OF b(1)] ingestion_key_of [of s b]
    by (simp add: ingestion_receipt_of_def Let_def) (simp add: compiled_of_def Let_def)
qed

theorem ingest_receipt_sound_witness:
  "\<exists>r. fst (Ingest demo_fmt ingest_session demo_ctx demo_batch [] (demo_net [demo_receipt])) = Inr (Some r) \<and>
    ir_Committed r \<and> ir_LogIdentity r = demo_log"
proof -
  have "0 < re_MaxAttempts (se_retry ingest_session)" "se_logIdentity ingest_session = demo_log"
    by (simp_all add: ingest_session_def demo_session_def)
  moreover obtain r where "fst (Ingest demo_fmt ingest_session demo_ctx demo_batch [] (demo_net [demo_receipt])) = Inr (Some r)"
    using demo_ingestion by blast
  ultimately show ?thesis
    using ingest_receipt_sound [of demo_fmt ingest_session demo_ctx demo_batch "[]" "demo_net [demo_receipt]" r] by auto
qed

text \<open>C33. Repeating an ingestion replays it and never replaces another one: under one contract two
  compiled batches have the same idempotency key exactly when they are the same batch, with the
  same body, or their canonical bytes are a SHA-256 collision.\<close>

theorem ingestion_key_identifies:
  assumes "ingest_Compile f a = Inr c" "ingest_Compile f b = Inr d"
  shows "ingestion_key s c = ingestion_key s d \<longleftrightarrow> a = b \<and> cp_WriteBytes c = cp_WriteBytes d \<or>
    cp_CanonicalBytes c \<noteq> cp_CanonicalBytes d \<and> sha256 (cp_CanonicalBytes c) = sha256 (cp_CanonicalBytes d)"
proof -
  have ok: "batch_ok a" "c = compiled_of a" "batch_ok b" "d = compiled_of b" using assms by (simp_all add: Compile_ok)
  then have "list_all valid_utf8 (batch_strings a)" "list_all valid_utf8 (batch_strings b)"
    by (simp_all add: batch_ok_def)
  from batch_wire.determines [OF this] have "cp_CanonicalBytes c = cp_CanonicalBytes d \<longleftrightarrow> a = b"
    using ok by (simp add: cp_CanonicalBytes_def compiled_of_def Let_def)
  moreover have "ingestion_key s c = ingestion_key s d \<longleftrightarrow> sha256 (cp_CanonicalBytes c) = sha256 (cp_CanonicalBytes d)"
    using ok by (simp add: ingestion_key_of hex_encode_inj) (simp add: cp_CanonicalBytes_def compiled_of_def Let_def)
  ultimately show ?thesis using ok by auto
qed

theorem ingestion_key_identifies_witness:
  "ingestion_key demo_session (compiled_of demo_batch) = ingestion_key demo_session (compiled_of demo_proposals) \<longleftrightarrow>
   sha256 (cp_CanonicalBytes (compiled_of demo_batch)) = sha256 (cp_CanonicalBytes (compiled_of demo_proposals))"
proof -
  have "demo_batch \<noteq> demo_proposals"
    by (simp add: demo_batch_def demo_proposals_def NewTrustedFacts_def NewKnowledgeProposals_def newBatch_def
        ProfileTrustedFacts_def ProfileKnowledgeProposals_def)
  moreover have "render (batch_json demo_batch) \<noteq> render (batch_json demo_proposals)" by code_simp
  then have "cp_CanonicalBytes (compiled_of demo_batch) \<noteq> cp_CanonicalBytes (compiled_of demo_proposals)"
    by (simp add: cp_CanonicalBytes_def compiled_of_def Let_def)
  ultimately show ?thesis using ingestion_key_identifies [OF demo_compiles, of demo_session] by blast
qed

text \<open>C29. \<open>IngestJSON\<close> is the ingestion of the parsed batch. A refused document makes no request, and its
  error is the parser's; an accepted one is submitted exactly as \<open>Ingest\<close> submits the batch it
  holds, unless the canonical document has outgrown the input limit, which \<open>Ingest\<close> refuses and
  \<open>IngestJSON\<close> submits.\<close>

theorem ingest_json_exact:
  "IngestJSON f s ctx data opts n =
     (if \<not> rq_Ingestion (se_requirements s) then (Inl not_preflighted_ingestion, n)
      else case ingest_Parse f data of
        Inl e \<Rightarrow> (Inl (GoWrap ''joeydb: invalid ingestion batch'' e), n)
      | Inr b \<Rightarrow> if length (render (batch_json b)) \<le> MaxInputBytes then Ingest f s ctx b opts n
          else submitIngestion f s ctx (ib_Profile b) (compiled_of b) opts n)"
proof (cases "ingest_Parse f data")
  case (Inl e)
  then show ?thesis by (simp add: IngestJSON_def ParseAndCompile_def)
next
  case (Inr b)
  then have "ParseAndCompile f data = Inr (b, compiled_of b)" by (simp add: ParseAndCompile_iff)
  moreover have "length (render (batch_json b)) \<le> MaxInputBytes \<Longrightarrow> ingest_Compile f b = Inr (compiled_of b)"
    using Inr by (simp add: Compile_ok Parse_iff fits_input_def)
  ultimately show ?thesis using Inr by (auto simp: IngestJSON_def Ingest_def)
qed

end
