(* ===== verification/Ingest_Parse_Properties.thy ===== *)
theory Ingest_Parse_Properties
  imports Ingest_Parse_Laws Ingest_Properties
begin

text \<open>
  The properties of the strict reader of ingestion batches, with a document of one claim.
\<close>

section \<open>The walk ends\<close>

text \<open>C30. The walk over the token stream ends on every input: the bound on its recursion is enough, a
  larger one gives the same result, and an error or a null path is always returned.\<close>

theorem inspect_terminates:
  "\<exists>r. inspect_walk f data = Some r \<and> walk f (walk_bound data + extra) 1 '''' '''' (new_decoder data) = Some r"
proof -
  from inspect_walk_ends obtain r where r: "inspect_walk f data = Some r" by blast
  then have "walk f (walk_bound data + extra) 1 '''' '''' (new_decoder data) = Some r"
    unfolding inspect_walk_def by (rule walk_mono(1)) simp
  with r show ?thesis by blast
qed

section \<open>What is accepted\<close>

text \<open>C27. \<open>Parse\<close> accepts exactly the inputs within the size limit that are valid UTF-8, hold one JSON value
  and nothing after it, in whose string literals every high surrogate escape is directly followed by
  a low one and every low one directly preceded by a high one, in which no object repeats a key,
  nothing is null and nothing is nested deeper than 64 levels, and which decode without a mismatch or
  an unknown member into a valid batch; it returns that batch, and compiling it cannot fail.\<close>

theorem parse_exact:
  "(ingest_Parse f data = Inr b \<longleftrightarrow>
     length data \<le> MaxInputBytes \<and> valid_utf8 data \<and> paired_surrogates data \<and>
     (\<exists>j. json_parse data = Some j \<and> strict_json 1 j \<and> decode_batch j = (b, None)) \<and>
     batch_ok b) \<and>
   (ParseAndCompile f data = Inr (b, c) \<longleftrightarrow> ingest_Parse f data = Inr b \<and> c = compiled_of b)"
  using Parse_iff [of f data b] surrogates_iff [of data] ParseAndCompile_iff [of f data b c] by blast

text \<open>C28. A canonical document reads back: parsing the canonical bytes of a compiled batch gives the same
  batch and the same compilation, so a batch and its canonical document are two forms of the same
  ingestion.\<close>

theorem parse_canonical:
  assumes "ingest_Compile f b = Inr c"
  shows "ParseAndCompile f (cp_CanonicalBytes c) = Inr (b, c)"
proof -
  have b: "batch_ok b" "fits_input b" "c = compiled_of b" using assms by (simp_all add: Compile_ok)
  then have "cp_CanonicalBytes c = render (batch_json b)" by (simp add: cp_CanonicalBytes_def compiled_of_def Let_def)
  with b show ?thesis by (simp add: ParseAndCompile_iff Parse_canonical)
qed

theorem parse_canonical_witness:
  "\<forall>f. ParseAndCompile f (cp_CanonicalBytes (compiled_of demo_batch)) = Inr (demo_batch, compiled_of demo_batch)"
  using parse_canonical [OF demo_compiles(1)] by blast

end
