(* ===== verification/Ingest_Findings.thy ===== *)
theory Ingest_Findings
  imports Ingest_Parse_Laws
begin

text \<open>
  Where the \<open>ingest\<close> package accepts more than its documentation says: a member spelled in
  another case, and a media type without a subtype.
\<close>

section \<open>Members in another case\<close>

text \<open>\<open>Parse\<close> refuses repeated keys and unknown keys, but it compares keys exactly while
  \<open>encoding/json\<close> matches struct fields without regard to case. A document with both \<open>Schema\<close> and
  \<open>schema\<close> is accepted, and the later member is the one that counts.\<close>

definition members :: "json \<Rightarrow> (string \<times> json) list" where
  "members j = (case j of JObj ms \<Rightarrow> ms | _ \<Rightarrow> [])"

definition respelled :: "string \<Rightarrow> i_batch \<Rightarrow> json" where
  "respelled x b = JObj ((''Schema'', JStr x) # members (batch_json b))"

lemma batch_members: "batch_json b = JObj (members (batch_json b))"
  by (simp add: batch_json_def struct_json_def members_def)

lemma respelled_fits:
  assumes "list_all valid_utf8 (batch_strings b)" "valid_utf8 x"
  shows "fits max_nesting (respelled x b)"
proof -
  obtain ms where ms: "batch_json b = JObj ms" "members (batch_json b) = ms" using batch_members by blast
  have m: "wf_members (members (batch_json b))" "Suc (nesting_members (members (batch_json b))) \<le> max_nesting"
    using batch_wire.readable [OF assms(1)] ms by simp_all
  have "valid_utf8 ''Schema''" by code_simp
  with m assms(2) show ?thesis by (simp add: respelled_def fits_def)
qed

interpretation respelled_wire: wire_format "\<lambda>(x, b). valid_utf8 x \<and> list_all valid_utf8 (batch_strings b)"
    "\<lambda>(x, b). respelled x b" "\<lambda>p. p"
proof unfold_locales
  fix p q :: "string \<times> i_batch"
  obtain x a y b where pq: "p = (x, a)" "q = (y, b)" by (metis surj_pair)
  have "members (batch_json a) = members (batch_json b) \<longleftrightarrow> a = b"
    using batch_members [of a] batch_members [of b] batch_json_inject [of a b] by auto
  then show "(case p of (x, b) \<Rightarrow> respelled x b) = (case q of (x, b) \<Rightarrow> respelled x b) \<longleftrightarrow> p = q"
    by (simp add: pq respelled_def)
qed (auto simp: respelled_fits)

lemma respelled_strict: "strict_json 1 (respelled x b)"
proof -
  have "strict_json 1 (JObj (members (batch_json b)))" using strict_batch [of b] batch_members [of b] by simp
  moreover have "''Schema'' \<notin> fst ` set (members (batch_json b))"
    by (cases "ib_Source b") (simp_all add: batch_json_def struct_json_def members_def map_filter_simps req_def)
  ultimately show ?thesis by (simp add: respelled_def MaxJSONDepth_def)
qed

lemma respelled_cells: "sdec_struct batch_fields [] (respelled x b) zero_batch = (batch_cell_of b, None)"
proof (cases b)
  case (fields schema profile producer source claims)
  have f: "fold_name ''Schema'' = ''schema''" "fold_name ''schema'' = ''schema''" by code_simp+
  show ?thesis
    by (cases source)
      (simp_all add: fields respelled_def members_def strict_decoding batch_fields_def batch_json_def zero_batch_def
        req_def f batch_cell_of_def sdec_producer sdec_source_ptr sdec_slice_map [where cell = cell_of] sdec_claim
        del: fold_name.simps)
qed

lemma respelled_decodes: "decode_batch (respelled x b) = (b, None)"
  by (simp add: decode_batch_def respelled_cells)

theorem parse_case_variants:
  assumes "batch_ok b" "valid_utf8 x" "length (render (respelled x b)) \<le> MaxInputBytes"
  shows "ingest_Parse f (render (respelled x b)) = Inr b"
proof -
  have u: "list_all valid_utf8 (batch_strings b)" using assms(1) by (simp add: batch_ok_def)
  show ?thesis
    using respelled_wire.reads_back [of "(x, b)"] respelled_wire.clean_text [of "(x, b)"] u assms
      respelled_strict [of x b] respelled_decodes [of x b]
    by (simp add: Parse_iff)
qed

text \<open>So a member can even have three spellings. A slice shortened by the second one keeps its memory, and
  an element of the third one starts from what the first one left there: the quote of the first
  spelling comes back with the locator of the third.\<close>

theorem spare_memory_shows:
  "map_prod gs_Elems id (sdec_slice (sdec_struct evidence_fields) zero_evidence []
      (JArr [JObj [(''locator'', JStr ''a'')], JObj [(''locator'', JStr ''c'')]])
      (fst (sdec_slice (sdec_struct evidence_fields) zero_evidence [] (JArr [JObj [(''locator'', JStr ''a'')]])
        (fst (sdec_slice (sdec_struct evidence_fields) zero_evidence []
          (JArr [JObj [(''locator'', JStr ''a'')], JObj [(''locator'', JStr ''b''), (''quote'', JStr ''q'')]]) gs_nil)))))
   = ([\<lparr>ev_Locator = ''a'', ev_Quote = ''''\<rparr>, \<lparr>ev_Locator = ''c'', ev_Quote = ''q''\<rparr>], None)"
  by code_simp

section \<open>Media types\<close>

theorem media_type_without_subtype: "canonical_media_type ''text'' \<and> CHR ''/'' \<notin> set ''text''"
  by code_simp

end
