(* ===== verification/Client_Config.thy ===== *)
theory Client_Config
  imports Client_Session
begin

text \<open>
  Building a client (\<open>config.go\<close>): the limits and their defaults, the base URL, the clone of the
  caller's HTTP client with a finite timeout and without redirects, and the default generator of
  request identifiers. \<open>url.Parse\<close>, the round trips of an \<open>http.Client\<close> and the random source are
  fields of \<open>platform\<close>; a handle \<open>'h\<close> stands for an interface value (a transport, a cookie jar, a
  caller's redirect function) that the code only passes on. A URL is the fields the code reads
  and the text its \<open>String\<close> method gives.
\<close>

section \<open>What is outside\<close>

record url =
  u_Scheme :: string
  u_Opaque :: string
  u_User :: bool
  u_Host :: string
  u_RawQuery :: string
  u_ForceQuery :: bool
  u_Fragment :: string
  u_String :: string

datatype 'h redirects = DefaultRedirects | UseLastResponse | CheckedRedirects 'h

record 'h http_client =
  hc_Transport :: "'h option"
  hc_CheckRedirect :: "'h redirects"
  hc_Jar :: "'h option"
  hc_Timeout :: int

record ('h, 'w) platform =
  pf_url_Parse :: "string \<Rightarrow> go_error + url"
  pf_http_Do :: "'h http_client \<Rightarrow> http_request \<Rightarrow> 'w \<Rightarrow> http_outcome \<times> 'w"
  pf_rand_Read :: "'w \<Rightarrow> (go_error + bytes) \<times> 'w"

section \<open>Config\<close>

definition defaultTimeout :: int where "defaultTimeout = 10000000000"
definition defaultMaxRequestBytes :: int where "defaultMaxRequestBytes = 16777216"
definition defaultMaxResponseBytes :: int where "defaultMaxResponseBytes = 8388608"
definition defaultMaxErrorBodyBytes :: int where "defaultMaxErrorBodyBytes = 65536"
definition defaultUserAgent :: string where "defaultUserAgent = ''joeydb-go/v0''"

type_synonym 'w RequestIDGenerator = "'w \<Rightarrow> (go_error + string) \<times> 'w"

record ('h, 'w) config =
  cf_BaseURL :: string
  cf_HTTPClient :: "'h http_client option"
  cf_Transport :: "'h option"
  cf_Timeout :: int
  cf_MaxRequestBytes :: int
  cf_MaxResponseBytes :: int
  cf_MaxErrorBodyBytes :: int
  cf_UserAgent :: string
  cf_RequestIDGenerator :: "'w RequestIDGenerator option"

definition trim_right_slash :: "string \<Rightarrow> string" where
  "trim_right_slash s = rev (dropWhile (\<lambda>c. c = CHR ''/'') (rev s))"

definition validateBaseURL :: "('h, 'w) platform \<Rightarrow> string \<Rightarrow> go_error + string" where
  "validateBaseURL p raw = (case pf_url_Parse p raw of
     Inl e \<Rightarrow> Inl (GoWrap ''joeydb: invalid base URL'' e)
   | Inr u \<Rightarrow>
       check_then (fail_when (u_Scheme u \<noteq> ''http'' \<and> u_Scheme u \<noteq> ''https'')
         (GoError ''joeydb: base URL scheme must be http or https''))
       (check_then (fail_when (u_Host u = '''' \<or> u_Opaque u \<noteq> '''') (GoError ''joeydb: base URL host is required''))
       (check_then (fail_when (u_User u) (GoError ''joeydb: base URL credentials are not supported''))
       (check_then (fail_when (u_RawQuery u \<noteq> '''' \<or> u_ForceQuery u \<or> u_Fragment u \<noteq> '''')
         (GoError ''joeydb: base URL query strings and fragments are not supported''))
       (Inr (trim_right_slash (u_String u)))))))"

definition boundedConfigValue :: "string \<Rightarrow> int \<Rightarrow> int \<Rightarrow> go_error + int" where
  "boundedConfigValue name v defaultValue =
     (if v = 0 then Inr defaultValue
      else if v < 0 \<or> v > absoluteBodyLimit
      then Inl (GoError (''joeydb: '' @ name @ '' must be between 1 and '' @ format_int absoluteBodyLimit))
      else Inr v)"

definition randomRequestID :: "('h, 'w) platform \<Rightarrow> 'w RequestIDGenerator" where
  "randomRequestID p w = (case pf_rand_Read p w of
     (Inl e, w) \<Rightarrow> (Inl (GoWrap ''generate request ID'' e), w)
   | (Inr raw, w) \<Rightarrow> (Inr (hex_encode raw), w))"

section \<open>NewClient\<close>

definition http_client_of :: "('h, 'w) config \<Rightarrow> 'h http_client" where
  "http_client_of cf =
     (let timeout = cf_Timeout cf;
          hc = (case cf_HTTPClient cf of
            Some clone \<Rightarrow> (if timeout > 0 then clone\<lparr>hc_Timeout := timeout\<rparr>
              else if hc_Timeout clone \<le> 0 then clone\<lparr>hc_Timeout := defaultTimeout\<rparr> else clone)
          | None \<Rightarrow> \<lparr>hc_Transport = cf_Transport cf, hc_CheckRedirect = DefaultRedirects, hc_Jar = None,
              hc_Timeout = (if timeout = 0 then defaultTimeout else timeout)\<rparr>)
      in hc\<lparr>hc_CheckRedirect := UseLastResponse\<rparr>)"

definition has_newline :: "string \<Rightarrow> bool" where
  "has_newline s \<longleftrightarrow> list_ex (\<lambda>c. byte c = 13 \<or> byte c = 10) s"

definition NewClient :: "('h, 'w) platform \<Rightarrow> ('h, 'w) config \<Rightarrow> go_error + 'w client" where
  "NewClient p cf =
     bind_r (validateBaseURL p (cf_BaseURL cf)) (\<lambda>baseURL.
     check_then (fail_when (cf_HTTPClient cf \<noteq> None \<and> cf_Transport cf \<noteq> None)
       (GoError ''joeydb: HTTPClient and Transport are mutually exclusive''))
     (check_then (fail_when (cf_Timeout cf < 0) (GoError ''joeydb: timeout must not be negative''))
     (bind_r (boundedConfigValue ''MaxRequestBytes'' (cf_MaxRequestBytes cf) defaultMaxRequestBytes) (\<lambda>maxRequest.
      bind_r (boundedConfigValue ''MaxResponseBytes'' (cf_MaxResponseBytes cf) defaultMaxResponseBytes) (\<lambda>maxResponse.
      bind_r (boundedConfigValue ''MaxErrorBodyBytes'' (cf_MaxErrorBodyBytes cf) defaultMaxErrorBodyBytes) (\<lambda>maxError.
      let maxError = (if maxError > maxResponse then maxResponse else maxError);
          userAgent = (if cf_UserAgent cf = '''' then defaultUserAgent else cf_UserAgent cf)
      in check_then (fail_when (has_newline userAgent) (GoError ''joeydb: UserAgent must not contain a newline''))
         (Inr \<lparr>cl_BaseURL = baseURL, cl_Do = pf_http_Do p (http_client_of cf),
            cl_MaxRequestBytes = maxRequest, cl_MaxResponseBytes = maxResponse, cl_MaxErrorBodyBytes = maxError,
            cl_UserAgent = userAgent,
            cl_RequestID = (case cf_RequestIDGenerator cf of None \<Rightarrow> randomRequestID p | Some g \<Rightarrow> g)\<rparr>))))))) "

section \<open>What a configuration may be\<close>

definition base_url_ok :: "url \<Rightarrow> bool" where
  "base_url_ok u \<longleftrightarrow> u_Scheme u \<in> {''http'', ''https''} \<and> u_Host u \<noteq> '''' \<and> u_Opaque u = '''' \<and> \<not> u_User u \<and>
     u_RawQuery u = '''' \<and> \<not> u_ForceQuery u \<and> u_Fragment u = ''''"

definition limit_ok :: "int \<Rightarrow> bool" where
  "limit_ok v \<longleftrightarrow> 0 \<le> v \<and> v \<le> absoluteBodyLimit"

definition config_ok :: "('h, 'w) platform \<Rightarrow> ('h, 'w) config \<Rightarrow> bool" where
  "config_ok p cf \<longleftrightarrow> (\<exists>u. pf_url_Parse p (cf_BaseURL cf) = Inr u \<and> base_url_ok u) \<and>
     \<not> (cf_HTTPClient cf \<noteq> None \<and> cf_Transport cf \<noteq> None) \<and> 0 \<le> cf_Timeout cf \<and>
     limit_ok (cf_MaxRequestBytes cf) \<and> limit_ok (cf_MaxResponseBytes cf) \<and> limit_ok (cf_MaxErrorBodyBytes cf) \<and>
     \<not> has_newline (cf_UserAgent cf)"

text \<open>A client that keeps every promise of the configuration's documentation.\<close>

definition body_limit :: "int \<Rightarrow> bool" where
  "body_limit v \<longleftrightarrow> 1 \<le> v \<and> v \<le> absoluteBodyLimit"

definition client_ok :: "('h, 'w) platform \<Rightarrow> 'w client \<Rightarrow> bool" where
  "client_ok p c \<longleftrightarrow>
     (\<exists>hc. cl_Do c = pf_http_Do p hc \<and> hc_CheckRedirect hc = UseLastResponse \<and> 0 < hc_Timeout hc) \<and>
     body_limit (cl_MaxRequestBytes c) \<and> body_limit (cl_MaxResponseBytes c) \<and> body_limit (cl_MaxErrorBodyBytes c) \<and>
     cl_MaxErrorBodyBytes c \<le> cl_MaxResponseBytes c \<and>
     cl_UserAgent c \<noteq> '''' \<and> \<not> has_newline (cl_UserAgent c) \<and> \<not> suffix ''/'' (cl_BaseURL c)"

lemma validateBaseURL_Inr:
  "validateBaseURL p raw = Inr b \<longleftrightarrow> (\<exists>u. pf_url_Parse p raw = Inr u \<and> base_url_ok u \<and> b = trim_right_slash (u_String u))"
  by (auto simp: validateBaseURL_def base_url_ok_def check_then_Inr split: sum.split)

lemma boundedConfigValue_Inr:
  "boundedConfigValue name v d = Inr x \<longleftrightarrow> limit_ok v \<and> x = (if v = 0 then d else v)"
  by (auto simp: boundedConfigValue_def limit_ok_def absoluteBodyLimit_def)

lemma trim_right_slash_end: "\<not> suffix ''/'' (trim_right_slash s)"
proof
  assume "suffix ''/'' (trim_right_slash s)"
  then obtain u where "rev (dropWhile (\<lambda>c. c = CHR ''/'') (rev s)) = u @ ''/''"
    by (auto simp: trim_right_slash_def suffix_def)
  then have d: "dropWhile (\<lambda>c. c = CHR ''/'') (rev s) = CHR ''/'' # rev u" by (metis rev.simps(2) rev_rev_ident rev_swap)
  then show False using hd_dropWhile [of "\<lambda>c. c = CHR ''/''" "rev s"] by simp
qed

lemma http_client_timeout: "0 \<le> cf_Timeout cf \<Longrightarrow> 0 < hc_Timeout (http_client_of cf)"
  by (cases "cf_HTTPClient cf") (simp_all add: http_client_of_def defaultTimeout_def Let_def)

lemma http_client_redirects: "hc_CheckRedirect (http_client_of cf) = UseLastResponse"
  by (simp add: http_client_of_def Let_def)

lemmas config_defaults = defaultMaxRequestBytes_def defaultMaxResponseBytes_def defaultMaxErrorBodyBytes_def
  absoluteBodyLimit_def

definition user_agent :: "('h, 'w) config \<Rightarrow> string" where
  "user_agent cf = (if cf_UserAgent cf = '''' then defaultUserAgent else cf_UserAgent cf)"

lemma user_agent_newline: "has_newline (user_agent cf) \<longleftrightarrow> has_newline (cf_UserAgent cf)"
  by (simp add: user_agent_def has_newline_def defaultUserAgent_def byte_def)

lemma user_agent_nonempty: "user_agent cf \<noteq> ''''"
  by (simp add: user_agent_def defaultUserAgent_def)

lemma NewClient_Inr:
  "NewClient p cf = Inr c \<longleftrightarrow> config_ok p cf \<and>
     (\<exists>u. pf_url_Parse p (cf_BaseURL cf) = Inr u \<and>
       c = \<lparr>cl_BaseURL = trim_right_slash (u_String u), cl_Do = pf_http_Do p (http_client_of cf),
         cl_MaxRequestBytes = (if cf_MaxRequestBytes cf = 0 then defaultMaxRequestBytes else cf_MaxRequestBytes cf),
         cl_MaxResponseBytes = (if cf_MaxResponseBytes cf = 0 then defaultMaxResponseBytes else cf_MaxResponseBytes cf),
         cl_MaxErrorBodyBytes = min (if cf_MaxErrorBodyBytes cf = 0 then defaultMaxErrorBodyBytes else cf_MaxErrorBodyBytes cf)
           (if cf_MaxResponseBytes cf = 0 then defaultMaxResponseBytes else cf_MaxResponseBytes cf),
         cl_UserAgent = user_agent cf,
         cl_RequestID = (case cf_RequestIDGenerator cf of None \<Rightarrow> randomRequestID p | Some g \<Rightarrow> g)\<rparr>)"
proof -
  have min: "(if b < a then b else a) = min a b" for a b :: int by (simp add: min_def)
  show ?thesis
    unfolding NewClient_def bind_r_Inr check_then_Inr Let_def validateBaseURL_Inr boundedConfigValue_Inr fail_when_None
      user_agent_def [symmetric] user_agent_newline min config_ok_def
    by (intro iffI; elim exE conjE; simp add: not_less)
qed

lemma NewClient_ok:
  assumes "NewClient p cf = Inr c"
  shows "client_ok p c"
proof -
  from assms have cf: "config_ok p cf" by (simp add: NewClient_Inr)
  then have "0 < hc_Timeout (http_client_of cf)" by (simp add: config_ok_def http_client_timeout)
  moreover have "\<not> has_newline (user_agent cf)" using cf by (simp add: user_agent_newline config_ok_def)
  moreover have l: "body_limit (if v = 0 then d else v)" if "limit_ok v" "body_limit d" for v d
    using that by (simp add: limit_ok_def body_limit_def)
  moreover have "body_limit defaultMaxRequestBytes" "body_limit defaultMaxResponseBytes" "body_limit defaultMaxErrorBodyBytes"
    by (simp_all add: body_limit_def config_defaults)
  moreover have "body_limit a \<Longrightarrow> body_limit b \<Longrightarrow> body_limit (min a b)" for a b by (simp add: body_limit_def min_def)
  moreover have "limit_ok (cf_MaxRequestBytes cf)" "limit_ok (cf_MaxResponseBytes cf)" "limit_ok (cf_MaxErrorBodyBytes cf)"
    using cf by (simp_all add: config_ok_def)
  ultimately show ?thesis
    using assms http_client_redirects [of cf] trim_right_slash_end user_agent_nonempty [of cf]
    unfolding NewClient_Inr client_ok_def by (elim conjE exE) (simp, blast)
qed

section \<open>Default identifiers\<close>

lemma random_id_wire:
  assumes "randomRequestID p w = (Inr i, w')" "\<And>raw w'. pf_rand_Read p w = (Inr raw, w') \<Longrightarrow> length raw = 16"
  shows "validWireToken i \<and> length i = 32 \<and> list_all is_lower_hex i"
proof -
  obtain raw where raw: "pf_rand_Read p w = (Inr raw, w')" "i = hex_encode raw"
    using assms(1) by (auto simp: randomRequestID_def split: prod.splits sum.splits)
  with assms(2) have l: "length i = 32" by simp
  have h: "list_all is_lower_hex i" using hex_encode_lower raw by simp
  then have "list_all wire_char i" by (rule list.pred_mono_strong) (rule hex_wire)
  with l h show ?thesis by (simp add: validWireToken_def)
qed

end
