(* ===== verification/Client_Config_Properties.thy ===== *)
theory Client_Config_Properties
  imports Client_Config
begin

text \<open>
  The property of the constructor of clients, and a configuration it accepts: everything defaulted,
  over a parser of URLs that knows one address.
\<close>

definition demo_url :: url where
  "demo_url = \<lparr>u_Scheme = ''http'', u_Opaque = '''', u_User = False, u_Host = ''127.0.0.1:7687'', u_RawQuery = '''',
     u_ForceQuery = False, u_Fragment = '''', u_String = ''http://127.0.0.1:7687/''\<rparr>"

definition demo_platform :: "(unit, bytes list) platform" where
  "demo_platform = \<lparr>pf_url_Parse = (\<lambda>s. if s = u_String demo_url then Inr demo_url else Inl (LibError ''parse'')),
     pf_http_Do = (\<lambda>hc rq w. (HttpFailed (LibError ''refused''), w)),
     pf_rand_Read = (\<lambda>w. case w of [] \<Rightarrow> (Inl (LibError ''entropy''), []) | r # w \<Rightarrow> (Inr r, w))\<rparr>"

definition demo_config :: "(unit, bytes list) config" where
  "demo_config = \<lparr>cf_BaseURL = ''http://127.0.0.1:7687/'', cf_HTTPClient = None, cf_Transport = None, cf_Timeout = 0,
     cf_MaxRequestBytes = 0, cf_MaxResponseBytes = 0, cf_MaxErrorBodyBytes = 0, cf_UserAgent = '''',
     cf_RequestIDGenerator = None\<rparr>"

lemma demo_config_accepted:
  "map_sum id (\<lambda>c. (cl_BaseURL c, cl_MaxErrorBodyBytes c, fst (cl_RequestID c [replicate 16 (chr 171)])))
     (NewClient demo_platform demo_config) =
   Inr (''http://127.0.0.1:7687'', 65536, Inr ''abababababababababababababababab'')"
  by code_simp

text \<open>C40. \<open>NewClient\<close> accepts exactly the configurations whose base URL is an absolute HTTP address without
  credentials, query or fragment, whose limits are absent or between 1 byte and 64 MiB, whose
  timeout is not negative, whose user agent has no newline and that name one source of transport.
  Every client it builds follows no redirect, has a finite timeout, limits between 1 byte and
  64 MiB with the limit for errors below the one for answers, and a base URL no path can follow
  with a double slash.\<close>

theorem new_client_exact:
  "case NewClient p cf of Inl _ \<Rightarrow> \<not> config_ok p cf | Inr c \<Rightarrow> config_ok p cf \<and> client_ok p c"
proof (cases "NewClient p cf")
  case (Inl e)
  have "\<not> config_ok p cf"
  proof
    assume "config_ok p cf"
    then obtain c where "NewClient p cf = Inr c" unfolding NewClient_Inr by (auto simp: config_ok_def)
    with Inl show False by simp
  qed
  with Inl show ?thesis by simp
next
  case (Inr c)
  then have "config_ok p cf" by (simp add: NewClient_Inr)
  with Inr NewClient_ok [OF Inr] show ?thesis by simp
qed

end
