(* ===== verification/Client_Receipt_Properties.thy ===== *)
theory Client_Receipt_Properties
  imports Client_Receipt Client_Fixtures Write_Fixtures
begin

text \<open>
  What a caller of a typed write may rely on in the receipt it decodes.
\<close>

text \<open>C8. A typed write that decodes its answer into \<open>write.Response\<close> and returns no error hands the
  caller a receipt that says \<open>committed\<close> and names the log the session is pinned to, whatever
  spelling and order of members the server sent: the caller's decoder and the session's own check
  read the same receipt from every body.\<close>

theorem typed_write_receipt:
  assumes "fst (WriteRequest f s ctx key q facts_response_dest opts n) = (r, None)" "0 < re_MaxAttempts (se_retry s)"
  shows "\<exists>x w. r = Some x \<and> decode_facts_response (resp_Body x) = (w, False) \<and> status_ok (resp_Status x) \<and>
    fw_Committed w \<and> fw_LogIdentity w = se_logIdentity s"
proof -
  from assms(1) obtain body k where
    "fst (writeExact f s ctx (Some body) k facts_response_dest False opts n) = (r, None)"
    unfolding WriteRequest_def Let_def by (cases "Encode q") (simp_all split: if_splits option.splits sum.splits)
  from writeExact_success [OF this assms(2)] obtain x where
    x: "r = Some x" "status_ok (resp_Status x)" "committed_receipt (se_logIdentity s) x"
      "decodeResponse x facts_response_dest = None" by blast
  obtain w failed where w: "decode_facts_response (resp_Body x) = (w, failed)" by fastforce
  from x(4) w have "\<not> failed" by (auto simp: decodeResponse_def facts_response_dest_def split: if_splits)
  moreover have "rc_Committed (facts_receipt w) \<and> rc_LogIdentity (facts_receipt w) = se_logIdentity s"
    by (rule committed_receipt_view [OF x(3)]) (simp add: facts_receipt_agrees w)
  ultimately show ?thesis using x w by (simp add: facts_receipt_def)
qed

definition demo_typed_write :: "(response option \<times> go_error option) \<times> script net" where
  "demo_typed_write = WriteRequest demo_fmt demo_session demo_ctx (KeySuffix ''k'') transaction_zero
     facts_response_dest [] (demo_net [demo_receipt])"

theorem typed_write_receipt_witness:
  "\<exists>x w. fst (fst demo_typed_write) = Some x \<and> decode_facts_response (resp_Body x) = (w, False) \<and>
    fw_Committed w \<and> fw_LogIdentity w = demo_log"
proof -
  have "0 < re_MaxAttempts (se_retry demo_session)" "se_logIdentity demo_session = demo_log"
    by (simp_all add: demo_session_def)
  moreover have "snd (fst demo_typed_write) = None" by code_simp
  then have "fst (WriteRequest demo_fmt demo_session demo_ctx (KeySuffix ''k'') transaction_zero facts_response_dest []
      (demo_net [demo_receipt])) = (fst (fst demo_typed_write), None)"
    unfolding demo_typed_write_def [symmetric] by (metis prod.collapse)
  ultimately show ?thesis using typed_write_receipt by metis
qed

end
