(* ===== verification/Spec2Isabelle.thy ===== *)
theory Spec2Isabelle
  imports Write_Properties Go_Json_Bound Client_Properties Client_Key_Properties Client_Preflight_Properties
    Client_Query_Properties Ingest_Properties Client_Ingestion_Properties
    Ingest_Parse_Properties Ingest_Findings Client_Config_Properties Client_Receipt_Properties
begin

text \<open>
  joeydb-go, the Go client of the JoeyDB fact store.

  \<^bold>\<open>The program.\<close> An application authors a typed write (\<open>write/\<close>), a typed query (\<open>query/\<close>) or an
  ingestion batch (\<open>ingest/\<close>); each package validates and encodes without I/O. The root package
  sends the bytes. A \<open>Client\<close> (\<open>config.go\<close>, \<open>client.go\<close>) makes one bounded HTTP attempt. A \<open>Session\<close>
  (\<open>session.go\<close>) is what \<open>Client.Require\<close> returns after reading the server's capabilities and
  pinning its log identity; it resolves keys (\<open>authoring.go\<close>, \<open>semantic_key.go\<close>), sends one exact body
  under one key as often as its policy allows, and never across a changed log. \<open>ingestion.go\<close>
  compiles a batch to a facts-write and submits it under a key derived from the batch.
  \<open>errors.go\<close> and \<open>classify.go\<close> are what the caller learns.

  \<^bold>\<open>Theories and code.\<close>

  \<^item> \<open>Prelude\<close>: early returns, loops over a range, the \<open>registry\<close> interface of seen-before tables.

  \<^item> \<open>Go_Strings\<close>, \<open>Go_Utf8\<close>, \<open>Go_Time\<close>, \<open>Go_Json\<close>, \<open>Go_Json_Decode\<close>: what the program uses of Go's
    standard library. A string is a list of bytes; \<open>render\<close> is \<open>json.Marshal\<close>, \<open>json_parse\<close> the reader
    under \<open>json.Unmarshal\<close>, the decoders update a zero value as Go does. \<open>Go_Json_Laws\<close>,
    \<open>Go_Json_Bound\<close>, \<open>Go_Json_Struct\<close> prove that what is rendered is read back, and hold the
    interface \<open>wire_format\<close> that the three encoders interpret.

  \<^item> \<open>Write_Types\<close>, \<open>Write_Validate\<close>, \<open>Write_Ownership\<close>, \<open>Write_Features\<close>, \<open>Write_Encode\<close>,
    \<open>Write_Response\<close>: \<open>write/types.go\<close>, \<open>validate.go\<close>, \<open>encode.go\<close>, \<open>response.go\<close>. Private union states
    are datatypes; the ownership tables are maps threaded through the loops. \<open>Write_Contract\<close> states
    what a request means, \<open>abs_request\<close>, and which requests are accepted, \<open>write_ok\<close>.

  \<^item> \<open>Query_Types\<close>, \<open>Query_Validate\<close>, \<open>Query_Encode\<close>, \<open>Query_Results\<close>: \<open>query/*.go\<close>; \<open>Query_Contract\<close>
    states \<open>query_ok\<close> and \<open>abs_query\<close>.

  \<^item> \<open>Ingest_Types\<close>, \<open>Ingest_Validate\<close>, \<open>Ingest_Compile\<close>: \<open>ingest/ingest.go\<close>, \<open>constructors.go\<close>,
    \<open>errors.go\<close>; \<open>Ingest_Strict\<close> and \<open>Ingest_Parse\<close>: \<open>ingest/strict.go\<close>, \<open>Parse\<close> and \<open>ParseAndCompile\<close>.
    \<open>Ingest_Contract\<close> states \<open>batch_ok\<close>; \<open>Ingest_Canonical\<close>, \<open>Ingest_Request\<close>, \<open>Ingest_Refinement\<close>,
    \<open>Ingest_Ownership\<close> relate the compiled body to the typed request it stands for;
    \<open>Ingest_Walk_Laws\<close>, \<open>Ingest_Tree_Walk\<close>, \<open>Ingest_Parse_Laws\<close> reduce the token walk to a recursion
    over the value; \<open>Ingest_Surrogates\<close> shows that the scan for unpaired surrogates decides a condition
    on neighbouring escapes. \<open>Ingest_Findings\<close> holds what the package accepts beyond its documentation.

  \<^item> \<open>Client_Errors\<close>, \<open>Client_Classify\<close>: \<open>errors.go\<close>, \<open>classify.go\<close>; an error is one datatype, \<open>errors.As\<close>
    a search of its unwrap chain. \<open>Client_Types\<close>, \<open>Client_Decode\<close>: \<open>types.go\<close>. \<open>Client_Config\<close>:
    \<open>config.go\<close>. \<open>Client_Http\<close>: \<open>client.go\<close>. \<open>Client_Keys\<close>, \<open>Client_Authoring\<close>: \<open>authoring.go\<close>;
    \<open>Semantic_Key\<close> with \<open>Sha256\<close>: \<open>semantic_key.go\<close>. \<open>Client_Session\<close>: \<open>session.go\<close>, whose retry loop is
    \<open>write_loop\<close> over the record of calls it makes. \<open>Client_Query\<close>: \<open>query_results.go\<close>.
    \<open>Client_Ingestion\<close>: \<open>ingestion.go\<close>.

  The state of a run is a world \<open>'w\<close>, which the round tripper, the context, the back-off and the
  generators read and change, and the trace of the requests sent with their outcomes; the trace is
  history that no operation reads.

  \<^bold>\<open>What the lemmas show.\<close> Each validator accepts exactly the values of a declarative contract. Each
  encoder's bytes are read back to the document of the abstract request and determine it; a query's
  labels stay literal in it. The retry
  loop is a run of the step relation of \<open>Client_Protocol\<close>, the attempt diagram of
  \<open>docs/SAFETY.md\<close>; rule induction over it gives that a resend follows a confirmed identity, that an
  error not marked uncertain means every write was refused, by an answer that is not 2xx and whose
  body did not break off, and that a success got a 2xx answer. The locale \<open>keyed_service\<close> names what the loop relies on, and the client's operations
  interpret it. A successful write hands over a receipt committed by the pinned log. The strict
  reader accepts exactly one strict JSON value that decodes into a valid batch, reads canonical
  documents back, and its walk always ends. The compiled body of a batch is the document of a typed
  request; it asserts the claimed triples for trusted facts and nothing for proposals. Keys derived
  from a batch or from semantic parts collide only with SHA-256.

  \<^bold>\<open>Bounds and fuel.\<close> The reader of JSON recurses at most twice the length of its input and once more;
  \<open>Go_Json_Bound\<close> proves that a larger bound changes nothing. The token walk has twice the length and
  two more; \<open>inspect_terminates\<close> proves it enough. The retry loop has as many steps as the policy has
  attempts. Lengths are compared as integers, 64-bit values the code computes with are words.

  \<^bold>\<open>Parameters.\<close> The quoting of \<open>%q\<close>, the texts of JSON decoding errors and the acceptance of a URL by
  \<open>http.NewRequest\<close> (\<open>go_fmt\<close>); \<open>url.Parse\<close>, the round trip of an \<open>http.Client\<close> and the random source
  (\<open>platform\<close>); the context; the caller's back-off, sleep and destination decoder. No property assumes
  more of them than its hypotheses say.

  \<^bold>\<open>Not modelled.\<close> \<open>doc.go\<close> files and tests. Accessors that return a copy of a field are record
  selectors, and copies of slices are the same value: the model has no aliasing. A foreign error's
  own \<open>Is\<close> and \<open>As\<close> methods. \<open>cloneCapabilities\<close>, a copy, for the same reason. \<open>QueryJSON\<close> takes the bytes
  \<open>json.Marshal\<close> gives of the caller's value; \<open>Request.MarshalJSON\<close> is \<open>Encode\<close>. An
  \<open>Error\<close> method called on a typed nil pointer; the program makes none. A slice that \<open>json.Unmarshal\<close>
  shortens keeps its memory, and a later occurrence of the member decodes over it: the decoder of
  ingestion batches models this (\<open>go_slice\<close>), the decoder of the server's answers (\<open>Go_Json_Decode\<close>)
  starts from zero values there, which shows only when an answer gives a member at least three times.
  Concurrent use of a client is not modelled: a run is sequential.
\<close>

end
